(* ===== verification/Prelude.thy ===== *)
theory Prelude
  imports Complex_Main "HOL-Library.Char_ord" "HOL-Library.List_Lexorder"
begin

text \<open>
  Shared vocabulary of the development: results of Python code that may raise, the guard forms the
  release tools are written in, loops that may raise, and the generic facts about them.

  A Python function that returns a value or raises is a function into \<open>'a res\<close>, that is
  \<open>py_error + 'a\<close>. The exceptions the tools raise on purpose are \<open>ValueError\<close> with a message;
  the others are what the interpreter raises when a value has the wrong shape.
\<close>

section \<open>Results\<close>

datatype py_error =
    ValueError string
  | TypeError
  | KeyError
  | AttributeError
  | IndexError
  | StructError
  | OverflowError
  | StopIteration
  | AssertionError
  | OSError

type_synonym 'a res = "py_error + 'a"

named_theorems ok_iff \<open>when a computation returns normally\<close>
named_theorems refuses \<open>computations whose only exception is ValueError\<close>

definition bnd :: "'a res \<Rightarrow> ('a \<Rightarrow> 'b res) \<Rightarrow> 'b res" where
  "bnd m f = (case m of Inl e \<Rightarrow> Inl e | Inr x \<Rightarrow> f x)"

lemma bnd_simps [simp]: "bnd (Inl e) f = Inl e" "bnd (Inr x) f = f x"
  by (simp_all add: bnd_def)

lemma bnd_Inr_iff [ok_iff]: "bnd m f = Inr y \<longleftrightarrow> (\<exists>x. m = Inr x \<and> f x = Inr y)"
  by (cases m) auto

lemma ex_unit_iff: "(\<exists>x :: unit. P x) \<longleftrightarrow> P ()"
  by auto

lemma bnd_cong [fundef_cong]:
  "m = m' \<Longrightarrow> (\<And>x. m' = Inr x \<Longrightarrow> f x = f' x) \<Longrightarrow> bnd m f = bnd m' f'"
  by (cases m') auto

lemma bnd_assoc: "bnd (bnd m f) g = bnd m (\<lambda>x. bnd (f x) g)"
  by (cases m) auto

lemma if_refuse_Inr_iff [ok_iff]:
  "(if b then Inl e else m) = Inr y \<longleftrightarrow> \<not> b \<and> m = Inr y"
  "(if b then m else Inl e) = Inr y \<longleftrightarrow> b \<and> m = Inr y"
  by simp_all

definition lift_res :: "('a \<Rightarrow> 'b) \<Rightarrow> 'a res \<Rightarrow> 'b res" where
  "lift_res f m = bnd m (\<lambda>x. Inr (f x))"

lemma lift_res_simps [simp]: "lift_res f (Inl e) = Inl e" "lift_res f (Inr x) = Inr (f x)"
  by (simp_all add: lift_res_def)

lemma lift_res_Inr_iff [ok_iff]: "lift_res f m = Inr y \<longleftrightarrow> (\<exists>x. m = Inr x \<and> y = f x)"
  by (cases m) auto

lemma ex_Inr_bool [ok_iff]:
  "(\<exists>x. m = Inr x \<and> x) \<longleftrightarrow> m = Inr True"
  "(\<exists>x. m = Inr x \<and> \<not> x) \<longleftrightarrow> m = Inr False"
  by (cases m; auto)+

text \<open>An optional value that has to be there.\<close>

definition some_or :: "string \<Rightarrow> 'a option \<Rightarrow> 'a res" where
  "some_or msg x = (case x of None \<Rightarrow> Inl (ValueError msg) | Some y \<Rightarrow> Inr y)"

lemma some_or_simps [simp]: "some_or msg None = Inl (ValueError msg)" "some_or msg (Some y) = Inr y"
  by (simp_all add: some_or_def)

lemma some_or_Inr_iff [ok_iff]: "some_or msg x = Inr y \<longleftrightarrow> x = Some y"
  by (cases x) auto

section \<open>Guards\<close>

text \<open>
  \<open>refuse [A, B, C] msg\<close> is the statement \<open>if A or B or C: raise ValueError(msg)\<close>, and
  \<open>need [A, B, C] msg\<close> is \<open>need(A and B and C, msg)\<close>. The operands are evaluated from the left and
  evaluation stops at the first one that decides; an operand may itself raise.
\<close>

fun refuse :: "bool res list \<Rightarrow> string \<Rightarrow> unit res" where
  "refuse [] msg = Inr ()"
| "refuse (c # cs) msg =
     (case c of Inl e \<Rightarrow> Inl e | Inr b \<Rightarrow> if b then Inl (ValueError msg) else refuse cs msg)"

fun need :: "bool res list \<Rightarrow> string \<Rightarrow> unit res" where
  "need [] msg = Inr ()"
| "need (c # cs) msg =
     (case c of Inl e \<Rightarrow> Inl e | Inr b \<Rightarrow> if b then need cs msg else Inl (ValueError msg))"

text \<open>
  \<open>A or B or C\<close> and \<open>A and B and C\<close> as expressions of type bool, and a truth value negated.
\<close>

fun any_of :: "bool res list \<Rightarrow> bool res" where
  "any_of [] = Inr False"
| "any_of (c # cs) = (case c of Inl e \<Rightarrow> Inl e | Inr b \<Rightarrow> if b then Inr True else any_of cs)"

fun all_of :: "bool res list \<Rightarrow> bool res" where
  "all_of [] = Inr True"
| "all_of (c # cs) = (case c of Inl e \<Rightarrow> Inl e | Inr b \<Rightarrow> if b then all_of cs else Inr False)"

abbreviation not_res :: "bool res \<Rightarrow> bool res" where
  "not_res \<equiv> lift_res Not"

lemma refuse_Inr_iff [ok_iff]:
  "refuse [] msg = Inr u \<longleftrightarrow> True"
  "refuse (c # cs) msg = Inr u \<longleftrightarrow> c = Inr False \<and> refuse cs msg = Inr u"
  by (auto split: sum.splits if_splits)

lemma need_Inr_iff [ok_iff]:
  "need [] msg = Inr u \<longleftrightarrow> True"
  "need (c # cs) msg = Inr u \<longleftrightarrow> c = Inr True \<and> need cs msg = Inr u"
  by (auto split: sum.splits if_splits)

lemma any_of_False_iff [ok_iff]:
  "any_of [] = Inr False \<longleftrightarrow> True"
  "any_of (c # cs) = Inr False \<longleftrightarrow> c = Inr False \<and> any_of cs = Inr False"
  by (auto split: sum.splits if_splits)

lemma all_of_True_iff [ok_iff]:
  "all_of [] = Inr True \<longleftrightarrow> True"
  "all_of (c # cs) = Inr True \<longleftrightarrow> c = Inr True \<and> all_of cs = Inr True"
  by (auto split: sum.splits if_splits)

lemma need_map_Inr_iff [ok_iff]:
  "need (map f xs) msg = Inr u \<longleftrightarrow> list_all (\<lambda>x. f x = Inr True) xs"
  by (induction xs) (auto split: sum.splits if_splits)

text \<open>
  From here on a guard is used through the characterisation of its success; its equations are
  unfolded by name where a proof follows a refusal.
\<close>

lemmas guard_simps = refuse.simps need.simps any_of.simps all_of.simps

declare guard_simps [simp del]

lemma refuse_pure: "refuse [Inr b] msg = (if b then Inl (ValueError msg) else Inr ())"
  by (simp add: guard_simps)

lemma need_pure: "need [Inr b] msg = (if b then Inr () else Inl (ValueError msg))"
  by (simp add: guard_simps)

section \<open>Loops\<close>

text \<open>
  \<open>fold_res f xs s\<close> is a \<open>for\<close> loop over \<open>xs\<close> whose body \<open>f x\<close> updates the state \<open>s\<close> or raises;
  \<open>map_res\<close> is a list comprehension whose element expression may raise, \<open>any_res\<close> is \<open>any(...)\<close> over
  a generator.
\<close>

fun fold_res :: "('a \<Rightarrow> 's \<Rightarrow> 's res) \<Rightarrow> 'a list \<Rightarrow> 's \<Rightarrow> 's res" where
  "fold_res f [] s = Inr s"
| "fold_res f (x # xs) s = bnd (f x s) (fold_res f xs)"

fun map_res :: "('a \<Rightarrow> 'b res) \<Rightarrow> 'a list \<Rightarrow> 'b list res" where
  "map_res f [] = Inr []"
| "map_res f (x # xs) = bnd (f x) (\<lambda>y. bnd (map_res f xs) (\<lambda>ys. Inr (y # ys)))"

fun each_res :: "('a \<Rightarrow> unit res) \<Rightarrow> 'a list \<Rightarrow> unit res" where
  "each_res f [] = Inr ()"
| "each_res f (x # xs) = bnd (f x) (\<lambda>_. each_res f xs)"

fun any_res :: "('a \<Rightarrow> bool res) \<Rightarrow> 'a list \<Rightarrow> bool res" where
  "any_res f [] = Inr False"
| "any_res f (x # xs) = bnd (f x) (\<lambda>b. if b then Inr True else any_res f xs)"

fun all_res :: "('a \<Rightarrow> bool res) \<Rightarrow> 'a list \<Rightarrow> bool res" where
  "all_res f [] = Inr True"
| "all_res f (x # xs) = bnd (f x) (\<lambda>b. if b then all_res f xs else Inr False)"

lemma all_res_True_iff [ok_iff]:
  "all_res f xs = Inr True \<longleftrightarrow> list_all (\<lambda>x. f x = Inr True) xs"
  by (induction xs) (auto simp: ok_iff split: if_splits)

lemma fold_res_append [simp]:
  "fold_res f (xs @ ys) s = bnd (fold_res f xs s) (fold_res f ys)"
proof (induction xs arbitrary: s)
  case (Cons x xs)
  then show ?case by (cases "f x s") simp_all
qed simp

lemma fold_res_invariant:
  assumes "fold_res f xs s = Inr t" and "I s"
    and "\<And>x s t. x \<in> set xs \<Longrightarrow> I s \<Longrightarrow> f x s = Inr t \<Longrightarrow> I t"
  shows "I t"
  using assms
proof (induction xs arbitrary: s)
  case Nil
  then show ?case by simp
next
  case (Cons x xs)
  then obtain u where "f x s = Inr u" and "fold_res f xs u = Inr t"
    by (auto simp: ok_iff)
  with Cons show ?case by (metis list.set_intros)
qed

lemma fold_res_each_inv:
  assumes "fold_res f xs s = Inr t" and "I s" and "x \<in> set xs"
    and "\<And>x u v. x \<in> set xs \<Longrightarrow> I u \<Longrightarrow> f x u = Inr v \<Longrightarrow> I v"
  shows "\<exists>u v. I u \<and> f x u = Inr v"
  using assms
proof (induction xs arbitrary: s)
  case (Cons y ys)
  from Cons.prems(1) obtain u where u: "f y s = Inr u" "fold_res f ys u = Inr t"
    by (auto simp: bnd_Inr_iff)
  show ?case
  proof (cases "x = y")
    case True
    with u(1) Cons.prems(2) show ?thesis by blast
  next
    case False
    have "I u" using Cons.prems(2,4) u(1) by (meson list.set_intros(1))
    with Cons.IH [OF u(2)] False Cons.prems show ?thesis by (meson list.set_intros(2) set_ConsD)
  qed
qed simp

lemma fold_res_each:
  assumes "fold_res f xs s = Inr t" and "x \<in> set xs"
  shows "\<exists>u v. f x u = Inr v"
  using fold_res_each_inv [where I = "\<lambda>_. True", OF assms(1) _ assms(2)] by blast

lemma map_res_Inr_iff [ok_iff]:
  "map_res f xs = Inr ys \<longleftrightarrow> list_all2 (\<lambda>x y. f x = Inr y) xs ys"
  by (induction xs arbitrary: ys) (auto simp: ok_iff list_all2_Cons1)

lemma map_res_total: "map_res (\<lambda>x. Inr (f x)) xs = Inr (map f xs)"
  by (induction xs) simp_all

lemma each_res_Inr_iff [ok_iff]: "each_res f xs = Inr u \<longleftrightarrow> list_all (\<lambda>x. f x = Inr ()) xs"
  by (induction xs) (auto simp: ok_iff)

lemma any_res_False_iff [ok_iff]:
  "any_res f xs = Inr False \<longleftrightarrow> list_all (\<lambda>x. f x = Inr False) xs"
  by (induction xs) (auto simp: ok_iff split: if_splits)

lemma any_res_TrueE:
  assumes "any_res f xs = Inr True"
  obtains x where "x \<in> set xs" and "f x = Inr True"
  using assms by (induction xs) (auto simp: ok_iff split: if_splits)

section \<open>Computations that only refuse\<close>

text \<open>
  \<open>only_refuses m\<close>: \<open>m\<close> returns, or raises a \<open>ValueError\<close>; it never fails in the interpreter
  (index, type, key or struct errors).
\<close>

fun only_refuses :: "'a res \<Rightarrow> bool" where
  "only_refuses (Inr x) = True"
| "only_refuses (Inl (ValueError m)) = True"
| "only_refuses (Inl e) = False"

lemma only_refuses_bnd [refuses]:
  assumes "only_refuses m" and "\<And>x. m = Inr x \<Longrightarrow> only_refuses (f x)"
  shows "only_refuses (bnd m f)"
proof (cases m)
  case (Inl e)
  with assms(1) show ?thesis by (cases e) auto
next
  case (Inr x)
  with assms(2) show ?thesis by simp
qed

lemma only_refuses_map_res [refuses]:
  "(\<And>x. x \<in> set xs \<Longrightarrow> only_refuses (f x)) \<Longrightarrow> only_refuses (map_res f xs)"
  by (induction xs) (auto intro!: only_refuses_bnd)

lemma only_refuses_each_res [refuses]:
  "(\<And>x. x \<in> set xs \<Longrightarrow> only_refuses (f x)) \<Longrightarrow> only_refuses (each_res f xs)"
  by (induction xs) (auto intro!: only_refuses_bnd)

lemma only_refuses_need_pure [refuses]: "only_refuses (need (map (\<lambda>x. Inr (f x)) xs) msg)"
  by (induction xs) (auto simp: guard_simps)

section \<open>Loops that reject a repeated key\<close>

text \<open>
  Several tools walk a list, keep the keys met so far and refuse one that comes back. The locale
  states the loop body they share; its instances are the loops of the components.
\<close>

locale unique_loop =
  fixes key :: "'b \<Rightarrow> 'k"
    and out :: "'a \<Rightarrow> 'b"
    and body :: "'a \<Rightarrow> 'b list \<Rightarrow> 'b list res"
    and admits :: "'a \<Rightarrow> bool"
  assumes body_ok: "body x seen = Inr seen' \<longleftrightarrow>
      admits x \<and> key (out x) \<notin> key ` set seen \<and> seen' = seen @ [out x]"
begin

lemma run_from:
  "fold_res body xs seen = Inr r \<longleftrightarrow>
     list_all admits xs \<and> distinct (map key (map out xs)) \<and>
     key ` set (map out xs) \<inter> key ` set seen = {} \<and> r = seen @ map out xs"
proof (induction xs arbitrary: seen)
  case Nil
  then show ?case by auto
next
  case (Cons x xs)
  then show ?case by (auto simp: ok_iff body_ok)
qed

lemma run_iff:
  "fold_res body xs [] = Inr r \<longleftrightarrow>
     list_all admits xs \<and> distinct (map key (map out xs)) \<and> r = map out xs"
  by (simp add: run_from)

lemma run_distinct: "fold_res body xs [] = Inr r \<Longrightarrow> distinct (map key r)"
  by (simp add: run_iff)

lemma run_refuses_repeat:
  "\<not> distinct (map key (map out xs)) \<Longrightarrow> fold_res body xs [] \<noteq> Inr r"
  by (simp add: run_iff)

end

section \<open>Lists\<close>

lemma list_all2_set2: "list_all2 P xs ys \<Longrightarrow> y \<in> set ys \<Longrightarrow> \<exists>x \<in> set xs. P x y"
  by (induction xs ys rule: list_all2_induct) auto

lemma list_all2_set1: "list_all2 P xs ys \<Longrightarrow> x \<in> set xs \<Longrightarrow> \<exists>y \<in> set ys. P x y"
  by (induction xs ys rule: list_all2_induct) auto

lemma set_take_subset_take: "m \<le> n \<Longrightarrow> set (take m xs) \<subseteq> set (take n xs)"
  by (rule set_take_subset_set_take)

lemma length_eq_card_set_iff: "length xs = card (set xs) \<longleftrightarrow> distinct xs"
  using card_distinct distinct_card by metis

lemma sum_list_mono_zero: "(\<forall>x \<in> set xs. 0 \<le> f x) \<Longrightarrow> 0 \<le> sum_list (map f xs)" for f :: "'a \<Rightarrow> int"
  by (induction xs) auto

end
