(* ===== verification/Py_Regex.thy ===== *)
theory Py_Regex
  imports Prelude
begin

text \<open>
  The regular expressions of Python's \<open>re\<close> that the tools use with \<open>fullmatch\<close>: character classes
  written as ranges, sequences, alternatives, stars and bounded repetitions. \<open>rmatch\<close> runs a pattern
  by derivatives; \<open>rmatch_iff\<close> shows that it decides the language of the pattern. The closed forms
  at the end turn the shapes that occur in the tools into plain conditions on characters and lengths.
  A string is a list of characters up to U+00FF; no pattern of the tools admits a character
  outside ASCII.
\<close>

section \<open>Patterns and their languages\<close>

type_synonym char_class = "(char \<times> char) list"

definition in_cls :: "char_class \<Rightarrow> char \<Rightarrow> bool" where
  "in_cls cls c = list_ex (\<lambda>(lo, hi). lo \<le> c \<and> c \<le> hi) cls"

datatype rx =
    Eps
  | Cls char_class
  | Seq rx rx
  | Alt rx rx
  | Star rx
  | Rep rx nat nat

definition cat :: "string set \<Rightarrow> string set \<Rightarrow> string set" where
  "cat A B = {u @ v | u v. u \<in> A \<and> v \<in> B}"

fun pow :: "string set \<Rightarrow> nat \<Rightarrow> string set" where
  "pow A 0 = {[]}"
| "pow A (Suc k) = cat A (pow A k)"

fun lang :: "rx \<Rightarrow> string set" where
  "lang Eps = {[]}"
| "lang (Cls cls) = {[c] | c. in_cls cls c}"
| "lang (Seq r s) = cat (lang r) (lang s)"
| "lang (Alt r s) = lang r \<union> lang s"
| "lang (Star r) = (\<Union>k. pow (lang r) k)"
| "lang (Rep r m n) = (\<Union>k \<in> {m..n}. pow (lang r) k)"

section \<open>The matcher\<close>

fun nullable :: "rx \<Rightarrow> bool" where
  "nullable Eps = True"
| "nullable (Cls cls) = False"
| "nullable (Seq r s) = (nullable r \<and> nullable s)"
| "nullable (Alt r s) = (nullable r \<or> nullable s)"
| "nullable (Star r) = True"
| "nullable (Rep r m n) = (m \<le> n \<and> (m = 0 \<or> nullable r))"

fun deriv :: "char \<Rightarrow> rx \<Rightarrow> rx" where
  "deriv c Eps = Cls []"
| "deriv c (Cls cls) = (if in_cls cls c then Eps else Cls [])"
| "deriv c (Seq r s) =
     (if nullable r then Alt (Seq (deriv c r) s) (deriv c s) else Seq (deriv c r) s)"
| "deriv c (Alt r s) = Alt (deriv c r) (deriv c s)"
| "deriv c (Star r) = Seq (deriv c r) (Star r)"
| "deriv c (Rep r m n) = (if n = 0 then Cls [] else Seq (deriv c r) (Rep r (m - 1) (n - 1)))"

fun rmatch :: "rx \<Rightarrow> string \<Rightarrow> bool" where
  "rmatch r [] = nullable r"
| "rmatch r (c # cs) = rmatch (deriv c r) cs"

lemma in_cls_Nil [simp]: "\<not> in_cls [] c"
  by (simp add: in_cls_def)

lemma in_cat [simp]: "w \<in> cat A B \<longleftrightarrow> (\<exists>u v. w = u @ v \<and> u \<in> A \<and> v \<in> B)"
  by (auto simp: cat_def)

lemma nil_in_pow: "[] \<in> pow A k \<longleftrightarrow> k = 0 \<or> [] \<in> A"
  by (induction k) auto

lemma nullable_iff: "nullable r \<longleftrightarrow> [] \<in> lang r"
proof (induction r)
  case (Star r)
  have "[] \<in> pow (lang r) 0" by simp
  then show ?case by (simp only: lang.simps nullable.simps) blast
next
  case (Rep r m n)
  then show ?case by (auto simp: nil_in_pow)
qed auto

lemma pow_mono_nil: "[] \<in> A \<Longrightarrow> w \<in> pow A k \<Longrightarrow> w \<in> pow A (Suc k)"
  by (metis append_Nil in_cat pow.simps(2))

lemma Cons_in_pow:
  "c # w \<in> pow A k \<longleftrightarrow> (\<exists>j u v. k = Suc j \<and> w = u @ v \<and> c # u \<in> A \<and> v \<in> pow A j)"
proof (induction k)
  case 0
  then show ?case by simp
next
  case (Suc k)
  show ?case
  proof
    assume "c # w \<in> pow A (Suc k)"
    then obtain x v where x: "c # w = x @ v" "x \<in> A" "v \<in> pow A k" by auto
    show "\<exists>j u v. Suc k = Suc j \<and> w = u @ v \<and> c # u \<in> A \<and> v \<in> pow A j"
    proof (cases x)
      case Nil
      with x have "c # w \<in> pow A k" and nil: "[] \<in> A" by auto
      with Suc.IH obtain j u v' where "k = Suc j" "w = u @ v'" "c # u \<in> A" "v' \<in> pow A j"
        by blast
      moreover from this have "v' \<in> pow A k" using nil pow_mono_nil by blast
      ultimately show ?thesis by blast
    next
      case (Cons a u)
      with x show ?thesis by auto
    qed
  next
    assume "\<exists>j u v. Suc k = Suc j \<and> w = u @ v \<and> c # u \<in> A \<and> v \<in> pow A j"
    then show "c # w \<in> pow A (Suc k)" by (metis append_Cons in_cat nat.inject pow.simps(2))
  qed
qed

lemma deriv_iff: "w \<in> lang (deriv c r) \<longleftrightarrow> c # w \<in> lang r"
proof (induction r arbitrary: w)
  case (Seq r s)
  then show ?case by (auto simp: nullable_iff Cons_eq_append_conv)
next
  case (Star r)
  show ?case
  proof
    assume "w \<in> lang (deriv c (Star r))"
    then obtain u v k where "w = u @ v" "c # u \<in> lang r" "v \<in> pow (lang r) k"
      by (auto simp: Star.IH)
    then have "c # w \<in> pow (lang r) (Suc k)" by (simp only: Cons_in_pow) blast
    then show "c # w \<in> lang (Star r)" by (simp only: lang.simps) blast
  next
    assume "c # w \<in> lang (Star r)"
    then show "w \<in> lang (deriv c (Star r))" by (auto simp: Cons_in_pow Star.IH)
  qed
next
  case (Rep r m n)
  show ?case
  proof
    assume "w \<in> lang (deriv c (Rep r m n))"
    then obtain u v k where n: "n \<noteq> 0" and "w = u @ v" "c # u \<in> lang r" "v \<in> pow (lang r) k"
      and k: "m - 1 \<le> k" "k \<le> n - 1"
      by (auto simp: Rep.IH split: if_splits)
    then have "c # w \<in> pow (lang r) (Suc k)" by (simp only: Cons_in_pow) blast
    moreover have "Suc k \<in> {m..n}" using k n by auto
    ultimately show "c # w \<in> lang (Rep r m n)" by (simp only: lang.simps) blast
  next
    assume "c # w \<in> lang (Rep r m n)"
    then show "w \<in> lang (deriv c (Rep r m n))" by (fastforce simp: Cons_in_pow Rep.IH)
  qed
qed auto

lemma rmatch_iff: "rmatch r s \<longleftrightarrow> s \<in> lang r"
  by (induction s arbitrary: r) (simp_all add: nullable_iff deriv_iff)

declare rmatch.simps [simp del]

section \<open>Closed forms\<close>

fun lit :: "string \<Rightarrow> rx" where
  "lit [] = Eps"
| "lit (c # cs) = Seq (Cls [(c, c)]) (lit cs)"

definition rplus :: "rx \<Rightarrow> rx" where
  "rplus r = Seq r (Star r)"

definition ropt :: "rx \<Rightarrow> rx" where
  "ropt r = Alt r Eps"

lemma in_cls_single [simp]: "in_cls [(c, c)] d \<longleftrightarrow> d = c"
  by (auto simp: in_cls_def)

lemma Cons_in_cat_cls:
  "w \<in> cat {[c] | c. P c} B \<longleftrightarrow> (case w of [] \<Rightarrow> False | c # v \<Rightarrow> P c \<and> v \<in> B)"
proof (cases w)
  case (Cons c v)
  show ?thesis
  proof
    assume "w \<in> cat {[c] | c. P c} B"
    then show "case w of [] \<Rightarrow> False | c # v \<Rightarrow> P c \<and> v \<in> B" by (auto simp: cat_def)
  next
    assume "case w of [] \<Rightarrow> False | c # v \<Rightarrow> P c \<and> v \<in> B"
    with Cons have "w = [c] @ v" "[c] \<in> {[c] | c. P c}" "v \<in> B" by simp_all
    then show "w \<in> cat {[c] | c. P c} B" unfolding in_cat by blast
  qed
qed (simp add: cat_def)

lemma lang_lit [simp]: "lang (lit s) = {s}"
proof (induction s)
  case (Cons c s)
  have "w \<in> lang (lit (c # s)) \<longleftrightarrow> w = c # s" for w
    unfolding lit.simps lang.simps(3) lang.simps(2) Cons_in_cat_cls Cons
    by (cases w) auto
  then show ?case by blast
qed simp

lemma pow_cls: "w \<in> pow {[c] | c. P c} k \<longleftrightarrow> length w = k \<and> list_all P w"
proof (induction k arbitrary: w)
  case (Suc k)
  then show ?case by (cases w) (auto simp: Cons_in_cat_cls simp del: in_cat)
qed auto

lemma lang_rep_cls: "w \<in> lang (Rep (Cls b) m n) \<longleftrightarrow> m \<le> length w \<and> length w \<le> n \<and> list_all (in_cls b) w"
  by (auto simp: pow_cls)

lemma lang_star_cls: "w \<in> lang (Star (Cls b)) \<longleftrightarrow> list_all (in_cls b) w"
  by (auto simp: pow_cls)

lemma lang_plus_cls: "w \<in> lang (rplus (Cls b)) \<longleftrightarrow> w \<noteq> [] \<and> list_all (in_cls b) w"
  unfolding rplus_def lang.simps(3) lang.simps(2) Cons_in_cat_cls lang_star_cls
  by (cases w) simp_all

lemma rmatch_rep_cls:
  "rmatch (Rep (Cls b) m n) w \<longleftrightarrow> m \<le> length w \<and> length w \<le> n \<and> list_all (in_cls b) w"
  by (simp only: rmatch_iff lang_rep_cls)

lemma rmatch_plus_cls: "rmatch (rplus (Cls b)) w \<longleftrightarrow> w \<noteq> [] \<and> list_all (in_cls b) w"
  by (simp only: rmatch_iff lang_plus_cls)

lemma rmatch_cls: "rmatch (Cls b) w \<longleftrightarrow> (\<exists>c. w = [c] \<and> in_cls b c)"
  by (auto simp: rmatch_iff)

text \<open>One character of a class, then up to \<open>n\<close> of another: the shape of every name pattern.\<close>

lemma rmatch_name_shape:
  "rmatch (Seq (Cls a) (Rep (Cls b) 0 n)) w \<longleftrightarrow>
     (case w of [] \<Rightarrow> False | c # cs \<Rightarrow> in_cls a c \<and> length cs \<le> n \<and> list_all (in_cls b) cs)"
  unfolding rmatch_iff lang.simps(3) lang.simps(2) Cons_in_cat_cls lang_rep_cls
  by (cases w) simp_all

lemma rmatch_seq_iff: "rmatch (Seq r s) w \<longleftrightarrow> (\<exists>u v. w = u @ v \<and> rmatch r u \<and> rmatch s v)"
  by (simp add: rmatch_iff)

lemma rmatch_lit [simp]: "rmatch (lit s) w \<longleftrightarrow> w = s"
  by (simp add: rmatch_iff)

lemma rmatch_lit_seq: "rmatch (Seq (lit s) r) w \<longleftrightarrow> (\<exists>v. w = s @ v \<and> rmatch r v)"
  by (auto simp: rmatch_seq_iff)

lemma rmatch_alt [simp]: "rmatch (Alt r s) w \<longleftrightarrow> rmatch r w \<or> rmatch s w"
  by (simp add: rmatch_iff)

end
