(* ===== verification/Py_Json.thy ===== *)
theory Py_Json
  imports Py_Regex
begin

text \<open>
  The values \<open>json.loads\<close> returns and the operations of Python the tools apply to them: item access,
  \<open>get\<close>, type tests, \<open>==\<close>, \<open>sorted\<close>, membership in a set of strings, \<open>fullmatch\<close>, and the
  string functions \<open>splitlines\<close>, \<open>isdigit\<close>, \<open>int\<close> and \<open>str\<close>. An operation on a value of the wrong
  type raises as the interpreter does. Numbers written with a fraction or an exponent are kept as
  the rational they denote; the literals NaN and Infinity are not values of the model. The pairs of
  an object have distinct keys, in the order of the document.
\<close>

section \<open>Values\<close>

datatype json =
    JNull
  | JBool bool
  | JInt int
  | JFloat rat
  | JStr string
  | JArr "json list"
  | JObj "(string \<times> json) list"

text \<open>
  \<open>==\<close>: \<open>True\<close> equals 1 and 1.0, objects compare by their entries whatever the order. Both are
  the comparison of a canonical form.
\<close>

primrec canon :: "json \<Rightarrow> json" where
  "canon JNull = JNull"
| "canon (JBool b) = JInt (if b then 1 else 0)"
| "canon (JInt i) = JInt i"
| "canon (JFloat q) = (if of_int \<lfloor>q\<rfloor> = q then JInt \<lfloor>q\<rfloor> else JFloat q)"
| "canon (JStr s) = JStr s"
| "canon (JArr xs) = JArr (map canon xs)"
| "canon (JObj kvs) = JObj (sort_key fst (map (map_prod id canon) kvs))"

definition py_eq :: "json \<Rightarrow> json \<Rightarrow> bool" where
  "py_eq a b \<longleftrightarrow> canon a = canon b"

abbreviation py_ne :: "json \<Rightarrow> json \<Rightarrow> bool" where
  "py_ne a b \<equiv> \<not> py_eq a b"

lemma py_eq_refl [simp]: "py_eq a a"
  by (simp add: py_eq_def)

lemma py_eq_sym: "py_eq a b \<Longrightarrow> py_eq b a"
  by (simp add: py_eq_def)

lemma py_eq_trans: "py_eq a b \<Longrightarrow> py_eq b c \<Longrightarrow> py_eq a c"
  by (simp add: py_eq_def)

lemma py_eq_JStr [simp]: "py_eq v (JStr s) \<longleftrightarrow> v = JStr s" "py_eq (JStr s) v \<longleftrightarrow> v = JStr s"
  by (cases v; auto simp: py_eq_def)+

lemma py_eq_JNull [simp]: "py_eq v JNull \<longleftrightarrow> v = JNull" "py_eq JNull v \<longleftrightarrow> v = JNull"
  by (cases v; auto simp: py_eq_def)+

lemma py_eq_JInt [simp]: "py_eq (JInt a) (JInt b) \<longleftrightarrow> a = b"
  by (simp add: py_eq_def)

lemma canon_map_JStr: "map canon xs = map JStr ss \<longleftrightarrow> xs = map JStr ss"
proof (induction xs arbitrary: ss)
  case (Cons x xs)
  have "canon x = JStr s \<longleftrightarrow> x = JStr s" for s by (cases x) auto
  with Cons show ?case by (cases ss) auto
qed auto

lemma py_eq_strs [simp]: "py_eq v (JArr (map JStr ss)) \<longleftrightarrow> v = JArr (map JStr ss)"
proof (cases v)
  case (JArr xs)
  have "map canon (map JStr ss) = map JStr ss" by simp
  with JArr canon_map_JStr [of xs ss] show ?thesis by (simp only: py_eq_def canon.simps json.inject)
qed (auto simp: py_eq_def)

lemma py_eq_str1 [simp]: "py_eq v (JArr [JStr s]) \<longleftrightarrow> v = JArr [JStr s]"
  using py_eq_strs [of v "[s]"] by simp

section \<open>Type tests\<close>

text \<open>\<open>is_int v\<close> is \<open>type(v) is int\<close>, which a \<open>bool\<close> fails; the others are \<open>isinstance\<close>.\<close>

fun is_int :: "json \<Rightarrow> bool" where
  "is_int (JInt i) = True" | "is_int v = False"

fun is_bool :: "json \<Rightarrow> bool" where
  "is_bool (JBool b) = True" | "is_bool v = False"

fun is_str :: "json \<Rightarrow> bool" where
  "is_str (JStr s) = True" | "is_str v = False"

fun is_arr :: "json \<Rightarrow> bool" where
  "is_arr (JArr xs) = True" | "is_arr v = False"

fun is_obj :: "json \<Rightarrow> bool" where
  "is_obj (JObj kvs) = True" | "is_obj v = False"

fun truthy :: "json \<Rightarrow> bool" where
  "truthy JNull = False"
| "truthy (JBool b) = b"
| "truthy (JInt i) = (i \<noteq> 0)"
| "truthy (JFloat q) = (q \<noteq> 0)"
| "truthy (JStr s) = (s \<noteq> [])"
| "truthy (JArr xs) = (xs \<noteq> [])"
| "truthy (JObj kvs) = (kvs \<noteq> [])"

lemma is_int_iff: "is_int v \<longleftrightarrow> (\<exists>i. v = JInt i)" by (cases v) auto
lemma is_str_iff: "is_str v \<longleftrightarrow> (\<exists>s. v = JStr s)" by (cases v) auto
lemma is_arr_iff: "is_arr v \<longleftrightarrow> (\<exists>xs. v = JArr xs)" by (cases v) auto
lemma is_obj_iff: "is_obj v \<longleftrightarrow> (\<exists>kvs. v = JObj kvs)" by (cases v) auto
lemma is_bool_iff: "is_bool v \<longleftrightarrow> (\<exists>b. v = JBool b)" by (cases v) auto

lemmas type_iffs = is_int_iff is_str_iff is_arr_iff is_obj_iff is_bool_iff

section \<open>Access\<close>

text \<open>\<open>sub d k\<close> is \<open>d[k]\<close>, \<open>get d k\<close> is \<open>d.get(k)\<close>, \<open>get_or d k x\<close> is \<open>d.get(k, x)\<close>.\<close>

fun sub :: "json \<Rightarrow> string \<Rightarrow> json res" where
  "sub (JObj kvs) k = (case map_of kvs k of None \<Rightarrow> Inl KeyError | Some v \<Rightarrow> Inr v)"
| "sub v k = Inl TypeError"

fun get_or :: "json \<Rightarrow> string \<Rightarrow> json \<Rightarrow> json res" where
  "get_or (JObj kvs) k x = Inr (case map_of kvs k of None \<Rightarrow> x | Some v \<Rightarrow> v)"
| "get_or v k x = Inl AttributeError"

definition get :: "json \<Rightarrow> string \<Rightarrow> json res" where
  "get d k = get_or d k JNull"

fun keys_of :: "json \<Rightarrow> string list res" where
  "keys_of (JObj kvs) = Inr (map fst kvs)"
| "keys_of v = Inl AttributeError"

fun items_of :: "json \<Rightarrow> (string \<times> json) list res" where
  "items_of (JObj kvs) = Inr kvs"
| "items_of v = Inl AttributeError"

text \<open>\<open>len(v)\<close>, and the elements \<open>for x in v\<close> visits.\<close>

fun len :: "json \<Rightarrow> nat res" where
  "len (JStr s) = Inr (length s)"
| "len (JArr xs) = Inr (length xs)"
| "len (JObj kvs) = Inr (length kvs)"
| "len v = Inl TypeError"

fun iter :: "json \<Rightarrow> json list res" where
  "iter (JStr s) = Inr (map (\<lambda>c. JStr [c]) s)"
| "iter (JArr xs) = Inr xs"
| "iter (JObj kvs) = Inr (map (\<lambda>kv. JStr (fst kv)) kvs)"
| "iter v = Inl TypeError"

fun as_int :: "json \<Rightarrow> int res" where
  "as_int (JInt i) = Inr i" | "as_int v = Inl TypeError"

fun as_str :: "json \<Rightarrow> string res" where
  "as_str (JStr s) = Inr s" | "as_str v = Inl TypeError"

lemma get_obj [simp]: "get (JObj kvs) k = Inr (case map_of kvs k of None \<Rightarrow> JNull | Some v \<Rightarrow> v)"
  by (simp add: get_def)

lemma sub_Inr_iff: "sub v k = Inr x \<longleftrightarrow> (\<exists>kvs. v = JObj kvs \<and> map_of kvs k = Some x)"
  by (cases v) (auto split: option.splits)

lemma get_or_Inr_iff:
  "get_or v k d = Inr x \<longleftrightarrow> (\<exists>kvs. v = JObj kvs \<and> x = (case map_of kvs k of None \<Rightarrow> d | Some y \<Rightarrow> y))"
  by (cases v) auto

lemma get_of_sub: "sub v k = Inr x \<Longrightarrow> get v k = Inr x"
  by (cases v) (auto split: option.split_asm)

lemma iter_JArr_strs: "iter (JArr (map JStr ss)) = Inr (map JStr ss)"
  by simp

text \<open>
  \<open>hashable v\<close>: a list or an object as an element of a set raises. \<open>in_strs v S\<close> is \<open>v in S\<close> for a
  set or a dict with string keys.
\<close>

fun hashable :: "json \<Rightarrow> bool" where
  "hashable (JArr xs) = False"
| "hashable (JObj kvs) = False"
| "hashable v = True"

definition in_strs :: "json \<Rightarrow> string list \<Rightarrow> bool res" where
  "in_strs v ss = (if hashable v then Inr (\<exists>s \<in> set ss. v = JStr s) else Inl TypeError)"

lemma in_strs_JStr [simp]: "in_strs (JStr s) ss = Inr (s \<in> set ss)"
  by (auto simp: in_strs_def)

lemma in_strs_True_iff [ok_iff]: "in_strs v ss = Inr True \<longleftrightarrow> (\<exists>s \<in> set ss. v = JStr s)"
  by (auto simp: in_strs_def)

text \<open>\<open>R.fullmatch(v)\<close> on a value that may not be a string.\<close>

fun fullmatch :: "rx \<Rightarrow> json \<Rightarrow> bool res" where
  "fullmatch r (JStr s) = Inr (rmatch r s)"
| "fullmatch r v = Inl TypeError"

lemma fullmatch_True_iff [ok_iff]: "fullmatch r v = Inr True \<longleftrightarrow> (\<exists>s. v = JStr s \<and> rmatch r s)"
  by (cases v) auto

lemma as_str_iff [ok_iff]: "as_str v = Inr s \<longleftrightarrow> v = JStr s"
  by (cases v) auto

lemma as_int_iff [ok_iff]: "as_int v = Inr i \<longleftrightarrow> v = JInt i"
  by (cases v) auto

text \<open>
  The text of a field, and the list of texts of a field, for statements about values already
  checked: empty when the field is of another shape.
\<close>

definition str_at :: "string \<Rightarrow> json \<Rightarrow> string" where
  "str_at k v = (case get v k of Inr (JStr s) \<Rightarrow> s | _ \<Rightarrow> [])"

fun str_of :: "json \<Rightarrow> string" where
  "str_of (JStr s) = s" | "str_of v = []"

definition strs_at :: "string \<Rightarrow> json \<Rightarrow> string list" where
  "strs_at k v = (case get v k of Inr (JArr xs) \<Rightarrow> map str_of xs | _ \<Rightarrow> [])"

lemma str_at_sub: "sub v k = Inr (JStr s) \<Longrightarrow> str_at k v = s"
  by (cases v) (auto simp: str_at_def split: option.splits)

lemma str_at_get: "get v k = Inr (JStr s) \<Longrightarrow> str_at k v = s"
  by (simp add: str_at_def)

lemma strs_at_get: "get v k = Inr (JArr (map JStr ss)) \<Longrightarrow> strs_at k v = ss"
  by (simp add: strs_at_def comp_def)

lemma list_all2_JStr [ok_iff]: "list_all2 (\<lambda>x y. x = JStr y) xs ss \<longleftrightarrow> xs = map JStr ss"
  by (induction xs arbitrary: ss) (auto simp: list_all2_Cons1)

lemma map_res_as_str: "map_res as_str xs = Inr ss \<longleftrightarrow> xs = map JStr ss"
  by (simp add: ok_iff)

text \<open>\<open>isinstance(v, str) and v\<close>, and the type test of \<open>R.fullmatch\<close> for a value known to be a string.\<close>

definition nonempty_str :: "json \<Rightarrow> bool" where
  "nonempty_str v = (case v of JStr s \<Rightarrow> s \<noteq> [] | _ \<Rightarrow> False)"

lemma nonempty_str_iff: "nonempty_str v \<longleftrightarrow> (\<exists>s. v = JStr s \<and> s \<noteq> [])"
  by (cases v) (auto simp: nonempty_str_def)

section \<open>Sets of values\<close>

text \<open>\<open>set(v)\<close>: the elements up to \<open>==\<close>; an element that is a list or an object raises.\<close>

definition element_set :: "json \<Rightarrow> json list res" where
  "element_set v = bnd (iter v) (\<lambda>xs. if list_all hashable xs then Inr (map canon xs) else Inl TypeError)"

definition same_set :: "'a list \<Rightarrow> 'a list \<Rightarrow> bool" where
  "same_set xs ys \<longleftrightarrow> set xs = set ys"

lemma element_set_strs:
  assumes "element_set v = Inr m" and "set m = JStr ` A"
  shows "iter v = Inr (map JStr (map str_of m))" and "set (map str_of m) = A"
proof -
  obtain xs where xs: "iter v = Inr xs" "m = map canon xs"
    using assms(1) by (auto simp: element_set_def ok_iff split: if_splits)
  have "canon x = JStr s \<longleftrightarrow> x = JStr s" for x s by (cases x) auto
  with xs assms(2) have "x \<in> JStr ` A \<and> canon x = x" if "x \<in> set xs" for x
    using that by (metis (no_types, lifting) canon.simps(5) image_iff list.set_map)
  then have elems: "x \<in> JStr ` A" "canon x = x" if "x \<in> set xs" for x using that by blast+
  then have "m = xs" unfolding xs(2) by (intro map_idI)
  have "\<forall>x \<in> set xs. JStr (str_of x) = x" using elems(1) by fastforce
  then have "map JStr (map str_of xs) = xs" by (simp add: map_idI)
  with xs(1) \<open>m = xs\<close> show "iter v = Inr (map JStr (map str_of m))" by simp
  show "set (map str_of m) = A" using assms(2) by (simp add: image_image)
qed

text \<open>\<open>v in s\<close> for a set of values; a value without hash raises.\<close>

definition in_values :: "json \<Rightarrow> json list \<Rightarrow> bool res" where
  "in_values v s = (if hashable v then Inr (canon v \<in> set s) else Inl TypeError)"

section \<open>Sorting\<close>

text \<open>
  \<open><\<close> between two values: numbers, strings, and lists element by element; anything else raises.
  \<open>sorted\<close> is stable, and raises when two elements it compares have no order.
\<close>

fun num_of :: "json \<Rightarrow> rat option" where
  "num_of (JBool b) = Some (if b then 1 else 0)"
| "num_of (JInt i) = Some (of_int i)"
| "num_of (JFloat q) = Some q"
| "num_of v = None"

fun py_lt :: "json \<Rightarrow> json \<Rightarrow> bool res"
  and py_lt_list :: "json list \<Rightarrow> json list \<Rightarrow> bool res" where
  "py_lt (JStr s) (JStr t) = Inr (s < t)"
| "py_lt (JArr xs) (JArr ys) = py_lt_list xs ys"
| "py_lt a b = (case (num_of a, num_of b) of (Some p, Some q) \<Rightarrow> Inr (p < q) | _ \<Rightarrow> Inl TypeError)"
| "py_lt_list [] ys = Inr (ys \<noteq> [])"
| "py_lt_list (x # xs) [] = Inr False"
| "py_lt_list (x # xs) (y # ys) = (if py_eq x y then py_lt_list xs ys else py_lt x y)"

fun ins_sorted :: "json \<Rightarrow> json list \<Rightarrow> json list res" where
  "ins_sorted x [] = Inr [x]"
| "ins_sorted x (y # ys) =
     bnd (py_lt x y) (\<lambda>b. if b then Inr (x # y # ys) else lift_res ((#) y) (ins_sorted x ys))"

definition py_sorted :: "json \<Rightarrow> json res" where
  "py_sorted v = bnd (iter v) (\<lambda>xs. lift_res JArr (fold_res ins_sorted xs []))"

fun ins_str :: "string \<Rightarrow> string list \<Rightarrow> string list" where
  "ins_str x [] = [x]"
| "ins_str x (y # ys) = (if x < y then x # y # ys else y # ins_str x ys)"

lemma ins_sorted_strs: "ins_sorted (JStr x) (map JStr ys) = Inr (map JStr (ins_str x ys))"
  by (induction ys) auto

lemma ins_str_insort: "sorted ys \<Longrightarrow> ins_str x ys = insort x ys"
proof (induction ys)
  case (Cons y ys)
  then show ?case
    by (cases "x = y") (auto simp: insort_is_Cons)
qed simp

lemma py_sorted_strs [simp]: "py_sorted (JArr (map JStr ss)) = Inr (JArr (map JStr (sort ss)))"
proof -
  have "fold_res ins_sorted (map JStr ss) (map JStr acc) = Inr (map JStr (fold insort ss acc))"
    if "sorted acc" for acc
    using that
    by (induction ss arbitrary: acc) (simp_all add: ins_sorted_strs ins_str_insort sorted_insort)
  from this [of "[]"] have "fold_res ins_sorted (map JStr ss) [] = Inr (map JStr (fold insort ss []))"
    by simp
  also have "fold insort ss [] = sort ss"
    by (simp add: sort_conv_fold)
  finally show ?thesis by (simp add: py_sorted_def)
qed

section \<open>Strings\<close>

text \<open>
  \<open>str.isdigit\<close> also accepts the superscript digits, which \<open>int\<close> then refuses.
\<close>

definition ascii_digit :: "char \<Rightarrow> bool" where
  "ascii_digit c \<longleftrightarrow> CHR ''0'' \<le> c \<and> c \<le> CHR ''9''"

definition py_isdigit :: "string \<Rightarrow> bool" where
  "py_isdigit s \<longleftrightarrow> s \<noteq> [] \<and> list_all (\<lambda>c. ascii_digit c \<or> c \<in> {CHR 0xB2, CHR 0xB3, CHR 0xB9}) s"

definition digit_val :: "char \<Rightarrow> int" where
  "digit_val c = int (of_char c) - 48"

fun int_of_digits :: "int \<Rightarrow> string \<Rightarrow> int" where
  "int_of_digits acc [] = acc"
| "int_of_digits acc (c # cs) = int_of_digits (10 * acc + digit_val c) cs"

text \<open>\<open>int(s)\<close> on a string that \<open>isdigit\<close> accepted.\<close>

definition int_of_isdigit :: "string \<Rightarrow> int res" where
  "int_of_isdigit s =
     (if list_all ascii_digit s then Inr (int_of_digits 0 s)
      else Inl (ValueError ''invalid literal for int''))"

fun digits_of_nat :: "nat \<Rightarrow> string" where
  "digits_of_nat n =
     (if n < 10 then [char_of (48 + n)] else digits_of_nat (n div 10) @ [char_of (48 + n mod 10)])"

declare digits_of_nat.simps [simp del]

definition str_of_int :: "int \<Rightarrow> string" where
  "str_of_int i = (if i < 0 then CHR ''-'' # digits_of_nat (nat (- i)) else digits_of_nat (nat i))"

lemma int_of_digits_append: "int_of_digits acc (s @ [c]) = 10 * int_of_digits acc s + digit_val c"
  by (induction s arbitrary: acc) auto

lemma digit_char_bounds:
  assumes "d < 10"
  shows "ascii_digit (char_of (48 + d :: nat))" and "digit_val (char_of (48 + d :: nat)) = int d"
proof -
  have "d \<in> {0, 1, 2, 3, 4, 5, 6, 7, 8, 9}" using assms by auto
  then show "ascii_digit (char_of (48 + d :: nat))" and "digit_val (char_of (48 + d :: nat)) = int d"
    by (auto simp: ascii_digit_def digit_val_def less_eq_char_def)
qed

lemma digits_of_nat_ok:
  "list_all ascii_digit (digits_of_nat n) \<and> digits_of_nat n \<noteq> [] \<and>
   int_of_digits 0 (digits_of_nat n) = int n"
proof (induction n rule: digits_of_nat.induct)
  case (1 n)
  show ?case
  proof (cases "n < 10")
    case True
    then show ?thesis by (simp add: digits_of_nat.simps [of n] digit_char_bounds)
  next
    case False
    with 1 have "int_of_digits 0 (digits_of_nat (n div 10)) = int (n div 10)" by simp
    moreover have "10 * int (n div 10) + int (n mod 10) = int n" by presburger
    ultimately show ?thesis
      using 1 False by (subst digits_of_nat.simps, subst (2) digits_of_nat.simps, subst (3) digits_of_nat.simps)
        (simp add: int_of_digits_append digit_char_bounds)
  qed
qed

text \<open>Printing a count and reading it back with \<open>int\<close> is the identity.\<close>

lemma int_of_str_of_int: "0 \<le> i \<Longrightarrow> int_of_isdigit (str_of_int i) = Inr i"
  by (simp add: int_of_isdigit_def str_of_int_def digits_of_nat_ok)

lemma str_of_int_inject: "0 \<le> i \<Longrightarrow> 0 \<le> j \<Longrightarrow> str_of_int i = str_of_int j \<longleftrightarrow> i = j"
  by (metis int_of_str_of_int sum.inject(2))

text \<open>The white space of \<open>str.strip\<close> below U+0100, and \<open>strip\<close> itself.\<close>

definition py_space :: "char \<Rightarrow> bool" where
  "py_space c \<longleftrightarrow> c \<in> {CHR 0x09, CHR 0x0A, CHR 0x0B, CHR 0x0C, CHR 0x0D, CHR 0x1C, CHR 0x1D, CHR 0x1E, CHR 0x1F, CHR '' '',
     CHR 0x85, CHR 0xA0}"

definition py_strip :: "string \<Rightarrow> string" where
  "py_strip s = rev (dropWhile py_space (rev (dropWhile py_space s)))"

text \<open>\<open>splitlines\<close>: the line boundaries below U+0100, with \<open>\r\n\<close> as one.\<close>

definition line_break :: "char \<Rightarrow> bool" where
  "line_break c \<longleftrightarrow> c \<in> {CHR 0x0A, CHR 0x0B, CHR 0x0C, CHR 0x0D, CHR 0x1C, CHR 0x1D, CHR 0x1E, CHR 0x85}"

fun split_from :: "string \<Rightarrow> string \<Rightarrow> string list" where
  "split_from acc [] = (if acc = [] then [] else [rev acc])"
| "split_from acc (c # d # cs) =
     (if c = CHR 0x0D \<and> d = CHR 0x0A then rev acc # split_from [] cs
      else if line_break c then rev acc # split_from [] (d # cs)
      else split_from (c # acc) (d # cs))"
| "split_from acc [c] = (if line_break c then [rev acc] else [rev (c # acc)])"

definition splitlines :: "string \<Rightarrow> string list" where
  "splitlines s = split_from [] s"

lemma split_from_clean:
  "list_all (\<lambda>c. \<not> line_break c) l \<Longrightarrow>
   split_from acc (l @ CHR 0x0A # rest) = (rev acc @ l) # split_from [] rest"
proof (induction l arbitrary: acc)
  case Nil
  then show ?case by (cases rest) (auto simp: line_break_def)
next
  case (Cons c l)
  then show ?case by (cases l) (auto simp: line_break_def)
qed

text \<open>Joining lines with a newline after each and splitting again is the identity.\<close>

lemma splitlines_unlines:
  "list_all (list_all (\<lambda>c. \<not> line_break c)) ls \<Longrightarrow>
   splitlines (concat (map (\<lambda>l. l @ [CHR 0x0A]) ls)) = ls"
proof (induction ls)
  case Nil
  then show ?case by (simp add: splitlines_def)
next
  case (Cons l ls)
  then show ?case
    by (simp add: splitlines_def split_from_clean)
qed

text \<open>ASCII \<open>lower\<close>.\<close>

definition lower_char :: "char \<Rightarrow> char" where
  "lower_char c = (if CHR ''A'' \<le> c \<and> c \<le> CHR ''Z'' then char_of (of_char c + 32 :: nat) else c)"

definition lower :: "string \<Rightarrow> string" where
  "lower s = map lower_char s"

end
