(* ===== verification/Sha256.thy ===== *)
theory Sha256
  imports Py_Regex "HOL-Library.Word"
begin

text \<open>
  \<open>hashlib.sha256\<close> and \<open>hashlib.file_digest(stream, "sha256")\<close>: the SHA-256 of FIPS 180-4 on bytes,
  with the hexadecimal digest every tool compares. The locale \<open>content_digest\<close> is what the other
  components rely on: a digest is 64 lowercase hexadecimal characters, the shape of the pattern the
  tools check pins against.
\<close>

unbundle bit_operations_syntax

type_synonym u8 = "8 word"
type_synonym u32 = "32 word"
type_synonym bytes = "u8 list"

section \<open>The compression function\<close>

text \<open>
  The constants are the first 32 bits of the fractional parts of the cube roots of the first 64 primes,
  and of the square roots of the first 8: \<open>root_search k n i r\<close> finds the integer k-th root of \<open>n\<close>
  bit by bit below \<open>2 ^ i\<close>.
\<close>

fun root_search :: "nat \<Rightarrow> int \<Rightarrow> nat \<Rightarrow> int \<Rightarrow> int" where
  "root_search k n 0 r = r"
| "root_search k n (Suc i) r = root_search k n i (if (r + 2 ^ i) ^ k \<le> n then r + 2 ^ i else r)"

lemma root_search_numeral:
  "root_search k n (numeral i) r =
     root_search k n (pred_numeral i) (if (r + 2 ^ pred_numeral i) ^ k \<le> n then r + 2 ^ pred_numeral i else r)"
  by (simp add: numeral_eq_Suc)

definition fraction_bits :: "nat \<Rightarrow> nat \<Rightarrow> u32" where
  "fraction_bits k p = word_of_int (root_search k (int p * 2 ^ (32 * k)) 37 0)"

definition primes_below :: "nat \<Rightarrow> nat list" where
  "primes_below n = filter (\<lambda>p. list_all (\<lambda>d. p mod d \<noteq> 0) [2..<p]) [2..<n]"

definition round_constants :: "u32 list" where
  "round_constants = map (fraction_bits 3) (primes_below 312)"

type_synonym hash_state = "u32 \<times> u32 \<times> u32 \<times> u32 \<times> u32 \<times> u32 \<times> u32 \<times> u32"

definition initial_state :: hash_state where
  "initial_state =
    (fraction_bits 2 2, fraction_bits 2 3, fraction_bits 2 5, fraction_bits 2 7,
     fraction_bits 2 11, fraction_bits 2 13, fraction_bits 2 17, fraction_bits 2 19)"

text \<open>The first and last entries of the published tables.\<close>

lemma published_constants:
  "fraction_bits 3 2 = 0x428a2f98" "fraction_bits 3 311 = 0xc67178f2"
  "fraction_bits 2 2 = 0x6a09e667" "fraction_bits 2 19 = 0x5be0cd19"
  by (simp_all add: fraction_bits_def root_search_numeral)

definition rotr :: "nat \<Rightarrow> u32 \<Rightarrow> u32" where
  "rotr n x = drop_bit n x OR push_bit (32 - n) x"

definition small_sigma0 :: "u32 \<Rightarrow> u32" where
  "small_sigma0 x = rotr 7 x XOR rotr 18 x XOR drop_bit 3 x"

definition small_sigma1 :: "u32 \<Rightarrow> u32" where
  "small_sigma1 x = rotr 17 x XOR rotr 19 x XOR drop_bit 10 x"

definition big_sigma0 :: "u32 \<Rightarrow> u32" where
  "big_sigma0 x = rotr 2 x XOR rotr 13 x XOR rotr 22 x"

definition big_sigma1 :: "u32 \<Rightarrow> u32" where
  "big_sigma1 x = rotr 6 x XOR rotr 11 x XOR rotr 25 x"

definition choose_bits :: "u32 \<Rightarrow> u32 \<Rightarrow> u32 \<Rightarrow> u32" where
  "choose_bits e f g = (e AND f) XOR (NOT e AND g)"

definition majority :: "u32 \<Rightarrow> u32 \<Rightarrow> u32 \<Rightarrow> u32" where
  "majority a b c = (a AND b) XOR (a AND c) XOR (b AND c)"

text \<open>The message schedule, kept with its newest word first.\<close>

definition schedule_step :: "u32 list \<Rightarrow> u32 list" where
  "schedule_step r = (small_sigma1 (r ! 1) + r ! 6 + small_sigma0 (r ! 14) + r ! 15) # r"

definition schedule :: "u32 list \<Rightarrow> u32 list" where
  "schedule block = rev (fold (\<lambda>_. schedule_step) [16..<64] (rev block))"

fun compress_round :: "hash_state \<Rightarrow> u32 \<times> u32 \<Rightarrow> hash_state" where
  "compress_round (a, b, c, d, e, f, g, h) (k, w) =
     (let t1 = h + big_sigma1 e + choose_bits e f g + k + w;
          t2 = big_sigma0 a + majority a b c
      in (t1 + t2, a, b, c, d + t1, e, f, g))"

fun add_state :: "hash_state \<Rightarrow> hash_state \<Rightarrow> hash_state" where
  "add_state (a, b, c, d, e, f, g, h) (a', b', c', d', e', f', g', h') =
     (a + a', b + b', c + c', d + d', e + e', f + f', g + g', h + h')"

definition compress :: "hash_state \<Rightarrow> u32 list \<Rightarrow> hash_state" where
  "compress s block = add_state s (foldl compress_round s (zip round_constants (schedule block)))"

section \<open>Padding and the digest\<close>

fun word_of_bytes :: "bytes \<Rightarrow> u32 list" where
  "word_of_bytes (a # b # c # d # bs) =
     (push_bit 24 (ucast a) OR push_bit 16 (ucast b) OR push_bit 8 (ucast c) OR ucast d) # word_of_bytes bs"
| "word_of_bytes bs = []"

definition big_endian64 :: "nat \<Rightarrow> bytes" where
  "big_endian64 n = map (\<lambda>i. ucast (drop_bit i (word_of_nat n :: 64 word))) [56, 48, 40, 32, 24, 16, 8, 0]"

definition padded :: "bytes \<Rightarrow> bytes" where
  "padded msg = msg @ [0x80] @ replicate ((119 - length msg mod 64) mod 64) 0 @ big_endian64 (8 * length msg)"

function absorb :: "hash_state \<Rightarrow> u32 list \<Rightarrow> hash_state" where
  "absorb s ws = (if ws = [] then s else absorb (compress s (take 16 ws)) (drop 16 ws))"
  by pat_completeness auto
termination
  by (relation "measure (\<lambda>(s, ws). length ws)") auto

declare absorb.simps [simp del]

definition hex_digit :: "nat \<Rightarrow> char" where
  "hex_digit n = ''0123456789abcdef'' ! (n mod 16)"

definition hex_word :: "u32 \<Rightarrow> string" where
  "hex_word w = map (\<lambda>i. hex_digit (unat (drop_bit i w))) [28, 24, 20, 16, 12, 8, 4, 0]"

fun hex_state :: "hash_state \<Rightarrow> string" where
  "hex_state (a, b, c, d, e, f, g, h) =
     hex_word a @ hex_word b @ hex_word c @ hex_word d @ hex_word e @ hex_word f @ hex_word g @ hex_word h"

definition sha256_hex :: "bytes \<Rightarrow> string" where
  "sha256_hex msg = hex_state (absorb initial_state (word_of_bytes (padded msg)))"

section \<open>The shape of a digest\<close>

definition HEX64 :: rx where
  "HEX64 = Rep (Cls [(CHR ''a'', CHR ''f''), (CHR ''0'', CHR ''9'')]) 64 64"

definition is_hex :: "char \<Rightarrow> bool" where
  "is_hex c \<longleftrightarrow> in_cls [(CHR ''a'', CHR ''f''), (CHR ''0'', CHR ''9'')] c"

lemma HEX64_iff: "rmatch HEX64 s \<longleftrightarrow> length s = 64 \<and> list_all is_hex s"
proof -
  have "in_cls [(CHR ''a'', CHR ''f''), (CHR ''0'', CHR ''9'')] = is_hex"
    by (rule ext) (simp add: is_hex_def)
  then show ?thesis by (auto simp: HEX64_def rmatch_rep_cls)
qed

lemma hex_digit_is_hex: "is_hex (hex_digit n)"
proof -
  have "list_all is_hex ''0123456789abcdef''" by (simp add: is_hex_def in_cls_def)
  moreover have "hex_digit n \<in> set ''0123456789abcdef''"
    unfolding hex_digit_def by (rule nth_mem) simp
  ultimately show ?thesis unfolding list_all_iff by blast
qed

text \<open>The padded message is a whole number of 64-byte blocks.\<close>

lemma padded_blocks: "length (padded msg) mod 64 = 0"
proof -
  define r where "r = length msg mod 64"
  have r: "r < 64" by (simp add: r_def)
  have "(r + 9 + (119 - r) mod 64) mod 64 = 0"
  proof (cases "r \<le> 55")
    case True
    then obtain k where k: "r + k = 55" using le_Suc_ex by metis
    then have "119 - r = 64 + k" and "k < 64" by simp_all
    then have "(119 - r) mod 64 = k" by simp
    moreover from k have "r + 9 + k = 64" by simp
    ultimately show ?thesis by (simp only: mod_self)
  next
    case False
    with r obtain k where k: "r + k = 119" "k < 64" using le_Suc_ex [of r 119] by auto
    then have "119 - r = k" by simp
    with k have "(119 - r) mod 64 = k" by simp
    moreover from k have "r + 9 + k = 2 * 64" by simp
    ultimately show ?thesis by (simp only: mod_mult_self2_is_0)
  qed
  moreover have "length (padded msg) = length msg + (9 + (119 - r) mod 64)"
    by (simp add: padded_def big_endian64_def r_def)
  ultimately show ?thesis by (metis add.assoc mod_add_left_eq r_def)
qed

locale content_digest =
  fixes digest :: "bytes \<Rightarrow> string"
  assumes digest_pattern: "rmatch HEX64 (digest b)"
begin

lemma digest_length: "length (digest b) = 64"
  using digest_pattern by (simp add: HEX64_iff)

lemma digest_chars: "list_all is_hex (digest b)"
  using digest_pattern by (simp add: HEX64_iff)

lemma digest_nonempty: "digest b \<noteq> []"
  using digest_length [of b] by auto

end

interpretation sha: content_digest sha256_hex
proof
  fix b
  have "length (hex_state s) = 64 \<and> list_all is_hex (hex_state s)" for s
    by (cases s rule: hex_state.cases) (simp add: hex_word_def hex_digit_is_hex)
  then show "rmatch HEX64 (sha256_hex b)" by (simp add: HEX64_iff sha256_hex_def)
qed

end
