(* ===== verification/Bundle_Files.thy ===== *)
theory Bundle_Files
  imports Py_Json Sha256
begin

text \<open>
  The flat directories the tools read release assets from, and the reader each tool defines over
  them. A directory maps names to entries; an entry has what \<open>lstat\<close> reports (file type, permission
  bits, link count, owner) and the bytes. A symbolic link is an entry of its own type: every reader
  refuses it before following it. A name that is absent makes \<open>is_file\<close> false and \<open>lstat\<close> raise.
\<close>

unbundle bit_operations_syntax

datatype file_type = Regular | Directory | Symlink | Special

record file_entry =
  ftype :: file_type
  perm :: int
  nlink :: int
  owner :: int
  content :: bytes

record directory =
  dir_perm :: int
  entries :: "(string \<times> file_entry) list"

definition lookup_file :: "directory \<Rightarrow> string \<Rightarrow> file_entry option" where
  "lookup_file d n = map_of (entries d) n"

definition file_bytes :: "file_entry \<Rightarrow> int" where
  "file_bytes e = int (length (content e))"

text \<open>\<open>lstat\<close>, and the test \<open>not path.is_symlink() and path.is_file()\<close>.\<close>

definition lstat :: "directory \<Rightarrow> string \<Rightarrow> file_entry res" where
  "lstat d n = (case lookup_file d n of None \<Rightarrow> Inl OSError | Some e \<Rightarrow> Inr e)"

definition plain_file :: "directory \<Rightarrow> string \<Rightarrow> file_entry option" where
  "plain_file d n = (case lookup_file d n of
     None \<Rightarrow> None | Some e \<Rightarrow> if ftype e = Regular then Some e else None)"

lemma plain_file_iff: "plain_file d n = Some e \<longleftrightarrow> lookup_file d n = Some e \<and> ftype e = Regular"
  by (auto simp: plain_file_def split: option.splits)

text \<open>
  Text of a file: ASCII bytes are their characters. A byte above 127 is refused; \<open>read_text('ascii')\<close>
  does the same, the default decoder would hand it to a pattern that no such character matches.
\<close>

definition decode_ascii :: "bytes \<Rightarrow> string res" where
  "decode_ascii bs = (if list_all (\<lambda>b. b < 128) bs then Inr (map (\<lambda>b. char_of (unat b)) bs)
                      else Inl (ValueError ''text is not ASCII''))"

definition encode_ascii :: "string \<Rightarrow> bytes" where
  "encode_ascii s = map (\<lambda>c. word_of_nat (of_char c)) s"

definition is_ascii :: "string \<Rightarrow> bool" where
  "is_ascii s \<longleftrightarrow> list_all (\<lambda>c. of_char c < (128 :: nat)) s"

lemma decode_encode_ascii:
  assumes "is_ascii s"
  shows "decode_ascii (encode_ascii s) = Inr s"
proof -
  have "(word_of_nat (of_char c) :: u8) < 128 \<and> char_of (unat (word_of_nat (of_char c) :: u8)) = c"
    if "of_char c < (128 :: nat)" for c :: char
    using that by (simp add: word_less_nat_alt unat_of_nat)
  with assms show ?thesis
    by (auto simp: decode_ascii_def encode_ascii_def is_ascii_def list_all_iff intro!: map_idI)
qed

section \<open>Readers\<close>

text \<open>\<open>NAME\<close>, the asset-name pattern the tools share: it has no slash and no leading dot.\<close>

definition alnum :: char_class where
  "alnum = [(CHR ''A'', CHR ''Z''), (CHR ''a'', CHR ''z''), (CHR ''0'', CHR ''9'')]"

definition NAME :: rx where
  "NAME = Seq (Cls alnum) (Rep (Cls (alnum @ [(CHR ''_'', CHR ''_''), (CHR ''.'', CHR ''.''), (CHR ''-'', CHR ''-'')])) 0 159)"

definition name_char :: "char \<Rightarrow> bool" where
  "name_char c \<longleftrightarrow> in_cls (alnum @ [(CHR ''_'', CHR ''_''), (CHR ''.'', CHR ''.''), (CHR ''-'', CHR ''-'')]) c"

lemma NAME_iff:
  "rmatch NAME s \<longleftrightarrow>
     (case s of [] \<Rightarrow> False | c # cs \<Rightarrow> in_cls alnum c \<and> length cs \<le> 159 \<and> list_all name_char cs)"
proof -
  have "in_cls (alnum @ [(CHR ''_'', CHR ''_''), (CHR ''.'', CHR ''.''), (CHR ''-'', CHR ''-'')]) = name_char"
    by (rule ext) (simp add: name_char_def)
  then show ?thesis by (simp only: NAME_def rmatch_name_shape)
qed

lemma alnum_name_char: "in_cls alnum c \<Longrightarrow> name_char c"
  by (auto simp: name_char_def in_cls_def)

lemma NAME_chars: "rmatch NAME s \<Longrightarrow> list_all name_char s"
  by (auto simp: NAME_iff alnum_name_char split: list.splits)

lemma NAME_no_slash: "rmatch NAME s \<Longrightarrow> CHR ''/'' \<notin> set s"
proof -
  have "\<not> name_char (CHR ''/'')" by (simp add: name_char_def in_cls_def alnum_def)
  then show "rmatch NAME s \<Longrightarrow> CHR ''/'' \<notin> set s" by (auto dest!: NAME_chars simp: list_all_iff)
qed

text \<open>\<open>sha\<close> and \<open>asset\<close> of the compact bundle tool.\<close>

definition compact_sha :: "directory \<Rightarrow> string \<Rightarrow> string res" where
  "compact_sha dir n =
     (case plain_file dir n of
        None \<Rightarrow> Inl (ValueError ''Independent regular compact release asset required'')
      | Some e \<Rightarrow> if nlink e \<noteq> 1 then Inl (ValueError ''Independent regular compact release asset required'')
                  else Inr (sha256_hex (content e)))"

definition compact_asset :: "directory \<Rightarrow> json \<Rightarrow> int \<Rightarrow> string res" where
  "compact_asset dir name maximum =
     bnd (refuse [Inr (\<not> is_str name), not_res (fullmatch NAME name)] ''Safe compact release asset name required'') (\<lambda>_.
     bnd (as_str name) (\<lambda>n.
     bnd (compact_sha dir n) (\<lambda>_.
     bnd (lstat dir n) (\<lambda>e.
     if 0 < file_bytes e \<and> file_bytes e \<le> maximum then Inr n
     else Inl (ValueError ''Bounded nonempty compact release asset required'')))))"

text \<open>
  \<open>asset\<close> of the package catalog: the name is checked, then the file is hashed. Tools that compare
  digests with constants of the repository take the hash as an argument, so that statements about them
  can be applied to files that are not part of the model; they run with \<open>sha256_hex\<close>.
\<close>

type_synonym hash_fun = "bytes \<Rightarrow> string"

definition catalog_asset :: "hash_fun \<Rightarrow> directory \<Rightarrow> json \<Rightarrow> (string \<times> string) res" where
  "catalog_asset hash dir name =
     bnd (refuse [Inr (\<not> is_str name), not_res (fullmatch NAME name)] ''Unsafe release asset name'') (\<lambda>_.
     bnd (as_str name) (\<lambda>n.
     case plain_file dir n of
       None \<Rightarrow> Inl (ValueError ''Regular release asset required'')
     | Some e \<Rightarrow> Inr (n, hash (content e))))"

text \<open>\<open>regular\<close> of the transport builder: the file and its permission bits are checked through \<open>lstat\<close>.\<close>

definition transport_regular :: "directory \<Rightarrow> string \<Rightarrow> int \<Rightarrow> file_entry res" where
  "transport_regular dir n maximum =
     bnd (lstat dir n) (\<lambda>info.
     if ftype info \<noteq> Regular \<or> nlink info \<noteq> 1 \<or> perm info AND 18 \<noteq> 0 \<or>
        \<not> (0 < file_bytes info \<and> file_bytes info \<le> maximum)
     then Inl (ValueError ''Independent bounded protected public file required'') else Inr info)"

lemma compact_sha_iff [ok_iff]:
  "compact_sha dir n = Inr h \<longleftrightarrow>
     (\<exists>e. lookup_file dir n = Some e \<and> ftype e = Regular \<and> nlink e = 1 \<and> h = sha256_hex (content e))"
  by (auto simp: compact_sha_def plain_file_def split: option.splits)

lemma compact_asset_iff [ok_iff]:
  "compact_asset dir v maximum = Inr n \<longleftrightarrow>
     v = JStr n \<and> rmatch NAME n \<and>
     (\<exists>e. lookup_file dir n = Some e \<and> ftype e = Regular \<and> nlink e = 1 \<and>
          0 < file_bytes e \<and> file_bytes e \<le> maximum)"
  by (cases v) (auto simp: ok_iff compact_asset_def compact_sha_def plain_file_def lstat_def split: option.splits)

lemma catalog_asset_iff [ok_iff]:
  "catalog_asset hash dir v = Inr (n, h) \<longleftrightarrow>
     v = JStr n \<and> rmatch NAME n \<and>
     (\<exists>e. lookup_file dir n = Some e \<and> ftype e = Regular \<and> h = hash (content e))"
  by (cases v) (auto simp: ok_iff catalog_asset_def plain_file_def split: option.splits)

lemma transport_regular_iff [ok_iff]:
  "transport_regular dir n maximum = Inr e \<longleftrightarrow>
     lookup_file dir n = Some e \<and> ftype e = Regular \<and> nlink e = 1 \<and> perm e AND 18 = 0 \<and>
     0 < file_bytes e \<and> file_bytes e \<le> maximum"
  by (auto simp: transport_regular_def lstat_def split: option.splits)

end
