(* ===== verification/Release_Manifest.thy ===== *)
theory Release_Manifest
  imports Bundle_Files
begin

text \<open>
  The \<open>SHA256SUMS\<close> manifest: how the compact bundle tool and the bundle assembler write it, and how
  \<open>compact-install-bundle.py\<close> (\<open>manifest\<close>) and \<open>verify-install-bundle.py\<close> read it back against the
  files of the directory. The dict of entries is kept as the list of its items in insertion order.
\<close>

section \<open>Lines\<close>

definition LINE :: rx where
  "LINE = Seq HEX64 (Seq (lit ''  '') NAME)"

text \<open>The two groups of the pattern; \<open>None\<close> when the line does not match.\<close>

definition match_line :: "string \<Rightarrow> (string \<times> string) option" where
  "match_line l = (if rmatch LINE l then Some (take 64 l, drop 66 l) else None)"

definition render_line :: "string \<times> string \<Rightarrow> string" where
  "render_line row = fst row @ ''  '' @ snd row"

definition valid_row :: "string \<times> string \<Rightarrow> bool" where
  "valid_row row \<longleftrightarrow> rmatch HEX64 (fst row) \<and> rmatch NAME (snd row)"

lemma match_line_iff:
  "match_line l = Some (h, n) \<longleftrightarrow> l = h @ ''  '' @ n \<and> rmatch HEX64 h \<and> rmatch NAME n"
proof
  assume "match_line l = Some (h, n)"
  then have "rmatch LINE l" and hn: "h = take 64 l" "n = drop 66 l"
    by (auto simp: match_line_def split: if_splits)
  then obtain h' v n' where "l = h' @ v" "rmatch HEX64 h'" "v = ''  '' @ n'" "rmatch NAME n'"
    by (auto simp: LINE_def rmatch_seq_iff rmatch_lit_seq simp del: lit.simps)
  moreover from this have "length h' = 64" by (simp add: HEX64_iff)
  ultimately show "l = h @ ''  '' @ n \<and> rmatch HEX64 h \<and> rmatch NAME n"
    using hn by simp
next
  assume l: "l = h @ ''  '' @ n \<and> rmatch HEX64 h \<and> rmatch NAME n"
  then have "rmatch LINE l"
    unfolding LINE_def rmatch_seq_iff [of HEX64] rmatch_lit_seq by blast
  moreover from l have "length h = 64" by (simp add: HEX64_iff)
  ultimately show "match_line l = Some (h, n)" using l by (simp add: match_line_def)
qed

text \<open>
  A text of lines, each a value rendered and ended by a newline, is read back line by line.
\<close>

locale line_format =
  fixes render :: "'a \<Rightarrow> string"
    and parse :: "string \<Rightarrow> 'a option"
    and valid :: "'a \<Rightarrow> bool"
  assumes parse_render: "valid x \<Longrightarrow> parse (render x) = Some x"
    and one_line: "valid x \<Longrightarrow> list_all (\<lambda>c. \<not> line_break c) (render x)"
begin

definition print_lines :: "'a list \<Rightarrow> string" where
  "print_lines xs = concat (map (\<lambda>l. l @ [CHR 0x0A]) (map render xs))"

lemma splitlines_print: "list_all valid xs \<Longrightarrow> splitlines (print_lines xs) = map render xs"
  unfolding print_lines_def
  by (rule splitlines_unlines) (auto simp: list_all_iff dest: one_line [unfolded list_all_iff])

lemma parse_print: "list_all valid xs \<Longrightarrow> map parse (splitlines (print_lines xs)) = map Some xs"
  by (simp add: splitlines_print parse_render list_all_iff)

lemma render_inject: "valid x \<Longrightarrow> valid y \<Longrightarrow> render x = render y \<longleftrightarrow> x = y"
  by (metis option.inject parse_render)

end

lemma name_char_no_break: "name_char c \<Longrightarrow> \<not> line_break c \<and> of_char c < (128 :: nat)"
proof -
  assume "name_char c"
  then have "CHR ''-'' \<le> c \<and> c \<le> CHR ''z''"
    by (auto simp: name_char_def alnum_def in_cls_def less_eq_char_def)
  then show ?thesis by (auto simp: line_break_def less_eq_char_def)
qed

lemma hex_name_char: "is_hex c \<Longrightarrow> name_char c"
  by (auto simp: is_hex_def name_char_def in_cls_def alnum_def less_eq_char_def)

lemma render_chars:
  "valid_row row \<Longrightarrow> list_all (\<lambda>c. name_char c \<or> c = CHR '' '') (render_line row)"
  by (auto simp: valid_row_def render_line_def HEX64_iff list_all_iff hex_name_char
      dest!: NAME_chars)

interpretation sums: line_format render_line match_line valid_row
proof
  fix row :: "string \<times> string"
  assume v: "valid_row row"
  then show "match_line (render_line row) = Some row"
    by (cases row) (simp add: match_line_iff render_line_def valid_row_def)
  have "\<not> line_break (CHR '' '')" by (simp add: line_break_def)
  with render_chars [OF v] show "list_all (\<lambda>c. \<not> line_break c) (render_line row)"
    by (auto simp: list_all_iff dest!: name_char_no_break)
qed

section \<open>Writing a manifest\<close>

text \<open>\<open>''.join(sha(path) + '  ' + path.name + '\n' for path in sorted(prepared.iterdir()))\<close>.\<close>

definition manifest_text :: "(string \<times> string) list \<Rightarrow> string" where
  "manifest_text rows = concat (map (\<lambda>(h, n). h @ ''  '' @ n @ [CHR 0x0A]) rows)"

definition new_file :: "bytes \<Rightarrow> file_entry" where
  "new_file b = \<lparr>ftype = Regular, perm = 420, nlink = 1, owner = 0, content = b\<rparr>"

definition manifest_rows :: "directory \<Rightarrow> (string \<times> string) list res" where
  "manifest_rows prepared =
     map_res (\<lambda>n. lift_res (\<lambda>h. (h, n)) (compact_sha prepared n)) (sort (map fst (entries prepared)))"

definition write_manifest :: "directory \<Rightarrow> (directory \<times> string) res" where
  "write_manifest prepared =
     bnd (manifest_rows prepared) (\<lambda>rows.
     let text = encode_ascii (manifest_text rows)
     in Inr (prepared\<lparr>entries := (''SHA256SUMS'', new_file text) # entries prepared\<rparr>, sha256_hex text))"

lemma manifest_text_print: "manifest_text rows = sums.print_lines rows"
  unfolding manifest_text_def sums.print_lines_def
  by (induction rows) (auto simp: render_line_def)

lemma manifest_text_ascii: "list_all valid_row rows \<Longrightarrow> is_ascii (manifest_text rows)"
proof (induction rows)
  case Nil
  then show ?case by (simp add: manifest_text_def is_ascii_def)
next
  case (Cons row rows)
  have "list_all (\<lambda>c. name_char c \<or> c = CHR '' '') (render_line row)"
    using Cons.prems by (intro render_chars) simp
  then have "is_ascii (render_line row)"
    unfolding is_ascii_def by (rule list.pred_mono_strong) (auto dest: name_char_no_break)
  moreover have "is_ascii (manifest_text rows)" using Cons by simp
  moreover have "manifest_text (row # rows) = render_line row @ [CHR 0x0A] @ manifest_text rows"
    by (cases row) (simp add: manifest_text_def render_line_def)
  ultimately show ?case by (simp add: is_ascii_def)
qed

lemma manifest_text_length:
  "list_all valid_row rows \<Longrightarrow> length (manifest_text rows) \<le> 227 * length rows"
proof (induction rows)
  case (Cons row rows)
  then have "length (fst row) = 64" and "length (snd row) \<le> 160"
    by (auto simp: valid_row_def HEX64_iff NAME_iff split: list.splits)
  with Cons show ?case by (cases row) (auto simp: manifest_text_def)
qed (simp add: manifest_text_def)

section \<open>Reading it back: the compact tool\<close>

definition manifest_line :: "directory \<Rightarrow> string \<Rightarrow> (string \<times> string) list \<Rightarrow> (string \<times> string) list res" where
  "manifest_line dir line result =
     (case match_line line of
        None \<Rightarrow> Inl (ValueError ''Exact unique compact manifest entries required'')
      | Some (h, n) \<Rightarrow>
          if n \<in> fst ` set result \<or> n = ''SHA256SUMS''
          then Inl (ValueError ''Exact unique compact manifest entries required'')
          else bnd (compact_asset dir (JStr n) 536870912) (\<lambda>p.
               bnd (compact_sha dir p) (\<lambda>d.
               if d \<noteq> h then Inl (ValueError ''Compact manifest asset differs'')
               else Inr (result @ [(n, h)]))))"

definition compact_manifest :: "directory \<Rightarrow> string \<Rightarrow> (string \<times> string) list res" where
  "compact_manifest dir expected =
     bnd (compact_asset dir (JStr ''SHA256SUMS'') 1048576) (\<lambda>path.
     bnd (refuse [Inr (\<not> rmatch HEX64 expected), lift_res (\<lambda>h. h \<noteq> expected) (compact_sha dir path)]
            ''Independent compact manifest anchor differs'') (\<lambda>_.
     bnd (lstat dir path) (\<lambda>e.
     bnd (decode_ascii (content e)) (\<lambda>text.
     bnd (fold_res (manifest_line dir) (splitlines text) []) (\<lambda>result.
     if result = [] \<or> 4096 < length result
     then Inl (ValueError ''Bounded compact manifest required'') else Inr result)))))"

text \<open>An asset that matches its manifest row: regular, one link, bounded, with that digest.\<close>

definition manifest_asset_ok :: "directory \<Rightarrow> string \<times> string \<Rightarrow> bool" where
  "manifest_asset_ok dir row =
     (rmatch NAME (fst row) \<and>
      (case lookup_file dir (fst row) of
         None \<Rightarrow> False
       | Some e \<Rightarrow> ftype e = Regular \<and> nlink e = 1 \<and> 0 < file_bytes e \<and> file_bytes e \<le> 536870912 \<and>
                   sha256_hex (content e) = snd row))"

definition line_admitted :: "directory \<Rightarrow> string \<Rightarrow> bool" where
  "line_admitted dir line =
     (case match_line line of
        None \<Rightarrow> False | Some (h, n) \<Rightarrow> n \<noteq> ''SHA256SUMS'' \<and> manifest_asset_ok dir (n, h))"

definition line_row :: "string \<Rightarrow> string \<times> string" where
  "line_row line = (case match_line line of None \<Rightarrow> ([], []) | Some (h, n) \<Rightarrow> (n, h))"

interpretation compact_rows: unique_loop fst line_row "manifest_line dir" "line_admitted dir" for dir
proof
  fix line seen seen'
  show "manifest_line dir line seen = Inr seen' \<longleftrightarrow>
      line_admitted dir line \<and> fst (line_row line) \<notin> fst ` set seen \<and> seen' = seen @ [line_row line]"
    by (auto simp: manifest_line_def line_admitted_def line_row_def manifest_asset_ok_def ok_iff
        match_line_iff split: option.splits prod.splits)
qed

lemma compact_manifest_iff:
  "compact_manifest dir expected = Inr rows \<longleftrightarrow>
     (\<exists>e text. lookup_file dir ''SHA256SUMS'' = Some e \<and> ftype e = Regular \<and> nlink e = 1 \<and>
        0 < file_bytes e \<and> file_bytes e \<le> 1048576 \<and> sha256_hex (content e) = expected \<and>
        decode_ascii (content e) = Inr text \<and>
        list_all (line_admitted dir) (splitlines text) \<and>
        rows = map line_row (splitlines text) \<and> distinct (map fst rows) \<and>
        rows \<noteq> [] \<and> length rows \<le> 4096)"
proof -
  have "rmatch NAME ''SHA256SUMS''" by (simp add: NAME_iff name_char_def in_cls_def alnum_def)
  then show ?thesis
    by (auto simp: compact_manifest_def ok_iff lstat_def compact_rows.run_iff sha.digest_pattern
        split: if_splits option.splits)
qed

section \<open>Reading it back: the legacy recheck\<close>

definition recheck_line :: "directory \<Rightarrow> string \<Rightarrow> (string \<times> string) list \<Rightarrow> (string \<times> string) list res" where
  "recheck_line dir line es =
     (case match_line line of
        None \<Rightarrow> Inl (ValueError ''Invalid release manifest entry'')
      | Some (h, n) \<Rightarrow>
          if n \<in> fst ` set es \<or> n = ''SHA256SUMS''
          then Inl (ValueError ''Invalid release manifest entry'')
          else bnd (catalog_asset sha256_hex dir (JStr n)) (\<lambda>(path, actual).
               if actual \<noteq> h then Inl (ValueError ''Release asset digest differs'')
               else Inr (es @ [(n, actual)])))"

definition recheck_manifest :: "directory \<Rightarrow> string \<Rightarrow> (string \<times> string) list res" where
  "recheck_manifest dir expected =
     bnd (catalog_asset sha256_hex dir (JStr ''SHA256SUMS'')) (\<lambda>(path, digest).
     bnd (refuse [Inr (\<not> rmatch HEX64 expected), Inr (digest \<noteq> expected)]
            ''Independent manifest anchor differs'') (\<lambda>_.
     bnd (lstat dir path) (\<lambda>e.
     if 1048576 < file_bytes e then Inl (ValueError ''Bounded release manifest required'')
     else bnd (decode_ascii (content e)) (\<lambda>text.
          bnd (fold_res (recheck_line dir) (splitlines text) []) (\<lambda>es.
          if es = [] \<or> 4096 < length es
          then Inl (ValueError ''Bounded complete release manifest required'') else Inr es)))))"

definition recheck_admitted :: "directory \<Rightarrow> string \<Rightarrow> bool" where
  "recheck_admitted dir line =
     (case match_line line of
        None \<Rightarrow> False
      | Some (h, n) \<Rightarrow> n \<noteq> ''SHA256SUMS'' \<and>
          (case lookup_file dir n of
             None \<Rightarrow> False | Some e \<Rightarrow> ftype e = Regular \<and> sha256_hex (content e) = h))"

interpretation recheck_rows: unique_loop fst line_row "recheck_line dir" "recheck_admitted dir" for dir
proof
  fix line seen seen'
  show "recheck_line dir line seen = Inr seen' \<longleftrightarrow>
      recheck_admitted dir line \<and> fst (line_row line) \<notin> fst ` set seen \<and> seen' = seen @ [line_row line]"
    by (auto simp: recheck_line_def recheck_admitted_def line_row_def ok_iff
        match_line_iff split: option.splits prod.splits)
qed

lemma SHA256SUMS_name: "rmatch NAME ''SHA256SUMS''"
  by (simp add: NAME_iff name_char_def in_cls_def alnum_def)

lemma recheck_manifest_iff:
  "recheck_manifest dir expected = Inr rows \<longleftrightarrow>
     (\<exists>e text. lookup_file dir ''SHA256SUMS'' = Some e \<and> ftype e = Regular \<and>
        file_bytes e \<le> 1048576 \<and> sha256_hex (content e) = expected \<and>
        decode_ascii (content e) = Inr text \<and>
        list_all (recheck_admitted dir) (splitlines text) \<and>
        rows = map line_row (splitlines text) \<and> distinct (map fst rows) \<and>
        rows \<noteq> [] \<and> length rows \<le> 4096)"
  using SHA256SUMS_name
  by (auto simp: recheck_manifest_def ok_iff lstat_def recheck_rows.run_iff sha.digest_pattern
      split: option.splits)

section \<open>What a manifest guarantees\<close>

lemma line_row_admitted: "line_admitted dir line \<Longrightarrow> manifest_asset_ok dir (line_row line)"
  by (auto simp: line_admitted_def line_row_def split: option.splits prod.splits)

lemma line_row_not_sums: "line_admitted dir line \<Longrightarrow> fst (line_row line) \<noteq> ''SHA256SUMS''"
  by (auto simp: line_admitted_def line_row_def split: option.splits prod.splits)

text \<open>
  A directory whose files the assembler may hand over: distinct admissible names other than the
  manifest's own, each a regular single-link file within the size bound.
\<close>

definition bundle_entry_ok :: "string \<times> file_entry \<Rightarrow> bool" where
  "bundle_entry_ok ne \<longleftrightarrow>
     rmatch NAME (fst ne) \<and> fst ne \<noteq> ''SHA256SUMS'' \<and> ftype (snd ne) = Regular \<and>
     nlink (snd ne) = 1 \<and> 0 < file_bytes (snd ne) \<and> file_bytes (snd ne) \<le> 536870912"

definition prepared_bundle :: "directory \<Rightarrow> bool" where
  "prepared_bundle d \<longleftrightarrow>
     distinct (map fst (entries d)) \<and> entries d \<noteq> [] \<and> length (entries d) \<le> 4096 \<and>
     list_all bundle_entry_ok (entries d)"

lemma prepared_lookup:
  assumes "prepared_bundle d" and "n \<in> fst ` set (entries d)"
  shows "\<exists>e. lookup_file d n = Some e \<and> bundle_entry_ok (n, e)"
proof -
  from assms(2) obtain e where "(n, e) \<in> set (entries d)" by auto
  with assms(1) have "lookup_file d n = Some e" and "bundle_entry_ok (n, e)"
    by (auto simp: prepared_bundle_def lookup_file_def list_all_iff)
  then show ?thesis by blast
qed

definition digest_row :: "directory \<Rightarrow> string \<Rightarrow> string \<times> string" where
  "digest_row d n =
     (case lookup_file d n of None \<Rightarrow> ([], n) | Some e \<Rightarrow> (sha256_hex (content e), n))"

lemma manifest_rows_prepared:
  assumes "prepared_bundle d"
  shows "manifest_rows d = Inr (map (digest_row d) (sort (map fst (entries d))))"
proof -
  have "lift_res (\<lambda>h. (h, n)) (compact_sha d n) = Inr (digest_row d n)"
    if "n \<in> fst ` set (entries d)" for n
    using prepared_lookup [OF assms that]
    by (auto simp: compact_sha_def plain_file_def digest_row_def bundle_entry_ok_def)
  then show ?thesis
    unfolding manifest_rows_def ok_iff list.rel_map
    by (auto simp: list_all2_same)
qed

lemma digest_row_valid:
  assumes "prepared_bundle d" and "n \<in> fst ` set (entries d)"
  shows "valid_row (digest_row d n)"
  using prepared_lookup [OF assms]
  by (auto simp: digest_row_def valid_row_def bundle_entry_ok_def sha.digest_pattern)

lemma prepared_line_admitted:
  assumes d: "prepared_bundle d" and n: "n \<in> fst ` set (entries d)"
  shows "line_admitted (d\<lparr>entries := (''SHA256SUMS'', f) # entries d\<rparr>) (render_line (digest_row d n))"
proof -
  obtain e where e: "lookup_file d n = Some e" "bundle_entry_ok (n, e)"
    using prepared_lookup [OF d n] by blast
  have "match_line (render_line (digest_row d n)) = Some (digest_row d n)"
    using digest_row_valid [OF d n] by (rule sums.parse_render)
  with e show ?thesis
    by (auto simp: line_admitted_def digest_row_def manifest_asset_ok_def bundle_entry_ok_def
        lookup_file_def)
qed

lemma written_manifest_reads:
  assumes d: "prepared_bundle prepared" and written: "write_manifest prepared = Inr (dir, anchor)"
  shows "\<exists>rows. compact_manifest dir anchor = Inr rows \<and>
           map fst rows = sort (map fst (entries prepared)) \<and>
           rows = map (\<lambda>(h, n). (n, h)) (map (digest_row prepared) (sort (map fst (entries prepared))))"
proof -
  define names where "names = sort (map fst (entries prepared))"
  define rows where "rows = map (digest_row prepared) names"
  define body where "body = manifest_text rows"
  let ?dir = "prepared\<lparr>entries := (''SHA256SUMS'', new_file (encode_ascii body)) # entries prepared\<rparr>"
  have set_names: "set names = fst ` set (entries prepared)" by (simp add: names_def)
  have valid: "list_all valid_row rows"
    using digest_row_valid [OF d] by (auto simp: rows_def list_all_iff set_names)
  have lines: "splitlines body = map render_line rows"
    unfolding body_def manifest_text_print by (rule sums.splitlines_print [OF valid])
  have adm: "list_all (line_admitted ?dir) (splitlines body)"
    using prepared_line_admitted [OF d] by (auto simp: lines list_all_iff rows_def set_names)
  have row: "line_row (render_line r) = (snd r, fst r)" if "valid_row r" for r
    using sums.parse_render [OF that] by (cases r) (simp add: line_row_def)
  have rows': "map line_row (splitlines body) = map (\<lambda>(h, n). (n, h)) rows"
    using valid by (auto simp: lines row list_all_iff split: prod.splits)
  have fst_rows: "map fst (map line_row (splitlines body)) = names"
    unfolding rows' by (auto simp: rows_def digest_row_def split: option.splits intro!: map_idI)
  have len: "length rows = length (entries prepared)" by (simp add: rows_def names_def)
  have "length body \<le> 227 * 4096"
    using manifest_text_length [OF valid] d len by (simp add: body_def prepared_bundle_def)
  moreover have "0 < length body"
    using d len by (cases rows) (auto simp: body_def manifest_text_def prepared_bundle_def)
  ultimately have size: "0 < file_bytes (new_file (encode_ascii body))"
      "file_bytes (new_file (encode_ascii body)) \<le> 1048576"
    by (simp_all add: file_bytes_def new_file_def encode_ascii_def)
  have "compact_manifest ?dir (sha256_hex (encode_ascii body)) = Inr (map line_row (splitlines body))"
    unfolding compact_manifest_iff
  proof (intro exI conjI)
    show "lookup_file ?dir ''SHA256SUMS'' = Some (new_file (encode_ascii body))"
      by (simp add: lookup_file_def)
    show "decode_ascii (content (new_file (encode_ascii body))) = Inr body"
      using decode_encode_ascii [OF manifest_text_ascii [OF valid]] by (simp add: new_file_def body_def)
    show "distinct (map fst (map line_row (splitlines body)))"
      unfolding fst_rows using d by (simp add: names_def prepared_bundle_def)
  qed (use adm size d len in \<open>auto simp: new_file_def lines prepared_bundle_def\<close>)
  moreover have "dir = ?dir" "anchor = sha256_hex (encode_ascii body)"
    using written by (auto simp: write_manifest_def manifest_rows_prepared [OF d] Let_def body_def rows_def names_def)
  ultimately show ?thesis
    using fst_rows rows' by (auto simp: rows_def names_def)
qed

lemma write_manifest_total: "prepared_bundle prepared \<Longrightarrow> \<exists>dir anchor. write_manifest prepared = Inr (dir, anchor)"
  by (simp add: write_manifest_def manifest_rows_prepared Let_def)

text \<open>What the compact tool accepts, the legacy recheck accepts too.\<close>

lemma recheck_of_compact:
  assumes "compact_manifest dir expected = Inr rows"
  shows "recheck_manifest dir expected = Inr rows"
proof -
  have "recheck_admitted dir line" if "line_admitted dir line" for line
    using that by (auto simp: line_admitted_def recheck_admitted_def manifest_asset_ok_def split: option.splits)
  with assms show ?thesis
    unfolding compact_manifest_iff recheck_manifest_iff list_all_iff by blast
qed

text \<open>
  C24. Manifest round trip: for every directory of admissible files, the manifest the assembler
  writes is accepted when it is read back against the same files under the anchor it returned, and
  it lists exactly those files, in name order. The size bound on the manifest never refuses it.
\<close>

theorem manifest_round_trip:
  assumes d: "prepared_bundle prepared"
  shows "\<exists>dir anchor rows. write_manifest prepared = Inr (dir, anchor) \<and>
           compact_manifest dir anchor = Inr rows \<and>
           map fst rows = sort (map fst (entries prepared)) \<and>
           rows = map (\<lambda>(h, n). (n, h)) (map (digest_row prepared) (sort (map fst (entries prepared))))"
  using write_manifest_total [OF d] written_manifest_reads [OF d] by blast

text \<open>A bundle of two files.\<close>

definition sample_bundle :: directory where
  "sample_bundle = \<lparr>dir_perm = 493, entries = [(''install.sh'', new_file [35, 33]), (''base-1.0.apk'', new_file [65])]\<rparr>"

lemma sample_prepared: "prepared_bundle sample_bundle"
  by code_simp

theorem manifest_round_trip_witness:
  "\<exists>dir anchor rows. write_manifest sample_bundle = Inr (dir, anchor) \<and>
     compact_manifest dir anchor = Inr rows \<and> map fst rows = [''base-1.0.apk'', ''install.sh'']"
proof -
  have "sort (map fst (entries sample_bundle)) = [''base-1.0.apk'', ''install.sh'']" by code_simp
  with manifest_round_trip [OF sample_prepared] show ?thesis by auto
qed

end
