(* ===== verification/Py_Url.thy ===== *)
theory Py_Url
  imports Py_Json
begin

text \<open>
  \<open>urllib.parse.urlsplit\<close> and the properties \<open>hostname\<close>, \<open>username\<close>, \<open>password\<close> and \<open>port\<close> of its
  result, as the tools use them on \<open>https\<close> URLs. Leading control characters and blanks are stripped
  and tabs and line ends removed before the split, as the library does. A bracketed host raises
  here; the library would go on with an IPv6 host, which every tool refuses with ValueError too.
\<close>

record url_parts =
  scheme :: string
  netloc :: string
  path :: string
  query :: string
  fragment :: string

definition before_char :: "char \<Rightarrow> string \<Rightarrow> string" where
  "before_char c s = takeWhile (\<lambda>d. d \<noteq> c) s"

definition after_char :: "char \<Rightarrow> string \<Rightarrow> string" where
  "after_char c s = drop 1 (dropWhile (\<lambda>d. d \<noteq> c) s)"

definition scheme_char :: "char \<Rightarrow> bool" where
  "scheme_char c \<longleftrightarrow> in_cls [(CHR ''a'', CHR ''z''), (CHR ''A'', CHR ''Z''), (CHR ''0'', CHR ''9''),
     (CHR ''+'', CHR ''+''), (CHR ''-'', CHR ''-''), (CHR ''.'', CHR ''.'')] c"

definition is_alpha :: "char \<Rightarrow> bool" where
  "is_alpha c \<longleftrightarrow> in_cls [(CHR ''a'', CHR ''z''), (CHR ''A'', CHR ''Z'')] c"

definition url_clean :: "string \<Rightarrow> string" where
  "url_clean s = filter (\<lambda>c. c \<notin> {CHR 0x09, CHR 0x0A, CHR 0x0D}) (dropWhile (\<lambda>c. of_char c \<le> (32 :: nat)) s)"

text \<open>The scheme, lowered, and the rest; no scheme when the text before the colon cannot be one.\<close>

definition split_scheme :: "string \<Rightarrow> string \<times> string" where
  "split_scheme u =
     (let s = before_char (CHR '':'') u
      in if CHR '':'' \<in> set u \<and> s \<noteq> [] \<and> is_alpha (hd s) \<and> list_all scheme_char s
         then (lower s, after_char (CHR '':'') u) else ([], u))"

definition urlsplit :: "string \<Rightarrow> url_parts res" where
  "urlsplit s =
     (let (sch, u) = split_scheme (url_clean s);
          has_netloc = (take 2 u = ''//'');
          rest = drop 2 u;
          net = (if has_netloc then takeWhile (\<lambda>c. c \<notin> {CHR ''/'', CHR ''?'', CHR ''#''}) rest else []);
          u1 = (if has_netloc then dropWhile (\<lambda>c. c \<notin> {CHR ''/'', CHR ''?'', CHR ''#''}) rest else u)
      in if CHR ''['' \<in> set net \<or> CHR '']'' \<in> set net then Inl (ValueError ''Invalid IPv6 URL'')
         else let frag = after_char (CHR ''#'') u1; u2 = before_char (CHR ''#'') u1
              in Inr \<lparr>scheme = sch, netloc = net, path = before_char (CHR ''?'') u2,
                      query = after_char (CHR ''?'') u2, fragment = frag\<rparr>)"

text \<open>\<open>urlsplit\<close> of a value that is not a string: a false value is decoded to the empty URL.\<close>

fun urlsplit_json :: "json \<Rightarrow> url_parts res" where
  "urlsplit_json (JStr s) = urlsplit s"
| "urlsplit_json v = (if truthy v then Inl AttributeError
     else Inr \<lparr>scheme = [], netloc = [], path = [], query = [], fragment = []\<rparr>)"

text \<open>What follows the last \<open>@\<close> of the netloc, and what precedes it.\<close>

definition host_info :: "url_parts \<Rightarrow> string" where
  "host_info u = rev (takeWhile (\<lambda>c. c \<noteq> CHR ''@'') (rev (netloc u)))"

definition user_info :: "url_parts \<Rightarrow> string option" where
  "user_info u = (if CHR ''@'' \<in> set (netloc u)
                  then Some (rev (drop 1 (dropWhile (\<lambda>c. c \<noteq> CHR ''@'') (rev (netloc u))))) else None)"

definition hostname :: "url_parts \<Rightarrow> string option" where
  "hostname u =
     (let h = before_char (CHR '':'') (host_info u)
      in if h = [] then None
         else Some (lower (before_char (CHR ''%'') h) @ dropWhile (\<lambda>c. c \<noteq> CHR ''%'') h))"

definition username :: "url_parts \<Rightarrow> string option" where
  "username u = map_option (before_char (CHR '':'')) (user_info u)"

definition password :: "url_parts \<Rightarrow> string option" where
  "password u = (case user_info u of
     None \<Rightarrow> None | Some i \<Rightarrow> if CHR '':'' \<in> set i then Some (after_char (CHR '':'') i) else None)"

definition port :: "url_parts \<Rightarrow> int option res" where
  "port u =
     (let p = after_char (CHR '':'') (host_info u)
      in if p = [] then Inr None
         else if \<not> list_all ascii_digit p then Inl (ValueError ''Port could not be cast to integer value'')
         else if 65535 < int_of_digits 0 p then Inl (ValueError ''Port out of range 0-65535'')
         else Inr (Some (int_of_digits 0 p)))"

text \<open>The truth value of an optional string.\<close>

definition present :: "string option \<Rightarrow> bool" where
  "present s \<longleftrightarrow> s \<noteq> None \<and> s \<noteq> Some []"

text \<open>\<open>s.split(c)\<close>.\<close>

fun split_on :: "char \<Rightarrow> string \<Rightarrow> string list" where
  "split_on c [] = [[]]"
| "split_on c (d # ds) =
     (if d = c then [] # split_on c ds else (case split_on c ds of [] \<Rightarrow> [[d]] | w # ws \<Rightarrow> (d # w) # ws))"

lemma split_on_nonempty: "split_on c s \<noteq> []"
  by (induction s) (auto split: list.splits)

text \<open>The parts of a relative path: a separator may be repeated, and \<open>.\<close> names nothing.\<close>

definition path_parts :: "string \<Rightarrow> string list" where
  "path_parts s = filter (\<lambda>p. p \<noteq> [] \<and> p \<noteq> ''.'') (split_on (CHR ''/'') s)"

end
