(* ===== verification/Indexed_Auth.thy ===== *)
theory Indexed_Auth
  imports Py_Url Bundle_Files "HOL-Library.Multiset"
begin

text \<open>
  indexed-auth.py: the metadata contract of a signed package closure. \<open>schema\<close> checks that the
  repository indexes, the trust keys, the packages and their bindings describe one closed set of
  assets with separate signing roles; \<open>upstream_url\<close> and the provenance checks fix where an index may
  come from. Dicts and sets are lists in insertion order; \<open>files\<close> is the list of keys of \<open>by_file\<close>
  and \<open>keys\<close> the list of keys of \<open>key_roles\<close>, which the code updates together.
\<close>

section \<open>Patterns and constants\<close>

definition MODEL :: string where
  "MODEL = ''canonical-apk-and-upstream-index-v1''"

definition CANONICAL_PUBLIC_SHA :: string where
  "CANONICAL_PUBLIC_SHA = ''fa220a28fd8662fc5f617f46594bafe2415b4f605136570dc3c446caeb7d1ef1''"

definition OWN :: "string list" where
  "OWN = [''foxcore-cli'', ''foxcore-cli-ram'', ''foxhole-openwrt-client'', ''hysteria'', ''hysteria-server-ram'']"

definition PACKAGE :: rx where
  "PACKAGE = Seq (Cls alnum) (Rep (Cls (alnum @ [(CHR ''_'', CHR ''_''), (CHR ''.'', CHR ''.''),
     (CHR ''+'', CHR ''+''), (CHR ''-'', CHR ''-'')])) 0 127)"

definition VERSION :: rx where
  "VERSION = Seq (Cls alnum) (Rep (Cls (alnum @ [(CHR ''_'', CHR ''_''), (CHR ''.'', CHR ''.''),
     (CHR ''~'', CHR ''~''), (CHR ''+'', CHR ''+''), (CHR ''-'', CHR ''-'')])) 0 159)"

definition MAX_INDEX :: int where
  "MAX_INDEX = 8388608"

definition digits_rx :: rx where
  "digits_rx = rplus (Cls [(CHR ''0'', CHR ''9'')])"

definition openwrt_release :: rx where
  "openwrt_release = Seq (lit ''25.12.'') digits_rx"

definition feed_char :: char_class where
  "feed_char = alnum @ [(CHR ''_'', CHR ''_''), (CHR ''.'', CHR ''.''), (CHR ''+'', CHR ''+''), (CHR ''-'', CHR ''-'')]"

definition kmod_char :: char_class where
  "kmod_char = alnum @ [(CHR ''_'', CHR ''_''), (CHR ''.'', CHR ''.''), (CHR ''-'', CHR ''-'')]"

definition release_prefix :: "string \<Rightarrow> string" where
  "release_prefix version = ''https://downloads.openwrt.org/releases/'' @ version @ ''/''"

definition SDK_TARGETS :: "string list" where
  "SDK_TARGETS = [''x86/64'', ''armsr/armv8'', ''mediatek/filogic'']"

section \<open>Where an upstream index may come from\<close>

text \<open>
  The inner loop over the targets: \<open>Some b\<close> is \<open>return b\<close>, \<open>None\<close> is the end of the loop. A target
  that is a list or an object is not in the tuple either, so the comparison never raises.
\<close>

fun target_loop :: "string \<Rightarrow> string \<Rightarrow> json list \<Rightarrow> bool option" where
  "target_loop prefix url [] = None"
| "target_loop prefix url (t # ts) =
     (case t of
        JStr target \<Rightarrow>
          if target \<notin> set SDK_TARGETS then Some False
          else if url = prefix @ ''targets/'' @ target @ ''/packages/packages.adb'' \<or>
                  rmatch (Seq (lit (prefix @ ''targets/'' @ target @ ''/kmods/''))
                           (Seq (rplus (Cls kmod_char)) (lit ''/packages.adb''))) url
               then Some True else target_loop prefix url ts
      | _ \<Rightarrow> Some False)"

fun version_loop :: "string \<Rightarrow> json list \<Rightarrow> string \<Rightarrow> json list \<Rightarrow> bool" where
  "version_loop architecture targets url [] = False"
| "version_loop architecture targets url (v # vs) =
     (case v of
        JStr version \<Rightarrow>
          if \<not> rmatch openwrt_release version then False
          else let prefix = release_prefix version
               in if rmatch (Seq (lit (prefix @ ''packages/'' @ architecture @ ''/''))
                               (Seq (rplus (Cls feed_char)) (lit ''/packages.adb''))) url
                  then True
                  else (case target_loop prefix url targets of
                          Some b \<Rightarrow> b | None \<Rightarrow> version_loop architecture targets url vs)
      | _ \<Rightarrow> False)"

definition upstream_url :: "json \<Rightarrow> json \<Rightarrow> bool res" where
  "upstream_url value url =
     (case url of
        JStr u \<Rightarrow>
          bnd (get_or value ''architecture'' (JStr [])) (\<lambda>architecture.
          (case architecture of
             JStr arch \<Rightarrow>
               if \<not> rmatch NAME arch then Inr False
               else bnd (get value ''supportedOpenWrt'') (\<lambda>versions.
                    bnd (get value ''supportedTargets'') (\<lambda>targets.
                    (case (versions, targets) of
                       (JArr vs, JArr ts) \<Rightarrow>
                         if vs = [] \<or> ts = [] then Inr False else Inr (version_loop arch ts u vs)
                     | _ \<Rightarrow> Inr False)))
           | _ \<Rightarrow> Inr False))
      | _ \<Rightarrow> Inr False)"

section \<open>Packages\<close>

record package =
  pkg_name :: string
  pkg_version :: string
  pkg_arch :: string
  installed_bytes :: int
  archive_bytes :: int
  pkg_file :: string
  pkg_sha256 :: string
  depends :: "string list"
  provides :: "string list"

definition auth_integer :: "json \<Rightarrow> int res" where
  "auth_integer v = (case v of
     JInt i \<Rightarrow> if 0 \<le> i \<and> i \<le> 2 ^ 53 - 1 then Inr i else Inl (ValueError ''Invalid authentication byte count'')
   | _ \<Rightarrow> Inl (ValueError ''Invalid authentication byte count''))"

text \<open>\<open>R.fullmatch(d.get(k, ""))\<close>.\<close>

definition field_matches :: "rx \<Rightarrow> json \<Rightarrow> string \<Rightarrow> bool res" where
  "field_matches r d k = bnd (get_or d k (JStr [])) (fullmatch r)"

definition identity :: "json \<Rightarrow> (string \<times> string \<times> string) res" where
  "identity item =
     bnd (refuse [Inr (\<not> is_obj item), not_res (field_matches PACKAGE item ''name''),
                  not_res (field_matches VERSION item ''version''),
                  not_res (field_matches NAME item ''architecture'')]
            ''Unsafe indexed package identity'') (\<lambda>_.
     bnd (bnd (sub item ''name'') as_str) (\<lambda>n.
     bnd (bnd (sub item ''version'') as_str) (\<lambda>v.
     bnd (bnd (sub item ''architecture'') as_str) (\<lambda>a.
     Inr (n, v, a)))))"

section \<open>Indexes\<close>

record index_state =
  by_file :: "(string \<times> json) list"
  key_roles :: "(string \<times> string) list"

definition set_size :: "json list \<Rightarrow> nat res" where
  "set_size xs = (if list_all hashable xs then Inr (length (remdups (map canon xs))) else Inl TypeError)"

definition foxhole_path :: rx where
  "foxhole_path =
     Seq (lit ''/foxhole-team/foxhole-openwrt-client/releases/download/v'')
      (Seq digits_rx (Seq (lit ''.'') (Seq digits_rx (Seq (lit ''.'') (Seq digits_rx
       (Seq (ropt (Seq (Cls [(CHR ''-'', CHR ''-''), (CHR ''+'', CHR ''+'')])
                    (rplus (Cls (alnum @ [(CHR ''.'', CHR ''.''), (CHR ''-'', CHR ''-'')])))))
        (Seq (lit ''/'') (Seq (Cls alnum)
         (Seq (Rep (Cls (alnum @ [(CHR ''.'', CHR ''.''), (CHR ''_'', CHR ''_''), (CHR ''-'', CHR ''-'')])) 0 159)
          (lit ''.adb'')))))))))) "

definition key_role_step :: "string \<Rightarrow> string \<Rightarrow> (string \<times> string) list \<Rightarrow> (string \<times> string) list res" where
  "key_role_step role key roles =
     (case map_of roles key of
        Some r \<Rightarrow> if r \<noteq> role then Inl (ValueError ''Trust key cannot cross repository roles'') else Inr roles
      | None \<Rightarrow> Inr (roles @ [(key, role)]))"

definition index_url_ok :: "json \<Rightarrow> url_parts \<Rightarrow> unit res" where
  "index_url_ok source url =
     refuse [lift_res (\<lambda>n. 4096 < n) (len source), Inr (scheme url \<noteq> ''https''),
             Inr (\<not> present (hostname url)), Inr (present (username url)), Inr (present (password url)),
             lift_res (\<lambda>p. p \<noteq> None) (port url), Inr (fragment url \<noteq> []), Inr (query url \<noteq> []),
             lift_res (\<lambda>s. CHR ''%'' \<in> set s) (as_str source),
             Inr (\<exists>part \<in> set (split_on (CHR ''/'') (path url)). part \<in> {''.'', ''..''})]
       ''Public HTTPS index provenance required''"

definition trust_list_ok :: "json \<Rightarrow> unit res" where
  "trust_list_ok trust =
     refuse [Inr (\<not> is_arr trust), lift_res (\<lambda>n. \<not> (1 \<le> n \<and> n \<le> 16)) (len trust),
             bnd (iter trust) (\<lambda>ks. lift_res (\<lambda>n. n \<noteq> length ks) (set_size ks)),
             bnd (iter trust) (any_res (\<lambda>k. any_of [Inr (\<not> is_str k), not_res (fullmatch NAME k)]))]
       ''Exact role-specific trust keys required''"

definition index_step :: "json \<Rightarrow> json \<Rightarrow> index_state \<Rightarrow> index_state res" where
  "index_step value item st =
     bnd (refuse [Inr (\<not> is_obj item), not_res (field_matches NAME item ''file''),
                  bnd (sub item ''file'') (\<lambda>f. in_strs f (map fst (by_file st))),
                  not_res (field_matches HEX64 item ''sha256''),
                  bnd (get item ''bytes'') (\<lambda>b. lift_res (\<lambda>i. \<not> (1 \<le> i \<and> i \<le> MAX_INDEX)) (auth_integer b)),
                  bnd (get item ''role'') (\<lambda>r. Inr (r \<noteq> JStr ''foxhole'' \<and> r \<noteq> JStr ''upstream''))]
            ''Invalid original repository index'') (\<lambda>_.
     bnd (get_or item ''sourceUrl'' (JStr [])) (\<lambda>source.
     bnd (urlsplit_json source) (\<lambda>url.
     bnd (index_url_ok source url) (\<lambda>_.
     bnd (bnd (sub item ''role'') as_str) (\<lambda>role.
     bnd (refuse [Inr (role = ''foxhole'' \<and>
                       (hostname url \<noteq> Some ''github.com'' \<or> \<not> rmatch foxhole_path (path url)))]
            ''Exact FoxHole release index provenance required'') (\<lambda>_.
     bnd (refuse [if role = ''upstream'' then not_res (upstream_url value source) else Inr False]
            ''Official upstream index provenance required'') (\<lambda>_.
     bnd (get item ''trustKeyFiles'') (\<lambda>trust.
     bnd (trust_list_ok trust) (\<lambda>_.
     bnd (refuse [Inr (role = ''foxhole'' \<and> trust \<noteq> JArr [JStr ''foxhole-openwrt-apk.pem''])]
            ''Canonical public-key asset name required'') (\<lambda>_.
     bnd (bnd (sub item ''file'') as_str) (\<lambda>file.
     bnd (bnd (iter trust) (map_res as_str)) (\<lambda>names.
     bnd (fold_res (key_role_step role) names (key_roles st)) (\<lambda>roles.
     Inr \<lparr>by_file = by_file st @ [(file, item)], key_roles = roles\<rparr>)))))))))))))"

section \<open>Trust keys\<close>

text \<open>The state is the list of \<open>(file, sha256)\<close> of the records so far: \<open>key_records\<close> and \<open>key_hashes\<close>.\<close>

definition trust_step :: "json \<Rightarrow> (string \<times> string) list \<Rightarrow> json \<Rightarrow> (string \<times> string) list \<Rightarrow> (string \<times> string) list res" where
  "trust_step value roles item recs =
     bnd (refuse [Inr (\<not> is_obj item), not_res (field_matches NAME item ''file''),
                  bnd (sub item ''file'') (\<lambda>f. in_strs f (map fst recs)),
                  not_res (field_matches HEX64 item ''sha256''),
                  bnd (sub item ''sha256'') (\<lambda>h. in_strs h (map snd recs)),
                  bnd (get item ''bytes'') (\<lambda>b. lift_res (\<lambda>i. \<not> (1 \<le> i \<and> i \<le> 16384)) (auth_integer b)),
                  bnd (get_or value ''filesSha256'' (JObj [])) (\<lambda>m. bnd (bnd (sub item ''file'') as_str) (\<lambda>f.
                    bnd (get m f) (\<lambda>h. lift_res (\<lambda>s. h \<noteq> s) (sub item ''sha256''))))]
            ''Invalid trust-key byte record'') (\<lambda>_.
     bnd (bnd (sub item ''file'') as_str) (\<lambda>file.
     bnd (bnd (sub item ''sha256'') as_str) (\<lambda>sha.
     if (map_of roles file = Some ''foxhole'') \<noteq> (sha = CANONICAL_PUBLIC_SHA)
     then Inl (ValueError ''Public signing authority differs from repository role'')
     else Inr (recs @ [(file, sha)]))))"

section \<open>Package bindings\<close>

definition find_record :: "package list \<Rightarrow> json \<Rightarrow> package option res" where
  "find_record packages f = (case f of
     JStr s \<Rightarrow> Inr (find (\<lambda>p. pkg_file p = s) packages)
   | v \<Rightarrow> if hashable v then Inr None else Inl TypeError)"

definition find_index :: "(string \<times> json) list \<Rightarrow> json \<Rightarrow> json option res" where
  "find_index files f = (case f of
     JStr s \<Rightarrow> Inr (map_of files s)
   | v \<Rightarrow> if hashable v then Inr None else Inl TypeError)"

definition is_role :: "string \<Rightarrow> json \<Rightarrow> bool" where
  "is_role r index = (sub index ''role'' = Inr (JStr r))"

definition binding_step :: "package list \<Rightarrow> (string \<times> json) list \<Rightarrow> string list \<Rightarrow> json \<Rightarrow> string list \<Rightarrow> string list res" where
  "binding_step packages files owned item seen =
     bnd (identity item) (\<lambda>ident.
     bnd (bnd (get item ''file'') (find_record packages)) (\<lambda>record.
     bnd (bnd (get item ''indexFile'') (find_index files)) (\<lambda>index.
     bnd (some_or ''Package is not bound to its role-specific signed index'' record) (\<lambda>r.
     bnd (refuse [Inr (pkg_file r \<in> set seen)] ''Package is not bound to its role-specific signed index'') (\<lambda>_.
     bnd (some_or ''Package is not bound to its role-specific signed index'' index) (\<lambda>i.
     bnd (refuse [Inr (ident \<noteq> (pkg_name r, pkg_version r, pkg_arch r)),
                  not_res (field_matches HEX64 item ''packageIdentity''),
                  Inr (is_role ''foxhole'' i \<noteq> (pkg_name r \<in> set owned))]
            ''Package is not bound to its role-specific signed index'') (\<lambda>_.
     Inr (seen @ [pkg_file r]))))))))"

section \<open>The whole contract\<close>

definition byte_sum :: "json list \<Rightarrow> int res" where
  "byte_sum items = lift_res sum_list (map_res (\<lambda>i. bnd (sub i ''bytes'') as_int) items)"

definition schema :: "json \<Rightarrow> package list \<Rightarrow> string list option \<Rightarrow> (json list \<times> json list \<times> string list) res" where
  "schema value packages own_names =
     (let owned = (case own_names of None \<Rightarrow> OWN | Some ns \<Rightarrow> ns); files = map pkg_file packages in
     bnd (refuse [Inr (owned = []), Inr (26 < length (remdups owned)),
                  Inr (\<not> list_all (rmatch PACKAGE) owned)]
            ''Exact bounded owned package identities required'') (\<lambda>_.
     bnd (get_or value ''verification'' (JObj [])) (\<lambda>verification.
     bnd (refuse [lift_res (\<lambda>m. m \<noteq> JStr MODEL) (get verification ''signatureModel''),
                  not_res (field_matches HEX64 verification ''factorySourceSha256'')]
            ''Original firmware-bound indexed authentication required'') (\<lambda>_.
     bnd (get value ''repositoryIndexes'') (\<lambda>indexes.
     bnd (get value ''packageAuthentications'') (\<lambda>bindings.
     bnd (refuse [Inr (\<not> is_arr indexes), lift_res (\<lambda>n. \<not> (1 \<le> n \<and> n \<le> 16)) (len indexes),
                  Inr (\<not> is_arr bindings), lift_res (\<lambda>n. n \<noteq> length packages) (len bindings),
                  Inr (packages = []), Inr (256 < length packages)]
            ''Bounded complete indexed authentication required'') (\<lambda>_.
     bnd (iter indexes) (\<lambda>idx.
     bnd (fold_res (index_step value) idx \<lparr>by_file = [], key_roles = []\<rparr>) (\<lambda>st.
     let index_files = map fst (by_file st); keys = map fst (key_roles st) in
     bnd (refuse [Inr (32 < length keys), Inr (set keys \<inter> set index_files \<noteq> {})]
            ''Ambiguous index/key assets'') (\<lambda>_.
     bnd (get value ''trustKeys'') (\<lambda>trust.
     bnd (refuse [Inr (\<not> is_arr trust), lift_res (\<lambda>n. n \<noteq> length keys) (len trust)]
            ''Complete public trust-key byte authority required'') (\<lambda>_.
     bnd (iter trust) (\<lambda>trusts.
     bnd (fold_res (trust_step value (key_roles st)) trusts []) (\<lambda>recs.
     bnd (refuse [Inr (\<not> same_set (map fst recs) keys)] ''Unused or missing public trust-key asset'') (\<lambda>_.
     bnd (refuse [Inr (\<not> distinct files), Inr (set files \<inter> (set index_files \<union> set keys) \<noteq> {})]
            ''Ambiguous indexed package assets'') (\<lambda>_.
     bnd (iter bindings) (\<lambda>binds.
     bnd (fold_res (binding_step packages (by_file st) owned) binds []) (\<lambda>seen.
     bnd (refuse [Inr (\<not> same_set seen files)] ''Incomplete indexed package bindings'') (\<lambda>_.
     bnd (bnd (get_or value ''filesSha256'' (JObj [])) element_set) (\<lambda>manifest.
     bnd (refuse [Inr (\<not> same_set manifest (map JStr (files @ index_files @ keys)))]
            ''Exact package/index/key manifest required'') (\<lambda>_.
     bnd (refuse [bnd (bnd (get value ''repositoryIndexBytes'') auth_integer) (\<lambda>n. lift_res (\<lambda>s. n \<noteq> s) (byte_sum idx))]
            ''Repository index byte total differs'') (\<lambda>_.
     bnd (refuse [bnd (bnd (get value ''trustKeyBytes'') auth_integer) (\<lambda>n. lift_res (\<lambda>s. n \<noteq> s) (byte_sum trusts))]
            ''Trust-key byte total differs'') (\<lambda>_.
     Inr (idx, binds, keys))))))))))))))))))))))))"

section \<open>Lemmas\<close>

lemma field_matches_iff:
  "field_matches r d k = Inr True \<longleftrightarrow>
     (\<exists>kvs s. d = JObj kvs \<and> (case map_of kvs k of None \<Rightarrow> JStr [] | Some v \<Rightarrow> v) = JStr s \<and> rmatch r s)"
  by (auto simp: field_matches_def get_or_Inr_iff ok_iff)

lemma auth_integer_iff [ok_iff]: "auth_integer v = Inr i \<longleftrightarrow> v = JInt i \<and> 0 \<le> i \<and> i \<le> 2 ^ 53 - 1"
  by (cases v) (auto simp: auth_integer_def)

lemma find_record_Some [ok_iff]:
  "find_record packages f = Inr (Some r) \<longleftrightarrow>
     (\<exists>s. f = JStr s \<and> find (\<lambda>p. pkg_file p = s) packages = Some r)"
  by (cases f) (auto simp: find_record_def)

lemma find_index_Some [ok_iff]:
  "find_index files f = Inr (Some i) \<longleftrightarrow> (\<exists>s. f = JStr s \<and> map_of files s = Some i)"
  by (cases f) (auto simp: find_index_def)

lemma identity_str:
  assumes "identity item = Inr (n, v, a)"
  shows "sub item ''name'' = Inr (JStr n)" and "sub item ''version'' = Inr (JStr v)"
    and "sub item ''architecture'' = Inr (JStr a)"
  using assms by (auto simp: identity_def sub_Inr_iff ok_iff)

text \<open>The binding loop binds each package at most once.\<close>

definition binding_ok :: "package list \<Rightarrow> (string \<times> json) list \<Rightarrow> string list \<Rightarrow> json \<Rightarrow> bool" where
  "binding_ok packages files owned item \<longleftrightarrow>
     (\<exists>r i x. find (\<lambda>p. pkg_file p = str_at ''file'' item) packages = Some r \<and>
        get item ''file'' = Inr (JStr (str_at ''file'' item)) \<and>
        get item ''indexFile'' = Inr (JStr x) \<and> map_of files x = Some i \<and>
        identity item = Inr (pkg_name r, pkg_version r, pkg_arch r) \<and>
        field_matches HEX64 item ''packageIdentity'' = Inr True \<and>
        is_role ''foxhole'' i = (pkg_name r \<in> set owned))"

lemma find_pkg_file: "find (\<lambda>p. pkg_file p = s) packages = Some r \<Longrightarrow> pkg_file r = s \<and> r \<in> set packages"
  by (auto simp: find_Some_iff)

interpretation package_bindings: unique_loop id "str_at ''file''" "binding_step packages files owned"
    "binding_ok packages files owned" for packages files owned
proof
  fix item seen seen'
  show "binding_step packages files owned item seen = Inr seen' \<longleftrightarrow>
      binding_ok packages files owned item \<and> id (str_at ''file'' item) \<notin> id ` set seen \<and>
      seen' = seen @ [str_at ''file'' item]"
  proof
    assume "binding_step packages files owned item seen = Inr seen'"
    then show "binding_ok packages files owned item \<and> id (str_at ''file'' item) \<notin> id ` set seen \<and>
        seen' = seen @ [str_at ''file'' item]"
      by (auto simp: binding_step_def binding_ok_def str_at_def ok_iff) (frule find_pkg_file, simp?)+
  next
    assume "binding_ok packages files owned item \<and> id (str_at ''file'' item) \<notin> id ` set seen \<and>
        seen' = seen @ [str_at ''file'' item]"
    then show "binding_step packages files owned item seen = Inr seen'"
      by (auto simp: binding_step_def binding_ok_def ok_iff find_record_def find_index_def)
        (frule find_pkg_file, simp?)+
  qed
qed

section \<open>The loop over the indexes\<close>

text \<open>What an accepted index record says, apart from the loops' memory.\<close>

definition index_record :: "json \<Rightarrow> json \<Rightarrow> bool" where
  "index_record value item \<longleftrightarrow>
     get item ''file'' = Inr (JStr (str_at ''file'' item)) \<and> rmatch NAME (str_at ''file'' item) \<and>
     get item ''role'' = Inr (JStr (str_at ''role'' item)) \<and>
     str_at ''role'' item \<in> {''foxhole'', ''upstream''} \<and>
     get item ''trustKeyFiles'' = Inr (JArr (map JStr (strs_at ''trustKeyFiles'' item))) \<and>
     strs_at ''trustKeyFiles'' item \<noteq> [] \<and>
     (str_at ''role'' item = ''foxhole'' \<longrightarrow> strs_at ''trustKeyFiles'' item = [''foxhole-openwrt-apk.pem'']) \<and>
     (str_at ''role'' item = ''upstream'' \<longrightarrow>
        upstream_url value (JStr (str_at ''sourceUrl'' item)) = Inr True)"

lemma key_roles_loop:
  assumes "fold_res (key_role_step role) names roles = Inr roles'"
  shows "(\<forall>k \<in> set names. map_of roles' k = Some role) \<and>
     (\<forall>k r. map_of roles k = Some r \<longrightarrow> map_of roles' k = Some r) \<and>
     fst ` set roles' = fst ` set roles \<union> set names \<and>
     (distinct (map fst roles) \<longrightarrow> distinct (map fst roles'))"
  using assms
proof (induction names arbitrary: roles)
  case Nil
  then show ?case by simp
next
  case (Cons n names)
  then obtain mid where step: "key_role_step role n roles = Inr mid"
      and rest: "fold_res (key_role_step role) names mid = Inr roles'"
    by (auto simp: ok_iff)
  have new: "map_of mid n = Some role \<and> fst ` set mid = insert n (fst ` set roles) \<and>
      (\<forall>k r. map_of roles k = Some r \<longrightarrow> map_of mid k = Some r) \<and>
      (distinct (map fst roles) \<longrightarrow> distinct (map fst mid))"
    using step
    by (auto simp: key_role_step_def map_add_def split: option.splits if_splits
        intro: rev_image_eqI dest: map_of_SomeD simp flip: map_of_eq_None_iff)
  from Cons.IH [OF rest] new show ?case by auto
qed

lemma sub_of_get: "get v k = Inr (JStr s) \<Longrightarrow> sub v k = Inr (JStr s)"
  by (cases v) (auto simp: get_def split: option.splits)

lemma get_of_get_or: "get_or v k (JStr []) = Inr (JStr s) \<Longrightarrow> s \<noteq> [] \<Longrightarrow> get v k = Inr (JStr s)"
  by (cases v) (auto split: option.splits)

lemma iter_arr: "is_arr v \<Longrightarrow> iter v = Inr xs \<longleftrightarrow> v = JArr xs"
  by (cases v) auto

lemma urlsplit_empty: "urlsplit [] = Inr url \<Longrightarrow> scheme url = []"
  by (auto simp: urlsplit_def split_scheme_def url_clean_def before_char_def after_char_def Let_def)

lemma index_url_ok_scheme: "index_url_ok src url = Inr u \<Longrightarrow> scheme url = ''https''"
  by (simp add: index_url_ok_def ok_iff)

lemma accepted_url_nonempty:
  assumes "urlsplit_json (JStr s) = Inr url" and "index_url_ok src url = Inr u"
  shows "s \<noteq> []"
  using assms(1) index_url_ok_scheme [OF assms(2)] urlsplit_empty [of url] by (cases s) simp_all

lemma index_step_accepts:
  assumes "index_step value item st = Inr st'"
  shows "index_record value item \<and> str_at ''file'' item \<notin> fst ` set (by_file st) \<and>
    by_file st' = by_file st @ [(str_at ''file'' item, item)] \<and>
    fold_res (key_role_step (str_at ''role'' item)) (strs_at ''trustKeyFiles'' item) (key_roles st) =
      Inr (key_roles st')"
  using assms [unfolded index_step_def trust_list_ok_def ok_iff sum.inject eq_True simp_thms]
proof (elim exE conjE, goal_cases)
  case (1 src url u fj role rj bj rg i trust fl k fj2 names ks ks2 ks3 roles n)
  from 1 have fl: "str_at ''file'' item = fl" "get item ''file'' = Inr (JStr fl)"
    and role: "str_at ''role'' item = role" "get item ''role'' = Inr (JStr role)"
    by (auto dest: get_of_sub simp: str_at_def)
  from 1 have trust: "trust = JArr (map JStr names)" by (simp add: iter_arr)
  with 1 have names: "strs_at ''trustKeyFiles'' item = names" "names \<noteq> []"
    by (auto simp: strs_at_get)
  have "rmatch NAME fl"
    using 1 fl by (auto simp: field_matches_iff sub_Inr_iff)
  moreover have "upstream_url value (JStr (str_at ''sourceUrl'' item)) = Inr True" if "role = ''upstream''"
  proof -
    from that 1 have up: "upstream_url value src = Inr True" by (simp add: ok_iff)
    then obtain s where s: "src = JStr s" by (auto simp: upstream_url_def split: json.splits)
    have "get item ''sourceUrl'' = Inr (JStr s)"
      using 1 s accepted_url_nonempty [of s url src u] by (intro get_of_get_or) simp_all
    with up s show ?thesis by (simp add: str_at_def)
  qed
  moreover have "role \<in> {''foxhole'', ''upstream''}" using 1 role by auto
  moreover have "names = [''foxhole-openwrt-apk.pem'']" if "role = ''foxhole''"
    using 1 that trust by (auto simp: map_eq_Cons_conv)
  moreover have "fl \<notin> fst ` set (by_file st)"
  proof -
    from 1 have "fj = JStr fl" and "in_strs fj (map fst (by_file st)) = Inr False" by simp_all
    then show ?thesis by (simp only: in_strs_JStr) simp
  qed
  ultimately show ?case
    using 1 fl role trust names by (auto simp: index_record_def)
qed

text \<open>
  After the loop every record was accepted, the records are under their own names, and \<open>key_roles\<close>
  gives for each trust key of each record the role of that record: the loop refuses the second role.
\<close>

lemma index_loop:
  assumes "fold_res (index_step value) items st = Inr st'"
  shows "list_all (index_record value) items \<and>
    by_file st' = by_file st @ map (\<lambda>i. (str_at ''file'' i, i)) items \<and>
    (distinct (map fst (by_file st)) \<longrightarrow> distinct (map fst (by_file st'))) \<and>
    (distinct (map fst (key_roles st)) \<longrightarrow> distinct (map fst (key_roles st'))) \<and>
    (\<forall>k r. map_of (key_roles st) k = Some r \<longrightarrow> map_of (key_roles st') k = Some r) \<and>
    (\<forall>i \<in> set items. \<forall>k \<in> set (strs_at ''trustKeyFiles'' i).
       map_of (key_roles st') k = Some (str_at ''role'' i)) \<and>
    fst ` set (key_roles st') =
      fst ` set (key_roles st) \<union> (\<Union>i \<in> set items. set (strs_at ''trustKeyFiles'' i))"
  using assms
proof (induction items arbitrary: st)
  case Nil
  then show ?case by simp
next
  case (Cons item items)
  then obtain mid where step: "index_step value item st = Inr mid"
      and rest: "fold_res (index_step value) items mid = Inr st'"
    by (auto simp: ok_iff)
  note first = index_step_accepts [OF step]
  note roles = key_roles_loop [OF first [THEN conjunct2, THEN conjunct2, THEN conjunct2]]
  have files: "by_file mid = by_file st @ [(str_at ''file'' item, item)]"
      "str_at ''file'' item \<notin> fst ` set (by_file st)"
    using first by simp_all
  have mid: "distinct (map fst (by_file st)) \<longrightarrow> distinct (map fst (by_file mid))"
    using files by simp
  note IH = Cons.IH [OF rest]
  show ?case
  proof (intro conjI)
    show "distinct (map fst (by_file st)) \<longrightarrow> distinct (map fst (by_file st'))"
      using IH mid by blast
    show "by_file st' = by_file st @ map (\<lambda>i. (str_at ''file'' i, i)) (item # items)"
      using IH files by simp
  qed (use IH first roles in auto)
qed

section \<open>The loop over the trust keys\<close>

definition manifest_sha :: "json \<Rightarrow> string \<Rightarrow> string option" where
  "manifest_sha value f =
     (case get value ''filesSha256'' of
        Inr m \<Rightarrow> (case get m f of Inr (JStr h) \<Rightarrow> Some h | _ \<Rightarrow> None)
      | Inl e \<Rightarrow> None)"

definition trust_record :: "json \<Rightarrow> (string \<times> string) list \<Rightarrow> string \<times> string \<Rightarrow> bool" where
  "trust_record value roles fh \<longleftrightarrow>
     manifest_sha value (fst fh) = Some (snd fh) \<and>
     (map_of roles (fst fh) = Some ''foxhole'') = (snd fh = CANONICAL_PUBLIC_SHA)"

lemma manifest_sha_get:
  assumes "get_or value ''filesSha256'' (JObj []) = Inr m" and "get m f = Inr (JStr h)"
  shows "manifest_sha value f = Some h"
  using assms by (auto simp: manifest_sha_def get_or_Inr_iff split: option.splits)

lemma trust_step_accepts:
  assumes "trust_step value roles item recs = Inr recs'"
  shows "\<exists>fh. recs' = recs @ [fh] \<and> trust_record value roles fh \<and>
           fst fh \<notin> fst ` set recs \<and> snd fh \<notin> snd ` set recs"
  using assms [unfolded trust_step_def ok_iff sum.inject eq_True simp_thms]
  by (elim exE conjE) (auto simp: trust_record_def in_strs_def dest: manifest_sha_get split: if_splits)

lemma trust_loop:
  assumes "fold_res (trust_step value roles) items recs = Inr recs'"
    and "list_all (trust_record value roles) recs" and "distinct (map fst recs)" and "distinct (map snd recs)"
  shows "list_all (trust_record value roles) recs' \<and> distinct (map fst recs') \<and> distinct (map snd recs')"
proof (rule fold_res_invariant [OF assms(1)])
  show "list_all (trust_record value roles) recs \<and> distinct (map fst recs) \<and> distinct (map snd recs)"
    using assms by simp
next
  fix x s t
  assume "list_all (trust_record value roles) s \<and> distinct (map fst s) \<and> distinct (map snd s)"
    and "trust_step value roles x s = Inr t"
  then show "list_all (trust_record value roles) t \<and> distinct (map fst t) \<and> distinct (map snd t)"
    by (auto dest: trust_step_accepts)
qed

section \<open>What an accepted closure satisfies\<close>

definition owned_names :: "string list option \<Rightarrow> string list" where
  "owned_names own = (case own of None \<Rightarrow> OWN | Some ns \<Rightarrow> ns)"

text \<open>The index records and the trust roles the loop ends with, for an accepted document.\<close>

lemma schema_accepts:
  assumes "schema value packages own = Inr (indexes, bindings, keys)"
  obtains st recs manifest seen where
      "fold_res (index_step value) indexes \<lparr>by_file = [], key_roles = []\<rparr> = Inr st"
    and "keys = map fst (key_roles st)"
    and "set keys \<inter> fst ` set (by_file st) = {}"
    and "fold_res (trust_step value (key_roles st)) recs [] = Inr manifest"
    and "fst ` set manifest = set keys"
    and "distinct (map pkg_file packages)"
    and "set (map pkg_file packages) \<inter> (fst ` set (by_file st) \<union> set keys) = {}"
    and "fold_res (binding_step packages (by_file st) (owned_names own)) bindings [] = Inr seen"
    and "set seen = set (map pkg_file packages)"
    and "indexes \<noteq> []" and "length bindings = length packages"
    and "\<exists>m. bnd (get_or value ''filesSha256'' (JObj [])) element_set = Inr m \<and>
          set m = set (map JStr (map pkg_file packages @ map fst (by_file st) @ keys))"
proof -
  note facts = assms [unfolded schema_def Let_def owned_names_def [symmetric] ok_iff sum.inject prod.inject
      eq_True simp_thms same_set_def]
  show thesis
    using facts
  proof (elim exE conjE, goal_cases)
    case 1
    note all = this
    show ?case
      by (rule that) (insert all, (assumption | (simp only: set_map simp_thms; fail) | (clarsimp simp: iter_arr; fail))+)
  qed
qed

lemma index_loop_start:
  assumes "fold_res (index_step value) indexes \<lparr>by_file = [], key_roles = []\<rparr> = Inr st"
  shows "list_all (index_record value) indexes"
    and "by_file st = map (\<lambda>i. (str_at ''file'' i, i)) indexes"
    and "distinct (map fst (by_file st))" and "distinct (map fst (key_roles st))"
    and "i \<in> set indexes \<Longrightarrow> k \<in> set (strs_at ''trustKeyFiles'' i) \<Longrightarrow>
           map_of (key_roles st) k = Some (str_at ''role'' i)"
    and "fst ` set (key_roles st) = (\<Union>i \<in> set indexes. set (strs_at ''trustKeyFiles'' i))"
  by (use index_loop [OF assms] in \<open>(elim conjE,
        simp only: index_state.simps list.map distinct.simps simp_thms append_Nil map_of.simps
          list.set image_empty Un_empty_left ball_simps)+\<close>)

lemma trust_loop_start:
  assumes "fold_res (trust_step value roles) recs [] = Inr manifest" and "k \<in> fst ` set manifest"
  shows "\<exists>h. manifest_sha value k = Some h \<and>
           (map_of roles k = Some ''foxhole'') = (h = CANONICAL_PUBLIC_SHA)"
  using trust_loop [OF assms(1)] assms(2) by (fastforce simp: list_all_iff trust_record_def)

text \<open>
  C1. Signing authority: in an accepted closure every package is bound, under its exact name, version
  and architecture, to one of the listed indexes. An owned package is bound to an index of the
  FoxHole role, whose only trust key is the canonical public key, by its digest in the manifest; any
  other package is bound to an upstream index whose address passed the official-origin check and none
  of whose trust keys is the canonical key. No package can be authenticated by a key of the other role.
\<close>

theorem schema_signing_authority:
  assumes accepted: "schema value packages own = Inr (indexes, bindings, keys)"
    and p: "p \<in> set packages"
  shows "\<exists>b \<in> set bindings. \<exists>i \<in> set indexes.
     get b ''file'' = Inr (JStr (pkg_file p)) \<and>
     identity b = Inr (pkg_name p, pkg_version p, pkg_arch p) \<and>
     get b ''indexFile'' = Inr (JStr (str_at ''file'' i)) \<and>
     (if pkg_name p \<in> set (owned_names own)
      then str_at ''role'' i = ''foxhole'' \<and>
           strs_at ''trustKeyFiles'' i = [''foxhole-openwrt-apk.pem''] \<and>
           manifest_sha value ''foxhole-openwrt-apk.pem'' = Some CANONICAL_PUBLIC_SHA
      else str_at ''role'' i = ''upstream'' \<and>
           upstream_url value (JStr (str_at ''sourceUrl'' i)) = Inr True \<and>
           (\<forall>k \<in> set (strs_at ''trustKeyFiles'' i).
              \<exists>h. manifest_sha value k = Some h \<and> h \<noteq> CANONICAL_PUBLIC_SHA))"
proof -
  from schema_accepts [OF accepted] obtain st recs manifest seen where
      idx: "fold_res (index_step value) indexes \<lparr>by_file = [], key_roles = []\<rparr> = Inr st"
    and keys: "keys = map fst (key_roles st)"
    and trust: "fold_res (trust_step value (key_roles st)) recs [] = Inr manifest"
      "fst ` set manifest = set keys"
    and files: "distinct (map pkg_file packages)"
    and binds: "fold_res (binding_step packages (by_file st) (owned_names own)) bindings [] = Inr seen"
      "set seen = set (map pkg_file packages)"
    by metis
  note index = index_loop_start [OF idx]
  have ok: "list_all (binding_ok packages (by_file st) (owned_names own)) bindings"
      and seen: "seen = map (str_at ''file'') bindings"
    using binds(1) unfolding package_bindings.run_iff by simp_all
  from p have "pkg_file p \<in> set seen" unfolding binds(2) by simp
  then obtain b where b: "b \<in> set bindings" "str_at ''file'' b = pkg_file p"
    unfolding seen by auto
  with ok obtain r i x where r: "find (\<lambda>q. pkg_file q = pkg_file p) packages = Some r"
    and bf: "get b ''file'' = Inr (JStr (pkg_file p))"
    and bi: "get b ''indexFile'' = Inr (JStr x)" "map_of (by_file st) x = Some i"
    and ident: "identity b = Inr (pkg_name r, pkg_version r, pkg_arch r)"
    and role: "is_role ''foxhole'' i = (pkg_name r \<in> set (owned_names own))"
    by (auto simp: list_all_iff binding_ok_def)
  from find_pkg_file [OF r] files p have "r = p" by (metis distinct_map inj_onD)
  from bi(2) have i: "i \<in> set indexes" "x = str_at ''file'' i"
    unfolding index(2) by (auto dest!: map_of_SomeD)
  with index(1) have rec: "index_record value i" by (simp add: list_all_iff)
  have is_fox: "is_role ''foxhole'' i \<longleftrightarrow> str_at ''role'' i = ''foxhole''"
    using rec by (auto simp: index_record_def is_role_def dest: sub_of_get)
  have key: "\<exists>h. manifest_sha value k = Some h \<and>
      (str_at ''role'' i = ''foxhole'') = (h = CANONICAL_PUBLIC_SHA)"
    if "k \<in> set (strs_at ''trustKeyFiles'' i)" for k
  proof -
    from that i(1) index(6) keys trust(2) have "k \<in> fst ` set manifest" by auto
    from trust_loop_start [OF trust(1) this] index(5) [OF i(1) that] show ?thesis by simp
  qed
  show ?thesis
  proof (intro bexI [OF _ b(1)] bexI [OF _ i(1)] conjI)
    show "if pkg_name p \<in> set (owned_names own)
      then str_at ''role'' i = ''foxhole'' \<and>
           strs_at ''trustKeyFiles'' i = [''foxhole-openwrt-apk.pem''] \<and>
           manifest_sha value ''foxhole-openwrt-apk.pem'' = Some CANONICAL_PUBLIC_SHA
      else str_at ''role'' i = ''upstream'' \<and>
           upstream_url value (JStr (str_at ''sourceUrl'' i)) = Inr True \<and>
           (\<forall>k \<in> set (strs_at ''trustKeyFiles'' i).
              \<exists>h. manifest_sha value k = Some h \<and> h \<noteq> CANONICAL_PUBLIC_SHA)"
      using key rec role is_fox \<open>r = p\<close> by (auto simp: index_record_def)
  qed (use bf ident bi i \<open>r = p\<close> in simp_all)
qed

text \<open>
  C9. Closed asset set: the package files, index files and trust-key files of an accepted closure are
  pairwise distinct, the digests it anchors are for exactly those files, and its bindings name every
  package file exactly once.
\<close>

theorem schema_closed_assets:
  assumes "schema value packages own = Inr (indexes, bindings, keys)"
  shows "distinct (map pkg_file packages @ map (str_at ''file'') indexes @ keys) \<and>
     mset (map (str_at ''file'') bindings) = mset (map pkg_file packages) \<and>
     (\<exists>anchored. bnd (get_or value ''filesSha256'' (JObj [])) iter = Inr (map JStr anchored) \<and>
        set anchored = set (map pkg_file packages @ map (str_at ''file'') indexes @ keys))"
proof -
  from schema_accepts [OF assms] obtain st m seen where
      idx: "fold_res (index_step value) indexes \<lparr>by_file = [], key_roles = []\<rparr> = Inr st"
    and keys: "keys = map fst (key_roles st)" "set keys \<inter> fst ` set (by_file st) = {}"
    and files: "distinct (map pkg_file packages)"
      "set (map pkg_file packages) \<inter> (fst ` set (by_file st) \<union> set keys) = {}"
    and binds: "fold_res (binding_step packages (by_file st) (owned_names own)) bindings [] = Inr seen"
      "set seen = set (map pkg_file packages)"
    and m: "bnd (get_or value ''filesSha256'' (JObj [])) element_set = Inr m"
      "set m = set (map JStr (map pkg_file packages @ map fst (by_file st) @ keys))"
    by metis
  note index = index_loop_start [OF idx]
  have names: "map fst (by_file st) = map (str_at ''file'') indexes"
    by (simp add: index(2) comp_def)
  have "seen = map (str_at ''file'') bindings" "distinct seen"
    using binds(1) package_bindings.run_distinct [OF binds(1)] unfolding package_bindings.run_iff
    by simp_all
  with binds(2) files(1) have ms: "mset (map (str_at ''file'') bindings) = mset (map pkg_file packages)"
    by (metis set_eq_iff_mset_eq_distinct)
  have "distinct (map pkg_file packages @ map fst (by_file st) @ keys)"
    using keys files index(3,4) by auto
  then have dist: "distinct (map pkg_file packages @ map (str_at ''file'') indexes @ keys)"
    by (simp only: names)
  from m(1) obtain v where v: "get_or value ''filesSha256'' (JObj []) = Inr v" "element_set v = Inr m"
    by (auto simp: ok_iff)
  have "set m = JStr ` set (map pkg_file packages @ map (str_at ''file'') indexes @ keys)"
    using m(2) unfolding names set_map [of JStr] .
  note anchored = element_set_strs [OF v(2) this]
  have "bnd (get_or value ''filesSha256'' (JObj [])) iter = Inr (map JStr (map str_of m))"
    using v(1) anchored(1) by simp
  with anchored(2) have "\<exists>anchored. bnd (get_or value ''filesSha256'' (JObj [])) iter = Inr (map JStr anchored) \<and>
      set anchored = set (map pkg_file packages @ map (str_at ''file'') indexes @ keys)"
    by blast
  with dist ms show ?thesis by blast
qed

section \<open>Upstream addresses\<close>

definition feed_address :: "string \<Rightarrow> string \<Rightarrow> string \<Rightarrow> bool" where
  "feed_address architecture version url \<longleftrightarrow>
     (\<exists>feed. feed \<noteq> [] \<and> list_all (in_cls feed_char) feed \<and>
        url = release_prefix version @ ''packages/'' @ architecture @ ''/'' @ feed @ ''/packages.adb'')"

definition target_address :: "string \<Rightarrow> string \<Rightarrow> string \<Rightarrow> bool" where
  "target_address version target url \<longleftrightarrow>
     url = release_prefix version @ ''targets/'' @ target @ ''/packages/packages.adb'' \<or>
     (\<exists>kmods. kmods \<noteq> [] \<and> list_all (in_cls kmod_char) kmods \<and>
        url = release_prefix version @ ''targets/'' @ target @ ''/kmods/'' @ kmods @ ''/packages.adb'')"

lemma rmatch_lit_plus_lit:
  "rmatch (Seq (lit pre) (Seq (rplus (Cls b)) (lit post))) url \<longleftrightarrow>
     (\<exists>mid. mid \<noteq> [] \<and> list_all (in_cls b) mid \<and> url = pre @ mid @ post)"
  by (auto simp: rmatch_lit_seq rmatch_seq_iff [of "rplus (Cls b)"] rmatch_plus_cls)

lemma feed_pattern:
  "rmatch (Seq (lit (release_prefix version @ ''packages/'' @ architecture @ ''/''))
      (Seq (rplus (Cls feed_char)) (lit ''/packages.adb''))) url \<longleftrightarrow> feed_address architecture version url"
  unfolding rmatch_lit_plus_lit feed_address_def append_assoc ..

lemma target_pattern:
  "url = release_prefix version @ ''targets/'' @ target @ ''/packages/packages.adb'' \<or>
   rmatch (Seq (lit (release_prefix version @ ''targets/'' @ target @ ''/kmods/''))
      (Seq (rplus (Cls kmod_char)) (lit ''/packages.adb''))) url \<longleftrightarrow> target_address version target url"
  unfolding rmatch_lit_plus_lit target_address_def append_assoc ..

lemma target_loop_cons:
  "target_loop (release_prefix version) url (JStr target # ts) =
     (if target \<notin> set SDK_TARGETS then Some False
      else if target_address version target url then Some True
      else target_loop (release_prefix version) url ts)"
  by (simp only: target_loop.simps json.simps target_pattern)

lemma version_loop_cons:
  "version_loop architecture targets url (JStr version # vs) =
     (rmatch openwrt_release version \<and>
      (feed_address architecture version url \<or>
       (case target_loop (release_prefix version) url targets of
          Some b \<Rightarrow> b | None \<Rightarrow> version_loop architecture targets url vs)))"
  by (simp only: version_loop.simps json.simps feed_pattern Let_def) simp

declare target_loop.simps(2) [simp del] version_loop.simps(2) [simp del]

lemma target_loop_iff:
  assumes "set targets \<subseteq> set SDK_TARGETS"
  shows "target_loop (release_prefix version) url (map JStr targets) =
     (if \<exists>t \<in> set targets. target_address version t url then Some True else None)"
  using assms by (induction targets) (auto simp: target_loop_cons)

lemma target_loop_True:
  "target_loop (release_prefix version) url targets = Some True \<Longrightarrow>
   \<exists>t \<in> set SDK_TARGETS. JStr t \<in> set targets \<and> target_address version t url"
proof (induction targets)
  case (Cons t targets)
  then obtain s where "t = JStr s" by (cases t) (auto simp: target_loop.simps(2))
  with Cons show ?case by (auto simp: target_loop_cons split: if_splits)
qed simp

lemma version_loop_True:
  "version_loop architecture targets url versions \<Longrightarrow>
   \<exists>v. JStr v \<in> set versions \<and> rmatch openwrt_release v \<and>
     (feed_address architecture v url \<or>
      (\<exists>t \<in> set SDK_TARGETS. JStr t \<in> set targets \<and> target_address v t url))"
proof (induction versions)
  case (Cons v versions)
  then obtain version where "v = JStr version" by (cases v) (auto simp: version_loop.simps(2))
  with Cons show ?case
    by (auto simp: version_loop_cons split: option.splits) (blast dest: target_loop_True)+
qed simp

lemma version_loop_iff:
  assumes "set targets \<subseteq> set SDK_TARGETS" and "list_all (rmatch openwrt_release) versions"
  shows "version_loop architecture (map JStr targets) url (map JStr versions) \<longleftrightarrow>
     (\<exists>v \<in> set versions. feed_address architecture v url \<or> (\<exists>t \<in> set targets. target_address v t url))"
  using assms(2)
  by (induction versions) (auto simp: target_loop_iff [OF assms(1)] version_loop_cons)

text \<open>
  Official origin: an address the contract accepts as an upstream index is, character for
  character, a package feed of a 25.12 release on downloads.openwrt.org for the closure's
  architecture, or the package or kernel-module index of one of the three supported targets.
\<close>

theorem upstream_url_official:
  assumes "upstream_url value (JStr url) = Inr True"
  shows "\<exists>architecture version. get_or value ''architecture'' (JStr []) = Inr (JStr architecture) \<and>
     rmatch NAME architecture \<and> rmatch openwrt_release version \<and>
     (feed_address architecture version url \<or>
      (\<exists>target \<in> set SDK_TARGETS. target_address version target url))"
  using assms
  by (auto simp: upstream_url_def bnd_def split: sum.split_asm json.split_asm if_split_asm
      dest!: version_loop_True)


section \<open>An accepted closure\<close>


definition sha_of :: "char \<Rightarrow> string" where "sha_of c = replicate 64 c"

definition sample_own_index :: json where
  "sample_own_index = JObj [(''file'', JStr ''own.adb''), (''sha256'', JStr (sha_of (CHR ''1''))), (''bytes'', JInt 10), (''role'', JStr ''foxhole''),
              (''sourceUrl'', JStr ''https://github.com/foxhole-team/foxhole-openwrt-client/releases/download/v1.0.0/packages.adb''),
              (''trustKeyFiles'', JArr [JStr ''foxhole-openwrt-apk.pem''])]"

definition sample_base_index :: json where
  "sample_base_index = JObj [(''file'', JStr ''base.adb''), (''sha256'', JStr (sha_of (CHR ''2''))), (''bytes'', JInt 20), (''role'', JStr ''upstream''),
              (''sourceUrl'', JStr ''https://downloads.openwrt.org/releases/25.12.0/packages/x86_64/base/packages.adb''),
              (''trustKeyFiles'', JArr [JStr ''openwrt.pem''])]"

definition sample_binding_list :: "json list" where
  "sample_binding_list = [
     JObj [(''name'', JStr ''foxhole-openwrt-client''), (''version'', JStr ''1.0.0-r1''), (''architecture'', JStr ''noarch''),
           (''file'', JStr ''client.apk''), (''indexFile'', JStr ''own.adb''), (''packageIdentity'', JStr (sha_of (CHR ''3'')))],
     JObj [(''name'', JStr ''libc''), (''version'', JStr ''1.2.5-r5''), (''architecture'', JStr ''x86_64''),
           (''file'', JStr ''libc.apk''), (''indexFile'', JStr ''base.adb''), (''packageIdentity'', JStr (sha_of (CHR ''4'')))]]"

definition sample_closure :: json where
  "sample_closure = JObj [
     (''architecture'', JStr ''x86_64''),
     (''supportedOpenWrt'', JArr [JStr ''25.12.0'']),
     (''supportedTargets'', JArr [JStr ''x86/64'']),
     (''verification'', JObj [(''signatureModel'', JStr MODEL), (''factorySourceSha256'', JStr (sha_of (CHR ''a'')))]),
     (''repositoryIndexes'', JArr [sample_own_index, sample_base_index]),
     (''packageAuthentications'', JArr sample_binding_list),
     (''trustKeys'', JArr [
        JObj [(''file'', JStr ''foxhole-openwrt-apk.pem''), (''sha256'', JStr CANONICAL_PUBLIC_SHA), (''bytes'', JInt 178)],
        JObj [(''file'', JStr ''openwrt.pem''), (''sha256'', JStr (sha_of (CHR ''5''))), (''bytes'', JInt 180)]]),
     (''filesSha256'', JObj [(''client.apk'', JStr (sha_of (CHR ''6''))), (''libc.apk'', JStr (sha_of (CHR ''7''))),
        (''own.adb'', JStr (sha_of (CHR ''1''))), (''base.adb'', JStr (sha_of (CHR ''2''))),
        (''foxhole-openwrt-apk.pem'', JStr CANONICAL_PUBLIC_SHA), (''openwrt.pem'', JStr (sha_of (CHR ''5'')))]),
     (''repositoryIndexBytes'', JInt 30),
     (''trustKeyBytes'', JInt 358)]"

definition sample_roles :: "(string \<times> string) list" where
  "sample_roles = [(''foxhole-openwrt-apk.pem'', ''foxhole''), (''openwrt.pem'', ''upstream'')]"

definition sample_packages :: "package list" where
  "sample_packages =
     [\<lparr>pkg_name = ''foxhole-openwrt-client'', pkg_version = ''1.0.0-r1'', pkg_arch = ''noarch'', installed_bytes = 1000,
       archive_bytes = 500, pkg_file = ''client.apk'', pkg_sha256 = sha_of (CHR ''6''), depends = [''libc''], provides = []\<rparr>,
      \<lparr>pkg_name = ''libc'', pkg_version = ''1.2.5-r5'', pkg_arch = ''x86_64'', installed_bytes = 2000,
       archive_bytes = 900, pkg_file = ''libc.apk'', pkg_sha256 = sha_of (CHR ''7''), depends = [], provides = []\<rparr>]"



lemmas name_eval = NAME_iff name_char_def in_cls_def alnum_def

lemma sample_patterns:
  "is_hex c \<Longrightarrow> rmatch HEX64 (sha_of c)" "rmatch HEX64 CANONICAL_PUBLIC_SHA"
  "rmatch NAME ''own.adb''" "rmatch NAME ''base.adb''" "rmatch NAME ''foxhole-openwrt-apk.pem''"
  "rmatch NAME ''openwrt.pem''"  "rmatch NAME ''noarch''" "rmatch NAME ''x86_64''"
  "rmatch PACKAGE ''foxhole-openwrt-client''" "rmatch PACKAGE ''libc''"
  "rmatch VERSION ''1.0.0-r1''" "rmatch VERSION ''1.2.5-r5''" "list_all (rmatch PACKAGE) OWN"
  "is_hex (CHR ''1'')" "is_hex (CHR ''2'')" "is_hex (CHR ''3'')" "is_hex (CHR ''4'')" "is_hex (CHR ''5'')" "is_hex (CHR ''a'')"
  by (simp_all add: HEX64_iff is_hex_def in_cls_def sha_of_def list_all_iff CANONICAL_PUBLIC_SHA_def name_eval
      PACKAGE_def VERSION_def OWN_def rmatch_name_shape)

lemma sample_split:
  "urlsplit ''https://github.com/foxhole-team/foxhole-openwrt-client/releases/download/v1.0.0/packages.adb'' =
  Inr \<lparr>scheme = ''https'', netloc = ''github.com'', path = ''/foxhole-team/foxhole-openwrt-client/releases/download/v1.0.0/packages.adb'', query=[], fragment=[]\<rparr>"
  "urlsplit ''https://downloads.openwrt.org/releases/25.12.0/packages/x86_64/base/packages.adb'' =
  Inr \<lparr>scheme = ''https'', netloc = ''downloads.openwrt.org'', path = ''/releases/25.12.0/packages/x86_64/base/packages.adb'', query=[], fragment=[]\<rparr>"
  by (simp_all add: urlsplit_def split_scheme_def url_clean_def before_char_def after_char_def lower_def lower_char_def is_alpha_def scheme_char_def in_cls_def)

lemma sample_foxhole_path: "rmatch foxhole_path ''/foxhole-team/foxhole-openwrt-client/releases/download/v1.0.0/packages.adb''"
  by code_simp
lemma sample_upstream: "upstream_url sample_closure (JStr ''https://downloads.openwrt.org/releases/25.12.0/packages/x86_64/base/packages.adb'') = Inr True"
 by code_simp

lemmas step_eval = guard_simps sub.simps field_matches_def get_def set_size_def sample_patterns sample_split
  sample_upstream sample_foxhole_path MAX_INDEX_def auth_integer_def hostname_def username_def password_def port_def
  host_info_def user_info_def before_char_def after_char_def present_def lower_def lower_char_def

lemma sample_own:
  "index_step sample_closure sample_own_index \<lparr>by_file = [], key_roles = []\<rparr> =
     Inr \<lparr>by_file = [(''own.adb'', sample_own_index)], key_roles = [(''foxhole-openwrt-apk.pem'', ''foxhole'')]\<rparr>"
  unfolding index_step_def sample_own_index_def
  by (simp add: step_eval index_url_ok_def trust_list_ok_def key_role_step_def)

lemma sample_base:
  "index_step sample_closure sample_base_index
       \<lparr>by_file = [(''own.adb'', sample_own_index)], key_roles = [(''foxhole-openwrt-apk.pem'', ''foxhole'')]\<rparr> =
     Inr \<lparr>by_file = [(''own.adb'', sample_own_index), (''base.adb'', sample_base_index)],
          key_roles = [(''foxhole-openwrt-apk.pem'', ''foxhole''), (''openwrt.pem'', ''upstream'')]\<rparr>"
  unfolding index_step_def sample_base_index_def
  by (simp add: step_eval index_url_ok_def trust_list_ok_def key_role_step_def)

lemma sha_of_eq: "sha_of c = sha_of d \<longleftrightarrow> c = d" "sha_of c \<noteq> CANONICAL_PUBLIC_SHA"
    "CANONICAL_PUBLIC_SHA \<noteq> sha_of c"
  by (auto simp: sha_of_def CANONICAL_PUBLIC_SHA_def numeral_eq_Suc)

lemma sample_trust:
  "bnd (get sample_closure ''trustKeys'') iter = Inr ts \<Longrightarrow>
   fold_res (trust_step sample_closure sample_roles) ts [] =
     Inr [(''foxhole-openwrt-apk.pem'', CANONICAL_PUBLIC_SHA), (''openwrt.pem'', sha_of (CHR ''5''))]"
  apply (simp add: sample_closure_def get_def)
  by (clarsimp simp: trust_step_def step_eval sample_roles_def sha_of_eq in_strs_def)

lemma sample_bindings:
  "fold_res (binding_step sample_packages [(''own.adb'', sample_own_index), (''base.adb'', sample_base_index)] OWN)
     sample_binding_list [] = Inr [''client.apk'', ''libc.apk'']"
  by (simp add: sample_binding_list_def binding_step_def identity_def step_eval find_record_def find_index_def
      sample_packages_def is_role_def sample_own_index_def sample_base_index_def OWN_def)

lemma sample_schema:
  "schema sample_closure sample_packages None =
     Inr ([sample_own_index, sample_base_index], sample_binding_list, map fst sample_roles)"
proof -
  have idx: "fold_res (index_step sample_closure) [sample_own_index, sample_base_index] \<lparr>by_file = [], key_roles = []\<rparr> =
     Inr \<lparr>by_file = [(''own.adb'', sample_own_index), (''base.adb'', sample_base_index)], key_roles = sample_roles\<rparr>"
    by (simp add: sample_own sample_base sample_roles_def)
  obtain ts where ts: "get sample_closure ''trustKeys'' = Inr (JArr ts)" "length ts = 2" "byte_sum ts = Inr 358"
    by (simp add: sample_closure_def byte_sum_def)
  have bs: "get sample_closure ''packageAuthentications'' = Inr (JArr sample_binding_list)" "length sample_binding_list = 2"
    by (simp_all add: sample_closure_def sample_binding_list_def)
  have t: "fold_res (trust_step sample_closure sample_roles) ts [] =
     Inr [(''foxhole-openwrt-apk.pem'', CANONICAL_PUBLIC_SHA), (''openwrt.pem'', sha_of (CHR ''5''))]"
    using ts by (intro sample_trust) simp
  note b = sample_bindings
  have fields: "get sample_closure ''repositoryIndexes'' = Inr (JArr [sample_own_index, sample_base_index])"
    "get sample_closure ''repositoryIndexBytes'' = Inr (JInt 30)" "get sample_closure ''trustKeyBytes'' = Inr (JInt 358)"
    "byte_sum [sample_own_index, sample_base_index] = Inr 30"
    "get_or sample_closure ''verification'' (JObj []) = Inr (JObj [(''signatureModel'', JStr MODEL), (''factorySourceSha256'', JStr (sha_of (CHR ''a'')))])"
    "bnd (get_or sample_closure ''filesSha256'' (JObj [])) element_set = Inr (map JStr [''client.apk'', ''libc.apk'', ''own.adb'', ''base.adb'',
       ''foxhole-openwrt-apk.pem'', ''openwrt.pem''])"
    by (simp_all add: sample_closure_def byte_sum_def sample_own_index_def sample_base_index_def element_set_def)
  have own: "OWN \<noteq> []" "length (remdups OWN) \<le> 26" by (simp_all add: OWN_def)
  have pk: "map pkg_file sample_packages = [''client.apk'', ''libc.apk'']" "length sample_packages = 2" "sample_packages \<noteq> []"
    by (simp_all add: sample_packages_def)
  have roles: "map fst sample_roles = [''foxhole-openwrt-apk.pem'', ''openwrt.pem'']" by (simp add: sample_roles_def)
  show ?thesis
    unfolding schema_def
    by (simp add: ts bs fields pk own roles idx t b Let_def guard_simps same_set_def field_matches_def
       sample_patterns auth_integer_def del: fold_res.simps)
      (auto simp: sample_roles_def OWN_def)
qed

lemma sample_accepted: "\<exists>r. schema sample_closure sample_packages None = Inr r"
  using sample_schema by blast

theorem schema_signing_authority_witness:
  "\<exists>indexes bindings keys. schema sample_closure sample_packages None = Inr (indexes, bindings, keys) \<and>
     (\<exists>b \<in> set bindings. get b ''file'' = Inr (JStr ''libc.apk'') \<and>
        identity b = Inr (''libc'', ''1.2.5-r5'', ''x86_64''))"
proof -
  obtain indexes bindings keys where ok: "schema sample_closure sample_packages None = Inr (indexes, bindings, keys)"
    using sample_accepted by auto
  from schema_signing_authority [OF ok, of "sample_packages ! 1"] ok show ?thesis
    by (auto simp: sample_packages_def)
qed

theorem schema_closed_assets_witness:
  "\<exists>indexes bindings keys. schema sample_closure sample_packages None = Inr (indexes, bindings, keys) \<and>
     mset (map (str_at ''file'') bindings) = {#''client.apk'', ''libc.apk''#}"
proof -
  obtain indexes bindings keys where ok: "schema sample_closure sample_packages None = Inr (indexes, bindings, keys)"
    using sample_accepted by auto
  from schema_closed_assets [OF ok] ok show ?thesis
    by (auto simp: sample_packages_def)
qed

theorem upstream_url_official_witness:
  "\<exists>architecture version. rmatch NAME architecture \<and> rmatch openwrt_release version \<and>
     (feed_address architecture version
        ''https://downloads.openwrt.org/releases/25.12.0/packages/x86_64/base/packages.adb'' \<or>
      (\<exists>target \<in> set SDK_TARGETS. target_address version target
        ''https://downloads.openwrt.org/releases/25.12.0/packages/x86_64/base/packages.adb''))"
  using upstream_url_official [OF sample_upstream] by blast


end
