(* ===== verification/Json_Text.thy ===== *)
theory Json_Text
  imports Py_Json "HOL-Library.Multiset"
begin

text \<open>
  \<open>json.loads\<close> and \<open>json.dumps(..., sort_keys=True, separators=(',', ':'))\<close>. The reader takes the
  hook that builds an object from its pairs: the default one keeps the last value of a repeated key,
  the strict ones of the tools refuse it. Recursion is bounded by a fuel, the length of the text;
  \<open>loads_dumps\<close> shows that it suffices for everything the writer produces. The literals NaN and
  Infinity and escapes above U+00FF, which have no value here, are refused.
\<close>

section \<open>Reading\<close>

definition json_error :: py_error where
  "json_error = ValueError ''JSON document required''"

definition json_blank :: "char \<Rightarrow> bool" where
  "json_blank c \<longleftrightarrow> c \<in> {CHR 0x20, CHR 0x09, CHR 0x0A, CHR 0x0D}"

abbreviation skip_blank :: "string \<Rightarrow> string" where
  "skip_blank \<equiv> dropWhile json_blank"

definition hex_value :: "char \<Rightarrow> nat option" where
  "hex_value c =
     (if ascii_digit c then Some (of_char c - 48)
      else if CHR ''a'' \<le> c \<and> c \<le> CHR ''f'' then Some (of_char c - 87)
      else if CHR ''A'' \<le> c \<and> c \<le> CHR ''F'' then Some (of_char c - 55) else None)"

definition simple_escape :: "char \<Rightarrow> char option" where
  "simple_escape c =
     (if c = CHR 0x22 then Some (CHR 0x22) else if c = CHR 0x5C then Some (CHR 0x5C)
      else if c = CHR ''/'' then Some (CHR ''/'') else if c = CHR ''b'' then Some (CHR 0x08)
      else if c = CHR ''f'' then Some (CHR 0x0C) else if c = CHR ''n'' then Some (CHR 0x0A)
      else if c = CHR ''r'' then Some (CHR 0x0D) else if c = CHR ''t'' then Some (CHR 0x09) else None)"

text \<open>The characters after the opening quote, up to the closing one, and the text that follows.\<close>

fun read_string :: "string \<Rightarrow> (string \<times> string) option" where
  "read_string [] = None"
| "read_string (c # cs) =
     (if c = CHR 0x22 then Some ([], cs)
      else if c = CHR 0x5C then
        (case cs of
           [] \<Rightarrow> None
         | e # ds \<Rightarrow>
             if e = CHR ''u'' then
               (case ds of
                  h1 # h2 # h3 # h4 # es \<Rightarrow>
                    (case (hex_value h1, hex_value h2, hex_value h3, hex_value h4) of
                       (Some 0, Some 0, Some a, Some b) \<Rightarrow>
                         map_option (map_prod ((#) (char_of (16 * a + b))) id) (read_string es)
                     | _ \<Rightarrow> None)
                | _ \<Rightarrow> None)
             else (case simple_escape e of
                     None \<Rightarrow> None
                   | Some d \<Rightarrow> map_option (map_prod ((#) d) id) (read_string ds)))
      else if of_char c < (32 :: nat) then None
      else map_option (map_prod ((#) c) id) (read_string cs))"

text \<open>\<open>(-?(?:0|[1-9][0-9]*))(\.[0-9]+)?([eE][-+]?[0-9]+)?\<close>\<close>

definition read_digits :: "string \<Rightarrow> string \<times> string" where
  "read_digits s = (takeWhile ascii_digit s, dropWhile ascii_digit s)"

definition read_natural :: "string \<Rightarrow> (string \<times> string) option" where
  "read_natural s = (case s of
     [] \<Rightarrow> None
   | c # cs \<Rightarrow> if c = CHR ''0'' then Some ([c], cs)
               else if ascii_digit c then Some (read_digits s) else None)"

definition read_fraction :: "string \<Rightarrow> string \<times> string" where
  "read_fraction s = (case s of
     c # d # cs \<Rightarrow> if c = CHR ''.'' \<and> ascii_digit d then read_digits (d # cs) else ([], s)
   | _ \<Rightarrow> ([], s))"

definition read_exponent :: "string \<Rightarrow> int option \<times> string" where
  "read_exponent s = (case s of
     c # cs \<Rightarrow>
       if c \<noteq> CHR ''e'' \<and> c \<noteq> CHR ''E'' then (None, s)
       else (case cs of
          d # ds \<Rightarrow>
            let signed = (d = CHR ''-'' \<or> d = CHR ''+''); digits = fst (read_digits (if signed then ds else cs));
                after = snd (read_digits (if signed then ds else cs))
            in if digits = [] then (None, s)
               else (Some ((if d = CHR ''-'' then - 1 else 1) * int_of_digits 0 digits), after)
        | [] \<Rightarrow> (None, s))
   | [] \<Rightarrow> (None, s))"

definition ten_power :: "int \<Rightarrow> rat" where
  "ten_power e = (if 0 \<le> e then 10 ^ nat e else 1 / 10 ^ nat (- e))"

definition read_number :: "string \<Rightarrow> (json \<times> string) res" where
  "read_number s =
     (let negative = (s \<noteq> [] \<and> hd s = CHR ''-''); sign = (if negative then - 1 else 1)
      in case read_natural (if negative then tl s else s) of
           None \<Rightarrow> Inl json_error
         | Some (digits, s1) \<Rightarrow>
             (case read_fraction s1 of (fraction, s2) \<Rightarrow>
             (case read_exponent s2 of (expo, s3) \<Rightarrow>
               if fraction = [] \<and> expo = None
               then (if 4300 < length digits then Inl json_error
                     else Inr (JInt (sign * int_of_digits 0 digits), s1))
               else Inr (JFloat (of_int (sign * int_of_digits 0 (digits @ fraction)) *
                           ten_power ((case expo of None \<Rightarrow> 0 | Some e \<Rightarrow> e) - int (length fraction))), s3))))"

text \<open>Object hooks: the default dict, and the hook that refuses a repeated key.\<close>

fun set_item :: "string \<Rightarrow> json \<Rightarrow> (string \<times> json) list \<Rightarrow> (string \<times> json) list" where
  "set_item k v [] = [(k, v)]"
| "set_item k v ((k', v') # kvs) = (if k = k' then (k, v) # kvs else (k', v') # set_item k v kvs)"

definition dict_hook :: "(string \<times> json) list \<Rightarrow> json res" where
  "dict_hook kvs = Inr (JObj (fold (\<lambda>(k, v). set_item k v) kvs []))"

fun read_value :: "((string \<times> json) list \<Rightarrow> json res) \<Rightarrow> nat \<Rightarrow> string \<Rightarrow> (json \<times> string) res"
  and read_items :: "((string \<times> json) list \<Rightarrow> json res) \<Rightarrow> nat \<Rightarrow> string \<Rightarrow> (json list \<times> string) res"
  and read_pairs :: "((string \<times> json) list \<Rightarrow> json res) \<Rightarrow> nat \<Rightarrow> string \<Rightarrow> ((string \<times> json) list \<times> string) res"
where
  "read_value hook 0 s = Inl json_error"
| "read_value hook (Suc n) s =
     (case s of
        [] \<Rightarrow> Inl json_error
      | c # cs \<Rightarrow>
          if c = CHR 0x22 then
            (case read_string cs of None \<Rightarrow> Inl json_error | Some (t, rest) \<Rightarrow> Inr (JStr t, rest))
          else if c = CHR 0x7B then
            (case skip_blank cs of
               d # ds \<Rightarrow>
                 if d = CHR 0x7D then bnd (hook []) (\<lambda>v. Inr (v, ds))
                 else bnd (read_pairs hook n (d # ds)) (\<lambda>(kvs, rest). bnd (hook kvs) (\<lambda>v. Inr (v, rest)))
             | [] \<Rightarrow> Inl json_error)
          else if c = CHR ''['' then
            (case skip_blank cs of
               d # ds \<Rightarrow> if d = CHR '']'' then Inr (JArr [], ds)
                         else bnd (read_items hook n (d # ds)) (\<lambda>(xs, rest). Inr (JArr xs, rest))
             | [] \<Rightarrow> Inl json_error)
          else if take 4 s = ''null'' then Inr (JNull, drop 4 s)
          else if take 4 s = ''true'' then Inr (JBool True, drop 4 s)
          else if take 5 s = ''false'' then Inr (JBool False, drop 5 s)
          else read_number s)"
| "read_items hook 0 s = Inl json_error"
| "read_items hook (Suc n) s =
     bnd (read_value hook n s) (\<lambda>(x, rest).
     (case skip_blank rest of
        c # cs \<Rightarrow>
          if c = CHR '']'' then Inr ([x], cs)
          else if c = CHR '','' then
            bnd (read_items hook n (skip_blank cs)) (\<lambda>(xs, rest'). Inr (x # xs, rest'))
          else Inl json_error
      | [] \<Rightarrow> Inl json_error))"
| "read_pairs hook 0 s = Inl json_error"
| "read_pairs hook (Suc n) s =
     (case s of
        [] \<Rightarrow> Inl json_error
      | q # qs \<Rightarrow>
          if q \<noteq> CHR 0x22 then Inl json_error
          else (case read_string qs of
             None \<Rightarrow> Inl json_error
           | Some (k, s1) \<Rightarrow>
               (case skip_blank s1 of
                  [] \<Rightarrow> Inl json_error
                | c # cs \<Rightarrow>
                    if c \<noteq> CHR '':'' then Inl json_error
                    else bnd (read_value hook n (skip_blank cs)) (\<lambda>(x, rest).
                         (case skip_blank rest of
                            d # ds \<Rightarrow>
                              if d = CHR 0x7D then Inr ([(k, x)], ds)
                              else if d = CHR '','' then
                                bnd (read_pairs hook n (skip_blank ds)) (\<lambda>(kvs, rest'). Inr ((k, x) # kvs, rest'))
                              else Inl json_error
                          | [] \<Rightarrow> Inl json_error)))))"

definition loads_with :: "((string \<times> json) list \<Rightarrow> json res) \<Rightarrow> string \<Rightarrow> json res" where
  "loads_with hook s =
     bnd (read_value hook (Suc (length s)) (skip_blank s)) (\<lambda>(v, rest).
     if skip_blank rest = [] then Inr v else Inl json_error)"

definition loads :: "string \<Rightarrow> json res" where
  "loads = loads_with dict_hook"

section \<open>Writing\<close>

definition hex_char :: "nat \<Rightarrow> char" where
  "hex_char n = (if n < 10 then char_of (48 + n) else char_of (87 + n))"

definition escape_char :: "char \<Rightarrow> string" where
  "escape_char c =
     (if c = CHR 0x22 then [CHR 0x5C, c] else if c = CHR 0x5C then [CHR 0x5C, c]
      else if c = CHR 0x08 then [CHR 0x5C, CHR ''b''] else if c = CHR 0x0C then [CHR 0x5C, CHR ''f'']
      else if c = CHR 0x0A then [CHR 0x5C, CHR ''n''] else if c = CHR 0x0D then [CHR 0x5C, CHR ''r'']
      else if c = CHR 0x09 then [CHR 0x5C, CHR ''t'']
      else if of_char c < (32 :: nat) \<or> 126 < (of_char c :: nat)
      then [CHR 0x5C, CHR ''u'', CHR ''0'', CHR ''0'', hex_char (of_char c div 16), hex_char (of_char c mod 16)]
      else [c])"

definition write_string :: "string \<Rightarrow> string" where
  "write_string s = [CHR 0x22] @ concat (map escape_char s) @ [CHR 0x22]"

fun join_with :: "string \<Rightarrow> string list \<Rightarrow> string" where
  "join_with d [] = []"
| "join_with d [x] = x"
| "join_with d (x # y # ys) = x @ d @ join_with d (y # ys)"

text \<open>A float is written by its repr, which is not modelled: \<open>None\<close>.\<close>

fun float_free :: "json \<Rightarrow> bool" where
  "float_free (JFloat q) = False"
| "float_free (JArr xs) = list_all float_free xs"
| "float_free (JObj kvs) = list_all (\<lambda>kv. float_free (snd kv)) kvs"
| "float_free v = True"

primrec sort_keys :: "json \<Rightarrow> json" where
  "sort_keys JNull = JNull"
| "sort_keys (JBool b) = JBool b"
| "sort_keys (JInt i) = JInt i"
| "sort_keys (JFloat q) = JFloat q"
| "sort_keys (JStr s) = JStr s"
| "sort_keys (JArr xs) = JArr (map sort_keys xs)"
| "sort_keys (JObj kvs) = JObj (sort_key fst (map (map_prod id sort_keys) kvs))"

fun write_value :: "json \<Rightarrow> string" where
  "write_value JNull = ''null''"
| "write_value (JBool b) = (if b then ''true'' else ''false'')"
| "write_value (JInt i) = str_of_int i"
| "write_value (JFloat q) = []"
| "write_value (JStr s) = write_string s"
| "write_value (JArr xs) = ''['' @ join_with '','' (map write_value xs) @ '']''"
| "write_value (JObj kvs) =
     [CHR 0x7B] @ join_with '','' (map (\<lambda>kv. write_string (fst kv) @ '':'' @ write_value (snd kv)) kvs) @ [CHR 0x7D]"

definition dumps :: "json \<Rightarrow> string" where
  "dumps v = write_value (sort_keys v)"


section \<open>What is written is read back\<close>

lemma hex_value_hex_char:
  assumes "k < 16"
  shows "hex_value (hex_char k) = Some k"
proof -
  have "k \<in> set [0..<16]" using assms by simp
  then show ?thesis
    unfolding upt_conv_Cons [of 0] by (auto simp: upt_conv_Cons hex_value_def hex_char_def ascii_digit_def less_eq_char_def)
qed

lemma read_escape:
  "read_string (escape_char c @ rest) = map_option (map_prod ((#) c) id) (read_string rest)"
proof -
  have lt: "of_char c div 16 < (16 :: nat)" "of_char c mod 16 < (16 :: nat)"
    using nat_of_char_less_256 [of c] less_mult_imp_div_less [of "of_char c" 16 "16 :: nat"] by simp_all
  have sum: "char_of (16 * (of_char c div 16) + of_char c mod (16 :: nat)) = c" by simp
  have esc: "hex_value (CHR ''0'') = Some 0" by (simp add: hex_value_def ascii_digit_def less_eq_char_def)
  consider "c \<in> {CHR 0x22, CHR 0x5C, CHR 0x08, CHR 0x0C, CHR 0x0A, CHR 0x0D, CHR 0x09}"
    | "c \<notin> {CHR 0x22, CHR 0x5C, CHR 0x08, CHR 0x0C, CHR 0x0A, CHR 0x0D, CHR 0x09}"
      "of_char c < (32 :: nat) \<or> 126 < (of_char c :: nat)"
    | "c \<notin> {CHR 0x22, CHR 0x5C, CHR 0x08, CHR 0x0C, CHR 0x0A, CHR 0x0D, CHR 0x09}"
      "\<not> (of_char c < (32 :: nat) \<or> 126 < (of_char c :: nat))"
    by blast
  then show ?thesis
  proof cases
    case 1
    then show ?thesis by (auto simp: escape_char_def simple_escape_def)
  next
    case 2
    then show ?thesis
      by (simp add: escape_char_def esc hex_value_hex_char lt sum)
  next
    case 3
    then show ?thesis by (simp add: escape_char_def)
  qed
qed

lemma read_write_string: "read_string (concat (map escape_char s) @ CHR 0x22 # rest) = Some (s, rest)"
proof (induction s)
  case (Cons c s)
  then show ?case by (simp add: read_escape)
qed simp

text \<open>A value is followed by a delimiter, so that a number ends where it was written.\<close>

definition delimited :: "string \<Rightarrow> bool" where
  "delimited rest \<longleftrightarrow> rest = [] \<or> hd rest \<in> {CHR '','', CHR '']'', CHR 0x7D, CHR 0x0A}"

lemma delimited_simps [simp]: "delimited []" "delimited (CHR '','' # s)" "delimited (CHR '']'' # s)"
    "delimited (CHR 0x7D # s)" "delimited (CHR 0x0A # s)"
  by (simp_all add: delimited_def)

lemma digits_no_zero: "0 < n \<Longrightarrow> hd (digits_of_nat n) \<noteq> CHR ''0''"
proof (induction n rule: digits_of_nat.induct)
  case (1 n)
  show ?case
  proof (cases "n < 10")
    case True
    then have "n \<in> {1, 2, 3, 4, 5, 6, 7, 8, 9}" using 1 by auto
    then show ?thesis by (auto simp: digits_of_nat.simps [of n] char_of_def)
  next
    case False
    with 1 have "hd (digits_of_nat (n div 10)) \<noteq> CHR ''0''" by simp
    with False digits_of_nat_ok [of "n div 10"] show ?thesis
      by (simp add: digits_of_nat.simps [of n])
  qed
qed

lemma read_natural_digits:
  assumes "delimited rest"
  shows "read_natural (digits_of_nat n @ rest) = Some (digits_of_nat n, rest)"
proof (cases "n = 0")
  case True
  then show ?thesis by (simp add: digits_of_nat.simps read_natural_def char_of_def bit_0)
next
  case False
  have ok: "list_all ascii_digit (digits_of_nat n)" "digits_of_nat n \<noteq> []"
    using digits_of_nat_ok by auto
  then obtain c cs where c: "digits_of_nat n = c # cs" by (cases "digits_of_nat n") auto
  have "rest = [] \<or> \<not> ascii_digit (hd rest)"
    using assms by (auto simp: delimited_def ascii_digit_def less_eq_char_def)
  then have "takeWhile ascii_digit rest = [] \<and> dropWhile ascii_digit rest = rest"
    by (cases rest) auto
  then have "read_digits (digits_of_nat n @ rest) = (digits_of_nat n, rest)"
    using ok(1) by (simp add: read_digits_def list_all_iff takeWhile_append dropWhile_append)
  moreover have "c \<noteq> CHR ''0''" using digits_no_zero [of n] False c by simp
  ultimately show ?thesis using ok(1) by (simp add: read_natural_def c)
qed

lemma no_fraction: "delimited rest \<Longrightarrow> read_fraction rest = ([], rest)"
  by (auto simp: read_fraction_def delimited_def split: list.splits)

lemma no_exponent: "delimited rest \<Longrightarrow> read_exponent rest = (None, rest)"
  by (auto simp: read_exponent_def delimited_def split: list.splits)

lemma read_number_int:
  assumes "delimited rest" and "length (digits_of_nat (nat \<bar>i\<bar>)) \<le> 4300"
  shows "read_number (str_of_int i @ rest) = Inr (JInt i, rest)"
proof -
  let ?d = "digits_of_nat (nat \<bar>i\<bar>)"
  have ok: "?d \<noteq> []" "list_all ascii_digit ?d" "int_of_digits 0 ?d = \<bar>i\<bar>"
    using digits_of_nat_ok [of "nat \<bar>i\<bar>"] by auto
  then have "hd (?d @ rest) \<noteq> CHR ''-''"
    by (cases ?d) (auto simp: ascii_digit_def less_eq_char_def)
  then show ?thesis
    using ok assms
    by (auto simp: read_number_def str_of_int_def read_natural_digits no_fraction no_exponent Let_def)
qed

fun printable :: "json \<Rightarrow> bool" where
  "printable (JFloat q) = False"
| "printable (JInt i) = (length (digits_of_nat (nat \<bar>i\<bar>)) \<le> 4300)"
| "printable (JArr xs) = list_all printable xs"
| "printable (JObj kvs) = (distinct (map fst kvs) \<and> list_all (\<lambda>kv. printable (snd kv)) kvs)"
| "printable v = True"

lemma str_of_int_start:
  "\<exists>c cs. str_of_int i = c # cs \<and> (c = CHR ''-'' \<or> ascii_digit c)"
  using digits_of_nat_ok [of "nat i"] digits_of_nat_ok [of "nat (- i)"]
  by (cases "digits_of_nat (nat i)") (auto simp: str_of_int_def)

text \<open>The first character of a written value decides what the reader does next.\<close>

definition starts_value :: "string \<Rightarrow> bool" where
  "starts_value s \<longleftrightarrow> s \<noteq> [] \<and> \<not> json_blank (hd s) \<and> hd s \<noteq> CHR '']'' \<and> hd s \<noteq> CHR 0x7D"

lemma write_starts: "printable v \<Longrightarrow> starts_value (write_value v)"
proof (cases v)
  case (JInt i)
  then show ?thesis
    using str_of_int_start [of i]
    by (auto simp: starts_value_def json_blank_def ascii_digit_def less_eq_char_def)
qed (auto simp: starts_value_def json_blank_def write_string_def)

lemma skip_blank_start: "starts_value s \<Longrightarrow> skip_blank (s @ t) = s @ t"
  by (cases s) (auto simp: starts_value_def)

lemma not_blank [simp]:
  "\<not> json_blank (CHR '','')" "\<not> json_blank (CHR '']'')" "\<not> json_blank (CHR 0x7D)"
  "\<not> json_blank (CHR '':'')" "\<not> json_blank (CHR 0x22)"
  by (simp_all add: json_blank_def)

text \<open>An object hook that keeps the pairs of an object without repeated keys as they are.\<close>

locale object_hook =
  fixes hook :: "(string \<times> json) list \<Rightarrow> json res"
  assumes hook_distinct: "distinct (map fst kvs) \<Longrightarrow> hook kvs = Inr (JObj kvs)"
begin

definition reads :: "json \<Rightarrow> bool" where
  "reads v \<longleftrightarrow> (\<forall>n rest. length (write_value v) \<le> n \<longrightarrow> delimited rest \<longrightarrow>
     read_value hook n (write_value v @ rest) = Inr (v, rest))"

lemma read_items_write:
  assumes "\<forall>x \<in> set (x # xs). reads x \<and> printable x"
    and "length (join_with '','' (map write_value (x # xs))) < n"
  shows "read_items hook n (join_with '','' (map write_value (x # xs)) @ CHR '']'' # rest) = Inr (x # xs, rest)"
  using assms
proof (induction xs arbitrary: x n)
  case Nil
  then obtain m where n: "n = Suc m" "length (write_value x) \<le> m" by (cases n) auto
  with Nil show ?case by (simp add: reads_def)
next
  case (Cons y ys)
  let ?tail = "join_with '','' (map write_value (y # ys)) @ CHR '']'' # rest"
  from Cons.prems obtain m where n: "n = Suc m" by (cases n) auto
  have len: "length (write_value x) \<le> m" "length (join_with '','' (map write_value (y # ys))) < m"
    using Cons.prems(2) n by simp_all
  have "read_value hook m (write_value x @ CHR '','' # ?tail) = Inr (x, CHR '','' # ?tail)"
    using Cons.prems(1) len(1) by (simp add: reads_def)
  moreover have "skip_blank ?tail = ?tail"
    using Cons.prems(1) write_starts [of y] skip_blank_start [of "write_value y"]
    by (cases ys) (simp_all)
  moreover have "read_items hook m ?tail = Inr (y # ys, rest)"
    using Cons.prems(1) len(2) by (intro Cons.IH) auto
  ultimately show ?case by (simp add: n)
qed

definition write_pair :: "string \<times> json \<Rightarrow> string" where
  "write_pair kv = write_string (fst kv) @ '':'' @ write_value (snd kv)"

lemma read_pair_head:
  "read_string (concat (map escape_char k) @ CHR 0x22 # CHR '':'' # s) = Some (k, CHR '':'' # s)"
  by (rule read_write_string)

lemma read_pairs_write:
  assumes "\<forall>kv \<in> set (kv # kvs). reads (snd kv) \<and> printable (snd kv)"
    and "length (join_with '','' (map write_pair (kv # kvs))) < n"
  shows "read_pairs hook n (join_with '','' (map write_pair (kv # kvs)) @ CHR 0x7D # rest) = Inr (kv # kvs, rest)"
  using assms
proof (induction kvs arbitrary: kv n)
  case Nil
  then obtain m where n: "n = Suc m" "length (write_value (snd kv)) \<le> m"
    by (cases n) (auto simp: write_pair_def)
  have "skip_blank (write_value (snd kv) @ CHR 0x7D # rest) = write_value (snd kv) @ CHR 0x7D # rest"
    using Nil.prems(1) by (intro skip_blank_start write_starts) simp
  with Nil n show ?case
    by (cases kv) (simp add: write_pair_def write_string_def read_pair_head reads_def)
next
  case (Cons kv' kvs)
  let ?tail = "join_with '','' (map write_pair (kv' # kvs)) @ CHR 0x7D # rest"
  from Cons.prems obtain m where n: "n = Suc m" by (cases n) auto
  have len: "length (write_value (snd kv)) \<le> m" "length (join_with '','' (map write_pair (kv' # kvs))) < m"
    using Cons.prems(2) n by (simp_all add: write_pair_def [of kv])
  have "read_value hook m (write_value (snd kv) @ CHR '','' # ?tail) = Inr (snd kv, CHR '','' # ?tail)"
    using Cons.prems(1) len(1) by (simp add: reads_def)
  moreover have "skip_blank (write_value (snd kv) @ CHR '','' # ?tail) = write_value (snd kv) @ CHR '','' # ?tail"
    using Cons.prems(1) by (intro skip_blank_start write_starts) simp
  moreover have "skip_blank ?tail = ?tail"
    by (cases kvs) (simp_all add: write_pair_def [of kv'] write_string_def)
  moreover have "read_pairs hook m ?tail = Inr (kv' # kvs, rest)"
    using Cons.prems(1) len(2) by (intro Cons.IH) auto
  ultimately show ?case
    by (cases kv) (simp add: n write_pair_def [of "(a, b)" for a b] write_string_def read_pair_head)
qed

lemma read_value_number:
  assumes "c = CHR ''-'' \<or> ascii_digit c"
  shows "read_value hook (Suc n) (c # cs) = read_number (c # cs)"
proof -
  have "c \<notin> {CHR 0x22, CHR 0x7B, CHR ''['', CHR ''n'', CHR ''t'', CHR ''f''}"
    using assms by (auto simp: ascii_digit_def less_eq_char_def)
  then show ?thesis by simp
qed

lemma read_write: "printable v \<Longrightarrow> reads v"
proof (induction v)
  case JNull
  have "read_value hook n (''null'' @ rest) = Inr (JNull, rest)" if "4 \<le> n" for n rest
    using that by (cases n) simp_all
  then show ?case by (simp add: reads_def)
next
  case (JBool b)
  have "read_value hook n (''true'' @ rest) = Inr (JBool True, rest)"
    and "read_value hook n (''false'' @ rest) = Inr (JBool False, rest)" if "4 \<le> n" for n rest
    using that by (cases n; simp)+
  then show ?case by (simp add: reads_def)
next
  case (JInt i)
  show ?case
    unfolding reads_def
  proof (intro allI impI)
    fix n rest
    assume n: "length (write_value (JInt i)) \<le> n" and rest: "delimited rest"
    obtain c cs where c: "str_of_int i = c # cs" "c = CHR ''-'' \<or> ascii_digit c"
      using str_of_int_start by blast
    with n obtain m where "n = Suc m" by (cases n) auto
    with c(2) have "read_value hook n (str_of_int i @ rest) = read_number (str_of_int i @ rest)"
      unfolding c(1) by (simp only: append_Cons read_value_number)
    with rest JInt show "read_value hook n (write_value (JInt i) @ rest) = Inr (JInt i, rest)"
      by (simp add: read_number_int)
  qed
next
  case (JFloat q)
  then show ?case by simp
next
  case (JStr s)
  have "read_value hook n (write_string s @ rest) = Inr (JStr s, rest)" if "0 < n" for n rest
    using that by (cases n) (simp_all add: write_string_def read_write_string)
  then show ?case by (simp add: reads_def write_string_def)
next
  case (JArr xs)
  show ?case
    unfolding reads_def
  proof (intro allI impI)
    fix n rest
    assume n: "length (write_value (JArr xs)) \<le> n" and rest: "delimited rest"
    then obtain m where m: "n = Suc m" by (cases n) auto
    show "read_value hook n (write_value (JArr xs) @ rest) = Inr (JArr xs, rest)"
    proof (cases xs)
      case Nil
      then show ?thesis by (simp add: m)
    next
      case (Cons y ys)
      let ?body = "join_with '','' (map write_value xs) @ CHR '']'' # rest"
      have all: "\<forall>x \<in> set (y # ys). reads x \<and> printable x"
        using JArr Cons by (auto simp: list_all_iff)
      then have start: "starts_value ?body"
        using write_starts [of y] Cons by (cases ys) (auto simp: starts_value_def)
      then obtain d ds where d: "?body = d # ds" "skip_blank ?body = d # ds" "d \<noteq> CHR '']''"
        using skip_blank_start [of ?body "[]"] by (cases ?body) (auto simp: starts_value_def)
      have "length (join_with '','' (map write_value (y # ys))) < m" using n m Cons by simp
      from read_items_write [OF all this, of rest] d Cons m show ?thesis by simp
    qed
  qed
next
  case (JObj kvs)
  show ?case
    unfolding reads_def
  proof (intro allI impI)
    fix n rest
    assume n: "length (write_value (JObj kvs)) \<le> n" and rest: "delimited rest"
    then obtain m where m: "n = Suc m" by (cases n) auto
    have hook: "hook kvs = Inr (JObj kvs)" using JObj.prems by (intro hook_distinct) simp
    have written: "write_value (JObj kvs) = CHR 0x7B # join_with '','' (map write_pair kvs) @ [CHR 0x7D]"
      by (simp add: write_pair_def [abs_def])
    show "read_value hook n (write_value (JObj kvs) @ rest) = Inr (JObj kvs, rest)"
    proof (cases kvs)
      case Nil
      then show ?thesis using hook by (simp add: m)
    next
      case (Cons y ys)
      have all: "\<forall>kv \<in> set (y # ys). reads (snd kv) \<and> printable (snd kv)"
        using JObj Cons by (fastforce simp: list_all_iff)
      have len: "length (join_with '','' (map write_pair (y # ys))) < m"
        using n m unfolding written unfolding Cons by simp
      obtain ds where ds: "join_with '','' (map write_pair kvs) @ CHR 0x7D # rest = CHR 0x22 # ds"
        unfolding Cons by (cases ys) (auto simp: write_pair_def write_string_def)
      from read_pairs_write [OF all len, of rest]
      have "read_pairs hook m (CHR 0x22 # ds) = Inr (kvs, rest)" unfolding Cons [symmetric] ds .
      with hook show ?thesis unfolding written m append_Cons append_assoc append_Nil ds by simp
    qed
  qed
qed

lemma loads_write: "printable v \<Longrightarrow> loads_with hook (write_value v) = Inr v"
proof -
  assume v: "printable v"
  then have "read_value hook (Suc (length (write_value v))) (write_value v @ []) = Inr (v, [])"
    using read_write [OF v, unfolded reads_def, rule_format, of "Suc (length (write_value v))" "[]"]
    by (simp del: read_value.simps)
  with skip_blank_start [OF write_starts [OF v], of "[]"] show ?thesis
    by (simp add: loads_with_def del: read_value.simps)
qed

lemma loads_write_line: "printable v \<Longrightarrow> loads_with hook (write_value v @ [CHR 0x0A]) = Inr v"
proof -
  assume v: "printable v"
  have "read_value hook (Suc (Suc (length (write_value v)))) (write_value v @ [CHR 0x0A]) = Inr (v, [CHR 0x0A])"
    using read_write [OF v, unfolded reads_def, rule_format, of "Suc (Suc (length (write_value v)))" "[CHR 0x0A]"]
    by (simp del: read_value.simps)
  with skip_blank_start [OF write_starts [OF v], of "[CHR 0x0A]"] show ?thesis
    by (simp add: loads_with_def json_blank_def del: read_value.simps)
qed

end

interpretation plain: object_hook dict_hook
proof
  fix kvs :: "(string \<times> json) list"
  have new: "set_item k v kvs = kvs @ [(k, v)]" if "k \<notin> fst ` set kvs" for k v kvs
    using that by (induction kvs) auto
  have "fold (\<lambda>(k, v). set_item k v) kvs acc = acc @ kvs"
    if "distinct (map fst (acc @ kvs))" for acc
    using that by (induction kvs arbitrary: acc) (auto simp: new)
  from this [of "[]"] show "distinct (map fst kvs) \<Longrightarrow> dict_hook kvs = Inr (JObj kvs)"
    by (simp add: dict_hook_def)
qed

section \<open>Strict readers\<close>

text \<open>Every object in the value, at any depth, has distinct keys.\<close>

fun keyed :: "json \<Rightarrow> bool" where
  "keyed (JArr xs) = list_all keyed xs"
| "keyed (JObj kvs) = (distinct (map fst kvs) \<and> list_all (\<lambda>kv. keyed (snd kv)) kvs)"
| "keyed v = True"

lemma read_number_keyed: "read_number s = Inr r \<Longrightarrow> keyed (fst r)"
  by (auto simp: read_number_def Let_def split: option.splits prod.splits if_splits)

lemma dict_hook_distinct: "distinct (map fst kvs) \<Longrightarrow> dict_hook kvs = Inr (JObj kvs)"
  by (rule plain.hook_distinct)

text \<open>A hook that refuses repeated keys: the reader it gives only refuses more than the default one.\<close>

locale strict_hook =
  fixes hook :: "(string \<times> json) list \<Rightarrow> json res"
  assumes hook_iff: "hook kvs = Inr v \<longleftrightarrow> distinct (map fst kvs) \<and> v = JObj kvs"
begin

lemma reader_agrees:
  "(read_value hook n s = Inr r \<longrightarrow> read_value dict_hook n s = Inr r \<and> keyed (fst r)) \<and>
   (read_items hook n s = Inr i \<longrightarrow> read_items dict_hook n s = Inr i \<and> list_all keyed (fst i)) \<and>
   (read_pairs hook n s = Inr p \<longrightarrow> read_pairs dict_hook n s = Inr p \<and> list_all (\<lambda>kv. keyed (snd kv)) (fst p))"
proof (induction n arbitrary: s r i p)
  case 0
  show ?case by simp
next
  case (Suc n)
  note IH = Suc.IH [THEN conjunct1, rule_format] Suc.IH [THEN conjunct2, THEN conjunct1, rule_format]
    Suc.IH [THEN conjunct2, THEN conjunct2, rule_format]
  have "read_value dict_hook (Suc n) s = Inr r \<and> keyed (fst r)"
    if "read_value hook (Suc n) s = Inr r"
    using that
    by (cases s) (auto simp: ok_iff hook_iff dict_hook_distinct read_number_keyed simp del: dropWhile_eq_Nil_conv
        split: if_splits option.splits list.splits dest!: IH)
  moreover have "read_items dict_hook (Suc n) s = Inr i \<and> list_all keyed (fst i)"
    if "read_items hook (Suc n) s = Inr i"
    using that by (auto simp: bnd_def simp del: dropWhile_eq_Nil_conv
        split: sum.split_asm prod.split_asm if_split_asm list.split_asm dest!: IH)
  moreover have "read_pairs dict_hook (Suc n) s = Inr p \<and> list_all (\<lambda>kv. keyed (snd kv)) (fst p)"
    if "read_pairs hook (Suc n) s = Inr p"
    using that
    by (cases s) (auto simp: bnd_def simp del: dropWhile_eq_Nil_conv
        split: sum.split_asm prod.split_asm if_split_asm option.split_asm list.split_asm dest!: IH)
  ultimately show ?case by blast
qed

lemma loads_agrees:
  assumes "loads_with hook s = Inr v"
  shows "loads s = Inr v \<and> keyed v"
proof -
  obtain rest where r: "read_value hook (Suc (length s)) (skip_blank s) = Inr (v, rest)" "skip_blank rest = []"
    using assms by (auto simp: loads_with_def ok_iff simp del: read_value.simps)
  from reader_agrees [THEN conjunct1, rule_format, OF r(1)] r(2)
  show ?thesis by (simp add: loads_def loads_with_def del: read_value.simps)
qed

end

sublocale strict_hook \<subseteq> object_hook hook
  by unfold_locales (simp add: hook_iff)

section \<open>Sorting the keys\<close>

lemma insort_map_prod:
  "insort_key fst (map_prod id f kv) (map (map_prod id f) xs) = map (map_prod id f) (insort_key fst kv xs)"
  by (induction xs) auto

lemma sort_map_prod: "sort_key fst (map (map_prod id f) kvs) = map (map_prod id f) (sort_key fst kvs)"
  by (induction kvs) (simp_all add: insort_map_prod [unfolded id_def])

lemma canon_sort_keys: "canon (sort_keys v) = canon v"
proof (induction v)
  case (JObj kvs)
  then have "map (map_prod id canon) (map (map_prod id sort_keys) kvs) = map (map_prod id canon) kvs"
    by auto
  then show ?case
    by (simp add: sort_map_prod [symmetric] sort_key_id_if_sorted del: map_map)
qed (simp_all add: comp_def)

lemma printable_sort_keys: "printable v \<Longrightarrow> printable (sort_keys v)"
proof (induction v)
  case (JObj kvs)
  have "mset (map fst (sort_key fst (map (map_prod id sort_keys) kvs))) = mset (map fst kvs)"
    by (simp add: image_mset.compositionality comp_def)
  then have "distinct (map fst (sort_key fst (map (map_prod id sort_keys) kvs)))"
    using JObj.prems mset_eq_imp_distinct_iff by fastforce
  then show ?case using JObj by (auto simp: list_all_iff)
qed (auto simp: list_all_iff)

text \<open>
  JSON round trip: a document without floats, with distinct keys and printable integers, that a
  tool serialises with sorted keys is read back by the next tool as an equal value.
\<close>

theorem loads_dumps:
  assumes "printable v"
  shows "loads (dumps v) = Inr (sort_keys v) \<and> py_eq (sort_keys v) v"
  using plain.loads_write [OF printable_sort_keys [OF assms]]
  by (simp add: loads_def dumps_def py_eq_def canon_sort_keys)

theorem loads_dumps_witness:
  "loads (dumps (JObj [(''b'', JInt (- 42)), (''a'', JArr [JStr [CHR 0x09, CHR 0x22, CHR 0xE9], JNull])])) =
   Inr (JObj [(''a'', JArr [JStr [CHR 0x09, CHR 0x22, CHR 0xE9], JNull]), (''b'', JInt (- 42))])"
  by (subst loads_dumps [THEN conjunct1]) (simp_all add: digits_of_nat.simps)

end
