(* ===== verification/Json_Files.thy ===== *)
theory Json_Files
  imports Bundle_Files Json_Text
begin

text \<open>
  JSON documents in files: reading one, and the facts on the text \<open>json.dumps\<close> writes (it is ASCII,
  and how long it may be) with which a written document is read back.
\<close>

section \<open>Reading\<close>

definition read_bytes :: "directory \<Rightarrow> string \<Rightarrow> bytes res" where
  "read_bytes dir n = lift_res content (lstat dir n)"

definition read_json :: "directory \<Rightarrow> string \<Rightarrow> json res" where
  "read_json dir n = bnd (lstat dir n) (\<lambda>e. bnd (decode_ascii (content e)) loads)"

definition some_missing :: "directory \<Rightarrow> string list \<Rightarrow> bool" where
  "some_missing dir names = list_ex (\<lambda>n. plain_file dir n = None) names"

text \<open>\<open>e\<close> is the regular file \<open>n\<close> of the input.\<close>

definition regular_at :: "directory \<Rightarrow> string \<Rightarrow> file_entry \<Rightarrow> bool" where
  "regular_at dir n e \<longleftrightarrow> lookup_file dir n = Some e \<and> ftype e = Regular"

lemma none_missing_iff:
  "\<not> some_missing dir names \<longleftrightarrow> (\<forall>n \<in> set names. \<exists>e. regular_at dir n e)"
proof -
  have "plain_file dir n \<noteq> None \<longleftrightarrow> (\<exists>e. regular_at dir n e)" for n
    unfolding not_None_eq plain_file_iff regular_at_def ..
  then show ?thesis by (simp add: some_missing_def list_ex_iff)
qed

lemma read_bytes_iff [ok_iff]: "read_bytes dir n = Inr b \<longleftrightarrow> (\<exists>e. lookup_file dir n = Some e \<and> b = content e)"
  by (auto simp: read_bytes_def lstat_def ok_iff split: option.splits)

lemma plain_file_regular: "plain_file dir n = Some e \<longleftrightarrow> regular_at dir n e"
  by (simp add: plain_file_iff regular_at_def)

section \<open>The written text is ASCII\<close>

lemma is_ascii_append: "is_ascii (s @ t) \<longleftrightarrow> is_ascii s \<and> is_ascii t"
  by (simp add: is_ascii_def)

lemma is_ascii_lits: "is_ascii ''[''" "is_ascii '']''" "is_ascii '',''" "is_ascii '':''" "is_ascii [CHR 0x7B]"
    "is_ascii [CHR 0x7D]" "is_ascii (c # s) \<longleftrightarrow> of_char c < (128 :: nat) \<and> is_ascii s" "is_ascii []"
  by (simp_all add: is_ascii_def)

lemma is_ascii_join: "is_ascii d \<Longrightarrow> list_all is_ascii ss \<Longrightarrow> is_ascii (join_with d ss)"
  by (induction d ss rule: join_with.induct) (auto simp: is_ascii_append, simp_all add: is_ascii_def)

lemma is_ascii_escape: "is_ascii (escape_char c)"
proof -
  have "of_char (hex_char n) < (128 :: nat)" if "n < 16" for n
    using that by (auto simp: hex_char_def)
  moreover have "of_char c div 16 < (16 :: nat)" "of_char c mod 16 < (16 :: nat)"
    using nat_of_char_less_256 [of c] less_mult_imp_div_less [of "of_char c" 16 "16 :: nat"] by simp_all
  ultimately show ?thesis by (auto simp: escape_char_def is_ascii_def)
qed

lemma is_ascii_write: "is_ascii (write_value v)"
proof (induction v)
  case (JInt i)
  have "is_ascii (digits_of_nat n)" for n
    using digits_of_nat_ok [of n] by (auto simp: is_ascii_def list_all_iff ascii_digit_def less_eq_char_def)
  then show ?case by (auto simp: str_of_int_def is_ascii_def)
next
  case (JArr xs)
  then show ?case
    by (simp add: is_ascii_append is_ascii_lits is_ascii_join list_all_iff)
next
  case (JObj kvs)
  have str: "is_ascii (write_string s)" for s
    using is_ascii_escape by (auto simp: write_string_def is_ascii_def list_all_iff)
  from JObj show ?case
    by (auto simp: is_ascii_append is_ascii_lits str list_all_iff intro!: is_ascii_join)
next
  case (JStr s)
  show ?case using is_ascii_escape by (auto simp: write_string_def is_ascii_def list_all_iff)
qed (simp_all add: is_ascii_def)

lemma written_read:
  assumes "lookup_file dir n = Some e" and "content e = encode_ascii (write_value v)" and "printable v"
  shows "read_json dir n = Inr v"
  using assms by (simp add: read_json_def lstat_def decode_encode_ascii is_ascii_write loads_def plain.loads_write)

section \<open>The length of the written text\<close>

lemma hex_escape:
  assumes "is_hex c"
  shows "escape_char c = [c]"
proof -
  define n where "n = (of_char c :: nat)"
  have code: "(48 \<le> n \<and> n \<le> 57) \<or> (97 \<le> n \<and> n \<le> 102)" unfolding n_def
    using assms by (auto simp: is_hex_def in_cls_def less_eq_char_def)
  then have "c \<noteq> CHR 0x22" "c \<noteq> CHR 0x5C" "c \<noteq> CHR 0x08" "c \<noteq> CHR 0x0C" "c \<noteq> CHR 0x0A" "c \<noteq> CHR 0x0D" "c \<noteq> CHR 0x09"
    by (auto simp: n_def)
  with code show ?thesis by (auto simp: escape_char_def n_def)
qed

lemma concat_singletons: "(\<And>x. x \<in> set xs \<Longrightarrow> f x = [x]) \<Longrightarrow> concat (map f xs) = xs"
  by (induction xs) auto

lemma write_digest: "length (write_string (sha256_hex b)) = 66"
proof -
  have "concat (map escape_char (sha256_hex b)) = sha256_hex b"
    using sha.digest_chars [of b] by (intro concat_singletons) (auto simp: list_all_iff hex_escape)
  then show ?thesis by (simp add: write_string_def sha.digest_length)
qed

lemma length_write_string: "length (write_string s) \<le> 6 * length s + 2"
proof -
  have "length (escape_char c) \<le> 6" for c by (simp add: escape_char_def)
  then have "length (concat (map escape_char s)) \<le> 6 * length s"
    by (induction s) (auto intro: add_mono)
  then show ?thesis by (simp add: write_string_def)
qed

lemma length_digits: "n < 10 ^ Suc k \<Longrightarrow> length (digits_of_nat n) \<le> Suc k"
proof (induction k arbitrary: n)
  case 0
  then show ?case by (simp add: digits_of_nat.simps [of n])
next
  case (Suc k)
  then have "n div 10 < 10 ^ Suc k" by (simp add: div_less_iff_less_mult mult.commute)
  from Suc.IH [OF this] show ?case by (cases "n < 10") (simp_all add: digits_of_nat.simps [of n])
qed

lemma length_digits_int: "\<bar>i\<bar> < 10 ^ 20 \<Longrightarrow> length (digits_of_nat (nat \<bar>i\<bar>)) \<le> 20"
  using length_digits [of "nat \<bar>i\<bar>" 19] by (simp add: nat_less_iff)

lemma printable_int: "\<bar>i\<bar> < 10 ^ 20 \<Longrightarrow> printable (JInt i)"
  using length_digits_int [of i] by simp

lemma length_write_int: "\<bar>i\<bar> < 10 ^ 20 \<Longrightarrow> length (str_of_int i) \<le> 21"
  using length_digits_int [of i] by (cases "i < 0") (simp_all add: str_of_int_def)

text \<open>A regular file of mode 644.\<close>

definition plain_entry :: "bytes \<Rightarrow> file_entry" where
  "plain_entry b = \<lparr>ftype = Regular, perm = 420, nlink = 1, owner = 0, content = b\<rparr>"

lemma plain_entry_simps [simp]:
  "ftype (plain_entry b) = Regular" "perm (plain_entry b) = 420" "nlink (plain_entry b) = 1" "content (plain_entry b) = b"
  by (simp_all add: plain_entry_def)

end
