(* ===== verification/Elf.thy ===== *)
theory Elf
  imports Bundle_Files
begin

text \<open>
  The two ELF readers. \<open>elf_closure\<close> (check-transaction-inputs.py) admits a dynamically linked musl
  helper with exactly one interpreter and the two known libraries. \<open>static_headers\<close> is the loop that
  check-core-package-input.py, check-hysteria-package-input.py and package-budget.py run over the
  program headers of a producer that must be static. Offsets are Python integers, so no sum wraps;
  \<open>unpack\<close> raises \<open>struct.error\<close> where the buffer is too short.
\<close>

section \<open>Reading bytes\<close>

fun le_int :: "bytes \<Rightarrow> int" where
  "le_int [] = 0"
| "le_int (b # bs) = uint b + 256 * le_int bs"

text \<open>\<open>struct.unpack_from\<close> of one little-endian unsigned field of \<open>w\<close> bytes.\<close>

definition unpack :: "nat \<Rightarrow> bytes \<Rightarrow> int \<Rightarrow> int res" where
  "unpack w raw off =
     (let start = (if off < 0 then off + int (length raw) else off)
      in if 0 \<le> start \<and> start + int w \<le> int (length raw)
         then Inr (le_int (take w (drop (nat start) raw))) else Inl StructError)"

text \<open>\<open>raw[a:b]\<close> for bounds that are not negative.\<close>

definition slice :: "bytes \<Rightarrow> int \<Rightarrow> int \<Rightarrow> bytes" where
  "slice raw a b = take (nat (b - a)) (drop (nat a) raw)"

fun starts_with :: "bytes \<Rightarrow> bytes \<Rightarrow> bool" where
  "starts_with [] raw = True"
| "starts_with (p # ps) [] = False"
| "starts_with (p # ps) (b # bs) = (p = b \<and> starts_with ps bs)"

text \<open>\<open>pattern in raw\<close>.\<close>

fun contains :: "bytes \<Rightarrow> bytes \<Rightarrow> bool" where
  "contains pat [] = starts_with pat []"
| "contains pat (b # bs) = (starts_with pat (b # bs) \<or> contains pat bs)"

text \<open>\<open>raw.find(b'\0', i)\<close>; \<open>-1\<close> when there is none.\<close>

fun index_zero :: "int \<Rightarrow> bytes \<Rightarrow> int" where
  "index_zero i [] = -1"
| "index_zero i (b # bs) = (if b = 0 then i else index_zero (i + 1) bs)"

definition find_zero :: "bytes \<Rightarrow> int \<Rightarrow> int" where
  "find_zero raw i = index_zero i (drop (nat i) raw)"

lemma le_int_bounds: "0 \<le> le_int bs \<and> le_int bs < 256 ^ length bs"
proof (induction bs)
  case (Cons b bs)
  have "uint b < 256" using uint_lt2p [of b] by simp
  moreover have "0 \<le> uint b" by simp
  ultimately show ?case using Cons by auto
qed simp

lemma unpack_nonneg: "unpack w raw off = Inr v \<Longrightarrow> 0 \<le> v"
  by (auto simp: unpack_def Let_def le_int_bounds split: if_splits)

lemma unpack_in_range: "0 \<le> off \<Longrightarrow> off + int w \<le> int (length raw) \<Longrightarrow> \<exists>v. unpack w raw off = Inr v"
  by (simp add: unpack_def)

lemma only_refuses_unpack:
  "0 \<le> off \<Longrightarrow> off + int w \<le> int (length raw) \<Longrightarrow> only_refuses (unpack w raw off)"
  by (simp add: unpack_def)

lemma starts_with_iff: "starts_with p raw \<longleftrightarrow> (\<exists>v. raw = p @ v)"
  by (induction p raw rule: starts_with.induct) auto

lemma contains_iff: "contains p raw \<longleftrightarrow> (\<exists>u v. raw = u @ p @ v)"
proof (induction raw)
  case Nil
  then show ?case by (cases p) auto
next
  case (Cons b bs)
  then show ?case
    by (auto simp: starts_with_iff Cons_eq_append_conv)
qed

section \<open>Program headers\<close>

record program_header =
  p_type :: int
  p_offset :: int
  p_vaddr :: int
  p_filesz :: int

text \<open>The fields of \<open>struct.unpack_from('<IIQQQQQQ', raw, pos)\<close> that are used: 0, 2, 3 and 5.\<close>

definition read_header :: "bytes \<Rightarrow> int \<Rightarrow> program_header res" where
  "read_header raw pos =
     (if 0 \<le> pos \<and> pos + 56 \<le> int (length raw) then
        bnd (unpack 4 raw pos) (\<lambda>t. bnd (unpack 8 raw (pos + 8)) (\<lambda>po.
        bnd (unpack 8 raw (pos + 16)) (\<lambda>pv. bnd (unpack 8 raw (pos + 32)) (\<lambda>pf.
        Inr \<lparr>p_type = t, p_offset = po, p_vaddr = pv, p_filesz = pf\<rparr>))))
      else Inl StructError)"

definition range_step :: "int \<Rightarrow> nat \<Rightarrow> int \<Rightarrow> int list" where
  "range_step start n step = map (\<lambda>i. start + int i * step) [0..<n]"

definition header_ok :: "bytes \<Rightarrow> program_header \<Rightarrow> bool" where
  "header_ok raw h \<longleftrightarrow> 0 \<le> p_offset h \<and> 0 \<le> p_filesz h \<and> 0 \<le> p_vaddr h \<and>
     p_offset h + p_filesz h \<le> int (length raw)"

lemma read_header_ok:
  assumes "0 \<le> pos" and "pos + 56 \<le> int (length raw)"
  shows "\<exists>h. read_header raw pos = Inr h \<and> 0 \<le> p_offset h \<and> 0 \<le> p_filesz h \<and> 0 \<le> p_vaddr h"
proof -
  obtain t po pv pf where "unpack 4 raw pos = Inr t" "unpack 8 raw (pos + 8) = Inr po"
      "unpack 8 raw (pos + 16) = Inr pv" "unpack 8 raw (pos + 32) = Inr pf"
    using assms unpack_in_range [of pos 4 raw] unpack_in_range [of "pos + 8" 8 raw]
      unpack_in_range [of "pos + 16" 8 raw] unpack_in_range [of "pos + 32" 8 raw]
    by auto
  then show ?thesis using assms by (auto simp: read_header_def dest: unpack_nonneg)
qed

section \<open>The static producer\<close>

text \<open>
  The header loop: \<open>stream.seek(offset + index * esize)\<close>, which raises when the position does not fit
  a signed 64-bit file offset, and \<open>data = stream.read(size)\<close>, which is short at the end of the file.
  \<open>PT_INTERP\<close> is type 3.
\<close>

definition static_header_step :: "bytes \<Rightarrow> int \<Rightarrow> int \<Rightarrow> string \<Rightarrow> int \<Rightarrow> unit res" where
  "static_header_step raw offset esize msg index =
     (let pos = offset + index * esize; data = slice raw pos (pos + esize)
      in if 2 ^ 63 \<le> pos then Inl OverflowError
         else refuse [Inr (int (length data) \<noteq> esize), lift_res (\<lambda>t. t = 3) (unpack 4 data 0)] msg)"

text \<open>\<open>b"\x7fELF\x02\x01"\<close>.\<close>

definition elf_magic :: bytes where
  "elf_magic = [0x7f, 0x45, 0x4c, 0x46, 2, 1]"

definition core_static_elf :: "bytes \<Rightarrow> int \<Rightarrow> unit res" where
  "core_static_elf raw machine =
     (let header = take 64 raw in
      bnd (refuse [Inr (length header \<noteq> 64), Inr (take 6 header \<noteq> elf_magic)]
             ''64-bit little-endian Core ELF is required'') (\<lambda>_.
      bnd (unpack 8 header 32) (\<lambda>offset.
      bnd (unpack 2 header 54) (\<lambda>esize.
      bnd (unpack 2 header 56) (\<lambda>count.
      bnd (refuse [Inr (esize < 56), Inr (128 < count)] ''Invalid Core ELF program headers'') (\<lambda>_.
      bnd (each_res (\<lambda>i. static_header_step raw offset esize
             ''Core package must use the static musl producer'' (int i)) [0..<nat count]) (\<lambda>_.
      refuse [Inr (length header \<noteq> 64), Inr (take 6 header \<noteq> elf_magic),
              lift_res (\<lambda>m. m \<noteq> machine) (unpack 2 header 18)]
        ''Core ELF or producer digest mismatch'')))))))"

definition server_static_elf :: "bytes \<Rightarrow> int \<Rightarrow> unit res" where
  "server_static_elf raw machine =
     (let header = take 64 raw in
      bnd (refuse [Inr (length header \<noteq> 64), Inr (take 6 header \<noteq> elf_magic),
                   lift_res (\<lambda>m. m \<noteq> machine) (unpack 2 header 18)]
             ''Expected 64-bit server ELF required'') (\<lambda>_.
      bnd (unpack 8 header 32) (\<lambda>offset.
      bnd (unpack 2 header 54) (\<lambda>esize.
      bnd (unpack 2 header 56) (\<lambda>count.
      bnd (refuse [Inr (esize < 56), Inr (128 < count)] ''Invalid server ELF program headers'') (\<lambda>_.
      each_res (\<lambda>i. static_header_step raw offset esize
        ''Static upstream Go server required'' (int i)) [0..<nat count]))))))"

section \<open>The dynamic helper\<close>

definition TARGETS :: "(string \<times> (int \<times> string)) list" where
  "TARGETS = [(''x86_64'', (62, ''/lib/ld-musl-x86_64.so.1'')),
              (''aarch64_cortex-a53'', (183, ''/lib/ld-musl-aarch64.so.1''))]"

definition applets :: "string list" where
  "applets = [''foxhole-apply'', ''foxhole-recover'']"

definition qa_markers :: "bytes list" where
  "qa_markers = map encode_ascii [''FOXHOLE_QA_FAIL_WORLD'', ''FOXHOLE_QA_FAIL_SYNC'',
       ''FOXHOLE_QA_FAIL_DIRSYNC'', ''FOXHOLE_QA_GATE''] @
     map (\<lambda>s. encode_ascii s @ [0]) [''foxhole-rollback'', ''foxhole-apply-multi'', ''foxhole-recover-multi'']"

definition library_name :: "bytes \<Rightarrow> int \<Rightarrow> string res" where
  "library_name strings v =
     bnd (need [Inr (v < int (length strings))] ''ELF dependency name outside string table'') (\<lambda>_.
     let fin = find_zero strings v in
     bnd (need [Inr (v < fin)] ''Terminated ELF dependency name required'') (\<lambda>_.
     decode_ascii (slice strings v fin)))"

definition dynamic_entries :: "bytes \<Rightarrow> program_header \<Rightarrow> (int \<times> int) list res" where
  "dynamic_entries raw item =
     map_res (\<lambda>i. bnd (unpack 8 raw i) (\<lambda>tag. bnd (unpack 8 raw (i + 8)) (\<lambda>v. Inr (tag, v))))
       (range_step (p_offset item) (nat (p_filesz item div 16)) 16)"

definition string_table :: "bytes \<Rightarrow> program_header list \<Rightarrow> int \<Rightarrow> int \<Rightarrow> bytes res" where
  "string_table raw headers address esize =
     (let location = [p_offset h + address - p_vaddr h. h \<leftarrow> headers,
             p_type h = 1 \<and> p_vaddr h \<le> address \<and> address + esize \<le> p_vaddr h + p_filesz h]
      in bnd (need [Inr (length location = 1), Inr (hd location + esize \<le> int (length raw))]
                ''ELF string table outside loadable data'') (\<lambda>_.
         Inr (slice raw (hd location) (hd location + esize))))"

definition closure_tail :: "bytes \<Rightarrow> string list \<Rightarrow> unit res" where
  "closure_tail raw libraries =
     bnd (need [Inr (card (set libraries) = 2), Inr (set libraries = {''libgcc_s.so.1'', ''libc.so''})]
            ''Only libgcc and musl runtime dependencies admitted'') (\<lambda>_.
     bnd (need (map (\<lambda>a. Inr (contains (encode_ascii a @ [0]) raw)) applets)
            ''Production transaction applets missing'') (\<lambda>_.
     each_res (\<lambda>marker. need [Inr (\<not> contains marker raw)]
        ''QA/research code is not a normal transaction artifact'') qa_markers))"

definition elf_headers :: "bytes \<Rightarrow> int \<Rightarrow> program_header list res" where
  "elf_headers raw machine =
     bnd (need [Inr (64 \<le> length raw), Inr (take 6 raw = elf_magic),
                lift_res (\<lambda>m. m = machine) (unpack 2 raw 18),
                lift_res (\<lambda>t. t \<in> {2, 3}) (unpack 2 raw 16)]
            ''Normal little-endian ELF64 target required'') (\<lambda>_.
     bnd (unpack 8 raw 32) (\<lambda>offset.
     bnd (unpack 2 raw 54) (\<lambda>esize.
     bnd (unpack 2 raw 56) (\<lambda>count.
     bnd (need [Inr (esize = 56), Inr (1 \<le> count \<and> count \<le> 64),
                Inr (offset + esize * count \<le> int (length raw))]
            ''Bounded ELF program headers required'') (\<lambda>_.
     bnd (map_res (read_header raw) (range_step offset (nat count) esize)) (\<lambda>headers.
     bnd (each_res (\<lambda>h. need [Inr (p_offset h + p_filesz h \<le> int (length raw))]
             ''ELF segment outside file'') headers) (\<lambda>_.
     Inr headers)))))))"

definition elf_libraries :: "bytes \<Rightarrow> program_header list \<Rightarrow> program_header \<Rightarrow> string list res" where
  "elf_libraries raw headers item =
     bnd (need [Inr (p_filesz item mod 16 = 0), Inr (p_filesz item \<le> 65536)]
            ''Bounded ELF dynamic table required'') (\<lambda>_.
     bnd (dynamic_entries raw item) (\<lambda>es.
     let addresses = [v. (tag, v) \<leftarrow> es, tag = 5];
         sizes = [v. (tag, v) \<leftarrow> es, tag = 10];
         needed = [v. (tag, v) \<leftarrow> es, tag = 1]
     in bnd (need [Inr (length addresses = length sizes), Inr (length sizes = 1),
                   Inr (1 \<le> hd sizes \<and> hd sizes \<le> 1048576), Inr (length needed = 2)]
               ''Exact runtime closure table required'') (\<lambda>_.
        bnd (string_table raw headers (hd addresses) (hd sizes)) (\<lambda>strings.
        map_res (library_name strings) needed))))"

record runtime_closure =
  interpreter :: string
  needed_libraries :: "string list"

definition elf_closure :: "bytes \<Rightarrow> string \<Rightarrow> runtime_closure res" where
  "elf_closure raw architecture =
     (case map_of TARGETS architecture of
        None \<Rightarrow> Inl KeyError
      | Some (machine, expected_interpreter) \<Rightarrow>
          bnd (elf_headers raw machine) (\<lambda>headers.
          let interps = filter (\<lambda>h. p_type h = 3) headers;
              dynamic = filter (\<lambda>h. p_type h = 2) headers
          in bnd (need [Inr (length interps = length dynamic), Inr (length dynamic = 1)]
                    ''One musl interpreter and dynamic table required'') (\<lambda>_.
             bnd (need [Inr (slice raw (p_offset (hd interps)) (p_offset (hd interps) + p_filesz (hd interps))
                          = encode_ascii expected_interpreter @ [0])]
                    ''Exact musl interpreter required'') (\<lambda>_.
             bnd (elf_libraries raw headers (hd dynamic)) (\<lambda>libraries.
             bnd (closure_tail raw libraries) (\<lambda>_.
             Inr \<lparr>interpreter = expected_interpreter, needed_libraries = sort libraries\<rparr>))))))"

section \<open>No read outside the buffer\<close>

lemma only_refuses_need_lift [refuses]:
  "only_refuses m \<Longrightarrow> only_refuses (need cs msg) \<Longrightarrow> only_refuses (need (lift_res P m # cs) msg)"
  by (cases m) (auto simp: guard_simps elim: only_refuses.elims)

lemma only_refuses_need_Cons [refuses]:
  "(b \<Longrightarrow> only_refuses (need cs msg)) \<Longrightarrow> only_refuses (need (Inr b # cs) msg)"
  by (simp add: guard_simps)

lemma only_refuses_refuse_Cons [refuses]:
  "(\<not> b \<Longrightarrow> only_refuses (refuse cs msg)) \<Longrightarrow> only_refuses (refuse (Inr b # cs) msg)"
  by (simp add: guard_simps)

lemma only_refuses_refuse_lift [refuses]:
  "only_refuses m \<Longrightarrow> only_refuses (refuse cs msg) \<Longrightarrow> only_refuses (refuse (lift_res P m # cs) msg)"
  by (cases m) (auto simp: guard_simps elim: only_refuses.elims)

lemma only_refuses_Nil [refuses]: "only_refuses (need [] msg)" "only_refuses (refuse [] msg)"
  by (simp_all add: guard_simps)

lemma only_refuses_decode [refuses]: "only_refuses (decode_ascii bs)"
  by (simp add: decode_ascii_def)

lemma only_refuses_library_name [refuses]: "only_refuses (library_name strings v)"
  unfolding library_name_def Let_def by (intro refuses)

lemma only_refuses_string_table [refuses]: "only_refuses (string_table raw headers a n)"
  unfolding string_table_def Let_def by (intro refuses) simp

lemma only_refuses_closure_tail [refuses]: "only_refuses (closure_tail raw libraries)"
  unfolding closure_tail_def by (intro refuses)

lemma read_header_range:
  assumes "0 \<le> offset" and "offset + 56 * count \<le> int (length raw)"
    and "x \<in> set (range_step offset (nat count) 56)"
  shows "\<exists>h. read_header raw x = Inr h \<and> 0 \<le> p_offset h \<and> 0 \<le> p_filesz h \<and> 0 \<le> p_vaddr h"
proof (rule read_header_ok)
  from assms(3) obtain i where i: "i < nat count" "x = offset + int i * 56"
    by (auto simp: range_step_def)
  then show "0 \<le> x" using assms(1) by simp
  from i have "int i + 1 \<le> count" by linarith
  then show "x + 56 \<le> int (length raw)" using i assms(2) by simp
qed

lemma only_refuses_read_header:
  "0 \<le> offset \<Longrightarrow> offset + 56 * count \<le> int (length raw) \<Longrightarrow>
   x \<in> set (range_step offset (nat count) 56) \<Longrightarrow> only_refuses (read_header raw x)"
  using read_header_range by fastforce

lemma only_refuses_elf_headers [refuses]: "only_refuses (elf_headers raw machine)"
proof -
  have long: "only_refuses (unpack w raw x)" if "64 \<le> length raw" "0 \<le> x" "x + int w \<le> 64" for w x
    using that by (intro only_refuses_unpack) simp_all
  show ?thesis
  proof (cases "64 \<le> length raw")
    case False
    then show ?thesis by (simp add: elf_headers_def guard_simps)
  next
    case True
    show ?thesis
      unfolding elf_headers_def
      by (intro refuses long True) (auto simp: ok_iff dest: unpack_nonneg intro: only_refuses_read_header)
  qed
qed

lemma elf_headers_ok:
  assumes "elf_headers raw machine = Inr headers"
  shows "list_all (header_ok raw) headers"
proof -
  note facts = assms [unfolded elf_headers_def ok_iff sum.inject eq_True simp_thms]
  have "\<exists>offset count. unpack 8 raw 32 = Inr offset \<and>
      offset + 56 * count \<le> int (length raw) \<and>
      list_all2 (\<lambda>x h. read_header raw x = Inr h) (range_step offset (nat count) 56) headers \<and>
      list_all (\<lambda>h. p_offset h + p_filesz h \<le> int (length raw)) headers"
    using facts by (elim exE conjE) (hypsubst, intro exI conjI, assumption+)
  then obtain offset count where o: "unpack 8 raw 32 = Inr offset"
    and c: "offset + 56 * count \<le> int (length raw)"
    and hs: "list_all2 (\<lambda>x h. read_header raw x = Inr h) (range_step offset (nat count) 56) headers"
    and seg: "list_all (\<lambda>h. p_offset h + p_filesz h \<le> int (length raw)) headers"
    by blast
  have "header_ok raw h" if h: "h \<in> set headers" for h
  proof -
    obtain x where x: "x \<in> set (range_step offset (nat count) 56)" "read_header raw x = Inr h"
      using list_all2_set2 [OF hs h] by blast
    have "0 \<le> p_offset h \<and> 0 \<le> p_filesz h \<and> 0 \<le> p_vaddr h"
      using read_header_range [OF unpack_nonneg [OF o] c x(1)] x(2) by simp
    moreover have "p_offset h + p_filesz h \<le> int (length raw)"
      using seg h by (simp only: list_all_iff)
    ultimately show ?thesis by (simp add: header_ok_def)
  qed
  then show ?thesis by (simp add: list_all_iff)
qed

lemma only_refuses_dynamic_entries:
  assumes "header_ok raw item" and "p_filesz item mod 16 = 0"
  shows "only_refuses (dynamic_entries raw item)"
proof -
  have "only_refuses (unpack 8 raw x) \<and> only_refuses (unpack 8 raw (x + 8))"
    if "x \<in> set (range_step (p_offset item) (nat (p_filesz item div 16)) 16)" for x
  proof -
    from that obtain i where i: "i < nat (p_filesz item div 16)" "x = p_offset item + int i * 16"
      by (auto simp: range_step_def)
    then have "(int i + 1) * 16 \<le> p_filesz item" using assms(2) by auto
    then have "0 \<le> x" "x + 16 \<le> int (length raw)"
      using i assms(1) by (auto simp: header_ok_def)
    then show ?thesis by (auto intro: only_refuses_unpack)
  qed
  then show ?thesis
    unfolding dynamic_entries_def by (intro refuses) (auto intro!: refuses)
qed

lemma only_refuses_elf_libraries:
  assumes "header_ok raw item"
  shows "only_refuses (elf_libraries raw headers item)"
  unfolding elf_libraries_def Let_def
  by (intro refuses only_refuses_dynamic_entries assms) (auto simp: ok_iff)

text \<open>
  C4. Memory safety of the ELF reader: whatever the bytes of the artifact are, \<open>elf_closure\<close> for a
  known target returns a closure or raises ValueError; no struct, index or type error can escape,
  so every header, dynamic entry and name read lies inside the buffer.
\<close>

theorem elf_closure_only_refuses:
  assumes "architecture \<in> fst ` set TARGETS"
  shows "only_refuses (elf_closure raw architecture)"
proof -
  obtain machine path where t: "map_of TARGETS architecture = Some (machine, path)"
    using assms by (auto simp: TARGETS_def)
  have "header_ok raw (hd (filter (\<lambda>h. p_type h = 2) headers))"
    if "elf_headers raw machine = Inr headers" and "length (filter (\<lambda>h. p_type h = 2) headers) = 1"
    for headers
  proof -
    from that(2) have "filter (\<lambda>h. p_type h = 2) headers \<noteq> []" by auto
    then have "hd (filter (\<lambda>h. p_type h = 2) headers) \<in> set headers"
      by (meson filter_is_subset hd_in_set subsetD)
    with elf_headers_ok [OF that(1)] show ?thesis by (simp add: list_all_iff)
  qed
  then show ?thesis
    unfolding elf_closure_def t option.case prod.case Let_def
    by (intro refuses only_refuses_elf_libraries) (simp_all add: ok_iff)
qed

theorem elf_closure_only_refuses_witness:
  "''x86_64'' \<in> fst ` set TARGETS \<and> only_refuses (elf_closure [0x7f, 0x45] ''x86_64'')"
proof
  show h: "''x86_64'' \<in> fst ` set TARGETS" by (simp add: TARGETS_def)
  show "only_refuses (elf_closure [0x7f, 0x45] ''x86_64'')"
    by (rule elf_closure_only_refuses [OF h])
qed

section \<open>What an admitted helper is\<close>

text \<open>A minimal x86-64 helper: three program headers, the interpreter, the dynamic table, two names.\<close>

definition field8 :: "u8 \<Rightarrow> u8 \<Rightarrow> bytes" where
  "field8 lo hi = [lo, hi, 0, 0, 0, 0, 0, 0]"

definition header_bytes :: "u8 \<Rightarrow> u8 \<Rightarrow> u8 \<Rightarrow> u8 \<Rightarrow> bytes" where
  "header_bytes t lo hi n =
     field8 t 0 @ field8 lo hi @ field8 lo hi @ field8 0 0 @ field8 n 0 @ field8 n 0 @ field8 0 0"

definition sample_body :: bytes where
  "sample_body =
     elf_magic @ [0, 0, 0, 0, 0, 0, 0, 0, 0, 0] @ [3, 0] @ [62, 0] @ [1, 0, 0, 0] @ field8 0 0 @
     field8 64 0 @ field8 0 0 @ [0, 0, 0, 0] @ [64, 0] @ [56, 0] @ [3, 0] @ [0, 0, 0, 0, 0, 0] @
     header_bytes 3 232 0 25 @ header_bytes 2 1 1 64 @ header_bytes 1 65 1 23 @
     encode_ascii ''/lib/ld-musl-x86_64.so.1'' @ [0] @
     field8 1 0 @ field8 1 0 @ field8 1 0 @ field8 9 0 @
     field8 5 0 @ field8 65 1 @ field8 10 0 @ field8 23 0 @
     [0] @ encode_ascii ''libc.so'' @ [0] @ encode_ascii ''libgcc_s.so.1'' @ [0]"

definition sample_elf :: bytes where
  "sample_elf =
     sample_body @ (encode_ascii ''foxhole-apply'' @ [0]) @ (encode_ascii ''foxhole-recover'' @ [0])"

lemmas sample_eval = sample_elf_def sample_body_def field8_def header_bytes_def encode_ascii_def elf_magic_def
  guard_simps unpack_def slice_def range_step_def upt_conv_Cons

abbreviation sample_headers :: "program_header list" where
  "sample_headers \<equiv>
     [\<lparr>p_type = 3, p_offset = 232, p_vaddr = 232, p_filesz = 25\<rparr>,
      \<lparr>p_type = 2, p_offset = 257, p_vaddr = 257, p_filesz = 64\<rparr>,
      \<lparr>p_type = 1, p_offset = 321, p_vaddr = 321, p_filesz = 23\<rparr>]"

lemma sample_elf_headers: "elf_headers sample_elf 62 = Inr sample_headers"
  by (simp add: elf_headers_def read_header_def sample_eval)

lemma sample_dynamic_entries:
  "dynamic_entries sample_elf \<lparr>p_type = 2, p_offset = 257, p_vaddr = 257, p_filesz = 64\<rparr> =
     Inr [(1, 1), (1, 9), (5, 321), (10, 23)]"
  by (simp add: dynamic_entries_def sample_eval)

lemma sample_string_table:
  "string_table sample_elf sample_headers 321 23 =
     Inr ([0] @ encode_ascii ''libc.so'' @ [0] @ encode_ascii ''libgcc_s.so.1'' @ [0])"
  by (simp add: string_table_def sample_eval)

lemma sample_elf_libraries:
  "elf_libraries sample_elf sample_headers \<lparr>p_type = 2, p_offset = 257, p_vaddr = 257, p_filesz = 64\<rparr> =
     Inr [''libc.so'', ''libgcc_s.so.1'']"
  by (simp add: elf_libraries_def sample_dynamic_entries sample_string_table guard_simps)
    (simp add: library_name_def find_zero_def decode_ascii_def encode_ascii_def slice_def guard_simps
      char_of_def bit_0)

lemma contains_subset: "contains m raw \<Longrightarrow> set m \<subseteq> set raw"
  by (auto simp: contains_iff)

lemma sample_closure_tail: "closure_tail sample_elf [''libc.so'', ''libgcc_s.so.1''] = Inr ()"
proof -
  have "88 \<notin> set sample_elf" "107 \<notin> set sample_elf" "116 \<notin> set sample_elf" by (simp_all add: sample_eval)
  then have "list_all (\<lambda>m. \<not> contains m sample_elf) qa_markers"
    by (auto simp: qa_markers_def list_all_iff encode_ascii_def dest!: contains_subset)
  moreover have "contains (encode_ascii ''foxhole-apply'' @ [0]) sample_elf"
    and "contains (encode_ascii ''foxhole-recover'' @ [0]) sample_elf"
    unfolding contains_iff sample_elf_def by (metis append.assoc append_Nil2)+
  ultimately show ?thesis
    by (simp add: closure_tail_def ok_iff list_all_iff insert_commute applets_def)
qed

lemma sample_interpreter: "slice sample_elf 232 257 = encode_ascii ''/lib/ld-musl-x86_64.so.1'' @ [0]"
  by (simp add: sample_eval)

lemma sample_elf_admitted:
  "elf_closure sample_elf ''x86_64'' =
     Inr \<lparr>interpreter = ''/lib/ld-musl-x86_64.so.1'', needed_libraries = [''libc.so'', ''libgcc_s.so.1'']\<rparr>"
  by (simp add: elf_closure_def TARGETS_def sample_elf_headers sample_elf_libraries sample_closure_tail
      sample_interpreter need.simps)



section \<open>Static and dynamic artifacts are disjoint\<close>

section \<open>Static and dynamic artifacts are disjoint\<close>

lemma unpack_take: "0 \<le> x \<Longrightarrow> x + int w \<le> int n \<Longrightarrow> n \<le> length raw \<Longrightarrow>
    unpack w (take n raw) x = unpack w raw x"
proof -
  assume x: "0 \<le> x" and b: "x + int w \<le> int n" and n: "n \<le> length raw"
  have "take w (drop (nat x) (take n raw)) = take w (drop (nat x) raw)"
    using x b by (simp add: drop_take min_def)
  with x b n show ?thesis by (simp add: unpack_def min_def)
qed

lemma static_header_step_not_interp:
  assumes step: "static_header_step raw offset esize msg i = Inr u"
    and "0 \<le> offset + i * esize" and "56 \<le> esize"
  shows "unpack 4 raw (offset + i * esize) \<noteq> Inr 3"
proof -
  define x where "x = offset + i * esize"
  define data where "data = slice raw x (x + esize)"
  have len: "int (length data) = esize" and t: "lift_res (\<lambda>t. t = 3) (unpack 4 data 0) = Inr False"
    using step by (auto simp: static_header_step_def Let_def ok_iff data_def x_def)
  have data: "data = take (nat esize) (drop (nat x) raw)" by (simp add: data_def slice_def)
  with len \<open>56 \<le> esize\<close> have "nat x + nat esize \<le> length raw" by (auto simp: min_def split: if_splits)
  moreover have "take 4 data = take 4 (drop (nat x) raw)"
    using \<open>56 \<le> esize\<close> by (simp add: data min_absorb1)
  ultimately have "unpack 4 data 0 = unpack 4 raw x"
    using assms(2,3) len by (simp add: unpack_def x_def Let_def)
  with t show ?thesis unfolding x_def by auto
qed

lemma elf_headers_type_at:
  assumes "elf_headers raw machine = Inr headers" and "h \<in> set headers"
  shows "64 \<le> length raw \<and> (\<exists>offset count i. unpack 8 raw 32 = Inr offset \<and> unpack 2 raw 54 = Inr 56 \<and>
           unpack 2 raw 56 = Inr count \<and> i < nat count \<and>
           unpack 4 raw (offset + int i * 56) = Inr (p_type h))"
proof -
  note facts = assms(1) [unfolded elf_headers_def ok_iff sum.inject eq_True simp_thms]
  have long: "64 \<le> length raw" using facts by (elim exE conjE)
  have "\<exists>offset count. unpack 8 raw 32 = Inr offset \<and> unpack 2 raw 54 = Inr 56 \<and>
      unpack 2 raw 56 = Inr count \<and>
      list_all2 (\<lambda>x h. read_header raw x = Inr h) (range_step offset (nat count) 56) headers"
    using facts by (elim exE conjE) (hypsubst, intro exI conjI, assumption+)
  then obtain offset count where o: "unpack 8 raw 32 = Inr offset" "unpack 2 raw 54 = Inr 56"
      "unpack 2 raw 56 = Inr count"
    and hs: "list_all2 (\<lambda>x h. read_header raw x = Inr h) (range_step offset (nat count) 56) headers"
    by blast
  obtain x where x: "x \<in> set (range_step offset (nat count) 56)" "read_header raw x = Inr h"
    using list_all2_set2 [OF hs assms(2)] by blast
  from x(2) have "unpack 4 raw x = Inr (p_type h)"
    by (auto simp: read_header_def ok_iff)
  with x(1) o long show ?thesis by (auto simp: range_step_def)
qed

lemma static_loop_excludes:
  assumes loop: "each_res (\<lambda>i. static_header_step raw offset esize msg (int i)) [0..<nat count] = Inr u"
    and o: "unpack 8 (take 64 raw) 32 = Inr offset" "unpack 2 (take 64 raw) 54 = Inr esize"
      "unpack 2 (take 64 raw) 56 = Inr count" "56 \<le> esize"
    and hs: "elf_headers raw machine = Inr headers"
  shows "filter (\<lambda>h. p_type h = 3) headers = []"
proof -
  have "p_type h \<noteq> 3" if "h \<in> set headers" for h
  proof
    assume t: "p_type h = 3"
    from elf_headers_type_at [OF hs that] obtain off' cnt' i where long: "64 \<le> length raw"
      and o': "unpack 8 raw 32 = Inr off'" "unpack 2 raw 54 = Inr 56" "unpack 2 raw 56 = Inr cnt'"
      and i: "i < nat cnt'" "unpack 4 raw (off' + int i * 56) = Inr 3"
      using t by auto
    have eq: "off' = offset" "esize = 56" "cnt' = count"
      using o o' long unpack_take [of 32 8 64 raw] unpack_take [of 54 2 64 raw] unpack_take [of 56 2 64 raw]
      by simp_all
    have "static_header_step raw offset esize msg (int i) = Inr ()"
      using loop i(1) eq by (simp add: ok_iff list_all_iff)
    moreover have "0 \<le> offset + int i * esize" using unpack_nonneg [OF o(1)] eq by simp
    ultimately show False using static_header_step_not_interp [of raw offset esize msg "int i"] i(2) eq
      by simp
  qed
  then show ?thesis by (simp add: filter_empty_conv)
qed

lemma closure_has_interpreter:
  "elf_closure raw architecture = Inr closure \<Longrightarrow>
     \<exists>m headers. elf_headers raw m = Inr headers \<and> filter (\<lambda>h. p_type h = 3) headers \<noteq> []"
  by (fastforce simp: elf_closure_def Let_def ok_iff split: option.splits prod.splits)

lemma core_static_loop:
  "core_static_elf raw machine = Inr u \<Longrightarrow>
     \<exists>offset esize count. unpack 8 (take 64 raw) 32 = Inr offset \<and> unpack 2 (take 64 raw) 54 = Inr esize \<and>
       unpack 2 (take 64 raw) 56 = Inr count \<and> 56 \<le> esize \<and>
       each_res (\<lambda>i. static_header_step raw offset esize
         ''Core package must use the static musl producer'' (int i)) [0..<nat count] = Inr ()"
  unfolding core_static_elf_def Let_def ok_iff by auto

lemma server_static_loop:
  "server_static_elf raw machine = Inr u \<Longrightarrow>
     \<exists>offset esize count. unpack 8 (take 64 raw) 32 = Inr offset \<and> unpack 2 (take 64 raw) 54 = Inr esize \<and>
       unpack 2 (take 64 raw) 56 = Inr count \<and> 56 \<le> esize \<and>
       each_res (\<lambda>i. static_header_step raw offset esize
         ''Static upstream Go server required'' (int i)) [0..<nat count] = Inr ()"
  unfolding server_static_elf_def Let_def ok_iff by auto

text \<open>
  C14. A binary the package checks admit as a static producer (Core or server) is never admitted as
  the dynamically linked transaction helper, and the other way round: the two ELF policies are
  disjoint.
\<close>

theorem static_and_dynamic_disjoint:
  "\<not> ((core_static_elf raw machine = Inr () \<or> server_static_elf raw machine = Inr ()) \<and>
       elf_closure raw architecture = Inr closure)"
proof
  assume a: "(core_static_elf raw machine = Inr () \<or> server_static_elf raw machine = Inr ()) \<and>
       elf_closure raw architecture = Inr closure"
  obtain m headers where h: "elf_headers raw m = Inr headers" "filter (\<lambda>h. p_type h = 3) headers \<noteq> []"
    using a closure_has_interpreter by blast
  obtain offset esize count msg where "unpack 8 (take 64 raw) 32 = Inr offset"
      "unpack 2 (take 64 raw) 54 = Inr esize" "unpack 2 (take 64 raw) 56 = Inr count" "56 \<le> esize"
      "each_res (\<lambda>i. static_header_step raw offset esize msg (int i)) [0..<nat count] = Inr ()"
    using a core_static_loop server_static_loop by meson
  then have "filter (\<lambda>h. p_type h = 3) headers = []" using h(1) static_loop_excludes by blast
  with h(2) show False by simp
qed

end
