(* ===== verification/Transaction_Inputs.thy ===== *)
theory Transaction_Inputs
  imports Json_Files Release_Manifest Elf
begin

text \<open>
  check-transaction-inputs.py: the two transaction helpers that may be packaged, read from an external
  manifest. \<open>document\<close> is the strict JSON reader, \<open>typed_read\<close> the read of a protected file that is
  stable while it is read, \<open>validate_manifest\<close> the exact shape of the manifest, \<open>verify\<close> the whole
  check and \<open>install\<close> the copy into the package directory. What the file system answers during one
  read is a \<open>read_trace\<close>; decompression is the parameter \<open>gunzip\<close>: \<open>gunzip raw n\<close> is what reading \<open>n\<close>
  bytes from the gzip stream of \<open>raw\<close> returns.
\<close>

definition SOURCE_SHA256 :: string where
  "SOURCE_SHA256 = ''e47373813001b0f5a36470b34b4f0390324182636233736b514e4c7e85fd4557''"

section \<open>The strict reader\<close>

definition unique_step :: "string \<times> json \<Rightarrow> (string \<times> json) list \<Rightarrow> (string \<times> json) list res" where
  "unique_step kv result =
     bnd (need [Inr (fst kv \<notin> fst ` set result)] ''Duplicate transaction manifest key'') (\<lambda>_.
     Inr (result @ [kv]))"

definition unique_hook :: "(string \<times> json) list \<Rightarrow> json res" where
  "unique_hook items = lift_res JObj (fold_res unique_step items [])"

definition strict_document :: "bytes \<Rightarrow> json res" where
  "strict_document raw = bnd (decode_ascii raw) (loads_with unique_hook)"

section \<open>A stable read\<close>

record stat_facts =
  st_dev :: int
  st_ino :: int
  st_mode :: int
  st_uid :: int
  st_gid :: int
  st_nlink :: int
  st_size :: int
  st_mtime_ns :: int
  st_ctime_ns :: int

text \<open>
  The answers to the calls of one read, in order: the links on the path, \<open>lstat\<close> of the file and of
  its directory, \<open>open\<close> and \<open>fstat\<close> of the descriptor, the bytes the descriptor yields, \<open>fstat\<close> again, and both
  \<open>lstat\<close> again; \<open>None\<close> is a call that raises.
\<close>

record read_trace =
  linked :: bool
  before :: "stat_facts option"
  parent :: "stat_facts option"
  opened :: "stat_facts option"
  stream :: bytes
  reread :: "stat_facts option"
  after :: "stat_facts option"
  parent_after :: "stat_facts option"

definition os_answer :: "'a option \<Rightarrow> 'a res" where
  "os_answer x = (case x of None \<Rightarrow> Inl OSError | Some y \<Rightarrow> Inr y)"

definition is_regular :: "int \<Rightarrow> bool" where
  "is_regular mode \<longleftrightarrow> mode AND 61440 = 32768"

definition is_directory :: "int \<Rightarrow> bool" where
  "is_directory mode \<longleftrightarrow> mode AND 61440 = 16384"

definition role_maximum :: "string \<Rightarrow> int option" where
  "role_maximum role =
     (if role = ''manifest'' then Some 16384
      else if role \<in> fst ` set TARGETS then Some 8388608 else None)"

definition typed_read :: "read_trace \<Rightarrow> string \<Rightarrow> int option \<Rightarrow> bytes res" where
  "typed_read t role expected =
     bnd (need [Inr (role_maximum role \<noteq> None)] ''Unknown input role'') (\<lambda>_.
     let maximum = the (role_maximum role) in
     bnd (need [Inr (\<not> linked t)] ''Linked transaction input refused'') (\<lambda>_.
     bnd (os_answer (before t)) (\<lambda>bef.
     bnd (os_answer (parent t)) (\<lambda>par.
     bnd (need [Inr (is_regular (st_mode bef)), Inr (st_nlink bef = 1), Inr (is_directory (st_mode par)),
                Inr ((st_mode bef OR st_mode par) AND 18 = 0),
                Inr (0 < st_size bef \<and> st_size bef \<le> maximum),
                Inr (expected = None \<or> expected = Some (st_size bef))]
            ''Protected regular typed input required'') (\<lambda>_.
     bnd (os_answer (opened t)) (\<lambda>op.
     bnd (need [Inr (op = bef)] ''Transaction input changed before read'') (\<lambda>_.
     let raw = take (nat maximum + 1) (stream t) in
     bnd (os_answer (reread t)) (\<lambda>re.
     bnd (need [Inr (re = bef)] ''Transaction input changed during read'') (\<lambda>_.
     bnd (need [Inr (int (length raw) = st_size bef),
                lift_res (\<lambda>a. a = bef) (os_answer (after t)),
                lift_res (\<lambda>a. a = par) (os_answer (parent_after t))]
            ''Transaction input changed after read'') (\<lambda>_.
     Inr raw))))))))))"

section \<open>The manifest\<close>

definition has_keys :: "json \<Rightarrow> string list \<Rightarrow> bool res" where
  "has_keys v ks = lift_res (\<lambda>s. set s = set ks) (keys_of v)"

definition type_int_is :: "int \<Rightarrow> json \<Rightarrow> string \<Rightarrow> bool res" where
  "type_int_is n v k = lift_res (\<lambda>x. x = JInt n) (sub v k)"

definition int_between :: "int \<Rightarrow> int \<Rightarrow> json \<Rightarrow> bool" where
  "int_between lo hi v = (case v of JInt i \<Rightarrow> lo \<le> i \<and> i \<le> hi | _ \<Rightarrow> False)"

definition str_matches :: "rx \<Rightarrow> json \<Rightarrow> bool" where
  "str_matches r v = (case v of JStr s \<Rightarrow> rmatch r s | _ \<Rightarrow> False)"

definition check_row :: "json \<Rightarrow> unit res" where
  "check_row row =
     bnd (need [Inr (is_obj row), has_keys row [''elfSha256'', ''elfBytes'', ''gzipSha256'', ''gzipBytes'']]
            ''Exact target identity fields required'') (\<lambda>_.
     bnd (each_res (\<lambda>name. need [lift_res (str_matches HEX64) (sub row name)] ''Full target SHA256 required'')
            [''elfSha256'', ''gzipSha256'']) (\<lambda>_.
     need [lift_res (int_between 64 16777216) (sub row ''elfBytes''),
           lift_res (int_between 1 8388608) (sub row ''gzipBytes'')]
       ''Bounded normal target sizes required''))"

definition validate_manifest :: "json \<Rightarrow> json res" where
  "validate_manifest value =
     bnd (need [Inr (is_obj value), has_keys value [''schema'', ''abi'', ''sourceArchiveSha256'', ''targets''],
                type_int_is 1 value ''schema'', type_int_is 1 value ''abi'',
                lift_res (\<lambda>s. s = JStr SOURCE_SHA256) (sub value ''sourceArchiveSha256''),
                lift_res is_obj (sub value ''targets''),
                bnd (sub value ''targets'') (\<lambda>t. has_keys t (map fst TARGETS))]
            ''Exact transaction ABI/source/two-target manifest required'') (\<lambda>_.
     bnd (bnd (sub value ''targets'') items_of) (\<lambda>rows.
     bnd (each_res (\<lambda>row. check_row (snd row)) rows) (\<lambda>_.
     Inr value)))"

section \<open>One target, and all of them\<close>

definition verify_gzip :: "(bytes \<Rightarrow> nat \<Rightarrow> bytes res) \<Rightarrow> bytes \<Rightarrow> json \<Rightarrow> string \<Rightarrow> runtime_closure res" where
  "verify_gzip gunzip raw row architecture =
     bnd (need [lift_res (\<lambda>n. n = JInt (int (length raw))) (sub row ''gzipBytes''),
                lift_res (\<lambda>h. h = JStr (sha256_hex raw)) (sub row ''gzipSha256''),
                Inr (take 4 raw = [0x1f, 0x8b, 8, 0]), Inr (take 4 (drop 4 raw) = [0, 0, 0, 0])]
            ''Exact deterministic compressed target required'') (\<lambda>_.
     bnd (bnd (sub row ''elfBytes'') as_int) (\<lambda>n.
     bnd (gunzip raw (nat n + 1)) (\<lambda>elf.
     bnd (need [Inr (int (length elf) = n), lift_res (\<lambda>h. h = JStr (sha256_hex elf)) (sub row ''elfSha256'')]
            ''Exact bounded uncompressed target required'') (\<lambda>_.
     elf_closure elf architecture))))"

type_synonym verified = "(string \<times> bytes) list \<times> (string \<times> runtime_closure) list"

definition verify_target :: "(bytes \<Rightarrow> nat \<Rightarrow> bytes res) \<Rightarrow> (string \<times> read_trace) list \<Rightarrow>
    string \<times> json \<Rightarrow> verified \<Rightarrow> verified res" where
  "verify_target gunzip inputs item acc =
     (case (item, acc) of ((architecture, row), (packed, closure)) \<Rightarrow>
        (case map_of inputs architecture of
           None \<Rightarrow> Inl KeyError
         | Some trace \<Rightarrow>
             bnd (bnd (sub row ''gzipBytes'') as_int) (\<lambda>size.
             bnd (typed_read trace architecture (Some size)) (\<lambda>raw.
             bnd (verify_gzip gunzip raw row architecture) (\<lambda>c.
             Inr (packed @ [(architecture, raw)], closure @ [(architecture, c)]))))))"

definition verify_inputs :: "(bytes \<Rightarrow> nat \<Rightarrow> bytes res) \<Rightarrow> read_trace \<Rightarrow> string \<Rightarrow>
    (string \<times> read_trace) list \<Rightarrow> (bytes \<times> verified) res" where
  "verify_inputs gunzip manifest expected inputs =
     bnd (need [Inr (rmatch HEX64 expected)] ''Actual external manifest SHA256 required'') (\<lambda>_.
     bnd (typed_read manifest ''manifest'' None) (\<lambda>raw.
     bnd (need [Inr (sha256_hex raw = expected)] ''External transaction manifest identity differs'') (\<lambda>_.
     bnd (bnd (strict_document raw) validate_manifest) (\<lambda>value.
     bnd (bnd (sub value ''targets'') items_of) (\<lambda>rows.
     bnd (fold_res (verify_target gunzip inputs) rows ([], [])) (\<lambda>result.
     Inr (raw, result)))))))"

section \<open>Installation\<close>

text \<open>
  The destination: whether it is a directory, whether a component of its path is a link, and its
  content; \<open>open(..., 'xb')\<close> refuses a name that exists.
\<close>

record destination =
  exists_dir :: bool
  linked_dir :: bool
  contents :: directory

definition create_file :: "string \<times> bytes \<Rightarrow> directory \<Rightarrow> directory res" where
  "create_file file d =
     (case lookup_file d (fst file) of
        Some e \<Rightarrow> Inl OSError
      | None \<Rightarrow> Inr (d\<lparr>entries := (fst file, new_file (snd file)) # entries d\<rparr>))"

definition install_files :: "bytes \<Rightarrow> (string \<times> bytes) list \<Rightarrow> (string \<times> bytes) list" where
  "install_files manifest packed =
     (''transaction-tool.json'', manifest) # map (\<lambda>(key, value). (''transaction-'' @ key @ ''.gz'', value)) packed"

definition install :: "destination \<Rightarrow> bytes \<Rightarrow> (string \<times> bytes) list \<Rightarrow> directory res" where
  "install dest manifest packed =
     bnd (need [Inr (exists_dir dest), Inr (\<not> linked_dir dest), Inr (dir_perm (contents dest) AND 18 = 0)]
            ''Regular protected package destination required'') (\<lambda>_.
     let files = install_files manifest packed in
     bnd (need (map (\<lambda>f. Inr (lookup_file (contents dest) (fst f) = None)) files)
            ''Refuse existing package input destinations'') (\<lambda>_.
     fold_res create_file files (contents dest)))"


section \<open>The strict reader only refuses more\<close>

interpretation unique_keys: unique_loop fst id unique_step "\<lambda>_. True"
  by unfold_locales (auto simp: unique_step_def ok_iff)

lemma unique_hook_iff: "unique_hook items = Inr v \<longleftrightarrow> distinct (map fst items) \<and> v = JObj items"
  by (auto simp: unique_hook_def ok_iff unique_keys.run_iff list_all_iff)

interpretation strict: strict_hook unique_hook
  by unfold_locales (rule unique_hook_iff)

text \<open>
  C11. The strict manifest reader and the default JSON reader agree: a document the strict reader accepts
  has no repeated key in any object, and the default reader returns the same value for it.
\<close>

theorem strict_document_agrees:
  assumes "strict_document raw = Inr v"
  shows "bnd (decode_ascii raw) loads = Inr v \<and> keyed v"
proof -
  obtain s where s: "decode_ascii raw = Inr s" "loads_with unique_hook s = Inr v"
    using assms by (auto simp: strict_document_def ok_iff)
  from strict.loads_agrees [OF s(2)] s(1) show ?thesis by simp
qed

theorem strict_document_agrees_witness:
  "bnd (decode_ascii (encode_ascii ''[1,{}]'')) loads = Inr (JArr [JInt 1, JObj []])"
proof -
  have "strict_document (encode_ascii ''[1,{}]'') = Inr (JArr [JInt 1, JObj []])"
    by code_simp
  from strict_document_agrees [OF this] show ?thesis by blast
qed

section \<open>A stable read returns the whole file\<close>

text \<open>
  C13. A read that succeeds returned the whole content of a regular file with one link, not writable
  by group or others, within the bound of its role and of the expected size, and the nine recorded
  facts of the file were the same before opening, after opening, after reading and at the end, those of
  its directory at both ends.
\<close>

theorem typed_read_whole:
  assumes "typed_read t role expected = Inr raw"
  shows "\<exists>facts dir maximum. raw = stream t \<and> \<not> linked t \<and> role_maximum role = Some maximum \<and>
     before t = Some facts \<and> opened t = Some facts \<and> reread t = Some facts \<and> after t = Some facts \<and>
     parent t = Some dir \<and> parent_after t = Some dir \<and>
     is_regular (st_mode facts) \<and> st_nlink facts = 1 \<and> (st_mode facts OR st_mode dir) AND 18 = 0 \<and>
     int (length raw) = st_size facts \<and> 0 < st_size facts \<and> st_size facts \<le> maximum \<and>
     (\<forall>n. expected = Some n \<longrightarrow> int (length raw) = n)"
proof -
  have answer: "os_answer x = Inr y \<longleftrightarrow> x = Some y" for x :: "'a option" and y
    by (auto simp: os_answer_def split: option.splits)
  obtain maximum where m: "role_maximum role = Some maximum"
    using assms by (cases "role_maximum role") (simp_all add: typed_read_def guard_simps)
  have short: "take (nat maximum + 1) xs = xs" if "int (length (take (nat maximum + 1) xs)) \<le> maximum" for xs :: bytes
    using that by auto
  from assms m show ?thesis
    by (auto simp: typed_read_def Let_def ok_iff answer short)
qed


definition sample_facts :: "int \<Rightarrow> int \<Rightarrow> stat_facts" where
  "sample_facts mode n =
     \<lparr>st_dev = 1, st_ino = 2, st_mode = mode, st_uid = 0, st_gid = 0, st_nlink = 1, st_size = n,
      st_mtime_ns = 3, st_ctime_ns = 4\<rparr>"

definition quiet_trace :: "bytes \<Rightarrow> read_trace" where
  "quiet_trace b =
     (let facts = Some (sample_facts 33188 (int (length b))); dir = Some (sample_facts 16877 0)
      in \<lparr>linked = False, before = facts, parent = dir, opened = facts, stream = b, reread = facts,
          after = facts, parent_after = dir\<rparr>)"

lemma quiet_modes: "is_regular 33188" "is_directory 16877" "(33188 OR 16877 :: int) AND 18 = 0"
  by (simp_all add: is_regular_def is_directory_def)

lemma quiet_read:
  assumes "role_maximum role = Some maximum" and "b \<noteq> []" and "int (length b) \<le> maximum"
    and "expected = None \<or> expected = Some (int (length b))"
  shows "typed_read (quiet_trace b) role expected = Inr b"
proof -
  have "length b \<le> nat maximum + 1" using assms(3) by simp
  with assms show ?thesis
    by (simp add: typed_read_def quiet_trace_def Let_def sample_facts_def os_answer_def guard_simps quiet_modes)
qed

theorem typed_read_whole_witness:
  "typed_read (quiet_trace [1, 2, 3]) ''manifest'' None = Inr [1, 2, 3] \<and>
   [1, 2, 3] = stream (quiet_trace [1, 2, 3])"
proof -
  have "typed_read (quiet_trace [1, 2, 3]) ''manifest'' None = Inr [1, 2, 3]"
    by (rule quiet_read [of _ 16384]) (simp_all add: role_maximum_def)
  with typed_read_whole [OF this] show ?thesis by blast
qed

section \<open>What verification admits\<close>

lemma validate_manifest_targets:
  assumes "validate_manifest v = Inr value" and "bnd (sub value ''targets'') items_of = Inr rows"
  shows "value = v" and "set (map fst rows) = set (map fst TARGETS)"
    and "(a, row) \<in> set rows \<Longrightarrow> check_row row = Inr ()"
proof -
  note facts = assms [unfolded validate_manifest_def has_keys_def ok_iff sum.inject eq_True simp_thms]
  from facts show v: "value = v" by (elim exE conjE) simp
  from facts obtain t rows' where t: "sub v ''targets'' = Inr t" "items_of t = Inr rows'"
      "list_all (\<lambda>row. check_row (snd row) = Inr ()) rows'"
      "\<exists>ks. keys_of t = Inr ks \<and> set ks = set (map fst TARGETS)"
    by (elim exE conjE) simp
  with facts(2) v have rows: "rows = rows'" by (elim exE conjE) simp
  from t show "set (map fst rows) = set (map fst TARGETS)" by (cases t) (auto simp: rows)
  from t(3) show "(a, row) \<in> set rows \<Longrightarrow> check_row row = Inr ()" by (auto simp: rows list_all_iff)
qed

lemma keyed_sub: "keyed v \<Longrightarrow> sub v k = Inr x \<Longrightarrow> keyed x"
  by (fastforce simp: sub_Inr_iff list_all_iff dest!: map_of_SomeD)

lemma verify_target_iff:
  "verify_target gunzip inputs (a, row) acc = Inr acc' \<longleftrightarrow>
     (\<exists>trace n gz c. map_of inputs a = Some trace \<and> sub row ''gzipBytes'' = Inr (JInt n) \<and>
        typed_read trace a (Some n) = Inr gz \<and> verify_gzip gunzip gz row a = Inr c \<and>
        acc' = (fst acc @ [(a, gz)], snd acc @ [(a, c)]))"
  by (cases acc) (auto simp: verify_target_def ok_iff split: option.splits)

lemma verify_loop:
  assumes "fold_res (verify_target gunzip inputs) rows acc = Inr result"
  shows "\<exists>ps. map fst ps = map fst rows \<and> fst result = fst acc @ map (\<lambda>(a, r, c). (a, r)) ps \<and>
     snd result = snd acc @ map (\<lambda>(a, r, c). (a, c)) ps \<and>
     list_all2 (\<lambda>(a, row) (a', gz, c). \<exists>trace. map_of inputs a = Some trace \<and>
        typed_read trace a (Some (int (length gz))) = Inr gz \<and>
        verify_gzip gunzip gz row a = Inr c) rows ps"
  using assms
proof (induction rows arbitrary: acc)
  case Nil
  then show ?case by simp
next
  case (Cons item rows)
  obtain a row where item: "item = (a, row)" by (cases item)
  obtain mid where mid: "verify_target gunzip inputs (a, row) acc = Inr mid"
      and rest: "fold_res (verify_target gunzip inputs) rows mid = Inr result"
    using Cons.prems by (auto simp: item ok_iff)
  obtain trace n gz c where trace: "map_of inputs a = Some trace"
    and gz: "typed_read trace a (Some n) = Inr gz" and c: "verify_gzip gunzip gz row a = Inr c"
    and acc: "mid = (fst acc @ [(a, gz)], snd acc @ [(a, c)])"
    using mid unfolding verify_target_iff by blast
  have "int (length gz) = n" using typed_read_whole [OF gz] by blast
  with gz trace c Cons.IH [OF rest] show ?case
    apply (clarsimp simp: item acc)
    subgoal for ps by (intro exI [of _ "(a, gz, c) # ps"]) auto
    done
qed


lemma verify_inputs_stages:
  assumes "verify_inputs gunzip manifest expected inputs = Inr (raw, packed, closure)"
  obtains v val rows where "typed_read manifest ''manifest'' None = Inr raw" and "sha256_hex raw = expected"
    and "strict_document raw = Inr v" and "validate_manifest v = Inr val"
    and "bnd (sub val ''targets'') items_of = Inr rows"
    and "fold_res (verify_target gunzip inputs) rows ([], []) = Inr (packed, closure)"
proof -
  from assms obtain raw' where read: "typed_read manifest ''manifest'' None = Inr raw'"
      and rest: "bnd (need [Inr (sha256_hex raw' = expected)] ''External transaction manifest identity differs'') (\<lambda>_.
       bnd (bnd (strict_document raw') validate_manifest) (\<lambda>val.
       bnd (bnd (sub val ''targets'') items_of) (\<lambda>rows.
       bnd (fold_res (verify_target gunzip inputs) rows ([], [])) (\<lambda>result.
       Inr (raw', result))))) = Inr (raw, packed, closure)"
    unfolding verify_inputs_def bnd_Inr_iff [of "need _ _"] bnd_Inr_iff [of "typed_read _ _ _"] by blast
  from rest have sha: "sha256_hex raw' = expected"
    and rest: "bnd (bnd (strict_document raw') validate_manifest) (\<lambda>val.
       bnd (bnd (sub val ''targets'') items_of) (\<lambda>rows.
       bnd (fold_res (verify_target gunzip inputs) rows ([], [])) (\<lambda>result.
       Inr (raw', result)))) = Inr (raw, packed, closure)"
    unfolding bnd_Inr_iff [of "need _ _"] by (simp_all only: need_Inr_iff ok_iff) simp_all
  from rest obtain v val where "strict_document raw' = Inr v" "validate_manifest v = Inr val"
    and rest: "bnd (bnd (sub val ''targets'') items_of) (\<lambda>rows.
       bnd (fold_res (verify_target gunzip inputs) rows ([], [])) (\<lambda>result.
       Inr (raw', result))) = Inr (raw, packed, closure)"
    unfolding bnd_Inr_iff [of "bnd (strict_document _) _"] bnd_Inr_iff [of "strict_document _"] by blast
  moreover from rest obtain rows where "bnd (sub val ''targets'') items_of = Inr rows"
    and "fold_res (verify_target gunzip inputs) rows ([], []) = Inr (packed, closure)" and "raw' = raw"
    unfolding bnd_Inr_iff [of "bnd _ items_of"] bnd_Inr_iff [of "fold_res _ _ _"] by blast
  ultimately show thesis using read sha that by blast
qed

text \<open>
  C2. Verification admits exactly the anchored pair: when it succeeds, the manifest it returns has the
  given digest, one compressed helper is returned for each of the two targets and no other, each is
  the size and digest its manifest row names, and decompresses within the row's bound to an ELF file
  with the named digest whose runtime closure was admitted and is the one reported.
\<close>

theorem verify_inputs_admits:
  assumes "verify_inputs gunzip manifest expected inputs = Inr (raw, packed, closure)"
  shows "sha256_hex raw = expected \<and> raw = stream manifest \<and>
     mset (map fst packed) = mset (map fst TARGETS) \<and> map fst closure = map fst packed \<and>
     (\<exists>val rows. strict_document raw = Inr val \<and> bnd (sub val ''targets'') items_of = Inr rows \<and>
       (\<forall>(architecture, gz) \<in> set packed. \<exists>row elf c. (architecture, row) \<in> set rows \<and>
          sub row ''gzipBytes'' = Inr (JInt (int (length gz))) \<and>
          sub row ''gzipSha256'' = Inr (JStr (sha256_hex gz)) \<and>
          gunzip gz (length elf + 1) = Inr elf \<and> length elf \<le> 16777216 \<and>
          sub row ''elfSha256'' = Inr (JStr (sha256_hex elf)) \<and>
          elf_closure elf architecture = Inr c \<and> (architecture, c) \<in> set closure))"
proof -
  from verify_inputs_stages [OF assms] obtain v val rows where
      read: "typed_read manifest ''manifest'' None = Inr raw" and sha: "sha256_hex raw = expected"
    and v: "strict_document raw = Inr v" "validate_manifest v = Inr val"
    and rows: "bnd (sub val ''targets'') items_of = Inr rows"
    and loop: "fold_res (verify_target gunzip inputs) rows ([], []) = Inr (packed, closure)"
    by metis
  note valid = validate_manifest_targets [OF v(2) rows]
  have "keyed val" using strict_document_agrees [OF v(1)] valid(1) by simp
  moreover obtain t where t: "sub val ''targets'' = Inr t" "items_of t = Inr rows"
    using rows unfolding bnd_Inr_iff by blast
  ultimately have "keyed t" using keyed_sub by blast
  with t(2) have "distinct (map fst rows)" by (cases t) auto
  moreover have "distinct (map fst TARGETS)" by (simp add: TARGETS_def)
  ultimately have targets: "mset (map fst rows) = mset (map fst TARGETS)"
    using valid(2) by (metis set_eq_iff_mset_eq_distinct)
  from verify_loop [OF loop] obtain ps where names: "map fst ps = map fst rows"
    and packed: "packed = map (\<lambda>(a, r, c). (a, r)) ps" and closure: "closure = map (\<lambda>(a, r, c). (a, c)) ps"
    and each: "list_all2 (\<lambda>(a, row) (a', gz, c). \<exists>trace. map_of inputs a = Some trace \<and>
        typed_read trace a (Some (int (length gz))) = Inr gz \<and> verify_gzip gunzip gz row a = Inr c) rows ps"
    by auto
  have fst_packed: "map fst packed = map fst rows" "map fst closure = map fst packed"
    using names by (auto simp: packed closure comp_def case_prod_beta)
  have admitted: "\<exists>row elf c. (architecture, row) \<in> set rows \<and>
          sub row ''gzipBytes'' = Inr (JInt (int (length gz))) \<and>
          sub row ''gzipSha256'' = Inr (JStr (sha256_hex gz)) \<and>
          gunzip gz (length elf + 1) = Inr elf \<and> length elf \<le> 16777216 \<and>
          sub row ''elfSha256'' = Inr (JStr (sha256_hex elf)) \<and>
          elf_closure elf architecture = Inr c \<and> (architecture, c) \<in> set closure"
    if member: "(architecture, gz) \<in> set packed" for architecture gz
  proof -
    from member obtain c where c: "(architecture, gz, c) \<in> set ps" by (auto simp: packed)
    then obtain k where k: "k < length ps" "ps ! k = (architecture, gz, c)" by (auto simp: in_set_conv_nth)
    then have "k < length rows" "fst (rows ! k) = architecture"
      using names by (metis length_map, metis fst_conv length_map nth_map)
    then obtain row where at_k: "rows ! k = (architecture, row)" "k < length rows"
      by (cases "rows ! k") auto
    have row: "(architecture, row) \<in> set rows" using nth_mem [OF at_k(2)] at_k(1) by simp
    have gz: "verify_gzip gunzip gz row architecture = Inr c"
      using list_all2_nthD [OF each at_k(2)] at_k k by auto
    have bound: "check_row row = Inr ()" using valid(3) [OF row] .
    have "(architecture, c) \<in> set closure" using c by (force simp: closure)
    with row gz bound show ?thesis
      by (intro exI [of _ row]) (auto simp: verify_gzip_def check_row_def int_between_def ok_iff)
  qed
  have raw: "raw = stream manifest" using typed_read_whole [OF read] by blast
  show ?thesis
  proof (intro conjI exI [of _ v] exI [of _ rows])
    show "mset (map fst packed) = mset (map fst TARGETS)" using targets fst_packed by simp
    show "bnd (sub v ''targets'') items_of = Inr rows" using rows valid(1) by simp
    show "\<forall>(architecture, gz) \<in> set packed. \<exists>row elf c. (architecture, row) \<in> set rows \<and>
          sub row ''gzipBytes'' = Inr (JInt (int (length gz))) \<and>
          sub row ''gzipSha256'' = Inr (JStr (sha256_hex gz)) \<and>
          gunzip gz (length elf + 1) = Inr elf \<and> length elf \<le> 16777216 \<and>
          sub row ''elfSha256'' = Inr (JStr (sha256_hex elf)) \<and>
          elf_closure elf architecture = Inr c \<and> (architecture, c) \<in> set closure"
      using admitted by blast
  qed (use sha raw fst_packed v(1) in auto)
qed

section \<open>Installation\<close>

lemma create_loop:
  "fold_res create_file files d = Inr d' \<longleftrightarrow>
     distinct (map fst files) \<and> list_all (\<lambda>f. lookup_file d (fst f) = None) files \<and>
     d' = d\<lparr>entries := rev (map (\<lambda>f. (fst f, new_file (snd f))) files) @ entries d\<rparr>"
proof (induction files arbitrary: d)
  case Nil
  then show ?case by auto
next
  case (Cons f files)
  show ?case
  proof (cases "lookup_file d (fst f)")
    case None
    let ?d = "d\<lparr>entries := (fst f, new_file (snd f)) # entries d\<rparr>"
    have "lookup_file ?d (fst g) = None \<longleftrightarrow> fst g \<noteq> fst f \<and> lookup_file d (fst g) = None" for g :: "string \<times> bytes"
      by (simp add: lookup_file_def)
    moreover have "create_file f d = Inr ?d" using None by (simp add: create_file_def)
    ultimately show ?thesis using None by (simp add: Cons.IH list_all_iff) (force simp: image_iff)
  next
    case (Some e)
    then show ?thesis by (simp add: create_file_def)
  qed
qed

lemma install_iff:
  "install dest manifest packed = Inr d \<longleftrightarrow>
     exists_dir dest \<and> \<not> linked_dir dest \<and> dir_perm (contents dest) AND 18 = 0 \<and>
     distinct (map fst (install_files manifest packed)) \<and>
     list_all (\<lambda>f. lookup_file (contents dest) (fst f) = None) (install_files manifest packed) \<and>
     d = (contents dest)\<lparr>entries := rev (map (\<lambda>f. (fst f, new_file (snd f))) (install_files manifest packed)) @
            entries (contents dest)\<rparr>"
  unfolding install_def Let_def ok_iff create_loop by auto

lemma list_distinct_map_of_rev:
  assumes "distinct (map fst xs)"
  shows "map_of (rev xs) = map_of xs"
proof -
  have "distinct (map fst (rev xs))" using assms by (simp add: rev_map [symmetric])
  then show ?thesis using assms by (intro map_of_inject_set [THEN iffD2]) auto
qed

lemma lookup_installed:
  assumes "distinct (map fst files)"
  shows "lookup_file (d\<lparr>entries := rev (map (\<lambda>f. (fst f, new_file (snd f))) files) @ entries d\<rparr>) n =
    (case map_of files n of Some b \<Rightarrow> Some (new_file b) | None \<Rightarrow> lookup_file d n)"
proof -
  let ?fs = "map (\<lambda>f. (fst f, new_file (snd f))) files"
  have "distinct (map fst ?fs)" using assms by (simp add: comp_def)
  then have "map_of (rev ?fs) = map_of ?fs" by (metis list_distinct_map_of_rev)
  moreover have "map_of ?fs n = map_option new_file (map_of files n)"
    by (induction files) auto
  ultimately show ?thesis
    by (auto simp: lookup_file_def map_add_def split: option.splits)
qed

text \<open>
  C12. Installation adds and never replaces: the new directory holds the manifest and each helper under
  its name with mode 644 and exactly the given bytes, none of these names existed before, and every
  other entry is what it was.
\<close>

theorem install_adds:
  assumes "install dest manifest packed = Inr d"
  shows "lookup_file d n =
     (case map_of (install_files manifest packed) n of
        Some b \<Rightarrow> Some (new_file b) | None \<Rightarrow> lookup_file (contents dest) n) \<and>
     (\<forall>f \<in> set (install_files manifest packed). lookup_file (contents dest) (fst f) = None)"
  using assms lookup_installed [of "install_files manifest packed" "contents dest" n]
  unfolding install_iff by (auto simp: list_all_iff)


text \<open>
  C6. After verification an installation cannot stop half way: into a protected directory that has none
  of the three names, every exclusive creation succeeds.
\<close>

theorem install_after_verify:
  assumes "verify_inputs gunzip manifest expected inputs = Inr (raw, packed, closure)"
    and "exists_dir dest" and "\<not> linked_dir dest" and "dir_perm (contents dest) AND 18 = 0"
    and "\<forall>f \<in> {''transaction-tool.json'', ''transaction-x86_64.gz'', ''transaction-aarch64_cortex-a53.gz''}.
           lookup_file (contents dest) f = None"
  shows "\<exists>d. install dest raw packed = Inr d \<and>
     length (entries d) = length (entries (contents dest)) + 3"
proof -
  have "mset (map fst packed) = mset [''x86_64'', ''aarch64_cortex-a53'']"
    using verify_inputs_admits [OF assms(1)] by (simp add: TARGETS_def)
  note targets = mset_eq_imp_distinct_iff [OF this] mset_eq_setD [OF this] mset_eq_length [OF this]
  let ?name = "\<lambda>key. ''transaction-'' @ key @ ''.gz''"
  have names: "map fst (install_files raw packed) = ''transaction-tool.json'' # map ?name (map fst packed)"
    by (simp add: install_files_def comp_def case_prod_beta)
  have "inj_on ?name (set (map fst packed))" by (auto simp: inj_on_def)
  with targets(1) have dist: "distinct (map ?name (map fst packed))" by (subst distinct_map) simp
  have set: "set (map fst (install_files raw packed)) =
      {''transaction-tool.json'', ''transaction-x86_64.gz'', ''transaction-aarch64_cortex-a53.gz''}"
    unfolding names list.set set_map [of ?name] targets(2) by simp
  have "distinct (map fst (install_files raw packed))"
    unfolding names distinct.simps set_map [of ?name] targets(2) using dist by simp
  moreover have "list_all (\<lambda>f. lookup_file (contents dest) (fst f) = None) (install_files raw packed)"
    unfolding list_all_iff
  proof
    fix f assume "f \<in> set (install_files raw packed)"
    then have "fst f \<in> set (map fst (install_files raw packed))" by simp
    with assms(5) show "lookup_file (contents dest) (fst f) = None" unfolding set by (rule bspec)
  qed
  moreover have "length (install_files raw packed) = 3"
    using targets(3) by (simp add: install_files_def)
  ultimately show ?thesis
    using assms(2,3,4) unfolding install_iff by simp
qed

section \<open>A verified pair\<close>

lemma strict_document_written: "printable v \<Longrightarrow> strict_document (encode_ascii (write_value v)) = Inr v"
  by (simp add: strict_document_def decode_encode_ascii is_ascii_write strict.loads_write)


text \<open>The AArch64 counterpart of the sample helper, its interpreter one character longer.\<close>

definition sample_arm_body :: bytes where
  "sample_arm_body =
     elf_magic @ [0, 0, 0, 0, 0, 0, 0, 0, 0, 0] @ [3, 0] @ [183, 0] @ [1, 0, 0, 0] @ field8 0 0 @
     field8 64 0 @ field8 0 0 @ [0, 0, 0, 0] @ [64, 0] @ [56, 0] @ [3, 0] @ [0, 0, 0, 0, 0, 0] @
     header_bytes 3 232 0 26 @ header_bytes 2 2 1 64 @ header_bytes 1 66 1 23 @
     encode_ascii ''/lib/ld-musl-aarch64.so.1'' @ [0] @
     field8 1 0 @ field8 1 0 @ field8 1 0 @ field8 9 0 @
     field8 5 0 @ field8 66 1 @ field8 10 0 @ field8 23 0 @
     [0] @ encode_ascii ''libc.so'' @ [0] @ encode_ascii ''libgcc_s.so.1'' @ [0]"

definition sample_arm :: bytes where
  "sample_arm =
     sample_arm_body @ (encode_ascii ''foxhole-apply'' @ [0]) @ (encode_ascii ''foxhole-recover'' @ [0])"

lemmas arm_eval = sample_eval sample_arm_def sample_arm_body_def

abbreviation arm_headers :: "program_header list" where
  "arm_headers \<equiv>
     [\<lparr>p_type = 3, p_offset = 232, p_vaddr = 232, p_filesz = 26\<rparr>,
      \<lparr>p_type = 2, p_offset = 258, p_vaddr = 258, p_filesz = 64\<rparr>,
      \<lparr>p_type = 1, p_offset = 322, p_vaddr = 322, p_filesz = 23\<rparr>]"

lemma arm_elf_headers: "elf_headers sample_arm 183 = Inr arm_headers"
  by (simp add: elf_headers_def read_header_def arm_eval)

lemma arm_libraries:
  "elf_libraries sample_arm arm_headers \<lparr>p_type = 2, p_offset = 258, p_vaddr = 258, p_filesz = 64\<rparr> =
     Inr [''libc.so'', ''libgcc_s.so.1'']"
proof -
  have "dynamic_entries sample_arm \<lparr>p_type = 2, p_offset = 258, p_vaddr = 258, p_filesz = 64\<rparr> =
      Inr [(1, 1), (1, 9), (5, 322), (10, 23)]"
    by (simp add: dynamic_entries_def arm_eval)
  moreover have "string_table sample_arm arm_headers 322 23 =
      Inr ([0] @ encode_ascii ''libc.so'' @ [0] @ encode_ascii ''libgcc_s.so.1'' @ [0])"
    by (simp add: string_table_def arm_eval)
  ultimately show ?thesis
    by (simp add: elf_libraries_def guard_simps)
      (simp add: library_name_def find_zero_def decode_ascii_def encode_ascii_def slice_def guard_simps
        char_of_def bit_0)
qed

lemma arm_closure_tail: "closure_tail sample_arm [''libc.so'', ''libgcc_s.so.1''] = Inr ()"
proof -
  have "88 \<notin> set sample_arm" "107 \<notin> set sample_arm" "116 \<notin> set sample_arm" by (simp_all add: arm_eval)
  then have "list_all (\<lambda>m. \<not> contains m sample_arm) qa_markers"
    by (auto simp: qa_markers_def list_all_iff encode_ascii_def dest!: contains_subset)
  moreover have "contains (encode_ascii ''foxhole-apply'' @ [0]) sample_arm"
    and "contains (encode_ascii ''foxhole-recover'' @ [0]) sample_arm"
    unfolding contains_iff sample_arm_def by (metis append.assoc append_Nil2)+
  ultimately show ?thesis
    by (simp add: closure_tail_def ok_iff list_all_iff insert_commute applets_def)
qed

lemma sample_arm_admitted:
  "elf_closure sample_arm ''aarch64_cortex-a53'' =
     Inr \<lparr>interpreter = ''/lib/ld-musl-aarch64.so.1'', needed_libraries = [''libc.so'', ''libgcc_s.so.1'']\<rparr>"
proof -
  have "slice sample_arm 232 258 = encode_ascii ''/lib/ld-musl-aarch64.so.1'' @ [0]"
    by (simp add: arm_eval)
  then show ?thesis
    by (simp add: elf_closure_def TARGETS_def arm_elf_headers arm_libraries arm_closure_tail need.simps)
qed

text \<open>A compressed stream that only stores its content, and the manifest of the pair.\<close>

definition stored :: "bytes \<Rightarrow> bytes" where
  "stored b = [0x1f, 0x8b, 8, 0, 0, 0, 0, 0, 2, 3] @ b"

definition unstore :: "bytes \<Rightarrow> nat \<Rightarrow> bytes res" where
  "unstore raw n = Inr (take n (drop 10 raw))"

definition sample_row :: "bytes \<Rightarrow> json" where
  "sample_row elf = JObj [(''elfSha256'', JStr (sha256_hex elf)), (''elfBytes'', JInt (int (length elf))),
     (''gzipSha256'', JStr (sha256_hex (stored elf))), (''gzipBytes'', JInt (int (length (stored elf))))]"

definition sample_manifest :: json where
  "sample_manifest = JObj [(''schema'', JInt 1), (''abi'', JInt 1),
     (''sourceArchiveSha256'', JStr SOURCE_SHA256),
     (''targets'', JObj [(''x86_64'', sample_row sample_elf), (''aarch64_cortex-a53'', sample_row sample_arm)])]"

lemma sample_lengths: "length sample_elf = 374" "length sample_arm = 375"
  by (simp_all add: sample_eval arm_eval)

lemma sample_row_ok: "64 \<le> length elf \<Longrightarrow> length elf \<le> 8388598 \<Longrightarrow> check_row (sample_row elf) = Inr ()"
  by (simp add: check_row_def sample_row_def has_keys_def int_between_def str_matches_def sha.digest_pattern
      guard_simps stored_def insert_commute)

lemma sample_row_verified:
  "elf_closure elf a = Inr c \<Longrightarrow> verify_gzip unstore (stored elf) (sample_row elf) a = Inr c"
  by (simp add: verify_gzip_def sample_row_def stored_def unstore_def guard_simps)


lemma small_digits: "digits_of_nat 374 = ''374''" "digits_of_nat 375 = ''375''" "digits_of_nat 384 = ''384''"
    "digits_of_nat 385 = ''385''" "digits_of_nat (Suc 0) = ''1''"
  by (simp_all add: digits_of_nat.simps char_of_def bit_0)

lemma sample_manifest_printable: "printable sample_manifest"
  by (simp add: sample_manifest_def sample_row_def stored_def sample_lengths small_digits)

definition sample_raw :: bytes where
  "sample_raw = encode_ascii (write_value sample_manifest)"

lemma sample_raw_length: "sample_raw \<noteq> []" "int (length sample_raw) \<le> 16384"
proof -
  have "length (write_value sample_manifest) \<le> 2000"
    by (simp add: sample_manifest_def sample_row_def write_digest)
      (simp add: write_string_def escape_char_def SOURCE_SHA256_def str_of_int_def stored_def sample_lengths small_digits)
  moreover have "write_value sample_manifest \<noteq> []" by (simp add: sample_manifest_def)
  ultimately show "sample_raw \<noteq> []" "int (length sample_raw) \<le> 16384"
    by (simp_all add: sample_raw_def encode_ascii_def)
qed

definition sample_inputs :: "(string \<times> read_trace) list" where
  "sample_inputs = [(''x86_64'', quiet_trace (stored sample_elf)),
     (''aarch64_cortex-a53'', quiet_trace (stored sample_arm))]"

lemma sample_verified:
  "verify_inputs unstore (quiet_trace sample_raw) (sha256_hex sample_raw) sample_inputs =
     Inr (sample_raw,
       [(''x86_64'', stored sample_elf), (''aarch64_cortex-a53'', stored sample_arm)],
       [(''x86_64'', \<lparr>interpreter = ''/lib/ld-musl-x86_64.so.1'', needed_libraries = [''libc.so'', ''libgcc_s.so.1'']\<rparr>),
        (''aarch64_cortex-a53'',
           \<lparr>interpreter = ''/lib/ld-musl-aarch64.so.1'', needed_libraries = [''libc.so'', ''libgcc_s.so.1'']\<rparr>)])"
proof -
  have raw: "typed_read (quiet_trace sample_raw) ''manifest'' None = Inr sample_raw"
    using sample_raw_length by (intro quiet_read [of _ 16384]) (simp_all add: role_maximum_def)
  have doc: "strict_document sample_raw = Inr sample_manifest"
    unfolding sample_raw_def by (rule strict_document_written [OF sample_manifest_printable])
  have x86: "typed_read (quiet_trace (stored sample_elf)) ''x86_64'' (Some (int (length (stored sample_elf)))) = Inr (stored sample_elf)"
    and arm: "typed_read (quiet_trace (stored sample_arm)) ''aarch64_cortex-a53'' (Some (int (length (stored sample_arm)))) = Inr (stored sample_arm)"
    by (intro quiet_read [of _ 8388608]; simp add: role_maximum_def TARGETS_def stored_def sample_lengths)+
  have valid: "validate_manifest sample_manifest = Inr sample_manifest"
    using sample_row_ok [of sample_elf] sample_row_ok [of sample_arm]
    by (simp add: validate_manifest_def sample_manifest_def has_keys_def type_int_is_def guard_simps
        TARGETS_def sample_lengths insert_commute)
  have rows: "bnd (sub sample_manifest ''targets'') items_of =
      Inr [(''x86_64'', sample_row sample_elf), (''aarch64_cortex-a53'', sample_row sample_arm)]"
    by (simp add: sample_manifest_def)
  have size: "sub (sample_row elf) ''gzipBytes'' = Inr (JInt (int (length (stored elf))))" for elf
    by (simp add: sample_row_def)
  show ?thesis
    unfolding verify_inputs_def raw doc
    by (simp add: guard_simps sha.digest_pattern doc valid rows verify_target_def sample_inputs_def size x86 arm
        sample_row_verified [OF sample_elf_admitted] sample_row_verified [OF sample_arm_admitted])
qed

theorem verify_inputs_admits_witness:
  "sample_raw = stream (quiet_trace sample_raw) \<and>
   (\<exists>elf c. unstore (stored sample_elf) (length elf + 1) = Inr elf \<and> elf_closure elf ''x86_64'' = Inr c)"
  using verify_inputs_admits [OF sample_verified] by auto

definition empty_destination :: destination where
  "empty_destination = \<lparr>exists_dir = True, linked_dir = False, contents = \<lparr>dir_perm = 493, entries = []\<rparr>\<rparr>"

theorem install_after_verify_witness:
  "\<exists>d. install empty_destination sample_raw
         [(''x86_64'', stored sample_elf), (''aarch64_cortex-a53'', stored sample_arm)] = Inr d \<and>
       length (entries d) = 3"
  using install_after_verify [OF sample_verified, of empty_destination]
  by (simp add: empty_destination_def lookup_file_def)

theorem install_adds_witness:
  "\<exists>d. install empty_destination sample_raw
         [(''x86_64'', stored sample_elf), (''aarch64_cortex-a53'', stored sample_arm)] = Inr d \<and>
       lookup_file d ''transaction-x86_64.gz'' = Some (new_file (stored sample_elf))"
proof -
  let ?packed = "[(''x86_64'', stored sample_elf), (''aarch64_cortex-a53'', stored sample_arm)]"
  have "\<exists>d. install empty_destination sample_raw ?packed = Inr d"
    by (auto simp: install_iff install_files_def empty_destination_def lookup_file_def)
  then obtain d where d: "install empty_destination sample_raw ?packed = Inr d" by blast
  from install_adds [OF d, of "''transaction-x86_64.gz''"] d show ?thesis
    by (auto simp: install_files_def)
qed

end
