(* ===== verification/Hysteria_Provenance.thy ===== *)
theory Hysteria_Provenance
  imports Json_Files
begin

text \<open>
  hysteria_provenance.py: the corrected Hysteria source, its retained source tests and the evidence on
  the current compiler. \<open>verify\<close> is what a producer record must satisfy before its binary may be
  packaged; \<open>record_source\<close> checks a source tree before it is compiled. Directories map the relative
  path of a file to its entry. \<open>hash\<close> is \<open>hashlib.sha256(...).hexdigest()\<close>, an argument because the
  tool compares it with digests of files that are not part of the model; the tools that call these
  checks run them with \<open>sha256_hex\<close>.
\<close>

definition SOURCE_SHA :: string where
  "SOURCE_SHA = ''8db04a112e73685a1e5916d5d4d3df3ed897dbabc3e639fda4880b7ca9a7d18e''"

definition SOURCE_COMMIT :: string where
  "SOURCE_COMMIT = ''619a6f856b69fb7ee6a7a379e810e68b84004605''"

definition PATCH_SHA :: string where
  "PATCH_SHA = ''13741cc70614625da775b9ae049c74a27cc5a1a92410aebd7d1649bb58f6cf01''"

definition RECEIPT_SHA :: string where
  "RECEIPT_SHA = ''9c78d87d33ace6e323a3590ce78263f809a5a87083964cf85f0c9dc2589f4c52''"

definition SUITE_SOURCE_SHA :: string where
  "SUITE_SOURCE_SHA = ''4384fa5b283cde9a33ac2147756a4ce61e31708b9b1271e8c0929a330296181b''"

definition PROVENANCE_FILES :: "string list" where
  "PROVENANCE_FILES = [''HYSTERIA-SOURCE-PATCH.patch'', ''HYSTERIA-PATCH-SOURCE.json'']"

definition LICENSES :: "string list" where
  "LICENSES = [''LICENSE.md'', ''app.LICENSE.md'', ''core.LICENSE.md'', ''extras.LICENSE.md'',
     ''go-modules.json'', ''GO-THIRD-PARTY-NOTICES.txt'']"

definition prov_digest :: "hash_fun \<Rightarrow> directory \<Rightarrow> string \<Rightarrow> string res" where
  "prov_digest hash dir n =
     (case plain_file dir n of
        None \<Rightarrow> Inl (ValueError ''Regular Hysteria provenance input required'')
      | Some e \<Rightarrow> Inr (hash (content e)))"

definition source_evidence :: "hash_fun \<Rightarrow> directory \<Rightarrow> string \<Rightarrow> string \<Rightarrow> json res" where
  "source_evidence hash dir patch receipt =
     bnd (refuse [lift_res (\<lambda>d. d \<noteq> PATCH_SHA) (prov_digest hash dir patch),
                  lift_res (\<lambda>d. d \<noteq> RECEIPT_SHA) (prov_digest hash dir receipt)]
            ''Exact Hysteria security repair evidence required'') (\<lambda>_.
     read_json dir receipt)"

definition patch_record :: "json \<Rightarrow> json res" where
  "patch_record evidence =
     bnd (sub evidence ''changedFiles'') (\<lambda>changed.
     Inr (JObj [(''schema'', JInt 1), (''patchSha256'', JStr PATCH_SHA),
        (''patchFile'', JStr (PROVENANCE_FILES ! 0)), (''receiptFile'', JStr (PROVENANCE_FILES ! 1)),
        (''receiptSha256'', JStr RECEIPT_SHA), (''changedFiles'', changed), (''sourceUnmodified'', JBool False)]))"

section \<open>The test suite and the compiler\<close>

definition suite_numbers :: "string list" where
  "suite_numbers = [''schema'', ''casePass'', ''caseFail'', ''caseSkip'', ''packagePass'', ''packageSkip'',
     ''oldCasesRetained'', ''actualSuiteExitCode'']"

definition suite_fields :: "string list" where
  "suite_fields = suite_numbers @ [''sourceReceiptSha256'', ''freshCompleteReceiptSha256'']"

definition other_keys :: "json \<Rightarrow> string list \<Rightarrow> bool res" where
  "other_keys v ks = lift_res (\<lambda>s. set s \<noteq> set ks) (keys_of v)"

definition int_field :: "json \<Rightarrow> string \<Rightarrow> int res" where
  "int_field v k = bnd (sub v k) as_int"

definition test_suite :: "json \<Rightarrow> json res" where
  "test_suite v =
     bnd (refuse [Inr (\<not> is_obj v), other_keys v suite_fields,
                  any_res (\<lambda>name. lift_res (\<lambda>x. \<not> is_int x) (get v name)) suite_numbers,
                  lift_res (\<lambda>x. x \<noteq> JInt 1) (sub v ''schema''),
                  lift_res (\<lambda>x. x \<noteq> JStr SUITE_SOURCE_SHA) (sub v ''sourceReceiptSha256''),
                  lift_res (\<lambda>x. \<not> is_str x) (sub v ''freshCompleteReceiptSha256''),
                  not_res (bnd (sub v ''freshCompleteReceiptSha256'') (fullmatch HEX64)),
                  lift_res (\<lambda>n. n < 5) (int_field v ''casePass''),
                  lift_res (\<lambda>n. n \<le> 0) (int_field v ''packagePass''),
                  lift_res (\<lambda>n. n < 0) (int_field v ''packageSkip''),
                  bnd (int_field v ''packagePass'') (\<lambda>p. lift_res (\<lambda>s. p + s \<noteq> 44) (int_field v ''packageSkip'')),
                  any_res (\<lambda>name. lift_res (\<lambda>n. n \<noteq> 0) (int_field v name))
                    [''caseFail'', ''caseSkip'', ''oldCasesRetained'', ''actualSuiteExitCode'']]
            ''Complete fresh modified-source upstream test proof required'') (\<lambda>_.
     Inr v)"

text \<open>
  \<open>re.fullmatch(r'[a-f0-9]{64}', str(v))\<close>: of the values JSON has, only a string and an integer can be
  printed as 64 such characters.
\<close>

definition str_is_hex64 :: "json \<Rightarrow> bool" where
  "str_is_hex64 v = (case v of JStr s \<Rightarrow> rmatch HEX64 s | JInt i \<Rightarrow> rmatch HEX64 (str_of_int i) | _ \<Rightarrow> False)"

definition compiler_fields :: "string list" where
  "compiler_fields = [''schema'', ''runtimeReceiptSha256'', ''archiveSha256'', ''ordinaryTlsControlReceiptSha256'',
     ''ordinaryTlsControlScope'', ''ordinaryTlsControlReused'', ''currentTargetRuntimeAcceptance'']"

definition compiler_qualification :: "json \<Rightarrow> json res" where
  "compiler_qualification v =
     bnd (refuse [Inr (\<not> is_obj v), other_keys v compiler_fields,
                  lift_res (\<lambda>x. \<not> is_int x) (get v ''schema''), lift_res (\<lambda>x. x \<noteq> JInt 1) (get v ''schema''),
                  lift_res (\<lambda>x. x \<noteq> JStr ''3b39d555cb1fedecefcde92f72da72abdd0a26abbf769b0e220992a88c6bf2fd'')
                    (get v ''runtimeReceiptSha256''),
                  lift_res (\<lambda>x. x \<noteq> JStr ''ccfe7ae822d2c2f41f4fe7c956199967a4dac22d0ee0d2b2bfdb440aab3b20c5'')
                    (get v ''archiveSha256''),
                  lift_res (\<lambda>x. \<not> str_is_hex64 x) (get v ''ordinaryTlsControlReceiptSha256''),
                  lift_res (\<lambda>x. x \<noteq> JStr ''Linux/amd64 existing TestGoVerify ordinary chain control; not Hysteria target runtime or denylist regression'')
                    (get v ''ordinaryTlsControlScope''),
                  lift_res (\<lambda>x. x \<noteq> JBool True) (get v ''ordinaryTlsControlReused''),
                  lift_res (\<lambda>x. x \<noteq> JNull) (get v ''currentTargetRuntimeAcceptance'')]
            ''Current Go1.26.10 compiler with separately scoped ordinary control required'') (\<lambda>_.
     Inr v)"

section \<open>A producer record\<close>

definition retained_scope :: json where
  "retained_scope = JObj [(''kind'', JStr ''retained-exact-source-tests''), (''compilerVersion'', JStr ''go1.26.9''),
     (''currentCompilerTestsExecuted'', JBool False),
     (''freshCompleteReceiptSha256'', JStr ''f66db45fa33d2895c9ca8945ef6c668d0db8910748a063bbed638788004a506e'')]"

definition tab :: string where
  "tab = [CHR 0x09]"

definition has_prefix :: "string \<Rightarrow> string \<Rightarrow> bool" where
  "has_prefix p s \<longleftrightarrow> take (length p) s = p"

text \<open>\<open>any(line.startswith(p) for line in lines if isinstance(line, str))\<close>\<close>

definition some_line :: "string \<Rightarrow> json list \<Rightarrow> bool" where
  "some_line p lines = list_ex (\<lambda>l. case l of JStr s \<Rightarrow> has_prefix p s | _ \<Rightarrow> False) lines"

definition check_payload_files :: "hash_fun \<Rightarrow> json \<Rightarrow> directory \<Rightarrow> unit res" where
  "check_payload_files hash rec payload =
     each_res (\<lambda>name. refuse
         [bnd (prov_digest hash payload name) (\<lambda>d. lift_res (\<lambda>x. x \<noteq> JStr d) (bnd (sub rec ''filesSha256'') (\<lambda>f. sub f name)))]
         ''Hysteria legal or repair provenance digest differs'')
       (LICENSES @ PROVENANCE_FILES)"

definition prov_verify :: "hash_fun \<Rightarrow> json \<Rightarrow> directory \<Rightarrow> unit res" where
  "prov_verify hash rec payload =
     bnd (bnd (get rec ''testSuite'') test_suite) (\<lambda>_.
     bnd (refuse [lift_res (\<lambda>s. py_ne s retained_scope) (get rec ''sourceTestScope'')]
            ''Explicit retained Go1.26.9 source-test scope required'') (\<lambda>_.
     bnd (refuse [bnd (bnd (sub rec ''testSuite'') (\<lambda>t. sub t ''freshCompleteReceiptSha256'')) (\<lambda>a.
                    lift_res (\<lambda>b. py_ne a b)
                      (bnd (sub rec ''sourceTestScope'') (\<lambda>t. sub t ''freshCompleteReceiptSha256'')))]
            ''Retained source suite identity differs'') (\<lambda>_.
     bnd (bnd (get rec ''currentCompilerQualification'') compiler_qualification) (\<lambda>_.
     bnd (source_evidence hash payload (PROVENANCE_FILES ! 0) (PROVENANCE_FILES ! 1)) (\<lambda>evidence.
     bnd (get rec ''sourcePatch'') (\<lambda>selected.
     bnd (refuse [lift_res (\<lambda>x. x \<noteq> JStr SOURCE_SHA) (get rec ''sourceSha256''),
                  lift_res (\<lambda>x. x \<noteq> JStr SOURCE_COMMIT) (get rec ''sourceCommit''),
                  Inr (\<not> is_obj selected), lift_res (\<lambda>x. \<not> is_int x) (get selected ''schema''),
                  lift_res (\<lambda>x. x \<noteq> JBool False) (get selected ''sourceUnmodified''),
                  lift_res (\<lambda>r. py_ne selected r) (patch_record evidence),
                  lift_res (\<lambda>x. x \<noteq> JStr ''go version go1.26.10 linux/amd64'') (get rec ''toolchain''),
                  lift_res (\<lambda>x. x \<noteq> JStr ''go1.26.10'') (get rec ''binaryRuntimeVersion''),
                  bnd (get_or rec ''filesSha256'' (JObj [])) (\<lambda>f.
                    lift_res (\<lambda>s. \<not> same_set s (map JStr (LICENSES @ PROVENANCE_FILES))) (element_set f)),
                  bnd (get_or rec ''buildInfo'' (JArr [])) (\<lambda>info.
                    lift_res (\<lambda>ls. \<not> some_line (''dep'' @ tab @ ''golang.org/x/net'' @ tab @ ''v0.60.0'' @ tab) ls)
                      (iter info))]
            ''Patched Go1.26.10/xnet0.60 Hysteria producer required'') (\<lambda>_.
     check_payload_files hash rec payload)))))))"

section \<open>The source tree\<close>

text \<open>
  \<open>source\<close> lists every path of the tree; \<open>rglob('*.go')\<close> yields those whose last component ends in
  \<open>.go\<close>, at any depth. The two package files are in \<open>package\<close>, the copies are written to \<open>output\<close>.
\<close>

fun split_path :: "string \<Rightarrow> string list" where
  "split_path [] = [[]]"
| "split_path (c # cs) =
     (if c = CHR ''/'' then [] # split_path cs
      else (case split_path cs of [] \<Rightarrow> [[c]] | w # ws \<Rightarrow> (c # w) # ws))"

definition is_go_path :: "string \<Rightarrow> bool" where
  "is_go_path p \<longleftrightarrow> (let l = last (split_path p) in 3 \<le> length l \<and> drop (length l - 3) l = ''.go'')"

definition put_file :: "directory \<Rightarrow> string \<Rightarrow> bytes \<Rightarrow> directory" where
  "put_file d n b = d\<lparr>entries := (n, \<lparr>ftype = Regular, perm = 420, nlink = 1, owner = 0, content = b\<rparr>) #
      filter (\<lambda>e. fst e \<noteq> n) (entries d)\<rparr>"

definition check_source :: "hash_fun \<Rightarrow> directory \<Rightarrow> json \<Rightarrow> unit res" where
  "check_source hash source expected =
     bnd (items_of expected) (\<lambda>rows.
     bnd (each_res (\<lambda>(relative, expected_hash). refuse
            [lift_res (\<lambda>d. expected_hash \<noteq> JStr d) (prov_digest hash source relative)]
            ''Hysteria compiled source differs from the repaired source'') rows) (\<lambda>_.
     each_res (\<lambda>p. refuse [Inr (''.pc'' \<notin> set (split_path p) \<and> p \<notin> fst ` set rows)]
            ''Unexpected Hysteria Go source input'')
       (filter is_go_path (map fst (entries source)))))"

definition copy_provenance :: "directory \<Rightarrow> directory \<Rightarrow> directory res" where
  "copy_provenance package output =
     fold_res (\<lambda>(original, name) out. bnd (lstat package original) (\<lambda>e. Inr (put_file out name (content e))))
       [(''combined-source.patch'', PROVENANCE_FILES ! 0), (''security-source.json'', PROVENANCE_FILES ! 1)] output"

definition record_source :: "hash_fun \<Rightarrow> directory \<Rightarrow> directory \<Rightarrow> directory \<Rightarrow> (json \<times> (string \<times> string) list \<times> directory) res" where
  "record_source hash package source output =
     bnd (source_evidence hash package ''combined-source.patch'' ''security-source.json'') (\<lambda>evidence.
     bnd (sub evidence ''effectiveSourceFilesSha256'') (\<lambda>expected.
     bnd (check_source hash source expected) (\<lambda>_.
     bnd (copy_provenance package output) (\<lambda>out.
     bnd (patch_record evidence) (\<lambda>rec.
     bnd (map_res (\<lambda>name. lift_res (\<lambda>d. (name, d)) (prov_digest hash out name)) PROVENANCE_FILES) (\<lambda>digests.
     Inr (rec, digests, out)))))))"


section \<open>What an accepted record guarantees\<close>

lemma prov_digest_iff [ok_iff]:
  "prov_digest hash dir n = Inr h \<longleftrightarrow>
     (\<exists>e. lookup_file dir n = Some e \<and> ftype e = Regular \<and> h = hash (content e))"
  by (auto simp: prov_digest_def plain_file_def split: option.splits)

lemma source_evidence_iff:
  "source_evidence hash dir patch receipt = Inr ev \<longleftrightarrow>
     prov_digest hash dir patch = Inr PATCH_SHA \<and> prov_digest hash dir receipt = Inr RECEIPT_SHA \<and>
     read_json dir receipt = Inr ev"
  by (auto simp: source_evidence_def ok_iff)

lemma check_payload_files_iff:
  "check_payload_files hash rec payload = Inr () \<longleftrightarrow>
     list_all (\<lambda>name. \<exists>d files. prov_digest hash payload name = Inr d \<and>
        sub rec ''filesSha256'' = Inr files \<and> sub files name = Inr (JStr d)) (LICENSES @ PROVENANCE_FILES)"
  unfolding check_payload_files_def each_res_Inr_iff
  by (rule arg_cong [where f = "\<lambda>P. list_all P _"]) (auto simp: ok_iff)

lemma test_suite_ok:
  assumes "test_suite v = Inr w"
  shows "w = v" and "int_field v ''caseFail'' = Inr 0" and "int_field v ''caseSkip'' = Inr 0"
    and "int_field v ''actualSuiteExitCode'' = Inr 0"
    and "\<exists>passed skipped. int_field v ''packagePass'' = Inr passed \<and> int_field v ''packageSkip'' = Inr skipped \<and>
           0 < passed \<and> 0 \<le> skipped \<and> passed + skipped = 44"
    and "\<exists>n. int_field v ''casePass'' = Inr n \<and> 5 \<le> n"
    and "sub v ''sourceReceiptSha256'' = Inr (JStr SUITE_SOURCE_SHA)"
  using assms [unfolded test_suite_def ok_iff list.pred_inject sum.inject simp_thms eq_True]
  by (elim exE conjE; force simp: int_field_def ok_iff)+



section \<open>Recording and verifying agree\<close>

lemma lookup_put [simp]:
  "lookup_file (put_file d n b) m =
     (if m = n then Some \<lparr>ftype = Regular, perm = 420, nlink = 1, owner = 0, content = b\<rparr> else lookup_file d m)"
proof -
  have "map_of (filter (\<lambda>e. fst e \<noteq> n) es) m = map_of es m" if "m \<noteq> n" for es :: "(string \<times> file_entry) list"
    using that by (induction es) auto
  then show ?thesis by (auto simp: put_file_def lookup_file_def)
qed

lemma copy_provenance_out:
  assumes "copy_provenance package output = Inr out"
  shows "\<exists>e f. lookup_file package ''combined-source.patch'' = Some e \<and>
     lookup_file package ''security-source.json'' = Some f \<and>
     out = put_file (put_file output (PROVENANCE_FILES ! 0) (content e)) (PROVENANCE_FILES ! 1) (content f)"
  using assms by (auto simp: copy_provenance_def ok_iff lstat_def split: option.splits)

text \<open>
  C10. Recording and verification agree: when a source tree is recorded, each of its Go files outside
  quilt's \<open>.pc\<close> directories is listed with the digest the pinned receipt gives, and the evidence
  written to the output is what verification of that payload then accepts, with the same patch record.
\<close>

theorem record_source_verifies:
  assumes "record_source hash package source output = Inr (rec, digests, out)"
  shows "\<exists>evidence expected. source_evidence hash out (PROVENANCE_FILES ! 0) (PROVENANCE_FILES ! 1) = Inr evidence \<and>
     patch_record evidence = Inr rec \<and>
     digests = [(PROVENANCE_FILES ! 0, PATCH_SHA), (PROVENANCE_FILES ! 1, RECEIPT_SHA)] \<and>
     bnd (sub evidence ''effectiveSourceFilesSha256'') items_of = Inr expected \<and>
     (\<forall>p \<in> set (map fst (entries source)). is_go_path p \<longrightarrow> ''.pc'' \<notin> set (split_path p) \<longrightarrow>
        (\<exists>d. (p, JStr d) \<in> set expected \<and> prov_digest hash source p = Inr d))"
proof -
  obtain evidence files where
      ev: "source_evidence hash package ''combined-source.patch'' ''security-source.json'' = Inr evidence"
    and files: "sub evidence ''effectiveSourceFilesSha256'' = Inr files"
    and source: "check_source hash source files = Inr ()"
    and copy: "copy_provenance package output = Inr out"
    and rec: "patch_record evidence = Inr rec"
    and digests: "map_res (\<lambda>name. lift_res (\<lambda>d. (name, d)) (prov_digest hash out name)) PROVENANCE_FILES = Inr digests"
    using assms unfolding record_source_def bnd_Inr_iff by (elim exE conjE) simp
  obtain e f where e: "lookup_file package ''combined-source.patch'' = Some e"
    and f: "lookup_file package ''security-source.json'' = Some f"
    and out: "out = put_file (put_file output (PROVENANCE_FILES ! 0) (content e)) (PROVENANCE_FILES ! 1) (content f)"
    using copy_provenance_out [OF copy] by blast
  have hashes: "hash (content e) = PATCH_SHA" "hash (content f) = RECEIPT_SHA"
    and evidence: "bnd (decode_ascii (content f)) loads = Inr evidence"
    using ev e f by (auto simp: source_evidence_iff ok_iff read_json_def lstat_def)
  have "source_evidence hash out (PROVENANCE_FILES ! 0) (PROVENANCE_FILES ! 1) = Inr evidence"
    using hashes evidence by (auto simp: source_evidence_iff ok_iff out read_json_def lstat_def PROVENANCE_FILES_def)
  moreover have "digests = [(PROVENANCE_FILES ! 0, PATCH_SHA), (PROVENANCE_FILES ! 1, RECEIPT_SHA)]"
    using digests hashes by (auto simp: out PROVENANCE_FILES_def ok_iff list_all2_Cons1)
  moreover obtain rows where rows: "items_of files = Inr rows"
      and known: "\<forall>(relative, h) \<in> set rows. \<exists>d. prov_digest hash source relative = Inr d \<and> h = JStr d"
      and closed: "\<forall>p \<in> set (filter is_go_path (map fst (entries source))).
         ''.pc'' \<in> set (split_path p) \<or> p \<in> fst ` set rows"
    using source by (fastforce simp: check_source_def ok_iff list_all_iff case_prod_beta)
  ultimately show ?thesis
    using rec files by (intro exI [of _ evidence] exI [of _ rows]) fastforce
qed

text \<open>A package whose two files have the pinned digests under a hash made for them.\<close>

definition sample_receipt :: bytes where
  "sample_receipt = encode_ascii (write_value (JObj [(''changedFiles'', JArr []),
     (''effectiveSourceFilesSha256'', JObj [(''a.go'', JStr ''h'')])]))"

definition sample_hash :: "bytes \<Rightarrow> string" where
  "sample_hash b = (if b = [1] then PATCH_SHA else if b = sample_receipt then RECEIPT_SHA else ''h'')"

definition sample_source_package :: directory where
  "sample_source_package = \<lparr>dir_perm = 493, entries = [(''combined-source.patch'', plain_entry [1]),
     (''security-source.json'', plain_entry sample_receipt)]\<rparr>"

definition sample_tree :: directory where
  "sample_tree = \<lparr>dir_perm = 493, entries = [(''a.go'', plain_entry [2]), (''.pc/a.go'', plain_entry [3])]\<rparr>"

lemma sample_receipt_read:
  "decode_ascii sample_receipt = Inr (write_value (JObj [(''changedFiles'', JArr []),
     (''effectiveSourceFilesSha256'', JObj [(''a.go'', JStr ''h'')])]))"
  unfolding sample_receipt_def by (rule decode_encode_ascii) (simp add: write_string_def escape_char_def is_ascii_def)

lemma sample_receipt_loads:
  "loads (write_value (JObj [(''changedFiles'', JArr []), (''effectiveSourceFilesSha256'', JObj [(''a.go'', JStr ''h'')])])) =
    Inr (JObj [(''changedFiles'', JArr []), (''effectiveSourceFilesSha256'', JObj [(''a.go'', JStr ''h'')])])"
  unfolding loads_def by (rule plain.loads_write) simp

lemma sample_hashes:
  "sample_hash [1] = PATCH_SHA" "sample_hash sample_receipt = RECEIPT_SHA" "sample_hash [2] = ''h''"
proof -
  have "sample_receipt \<noteq> [1]" "sample_receipt \<noteq> [2]"
    by (simp_all add: sample_receipt_def write_string_def encode_ascii_def)
  then show "sample_hash [1] = PATCH_SHA" "sample_hash sample_receipt = RECEIPT_SHA" "sample_hash [2] = ''h''"
    by (simp_all add: sample_hash_def)
qed

theorem record_source_verifies_witness:
  "\<exists>rec digests out. record_source sample_hash sample_source_package sample_tree \<lparr>dir_perm = 493, entries = []\<rparr> =
       Inr (rec, digests, out) \<and> prov_digest sample_hash sample_tree ''a.go'' = Inr ''h''"
proof -
  let ?doc = "JObj [(''changedFiles'', JArr []), (''effectiveSourceFilesSha256'', JObj [(''a.go'', JStr ''h'')])]"
  have "read_json sample_source_package ''security-source.json'' = Inr ?doc"
    by (simp add: read_json_def lstat_def lookup_file_def sample_source_package_def plain_entry_def sample_receipt_read sample_receipt_loads
        del: write_value.simps)
  then have ev: "source_evidence sample_hash sample_source_package ''combined-source.patch'' ''security-source.json'' = Inr ?doc"
    by (simp add: source_evidence_iff ok_iff lookup_file_def sample_source_package_def plain_entry_def sample_hashes)
  have source: "check_source sample_hash sample_tree (JObj [(''a.go'', JStr ''h'')]) = Inr ()"
    by (simp add: check_source_def sample_tree_def plain_entry_def is_go_path_def guard_simps prov_digest_def
        plain_file_def lookup_file_def sample_hashes)
  obtain r where fields: "sub ?doc ''effectiveSourceFilesSha256'' = Inr (JObj [(''a.go'', JStr ''h'')])"
      "patch_record ?doc = Inr r"
    by (simp add: patch_record_def)
  let ?out = "put_file (put_file \<lparr>dir_perm = 493, entries = []\<rparr> (PROVENANCE_FILES ! 0) [1]) (PROVENANCE_FILES ! 1) sample_receipt"
  have copy: "copy_provenance sample_source_package \<lparr>dir_perm = 493, entries = []\<rparr> = Inr ?out"
    by (simp add: copy_provenance_def sample_source_package_def lstat_def lookup_file_def plain_entry_def)
  have digests: "map_res (\<lambda>name. lift_res (\<lambda>d. (name, d)) (prov_digest sample_hash ?out name)) PROVENANCE_FILES =
      Inr [(PROVENANCE_FILES ! 0, PATCH_SHA), (PROVENANCE_FILES ! 1, RECEIPT_SHA)]"
    by (simp add: PROVENANCE_FILES_def prov_digest_def plain_file_def sample_hashes)
  have "\<exists>r. record_source sample_hash sample_source_package sample_tree \<lparr>dir_perm = 493, entries = []\<rparr> = Inr r"
    unfolding record_source_def ev bnd_simps fields source copy digests by simp
  then obtain rec digests out where ok: "record_source sample_hash sample_source_package sample_tree
      \<lparr>dir_perm = 493, entries = []\<rparr> = Inr (rec, digests, out)" by auto
  from record_source_verifies [OF ok] ok show ?thesis
    by (auto simp: sample_tree_def is_go_path_def ok_iff lookup_file_def plain_entry_def sample_hashes)
qed


text \<open>A record and a payload that verification accepts under the same hash.\<close>

definition sample_payload :: directory where
  "sample_payload = \<lparr>dir_perm = 493, entries = map (\<lambda>n. (n, plain_entry [2])) LICENSES @
     [(PROVENANCE_FILES ! 0, plain_entry [1]), (PROVENANCE_FILES ! 1, plain_entry sample_receipt)]\<rparr>"

definition sample_suite :: json where
  "sample_suite = JObj [(''schema'', JInt 1), (''casePass'', JInt 900), (''caseFail'', JInt 0), (''caseSkip'', JInt 0),
     (''packagePass'', JInt 40), (''packageSkip'', JInt 4), (''oldCasesRetained'', JInt 0), (''actualSuiteExitCode'', JInt 0),
     (''sourceReceiptSha256'', JStr SUITE_SOURCE_SHA),
     (''freshCompleteReceiptSha256'', JStr ''f66db45fa33d2895c9ca8945ef6c668d0db8910748a063bbed638788004a506e'')]"

definition sample_compiler :: json where
  "sample_compiler = JObj [(''schema'', JInt 1),
     (''runtimeReceiptSha256'', JStr ''3b39d555cb1fedecefcde92f72da72abdd0a26abbf769b0e220992a88c6bf2fd''),
     (''archiveSha256'', JStr ''ccfe7ae822d2c2f41f4fe7c956199967a4dac22d0ee0d2b2bfdb440aab3b20c5''),
     (''ordinaryTlsControlReceiptSha256'', JStr PATCH_SHA),
     (''ordinaryTlsControlScope'', JStr ''Linux/amd64 existing TestGoVerify ordinary chain control; not Hysteria target runtime or denylist regression''),
     (''ordinaryTlsControlReused'', JBool True), (''currentTargetRuntimeAcceptance'', JNull)]"

definition sample_record :: json where
  "sample_record = JObj [(''testSuite'', sample_suite), (''sourceTestScope'', retained_scope),
     (''currentCompilerQualification'', sample_compiler), (''sourceSha256'', JStr SOURCE_SHA),
     (''sourceCommit'', JStr SOURCE_COMMIT),
     (''sourcePatch'', JObj [(''schema'', JInt 1), (''patchSha256'', JStr PATCH_SHA),
        (''patchFile'', JStr (PROVENANCE_FILES ! 0)), (''receiptFile'', JStr (PROVENANCE_FILES ! 1)),
        (''receiptSha256'', JStr RECEIPT_SHA), (''changedFiles'', JArr []), (''sourceUnmodified'', JBool False)]),
     (''toolchain'', JStr ''go version go1.26.10 linux/amd64''), (''binaryRuntimeVersion'', JStr ''go1.26.10''),
     (''filesSha256'', JObj (map (\<lambda>n. (n, JStr ''h'')) LICENSES @
        [(PROVENANCE_FILES ! 0, JStr PATCH_SHA), (PROVENANCE_FILES ! 1, JStr RECEIPT_SHA)])),
     (''buildInfo'', JArr [JStr (''dep'' @ tab @ ''golang.org/x/net'' @ tab @ ''v0.60.0'' @ tab @ ''h1:x'')])]"

lemma sample_hex:
  "rmatch HEX64 ''f66db45fa33d2895c9ca8945ef6c668d0db8910748a063bbed638788004a506e''" "rmatch HEX64 PATCH_SHA"
  by (simp_all add: HEX64_iff is_hex_def in_cls_def PATCH_SHA_def)

lemma sample_suite_ok: "test_suite sample_suite = Inr sample_suite"
  by (simp add: test_suite_def sample_suite_def other_keys_def suite_fields_def suite_numbers_def int_field_def
      guard_simps sample_hex SUITE_SOURCE_SHA_def insert_commute)

lemma sample_compiler_ok: "compiler_qualification sample_compiler = Inr sample_compiler"
  by (simp add: compiler_qualification_def sample_compiler_def other_keys_def compiler_fields_def
      guard_simps str_is_hex64_def sample_hex insert_commute)

lemma sample_payload_ok: "check_payload_files sample_hash sample_record sample_payload = Inr ()"
  by (simp add: check_payload_files_iff ok_iff sample_payload_def sample_record_def LICENSES_def PROVENANCE_FILES_def
      lookup_file_def plain_entry_def sample_hashes)

lemma sample_evidence:
  "source_evidence sample_hash sample_payload (PROVENANCE_FILES ! 0) (PROVENANCE_FILES ! 1) =
     Inr (JObj [(''changedFiles'', JArr []), (''effectiveSourceFilesSha256'', JObj [(''a.go'', JStr ''h'')])])"
  by (simp add: source_evidence_iff ok_iff sample_payload_def LICENSES_def PROVENANCE_FILES_def read_json_def lstat_def
      lookup_file_def plain_entry_def sample_hashes sample_receipt_read sample_receipt_loads del: write_value.simps)

lemma sample_record_ok: "prov_verify sample_hash sample_record sample_payload = Inr ()"
proof -
  obtain patch files info where
      fields: "get sample_record ''testSuite'' = Inr sample_suite" "sub sample_record ''testSuite'' = Inr sample_suite"
        "get sample_record ''sourceTestScope'' = Inr retained_scope" "sub sample_record ''sourceTestScope'' = Inr retained_scope"
        "get sample_record ''currentCompilerQualification'' = Inr sample_compiler"
        "get sample_record ''sourceSha256'' = Inr (JStr SOURCE_SHA)" "get sample_record ''sourceCommit'' = Inr (JStr SOURCE_COMMIT)"
        "get sample_record ''toolchain'' = Inr (JStr ''go version go1.26.10 linux/amd64'')"
        "get sample_record ''binaryRuntimeVersion'' = Inr (JStr ''go1.26.10'')"
        "get sample_record ''sourcePatch'' = Inr patch" "get_or sample_record ''filesSha256'' (JObj []) = Inr files"
        "get_or sample_record ''buildInfo'' (JArr []) = Inr (JArr info)"
    and patch: "is_obj patch" "get patch ''schema'' = Inr (JInt 1)" "get patch ''sourceUnmodified'' = Inr (JBool False)"
        "patch_record (JObj [(''changedFiles'', JArr []), (''effectiveSourceFilesSha256'', JObj [(''a.go'', JStr ''h'')])]) = Inr patch"
    and files: "element_set files = Inr (map JStr (LICENSES @ PROVENANCE_FILES))"
    and info: "some_line (''dep'' @ tab @ ''golang.org/x/net'' @ tab @ ''v0.60.0'' @ tab) info"
    by (simp add: sample_record_def patch_record_def element_set_def LICENSES_def PROVENANCE_FILES_def
        some_line_def has_prefix_def tab_def)
  have suite: "sub sample_suite ''freshCompleteReceiptSha256'' = sub retained_scope ''freshCompleteReceiptSha256''"
    "\<exists>h. sub retained_scope ''freshCompleteReceiptSha256'' = Inr h"
    by (simp_all add: sample_suite_def retained_scope_def)
  then obtain h where h: "sub sample_suite ''freshCompleteReceiptSha256'' = Inr h"
      "sub retained_scope ''freshCompleteReceiptSha256'' = Inr h" by auto
  show ?thesis
    unfolding prov_verify_def fields bnd_simps sample_suite_ok sample_compiler_ok sample_evidence patch files
    using info patch(1) by (simp add: guard_simps h same_set_def sample_payload_ok)
qed


end
