(* ===== verification/Hysteria_Security.thy ===== *)
theory Hysteria_Security
  imports Hysteria_Provenance
begin

text \<open>
  check-hysteria-security.py: which advisory findings on the delivered Hysteria binaries may be kept as
  exceptions, and the physical evidence that the affected packages are not compiled in. \<open>check_evidence\<close>
  is cut into its stages; the state of each loop is a record or a list in insertion order. A set of
  JSON values is the list of their canonical forms. Dates are read by the standard library: a
  \<open>calendar\<close> gives \<open>date.fromisoformat\<close> as a day number and \<open>datetime.fromisoformat\<close> as microseconds
  of UTC, \<open>None\<close> for a time without a zone; \<open>observation\<close> is the aware time \<open>now\<close>.
\<close>

section \<open>Reading evidence\<close>

definition pairs_step :: "string \<times> json \<Rightarrow> (string \<times> json) list \<Rightarrow> (string \<times> json) list res" where
  "pairs_step kv result =
     bnd (need [Inr (fst kv \<notin> fst ` set result)] ''Duplicate evidence JSON member'') (\<lambda>_. Inr (result @ [kv]))"

definition pairs_hook :: "(string \<times> json) list \<Rightarrow> json res" where
  "pairs_hook kvs = lift_res JObj (fold_res pairs_step kvs [])"

definition sec_read :: "directory \<Rightarrow> string \<Rightarrow> int \<Rightarrow> bytes res" where
  "sec_read dir n maximum =
     bnd (some_or ''Regular security evidence file required'' (plain_file dir n)) (\<lambda>e.
     bnd (need [Inr (file_bytes e \<le> maximum)] ''Security evidence exceeds limit'') (\<lambda>_.
     Inr (content e)))"

definition sec_document :: "directory \<Rightarrow> string \<Rightarrow> int \<Rightarrow> json res" where
  "sec_document dir n maximum = bnd (bnd (sec_read dir n maximum) decode_ascii) (loads_with pairs_hook)"

definition sec_checked :: "directory \<Rightarrow> string \<Rightarrow> json \<Rightarrow> int \<Rightarrow> bytes res" where
  "sec_checked dir n expected maximum =
     bnd (need [Inr (is_str expected), fullmatch HEX64 expected] ''Exact security evidence digest required'') (\<lambda>_.
     bnd (sec_read dir n maximum) (\<lambda>raw.
     bnd (need [Inr (JStr (sha256_hex raw) = expected)] ''Security evidence digest differs'') (\<lambda>_.
     Inr raw)))"

definition checked_json :: "directory \<Rightarrow> string \<Rightarrow> json \<Rightarrow> int \<Rightarrow> json res" where
  "checked_json dir n expected maximum =
     bnd (bnd (sec_checked dir n expected maximum) decode_ascii) (loads_with pairs_hook)"

definition int_in :: "json \<Rightarrow> int \<Rightarrow> int \<Rightarrow> bool" where
  "int_in v lo hi = (case v of JInt i \<Rightarrow> lo \<le> i \<and> i \<le> hi | _ \<Rightarrow> False)"

text \<open>\<open>s in v\<close> for a string \<open>s\<close>: an element of a list, a key of an object, a part of a string.\<close>

definition str_in :: "string \<Rightarrow> json \<Rightarrow> bool res" where
  "str_in s v = (case v of
     JArr xs \<Rightarrow> Inr (JStr s \<in> set xs)
   | JObj kvs \<Rightarrow> Inr (s \<in> fst ` set kvs)
   | JStr t \<Rightarrow> Inr (\<exists>n \<le> length t. take (length s) (drop n t) = s)
   | _ \<Rightarrow> Inl TypeError)"

section \<open>A stream of package objects\<close>

text \<open>One value after another, blanks between them; the fuel is the length of the text.\<close>

fun stream_values :: "nat \<Rightarrow> string \<Rightarrow> json list \<Rightarrow> json list res" where
  "stream_values 0 body acc = Inl json_error"
| "stream_values (Suc n) body acc =
     (case dropWhile py_space body of
        [] \<Rightarrow> Inr acc
      | c # cs \<Rightarrow>
          bnd (read_value pairs_hook (Suc (length (c # cs))) (c # cs)) (\<lambda>(v, rest).
          bnd (need [Inr (is_obj v)] ''Package evidence object required'') (\<lambda>_.
          bnd (need [Inr (length (acc @ [v]) \<le> 4096)] ''Selected package count exceeds limit'') (\<lambda>_.
          stream_values n rest (acc @ [v])))))"

definition package_stream :: "bytes \<Rightarrow> json list res" where
  "package_stream raw = bnd (decode_ascii raw) (\<lambda>body. stream_values (Suc (length body)) body [])"

section \<open>The exceptions and their advisories\<close>

record calendar =
  parse_date :: "string \<Rightarrow> int res"
  parse_time :: "string \<Rightarrow> int option res"

record observation =
  today :: int
  instant :: "int option"

type_synonym coordinate = "string \<times> string"

record exception_state =
  coordinates :: "(coordinate \<times> string) list"
  advisory_documents :: "(string \<times> json) list"
  forbidden :: "json list"

definition add_path :: "json \<Rightarrow> json list \<Rightarrow> json list res" where
  "add_path i acc =
     bnd (sub i ''path'') (\<lambda>x. if hashable x then Inr (acc @ [canon x]) else Inl TypeError)"

definition affected_step :: "string \<Rightarrow> json \<Rightarrow> json list \<Rightarrow> json list res" where
  "affected_step pkg affected paths =
     bnd (get affected ''package'') (\<lambda>p.
     bnd (if py_eq p (JObj [(''name'', JStr pkg), (''ecosystem'', JStr ''Go'')]) then Inr False
          else bnd (get_or affected ''package'' (JObj [])) (\<lambda>package.
               any_of [lift_res (\<lambda>n. n \<noteq> JStr pkg) (get package ''name''),
                       lift_res (\<lambda>e. e \<noteq> JStr ''Go'') (get package ''ecosystem'')])) (\<lambda>skip.
     if skip then Inr paths
     else bnd (bnd (bnd (get_or affected ''ecosystem_specific'' (JObj []))
                        (\<lambda>s. get_or s ''imports'' (JArr []))) iter) (\<lambda>is. fold_res add_path is paths)))"

definition exception_step :: "calendar \<Rightarrow> observation \<Rightarrow> directory \<Rightarrow> json \<Rightarrow> exception_state \<Rightarrow> exception_state res" where
  "exception_step cal now scan entry st =
     bnd (need [Inr (is_obj entry), lift_res (\<lambda>e. e = JStr ''Go'') (get entry ''ecosystem'')]
            ''Exact Go exception coordinate required'') (\<lambda>_.
     bnd (get entry ''package'') (\<lambda>p.
     bnd (get entry ''version'') (\<lambda>v.
     bnd (need [Inr (nonempty_str p), Inr (nonempty_str v)] ''Exact exception version required'') (\<lambda>_.
     let coordinate = (str_of p, str_of v) in
     bnd (need [Inr (coordinate \<notin> fst ` set (coordinates st))] ''Duplicate exception coordinate'') (\<lambda>_.
     bnd (need [lift_res (\<lambda>d. d \<ge> today now) (bnd (bnd (sub entry ''expires'') as_str) (parse_date cal))]
            ''Security exception expired'') (\<lambda>_.
     bnd (bnd (sub entry ''advisory'') as_str) (\<lambda>name.
     bnd (sub entry ''advisorySha256'') (\<lambda>sha.
     bnd (checked_json scan (name @ ''.json'') sha 131072) (\<lambda>advisory.
     bnd (need [lift_res (\<lambda>i. i = JStr name) (get advisory ''id'')] ''Advisory identity differs'') (\<lambda>_.
     bnd (bnd (get_or advisory ''affected'' (JArr [])) iter) (\<lambda>affected.
     bnd (fold_res (affected_step (str_of p)) affected []) (\<lambda>paths.
     bnd (need [Inr (paths \<noteq> []),
                lift_res (same_set paths) (bnd (sub entry ''affectedPackages'') element_set)]
            ''Affected package scope differs from primary advisory'') (\<lambda>_.
     Inr \<lparr>coordinates = coordinates st @ [(coordinate, name)],
          advisory_documents = set_item name advisory (advisory_documents st),
          forbidden = forbidden st @ paths\<rparr>)))))))))))))"

definition reviewed_advisories :: "string list" where
  "reviewed_advisories = [''GO-2026-5841'', ''GO-2026-5932'']"

definition check_exceptions :: "calendar \<Rightarrow> observation \<Rightarrow> json \<Rightarrow> directory \<Rightarrow> exception_state res" where
  "check_exceptions cal now policy scan =
     bnd (need [lift_res (\<lambda>x. x = JInt 1) (get policy ''schema'')] ''Security policy schema differs'') (\<lambda>_.
     bnd (need [Inr (instant now \<noteq> None)] ''UTC-aware observation time required'') (\<lambda>_.
     bnd (need [lift_res (\<lambda>x. int_in x 1 4096) (get policy ''queryCount''),
                lift_res (\<lambda>x. int_in x 1 24) (get policy ''maxScanAgeHours'')]
            ''Bounded scan freshness and coordinate count required'') (\<lambda>_.
     bnd (get policy ''exceptions'') (\<lambda>es.
     bnd (need [Inr (is_arr es), lift_res (\<lambda>n. n = 2) (len es)] ''Exactly reviewed Hysteria exceptions required'') (\<lambda>_.
     bnd (iter es) (\<lambda>entries.
     bnd (fold_res (exception_step cal now scan) entries \<lparr>coordinates = [], advisory_documents = [], forbidden = []\<rparr>) (\<lambda>st.
     bnd (need [Inr (same_set (map snd (coordinates st)) reviewed_advisories)] ''Unreviewed advisory exception'') (\<lambda>_.
     Inr st))))))))"

section \<open>The reviewed alias\<close>

definition go_package_is :: "string \<Rightarrow> json \<Rightarrow> bool res" where
  "go_package_is pkg row =
     all_of [bnd (get_or row ''package'' (JObj [])) (\<lambda>p. lift_res (\<lambda>n. n = JStr pkg) (get p ''name'')),
             bnd (get_or row ''package'' (JObj [])) (\<lambda>p. lift_res (\<lambda>e. e = JStr ''Go'') (get p ''ecosystem''))]"

definition fixed_in_row :: "string \<Rightarrow> json \<Rightarrow> bool res" where
  "fixed_in_row version row =
     bnd (bnd (get_or row ''ranges'' (JArr [])) iter) (any_res (\<lambda>r.
       bnd (bnd (get_or r ''events'' (JArr [])) iter) (any_res (\<lambda>event.
         lift_res (\<lambda>f. f = JStr version) (get event ''fixed'')))))"

definition check_alias :: "exception_state \<Rightarrow> directory \<Rightarrow> json \<Rightarrow> (string \<times> string) res" where
  "check_alias st scan pair =
     bnd (need [lift_res (\<lambda>s. same_set s (map JStr [''advisory'', ''canonical'', ''advisorySha256''])) (element_set pair),
                lift_res (\<lambda>a. a = JStr ''GHSA-259r-337f-4rfw'') (sub pair ''advisory''),
                lift_res (\<lambda>c. c = JStr ''GO-2026-5841'') (sub pair ''canonical''),
                lift_res (\<lambda>c. case map_of (coordinates st) (''github.com/klauspost/compress'', ''v1.17.9'') of
                     None \<Rightarrow> c = JNull | Some a \<Rightarrow> c = JStr a) (sub pair ''canonical'')]
            ''Exact reviewed alias and coordinate required'') (\<lambda>_.
     bnd (bnd (sub pair ''advisory'') as_str) (\<lambda>name.
     bnd (sub pair ''advisorySha256'') (\<lambda>sha.
     bnd (checked_json scan (name @ ''.json'') sha 131072) (\<lambda>alias.
     bnd (bnd (sub pair ''canonical'') as_str) (\<lambda>canonical_name.
     bnd (sub (JObj (advisory_documents st)) canonical_name) (\<lambda>canonical.
     bnd (need [lift_res (\<lambda>i. i = JStr name) (get alias ''id''),
                bnd (bnd (get_or canonical ''aliases'' (JArr [])) element_set) (\<lambda>s.
                  Inr (JStr name \<in> set s \<and> JStr ''CVE-2026-63209'' \<in> set s)),
                bnd (get_or alias ''aliases'' (JArr [])) (str_in ''CVE-2026-63209'')]
            ''Primary canonical and duplicate advisory identity differ'') (\<lambda>_.
     bnd (get_or alias ''affected'' (JArr [])) (\<lambda>affected.
     bnd (need [Inr (truthy affected),
                bnd (iter affected) (all_res (go_package_is ''github.com/klauspost/compress'')),
                bnd (iter affected) (any_res (fixed_in_row ''1.18.7''))]
            ''Duplicate advisory package or fixed version differs'') (\<lambda>_.
     Inr (name, canonical_name))))))))))"

definition check_aliases :: "json \<Rightarrow> exception_state \<Rightarrow> directory \<Rightarrow> (string \<times> string) list res" where
  "check_aliases policy st scan =
     bnd (get_or policy ''advisoryAliasPairs'' (JArr [])) (\<lambda>aliases.
     bnd (need [Inr (is_arr aliases), lift_res (\<lambda>n. n \<le> 1) (len aliases)]
            ''Only the exact reviewed duplicate advisory pair is allowed'') (\<lambda>_.
     bnd (iter aliases) (\<lambda>as. map_res (check_alias st scan) as)))"

section \<open>The public scan\<close>

definition check_request :: "calendar \<Rightarrow> observation \<Rightarrow> json \<Rightarrow> json \<Rightarrow> unit res" where
  "check_request cal now policy request =
     bnd (need [lift_res (\<lambda>x. x = JInt 1) (get request ''schema''),
                lift_res (\<lambda>x. x = JInt 0) (get request ''exitCode''),
                lift_res (\<lambda>x. x = JStr ''https://api.osv.dev/v1/querybatch'') (get request ''endpoint''),
                lift_res (\<lambda>x. x = JStr ''200 https://api.osv.dev/v1/querybatch'') (get request ''httpMetadata''),
                lift_res is_int (get request ''publicQueries''),
                bnd (get request ''publicQueries'') (\<lambda>a. lift_res (py_eq a) (sub policy ''queryCount'')),
                bnd (get request ''queryPayloadSha256'') (\<lambda>a. lift_res (py_eq a) (sub policy ''queryPayloadSha256'')),
                bnd (get request ''responseSha256'') (\<lambda>a. lift_res (py_eq a) (sub policy ''responseSha256''))]
            ''Actual successful public scan binding required'') (\<lambda>_.
     bnd (bnd (bnd (sub request ''finished'') as_str) (parse_time cal)) (\<lambda>finished.
     bnd (bnd (sub policy ''maxScanAgeHours'') as_int) (\<lambda>hours.
     need [Inr (finished \<noteq> None), Inr (instant now \<noteq> None),
           Inr (- 300000000 \<le> the (instant now) - the finished \<and>
                the (instant now) - the finished \<le> hours * 3600000000)]
       ''Public scan is stale or in the future'')))"

record finding_state =
  findings :: "json list"
  canonical_findings :: "json list"
  queried :: "json list"

definition finding_step :: "(coordinate \<times> string) list \<Rightarrow> (string \<times> string) list \<Rightarrow> json \<Rightarrow> json \<Rightarrow>
    finding_state \<Rightarrow> finding_state res" where
  "finding_step coords aliases coordinate finding st =
     bnd (get finding ''id'') (\<lambda>identifier.
     bnd (if \<not> hashable identifier then Inl TypeError
          else Inr (case identifier of
                      JStr s \<Rightarrow> (case map_of aliases s of Some c \<Rightarrow> JStr c | None \<Rightarrow> identifier)
                    | _ \<Rightarrow> identifier)) (\<lambda>canonical.
     bnd (need [Inr (py_eq canonical (case coordinate of
                       JArr [JStr p, JStr v] \<Rightarrow> (case map_of coords (p, v) of Some a \<Rightarrow> JStr a | None \<Rightarrow> JNull)
                     | _ \<Rightarrow> JNull)),
                Inr (canon identifier \<notin> set (map canon (findings st)))]
            ''Unqualified public vulnerability finding'') (\<lambda>_.
     Inr (st\<lparr>findings := findings st @ [identifier], canonical_findings := canonical_findings st @ [canonical]\<rparr>))))"

text \<open>A coordinate, a tuple of two values of the query, is kept as the list of both.\<close>

definition query_step :: "(coordinate \<times> string) list \<Rightarrow> (string \<times> string) list \<Rightarrow> json \<times> json \<Rightarrow>
    finding_state \<Rightarrow> finding_state res" where
  "query_step coords aliases qr st =
     (case qr of (query, response) \<Rightarrow>
     bnd (need [lift_res (\<lambda>s. same_set s (map JStr [''package'', ''version''])) (element_set query),
                lift_res (\<lambda>s. same_set s (map JStr [''ecosystem'', ''name''])) (bnd (sub query ''package'') element_set),
                lift_res (\<lambda>e. e = JStr ''Go'') (bnd (sub query ''package'') (\<lambda>p. sub p ''ecosystem''))]
            ''Only exact public Go coordinates admitted'') (\<lambda>_.
     bnd (bnd (sub query ''package'') (\<lambda>p. sub p ''name'')) (\<lambda>name.
     bnd (sub query ''version'') (\<lambda>version.
     bnd (if hashable name \<and> hashable version then Inr (JArr [canon name, canon version]) else Inl TypeError) (\<lambda>coordinate.
     bnd (need [Inr (coordinate \<notin> set (queried st))] ''Duplicate scanned coordinate'') (\<lambda>_.
     bnd (need [lift_res (\<lambda>s. set s \<subseteq> {JStr ''vulns''}) (element_set response)] ''Unexpected public scan result'') (\<lambda>_.
     bnd (bnd (get_or response ''vulns'' (JArr [])) iter) (\<lambda>vulns.
     fold_res (finding_step coords aliases coordinate) vulns (st\<lparr>queried := queried st @ [coordinate]\<rparr>)))))))))"

definition check_findings :: "json list \<Rightarrow> json list \<Rightarrow> (coordinate \<times> string) list \<Rightarrow> (string \<times> string) list \<Rightarrow>
    finding_state res" where
  "check_findings queries responses coords aliases =
     bnd (fold_res (query_step coords aliases) (zip queries responses)
            \<lparr>findings = [], canonical_findings = [], queried = []\<rparr>) (\<lambda>st.
     bnd (need [Inr (length (findings st) = 2 + length aliases),
                Inr (same_set (map canon (findings st)) (map JStr (map snd coords @ map fst aliases))),
                Inr (same_set (map canon (canonical_findings st)) (map JStr (map snd coords)))]
            ''Exact raw canonical and reviewed duplicate findings must be retained'') (\<lambda>_.
     Inr st))"

definition check_scan :: "calendar \<Rightarrow> observation \<Rightarrow> json \<Rightarrow> directory \<Rightarrow> exception_state \<Rightarrow>
    (string \<times> string) list \<Rightarrow> finding_state res" where
  "check_scan cal now policy scan st aliases =
     bnd (sub policy ''queryPayloadSha256'') (\<lambda>qs.
     bnd (bnd (checked_json scan ''query-payload.json'' qs 131072) (\<lambda>d. sub d ''queries'')) (\<lambda>queries.
     bnd (sub policy ''responseSha256'') (\<lambda>rs.
     bnd (bnd (checked_json scan ''querybatch-response.json'' rs 1048576) (\<lambda>d. sub d ''results'')) (\<lambda>responses.
     bnd (len queries) (\<lambda>nq. bnd (len responses) (\<lambda>nr.
     bnd (need [Inr (nq = nr), lift_res (py_eq (JInt (int nr))) (sub policy ''queryCount'')]
            ''Actual query/response count differs'') (\<lambda>_.
     bnd (sec_document scan ''request-receipt.json'' 131072) (\<lambda>request.
     bnd (check_request cal now policy request) (\<lambda>_.
     bnd (iter queries) (\<lambda>qlist. bnd (iter responses) (\<lambda>rlist.
     check_findings qlist rlist (coordinates st) aliases)))))))))))"

section \<open>One delivered architecture\<close>

definition check_producer :: "json \<Rightarrow> json \<Rightarrow> directory \<Rightarrow> string \<Rightarrow> (coordinate \<times> string) list \<Rightarrow> unit res" where
  "check_producer policy target payload arch coords =
     bnd (sub target ''producerSha256'') (\<lambda>psha.
     bnd (checked_json payload ''hysteria-producer.json'' psha 131072) (\<lambda>producer.
     bnd (need [lift_res (\<lambda>t. t = JStr (''linux-'' @ arch)) (get producer ''target''),
                bnd (get producer ''binaryRuntimeVersion'') (\<lambda>a. lift_res (py_eq a) (sub policy ''runtimeVersion'')),
                bnd (get producer ''binarySha256'') (\<lambda>a. lift_res (py_eq a) (sub target ''binarySha256'')),
                bnd (bnd (get_or producer ''testSuite'' (JObj [])) (\<lambda>t. get t ''sourceReceiptSha256''))
                  (\<lambda>a. lift_res (py_eq a) (sub policy ''sourceReceiptSha256''))]
            ''Delivered producer source/target/runtime differs'') (\<lambda>_.
     bnd (sub target ''binarySha256'') (\<lambda>bsha.
     bnd (sec_checked payload ''hysteria'' bsha 536870912) (\<lambda>_.
     bnd (need [bnd (bnd (get_or producer ''filesSha256'' (JObj [])) (\<lambda>f. get f ''go-modules.json''))
                  (\<lambda>a. lift_res (py_eq a) (sub policy ''moduleManifestSha256''))]
            ''Delivered dependency manifest differs'') (\<lambda>_.
     bnd (sub policy ''moduleManifestSha256'') (\<lambda>msha.
     bnd (sec_checked payload ''go-modules.json'' msha 16777216) (\<lambda>_.
     bnd (get_or producer ''buildInfo'' (JArr [])) (\<lambda>info.
     bnd (need (map (\<lambda>item. str_in (''build'' @ tab @ item) info) [''CGO_ENABLED=0'', ''GOOS=linux'', ''GOARCH='' @ arch])
            ''Only exact CGO0 Linux build scope admitted'') (\<lambda>_.
     each_res (\<lambda>(module, version). need
         [lift_res (some_line (''dep'' @ tab @ module @ tab @ version @ tab)) (iter info)]
         ''Delivered module version differs'') (map fst coords)))))))))))"

definition SOURCE_FIELDS :: "string list" where
  "SOURCE_FIELDS = [''GoFiles'', ''CgoFiles'', ''CFiles'', ''CXXFiles'', ''MFiles'', ''HFiles'', ''FFiles'',
     ''SFiles'', ''SwigFiles'', ''SwigCXXFiles'', ''SysoFiles'', ''EmbedFiles'']"

text \<open>\<open>{p['ImportPath']: p for p in graph}\<close>: a later package replaces an earlier one of the same path.\<close>

fun set_value :: "json \<Rightarrow> json \<Rightarrow> (json \<times> json) list \<Rightarrow> (json \<times> json) list" where
  "set_value k v [] = [(k, v)]"
| "set_value k v ((k', v') # kvs) = (if k = k' then (k, v) # kvs else (k', v') # set_value k v kvs)"

definition select_step :: "json \<Rightarrow> (json \<times> json) list \<Rightarrow> (json \<times> json) list res" where
  "select_step p acc =
     bnd (sub p ''ImportPath'') (\<lambda>k. if hashable k then Inr (set_value (canon k) p acc) else Inl TypeError)"

definition select_packages :: "json list \<Rightarrow> (json \<times> json) list res" where
  "select_packages graph = fold_res select_step graph []"

definition source_names :: "json \<Rightarrow> json list res" where
  "source_names package =
     lift_res concat (map_res (\<lambda>key. bnd (get_or package key (JArr [])) element_set) SOURCE_FIELDS)"

definition file_hashes_ok :: "json \<Rightarrow> bool res" where
  "file_hashes_ok files =
     bnd (items_of files) (\<lambda>rows. all_res (\<lambda>row. all_of [Inr (is_str (snd row)), fullmatch HEX64 (snd row)]) rows)"

definition package_step :: "(coordinate \<times> string) list \<Rightarrow> json list \<Rightarrow> json \<Rightarrow> json \<times> json \<Rightarrow>
    (string \<times> json) list \<Rightarrow> (string \<times> json) list res" where
  "package_step coords selected selected_files item versions =
     (case item of (name, package) \<Rightarrow>
     bnd (need [lift_res (\<lambda>x. \<not> truthy x) (get package ''Incomplete''), not_res (str_in ''Error'' package)]
            ''Incomplete selected package evidence'') (\<lambda>_.
     bnd (need [lift_res (\<lambda>s. set s \<subseteq> set selected) (bnd (get_or package ''Imports'' (JArr [])) element_set)]
            ''Selected package import closure is incomplete'') (\<lambda>_.
     bnd (get_or package ''Module'' (JObj [])) (\<lambda>module.
     bnd (need [not_res (str_in ''Replace'' module)] ''Replacement changes compiled scope'') (\<lambda>_.
     bnd (bnd (get module ''Path'') (\<lambda>p. in_strs p (map (fst \<circ> fst) coords))) (\<lambda>scoped.
     bnd (if scoped then
            bnd (bnd (sub module ''Path'') as_str) (\<lambda>path. bnd (get module ''Version'') (\<lambda>version.
            bnd (need [Inr (case map_of versions path of None \<Rightarrow> True | Some v \<Rightarrow> py_eq v version)]
                   ''Inconsistent selected module versions'') (\<lambda>_.
            Inr (set_item path version versions))))
          else Inr versions) (\<lambda>versions'.
     bnd (source_names package) (\<lambda>names.
     bnd (bnd (as_str name) (sub selected_files)) (\<lambda>files.
     bnd (need [lift_res (same_set names) (element_set files), file_hashes_ok files]
            ''Selected source hashes incomplete'') (\<lambda>_.
     Inr versions'))))))))))"

definition check_graph :: "json \<Rightarrow> directory \<Rightarrow> string \<Rightarrow> exception_state \<Rightarrow> (json \<times> json) list res" where
  "check_graph target evidence arch st =
     bnd (sub target ''graphSha256'') (\<lambda>gsha.
     bnd (bnd (sec_checked evidence (arch @ ''-packages.json'') gsha 16777216) package_stream) (\<lambda>graph.
     bnd (need [lift_res (\<lambda>n. int_in n 1 4096) (get target ''packageCount''),
                lift_res (\<lambda>n. n = JInt (int (length graph))) (sub target ''packageCount''),
                (if graph = [] then Inl IndexError else lift_res (\<lambda>n. n = JStr ''main'') (get (last graph) ''Name''))]
            ''Complete selected application closure required'') (\<lambda>_.
     bnd (select_packages graph) (\<lambda>selected.
     bnd (need [Inr (length selected = length graph),
                Inr (set (forbidden st) \<inter> fst ` set selected = {})]
            ''Affected advisory package became reachable'') (\<lambda>_.
     Inr selected)))))"

definition check_selected :: "json \<Rightarrow> directory \<Rightarrow> string \<Rightarrow> exception_state \<Rightarrow> (json \<times> json) list \<Rightarrow> unit res" where
  "check_selected target evidence arch st selected =
     bnd (sub target ''selectedFilesSha256'') (\<lambda>fsha.
     bnd (checked_json evidence (arch @ ''-selected-files.json'') fsha 16777216) (\<lambda>selected_files.
     bnd (need [lift_res (\<lambda>s. set s = fst ` set selected) (element_set selected_files)]
            ''Selected source file evidence differs'') (\<lambda>_.
     bnd (fold_res (package_step (coordinates st) (map fst selected) selected_files) selected []) (\<lambda>versions.
     need [Inr (py_eq (JObj versions)
             (JObj (fold (\<lambda>(m, v). set_item m (JStr v)) (map fst (coordinates st)) [])))]
       ''Selected package module version differs''))))"

definition check_target :: "json \<Rightarrow> (string \<Rightarrow> directory) \<Rightarrow> directory \<Rightarrow> exception_state \<Rightarrow> json \<Rightarrow> unit res" where
  "check_target policy shipping evidence st target =
     bnd (bnd (sub target ''architecture'') as_str) (\<lambda>arch.
     bnd (check_producer policy target (shipping (''linux-'' @ arch)) arch (coordinates st)) (\<lambda>_.
     bnd (check_graph target evidence arch st) (\<lambda>selected.
     check_selected target evidence arch st selected)))"

definition check_targets :: "json \<Rightarrow> (string \<Rightarrow> directory) \<Rightarrow> directory \<Rightarrow> exception_state \<Rightarrow> unit res" where
  "check_targets policy shipping evidence st =
     bnd (get policy ''targets'') (\<lambda>ts.
     bnd (need [Inr (is_arr ts), lift_res (\<lambda>n. n = 2) (len ts),
                bnd (iter ts) (\<lambda>xs. bnd (map_res (\<lambda>t. get t ''architecture'') xs) (\<lambda>as.
                  lift_res (\<lambda>s. same_set s (map JStr [''amd64'', ''arm64''])) (element_set (JArr as))))]
            ''Both reviewed Linux architectures required'') (\<lambda>_.
     bnd (iter ts) (each_res (check_target policy shipping evidence st))))"

definition check_evidence :: "calendar \<Rightarrow> observation \<Rightarrow> json \<Rightarrow> directory \<Rightarrow> (string \<Rightarrow> directory) \<Rightarrow> directory \<Rightarrow> json res" where
  "check_evidence cal now policy evidence shipping scan =
     bnd (check_exceptions cal now policy scan) (\<lambda>st.
     bnd (check_aliases policy st scan) (\<lambda>aliases.
     bnd (check_scan cal now policy scan st aliases) (\<lambda>found.
     bnd (check_targets policy shipping evidence st) (\<lambda>_.
     Inr (JObj [(''schema'', JInt 1), (''findings'', JInt (int (length (findings found)))),
        (''qualifiedExceptions'', JInt 2), (''canonicalAdvisories'', JInt 2),
        (''reviewedAliasDuplicates'', JInt (int (length aliases))), (''blockingFindings'', JInt 0),
        (''targets'', JArr [JStr ''amd64'', JStr ''arm64'']),
        (''scope'', JStr ''Exact delivered non-imported packages only; raw findings retained'')])))))"

section \<open>The stream ends\<close>

interpretation unique_members: unique_loop fst id pairs_step "\<lambda>_. True"
  by unfold_locales (auto simp: pairs_step_def ok_iff)

lemma pairs_hook_iff: "pairs_hook kvs = Inr v \<longleftrightarrow> distinct (map fst kvs) \<and> v = JObj kvs"
  by (auto simp: pairs_hook_def ok_iff unique_members.run_iff list_all_iff)

interpretation evidence: strict_hook pairs_hook
  by unfold_locales (rule pairs_hook_iff)

lemma read_string_shorter: "read_string s = Some (t, rest) \<Longrightarrow> length rest < length s"
proof (induction s arbitrary: t rest rule: length_induct)
  case (1 s)
  have IH: "length r < length u" if "read_string u = Some (t', r)" "length u < length s" for u t' r
    using 1 that by blast
  show ?case
  proof (cases s)
    case Nil
    with 1 show ?thesis by simp
  next
    case (Cons c cs)
    have step: "length rest < length s" if "map_option (map_prod f id) (read_string u) = Some (t, rest)"
        and "length u < length s" for f u
      using that by (auto dest!: IH)
    from "1.prems" show ?thesis
      unfolding Cons read_string.simps(2)
      by (elim step [unfolded Cons] | auto split: if_split_asm list.split_asm option.split_asm prod.split_asm nat.split_asm
          dest!: IH simp: Cons)+
  qed
qed

lemma read_number_shorter:
  assumes "read_number s = Inr (v, rest)"
  shows "length rest < length s"
proof -
  have digits: "length (snd (read_digits s)) \<le> length s" for s
    by (simp add: read_digits_def length_dropWhile_le)
  have natural: "length rest < length s" if "read_natural s = Some (d, rest)" for s d rest
    using that length_dropWhile_le [of ascii_digit "tl s"]
    by (auto simp: read_natural_def read_digits_def split: list.split_asm if_split_asm)
  have fraction: "length rest \<le> length s" if "read_fraction s = (f, rest)" for s f rest
    using that length_dropWhile_le [of ascii_digit "tl s"]
    by (auto simp: read_fraction_def read_digits_def split: list.split_asm if_split_asm)
  have exponent: "length rest \<le> length s" if "read_exponent s = (e, rest)" for s e rest
    using that length_dropWhile_le [of ascii_digit "tl s"] length_dropWhile_le [of ascii_digit "tl (tl s)"]
    by (auto simp: read_exponent_def read_digits_def Let_def split: list.split_asm if_split_asm)
  obtain d s1 f s2 e s3 where n: "read_natural (if s \<noteq> [] \<and> hd s = CHR ''-'' then tl s else s) = Some (d, s1)"
    and f: "read_fraction s1 = (f, s2)" and e: "read_exponent s2 = (e, s3)" and rest: "rest = s1 \<or> rest = s3"
    using assms by (auto simp: read_number_def Let_def split: option.split_asm prod.split_asm if_split_asm)
  have "length s1 < length s" using natural [OF n] by (cases s) (auto split: if_split_asm)
  with fraction [OF f] exponent [OF e] rest show ?thesis by auto
qed


lemma skip_shorter: "skip_blank s = t \<Longrightarrow> length t \<le> length s"
  using length_dropWhile_le by blast

lemma skip_less: "n < length (skip_blank s) \<Longrightarrow> n < length s"
  using length_dropWhile_le [of json_blank s] by simp

lemma reader_shorter:
  "(read_value hook n s = Inr r \<longrightarrow> length (snd r) < length s) \<and>
   (read_items hook n s = Inr i \<longrightarrow> length (snd i) < length s) \<and>
   (read_pairs hook n s = Inr p \<longrightarrow> length (snd p) < length s)"
proof (induction n arbitrary: s r i p)
  case 0
  show ?case by simp
next
  case (Suc n)
  note IH = Suc.IH [THEN conjunct1, rule_format] Suc.IH [THEN conjunct2, THEN conjunct1, rule_format]
    Suc.IH [THEN conjunct2, THEN conjunct2, rule_format]
  have number: "read_number s = Inr r \<Longrightarrow> length (snd r) < length s" for s r
    using read_number_shorter [of s "fst r" "snd r"] by simp
  note shorter = IH read_string_shorter number skip_shorter skip_less
  have "length (snd r) < length s" if "read_value hook (Suc n) s = Inr r"
    using that
    by (cases s) (auto simp: bnd_def simp del: dropWhile_eq_Nil_conv
        split: sum.split_asm prod.split_asm if_split_asm option.split_asm list.split_asm dest!: shorter)
  moreover have "length (snd i) < length s" if "read_items hook (Suc n) s = Inr i"
    using that
    by (auto simp: bnd_def simp del: dropWhile_eq_Nil_conv
        split: sum.split_asm prod.split_asm if_split_asm list.split_asm dest!: shorter)
  moreover have "length (snd p) < length s" if "read_pairs hook (Suc n) s = Inr p"
    using that
    by (cases s) (auto simp: bnd_def simp del: dropWhile_eq_Nil_conv
        split: sum.split_asm prod.split_asm if_split_asm option.split_asm list.split_asm dest!: shorter)
  ultimately show ?case by blast
qed


lemma stream_step:
  assumes "length body < n"
  shows "stream_values n body acc =
    (case dropWhile py_space body of
        [] \<Rightarrow> Inr acc
      | c # cs \<Rightarrow>
          bnd (read_value pairs_hook (Suc (length (c # cs))) (c # cs)) (\<lambda>(v, rest).
          bnd (need [Inr (is_obj v)] ''Package evidence object required'') (\<lambda>_.
          bnd (need [Inr (length (acc @ [v]) \<le> 4096)] ''Selected package count exceeds limit'') (\<lambda>_.
          stream_values (n - 1) rest (acc @ [v])))))"
proof -
  obtain k where "n = Suc k" using assms by (cases n) auto
  then show ?thesis by (simp only: stream_values.simps diff_Suc_1)
qed



section \<open>What the evidence proves\<close>

text \<open>The packages a package imports, directly or not, as the graph lists them.\<close>

definition imports_of :: "json \<Rightarrow> json list" where
  "imports_of package =
     (case bnd (get_or package ''Imports'' (JArr [])) element_set of Inl e \<Rightarrow> [] | Inr is \<Rightarrow> is)"

inductive import_path :: "(json \<times> json) list \<Rightarrow> json \<Rightarrow> json \<Rightarrow> bool" for selected where
  here: "import_path selected p p"
| further: "import_path selected p q \<Longrightarrow> map_of selected q = Some package \<Longrightarrow> r \<in> set (imports_of package) \<Longrightarrow>
    import_path selected p r"

inductive_simps import_path_from_nothing: "import_path [] p q"

lemma import_path_stays:
  assumes "import_path selected p q" and "p \<in> A"
    and closed: "\<And>k package. (k, package) \<in> set selected \<Longrightarrow> set (imports_of package) \<subseteq> A"
  shows "q \<in> A"
  using assms(1,2)
proof (induction rule: import_path.induct)
  case (further p q package r)
  then show ?case using closed map_of_SomeD by fastforce
qed

lemma package_step_imports:
  assumes "package_step coords selected files (name, package) versions = Inr versions'"
  shows "set (imports_of package) \<subseteq> set selected"
  using assms by (auto simp: package_step_def imports_of_def ok_iff)

lemma check_selected_closed:
  assumes "check_selected target ev arch st selected = Inr ()" and "(k, package) \<in> set selected"
  shows "set (imports_of package) \<subseteq> fst ` set selected"
proof -
  obtain files versions where "fold_res (package_step (coordinates st) (map fst selected) files) selected [] = Inr versions"
    using assms(1) unfolding check_selected_def bnd_Inr_iff by blast
  from fold_res_each [OF this assms(2)] package_step_imports show ?thesis by fastforce
qed


lemma check_graph_facts:
  assumes "check_graph target ev arch st = Inr selected"
  obtains graph sha where "sub target ''graphSha256'' = Inr sha"
    and "bnd (sec_checked ev (arch @ ''-packages.json'') sha 16777216) package_stream = Inr graph"
    and "graph \<noteq> []" and "get (last graph) ''Name'' = Inr (JStr ''main'')"
    and "select_packages graph = Inr selected" and "length selected = length graph"
    and "set (forbidden st) \<inter> fst ` set selected = {}"
proof -
  obtain sha graph where 1: "sub target ''graphSha256'' = Inr sha"
      "bnd (sec_checked ev (arch @ ''-packages.json'') sha 16777216) package_stream = Inr graph"
    and 2: "need [lift_res (\<lambda>n. int_in n 1 4096) (get target ''packageCount''),
                lift_res (\<lambda>n. n = JInt (int (length graph))) (sub target ''packageCount''),
                (if graph = [] then Inl IndexError else lift_res (\<lambda>n. n = JStr ''main'') (get (last graph) ''Name''))]
            ''Complete selected application closure required'' = Inr ()"
    and 3: "select_packages graph = Inr selected"
    and 4: "need [Inr (length selected = length graph),
                Inr (set (forbidden st) \<inter> fst ` set selected = {})]
            ''Affected advisory package became reachable'' = Inr ()"
    using assms unfolding check_graph_def bnd_Inr_iff [of "sub _ _"] bnd_Inr_iff [of "bnd _ package_stream"]
      bnd_Inr_iff [of "need _ _"] bnd_Inr_iff [of "select_packages _"] by auto
  from 2 4 show thesis by (intro that [OF 1 _ _ 3]) (auto simp: ok_iff split: if_split_asm)
qed

lemma keys_set_value: "fst ` set (set_value k v kvs) = insert k (fst ` set kvs)"
  by (induction k v kvs rule: set_value.induct) auto

lemma select_keys:
  assumes "fold_res select_step graph acc = Inr selected"
  shows "fst ` set acc \<subseteq> fst ` set selected \<and>
    (\<forall>p \<in> set graph. \<exists>k. sub p ''ImportPath'' = Inr k \<and> canon k \<in> fst ` set selected)"
  using assms
proof (induction graph arbitrary: acc)
  case (Cons p graph)
  then obtain mid where mid: "select_step p acc = Inr mid"
      and rest': "fold_res select_step graph mid = Inr selected"
    by (auto simp: bnd_Inr_iff)
  then obtain k where k: "sub p ''ImportPath'' = Inr k"
      and rest: "fold_res select_step graph (set_value (canon k) p acc) = Inr selected"
    by (auto simp: select_step_def ok_iff split: if_split_asm)
  from Cons.IH [OF rest] k show ?case by (auto simp: keys_set_value)
qed simp

text \<open>Every package an advisory affects is among the forbidden paths.\<close>

lemma exception_step_forbidden:
  assumes "exception_step cal now scan entry st = Inr st'"
  shows "set (forbidden st) \<subseteq> set (forbidden st') \<and>
    (\<exists>names. bnd (sub entry ''affectedPackages'') element_set = Inr names \<and> set names \<subseteq> set (forbidden st'))"
proof -
  note facts = assms [unfolded exception_step_def Let_def bnd_Inr_iff need_Inr_iff lift_res_Inr_iff
      sum.inject eq_True simp_thms]
  then show ?thesis by (elim exE conjE) (auto simp: same_set_def bnd_Inr_iff)
qed

lemma exceptions_forbidden:
  assumes "fold_res (exception_step cal now scan) excs st = Inr st'"
  shows "set (forbidden st) \<subseteq> set (forbidden st') \<and>
    (\<forall>entry \<in> set excs. \<exists>names. bnd (sub entry ''affectedPackages'') element_set = Inr names \<and>
       set names \<subseteq> set (forbidden st'))"
  using assms
proof (induction excs arbitrary: st)
  case (Cons entry excs)
  then obtain mid where "exception_step cal now scan entry st = Inr mid"
      and "fold_res (exception_step cal now scan) excs mid = Inr st'"
    by (auto simp: bnd_Inr_iff)
  with Cons.IH [of mid] exception_step_forbidden [of cal now scan entry st mid] show ?case by auto
qed simp

text \<open>
  No affected package is compiled in: when the evidence is accepted, the exceptions listed in the
  policy name exactly affected packages that, for every delivered architecture, are not among the
  packages of the selected application, and no chain of imports that starts at its main package
  reaches one of them.
\<close>

theorem accepted_evidence_unreachable:
  assumes "check_evidence cal now policy evidence shipping scan = Inr report"
  shows "\<exists>excs targets. bnd (get policy ''exceptions'') iter = Inr excs \<and>
     bnd (get policy ''targets'') iter = Inr targets \<and>
     (\<forall>target \<in> set targets. \<exists>arch sha graph selected root.
        sub target ''architecture'' = Inr (JStr arch) \<and> sub target ''graphSha256'' = Inr sha \<and>
        bnd (sec_checked evidence (arch @ ''-packages.json'') sha 16777216) package_stream = Inr graph \<and>
        select_packages graph = Inr selected \<and> get (last graph) ''Name'' = Inr (JStr ''main'') \<and>
        sub (last graph) ''ImportPath'' = Inr root \<and>
        (\<forall>entry \<in> set excs. \<exists>names. bnd (sub entry ''affectedPackages'') element_set = Inr names \<and>
           (\<forall>p \<in> set names. \<not> import_path selected (canon root) p)))"
proof -
  obtain st aliases found where exc: "check_exceptions cal now policy scan = Inr st"
    and tgt: "check_targets policy shipping evidence st = Inr ()"
    using assms unfolding check_evidence_def bnd_Inr_iff
    by (elim exE conjE) (rule that, assumption, simp)
  obtain es excs where excs: "get policy ''exceptions'' = Inr es" "iter es = Inr excs"
    and loop: "fold_res (exception_step cal now scan) excs
        \<lparr>coordinates = [], advisory_documents = [], forbidden = []\<rparr> = Inr st"
    using exc unfolding check_exceptions_def bnd_Inr_iff sum.inject
    by (elim exE conjE) (rule that, assumption+, hypsubst, assumption)
  obtain ts targets where targets: "get policy ''targets'' = Inr ts" "iter ts = Inr targets"
    and each: "each_res (check_target policy shipping evidence st) targets = Inr ()"
    using tgt unfolding check_targets_def bnd_Inr_iff
    by (elim exE conjE) (rule that, assumption+)
  have one: "\<exists>arch sha graph selected root.
        sub target ''architecture'' = Inr (JStr arch) \<and> sub target ''graphSha256'' = Inr sha \<and>
        bnd (sec_checked evidence (arch @ ''-packages.json'') sha 16777216) package_stream = Inr graph \<and>
        select_packages graph = Inr selected \<and> get (last graph) ''Name'' = Inr (JStr ''main'') \<and>
        sub (last graph) ''ImportPath'' = Inr root \<and>
        (\<forall>entry \<in> set excs. \<exists>names. bnd (sub entry ''affectedPackages'') element_set = Inr names \<and>
           (\<forall>p \<in> set names. \<not> import_path selected (canon root) p))"
    if "target \<in> set targets" for target
  proof -
    from that each obtain arch selected where arch: "sub target ''architecture'' = Inr (JStr arch)"
      and graph: "check_graph target evidence arch st = Inr selected"
      and sel: "check_selected target evidence arch st selected = Inr ()"
      by (fastforce simp: each_res_Inr_iff list_all_iff check_target_def bnd_Inr_iff as_str_iff)
    from check_graph_facts [OF graph] obtain g sha where g: "sub target ''graphSha256'' = Inr sha"
        "bnd (sec_checked evidence (arch @ ''-packages.json'') sha 16777216) package_stream = Inr g"
        "g \<noteq> []" "get (last g) ''Name'' = Inr (JStr ''main'')" "select_packages g = Inr selected"
      and safe: "set (forbidden st) \<inter> fst ` set selected = {}" by metis
    from select_keys [OF g(5) [unfolded select_packages_def]] g(3) obtain root where
        root: "sub (last g) ''ImportPath'' = Inr root" "canon root \<in> fst ` set selected"
      by (meson last_in_set)
    have "\<not> import_path selected (canon root) p" if "p \<in> set (forbidden st)" for p
      using import_path_stays [of selected "canon root" p "fst ` set selected"] root(2) safe that
        check_selected_closed [OF sel] by blast
    with exceptions_forbidden [OF loop] arch g root show ?thesis
      by (intro exI [of _ arch] exI [of _ sha] exI [of _ g] exI [of _ selected] exI [of _ root]) blast
  qed
  with excs targets show ?thesis by (auto simp: bnd_Inr_iff)
qed

end
