(* ===== verification/Package_Inputs.thy ===== *)
theory Package_Inputs
  imports Elf Hysteria_Provenance Py_Url
begin

text \<open>
  check-core-package-input.py and check-hysteria-package-input.py: what a native producer must be before
  the OpenWrt SDK packages it. Each \<open>main\<close> is a function of its parsed arguments and the input
  directory; it returns or raises. The server check compares pinned digests, so it takes the hash as
  an argument like the provenance it calls.
\<close>

section \<open>Arguments\<close>

definition pinned_https :: rx where
  "pinned_https = Seq (lit ''https://'') (rplus (Cls (alnum @ [(CHR ''_'', CHR ''_''), (CHR ''.'', CHR ''.''),
     (CHR ''/'', CHR ''/''), (CHR ''%'', CHR ''%''), (CHR ''+'', CHR ''+''), (CHR ''-'', CHR ''-'')])))"

definition positive_size :: "int option \<Rightarrow> bool" where
  "positive_size reserve = (case reserve of None \<Rightarrow> False | Some n \<Rightarrow> 0 < n \<and> n \<le> 2 ^ 53 - 1)"

definition core_download :: "string option \<Rightarrow> int option \<Rightarrow> unit res" where
  "core_download download reserve =
     (case download of
        None \<Rightarrow> Inr ()
      | Some u \<Rightarrow>
          bnd (urlsplit u) (\<lambda>url.
          bnd (refuse [Inr (scheme url \<noteq> ''https''), Inr (\<not> present (hostname url)), Inr (present (username url)),
                       Inr (present (password url)), Inr (fragment url \<noteq> []), Inr (\<not> rmatch pinned_https u)]
                 ''Safe pinned HTTPS Core download URL required'') (\<lambda>_.
          refuse [Inr (\<not> positive_size reserve)] ''Explicit RAM runtime reserve required'')))"

definition server_download :: "string option \<Rightarrow> int option \<Rightarrow> unit res" where
  "server_download download reserve =
     bnd (refuse [Inr (case download of None \<Rightarrow> False | Some u \<Rightarrow> \<not> rmatch pinned_https u \<or> \<not> positive_size reserve)]
            ''Pinned HTTPS server payload and explicit runtime reserve required'') (\<lambda>_.
     refuse [Inr (download = None \<and> reserve \<noteq> None)] ''A RAM reserve without a download binding is invalid'')"

section \<open>The Core producer\<close>

definition CORE_TARGETS :: "(string \<times> (string \<times> int)) list" where
  "CORE_TARGETS = [(''aarch64'', (''aarch64-unknown-linux-musl'', 183)), (''x86_64'', (''x86_64-unknown-linux-musl'', 62))]"

definition CORE_PROTOCOLS :: "string list" where
  "CORE_PROTOCOLS = [''vless'', ''vmess'', ''hysteria2'', ''tuic'', ''trojan'', ''shadowsocks'', ''wireguard'',
     ''naive'', ''anytls'', ''shadowtls'', ''socks'', ''http'']"

definition CORE_FILES :: "string list" where
  "CORE_FILES = [''foxcore-cli'', ''core-producer.json'', ''LICENSE'', ''THIRD_PARTY_NOTICES.md'']"

text \<open>\<open>type(d.get(k)) is not int or d[k] != n\<close>.\<close>

definition int_not :: "json \<Rightarrow> string \<Rightarrow> int \<Rightarrow> bool res" where
  "int_not d k n = lift_res (\<lambda>x. x \<noteq> JInt n) (get d k)"

definition core_identity :: "json \<Rightarrow> string \<Rightarrow> string \<Rightarrow> string \<Rightarrow> unit res" where
  "core_identity record target version source_sha256 =
     refuse [int_not record ''schema'' 1, int_not record ''exitCode'' 0,
             lift_res (\<lambda>x. x \<noteq> JStr target) (get record ''target''),
             lift_res (\<lambda>x. x \<noteq> JStr version) (get record ''coreVersion''),
             lift_res (\<lambda>x. x \<noteq> JStr source_sha256) (get record ''sourceSha256''),
             Inr (\<not> rmatch HEX64 source_sha256)]
       ''Core producer identity does not match the package''"

definition core_protocols :: "json \<Rightarrow> unit res" where
  "core_protocols record =
     bnd (get record ''protocols'') (\<lambda>protocols.
     bnd (refuse [Inr (\<not> is_arr protocols), Inr (\<not> truthy protocols),
                  bnd (element_set protocols) (\<lambda>s. lift_res (\<lambda>n. card (set s) \<noteq> n) (len protocols))]
            ''Compiled protocols are required'') (\<lambda>_.
     refuse [lift_res (\<lambda>s. \<not> set s \<subseteq> JStr ` set CORE_PROTOCOLS) (element_set protocols)] ''Unknown compiled protocol''))"

definition core_licenses :: "directory \<Rightarrow> json \<Rightarrow> unit res" where
  "core_licenses dir record =
     each_res (\<lambda>name. refuse
         [bnd (read_bytes dir name) (\<lambda>b. lift_res (\<lambda>h. h \<noteq> JStr (sha256_hex b))
            (bnd (get_or record ''filesSha256'' (JObj [])) (\<lambda>f. get f name)))]
         ''Core license producer digest mismatch'') [''LICENSE'', ''THIRD_PARTY_NOTICES.md'']"

definition core_package_input :: "directory \<Rightarrow> string \<Rightarrow> string \<Rightarrow> string \<Rightarrow> string option \<Rightarrow> int option \<Rightarrow> unit res" where
  "core_package_input dir architecture version source_sha256 download reserve =
     bnd (core_download download reserve) (\<lambda>_.
     bnd (case map_of CORE_TARGETS architecture of None \<Rightarrow> Inl KeyError | Some t \<Rightarrow> Inr t) (\<lambda>(target, machine).
     bnd (refuse [Inr (some_missing dir CORE_FILES)] ''Regular producer inputs are required'') (\<lambda>_.
     bnd (read_json dir ''core-producer.json'') (\<lambda>record.
     bnd (core_identity record target version source_sha256) (\<lambda>_.
     bnd (core_protocols record) (\<lambda>_.
     bnd (read_bytes dir ''foxcore-cli'') (\<lambda>raw.
     bnd (core_static_elf raw machine) (\<lambda>_.
     bnd (refuse [lift_res (\<lambda>d. d \<noteq> JStr (sha256_hex raw)) (get record ''binarySha256'')]
            ''Core ELF or producer digest mismatch'') (\<lambda>_.
     core_licenses dir record)))))))))"

section \<open>The server producer\<close>

definition SERVER_TARGETS :: "(string \<times> (string \<times> int)) list" where
  "SERVER_TARGETS = [(''x86_64'', (''linux-amd64'', 62)), (''aarch64'', (''linux-arm64'', 183))]"

definition server_identity :: "json \<Rightarrow> string \<Rightarrow> unit res" where
  "server_identity record target =
     refuse [int_not record ''schema'' 1, int_not record ''exitCode'' 0,
             lift_res (\<lambda>x. x \<noteq> JStr target) (get record ''target''),
             lift_res (\<lambda>x. x \<noteq> JStr ''2.12.2'') (get record ''version''),
             lift_res (\<lambda>x. x \<noteq> JStr SOURCE_SHA) (get record ''sourceSha256'')]
       ''Exact server source producer required''"

definition server_licenses :: "hash_fun \<Rightarrow> directory \<Rightarrow> json \<Rightarrow> unit res" where
  "server_licenses hash dir record =
     each_res (\<lambda>name. refuse
         [bnd (read_bytes dir name) (\<lambda>b. lift_res (\<lambda>h. h \<noteq> JStr (hash b))
            (bnd (sub record ''filesSha256'') (\<lambda>f. get f name)))]
         ''Server license producer digest differs'') (LICENSES @ PROVENANCE_FILES)"

definition server_package_input :: "hash_fun \<Rightarrow> directory \<Rightarrow> string \<Rightarrow> string option \<Rightarrow> int option \<Rightarrow> unit res" where
  "server_package_input hash dir architecture download reserve =
     bnd (server_download download reserve) (\<lambda>_.
     bnd (case map_of SERVER_TARGETS architecture of None \<Rightarrow> Inl KeyError | Some t \<Rightarrow> Inr t) (\<lambda>(target, machine).
     bnd (refuse [Inr (some_missing dir ([''hysteria'', ''hysteria-producer.json''] @ LICENSES @ PROVENANCE_FILES))]
            ''Regular server producer inputs required'') (\<lambda>_.
     bnd (read_json dir ''hysteria-producer.json'') (\<lambda>record.
     bnd (prov_verify hash record dir) (\<lambda>_.
     bnd (server_identity record target) (\<lambda>_.
     bnd (read_bytes dir ''hysteria'') (\<lambda>raw.
     bnd (server_static_elf raw machine) (\<lambda>_.
     bnd (refuse [lift_res (\<lambda>d. d \<noteq> JStr (hash raw)) (sub record ''binarySha256'')]
            ''Server producer digest differs'') (\<lambda>_.
     server_licenses hash dir record)))))))))"

section \<open>What an accepted producer is\<close>

lemma core_download_ok:
  "core_download (Some u) reserve = Inr () \<Longrightarrow> rmatch pinned_https u \<and> positive_size reserve"
  by (auto simp: core_download_def ok_iff)

lemma core_protocols_ok:
  assumes "core_protocols record = Inr ()"
  shows "\<exists>ps. get record ''protocols'' = Inr (JArr (map JStr ps)) \<and> ps \<noteq> [] \<and> distinct ps \<and> set ps \<subseteq> set CORE_PROTOCOLS"
proof -
  note facts = assms [unfolded core_protocols_def ok_iff sum.inject simp_thms eq_True]
  from facts obtain v s n where v: "get record ''protocols'' = Inr v" "is_arr v" "truthy v"
    and s: "element_set v = Inr s" and n: "len v = Inr n" "card (set s) = n"
    and known: "set s \<subseteq> JStr ` set CORE_PROTOCOLS"
    by auto
  from v(2) obtain xs where xs: "v = JArr xs" by (auto simp: is_arr_iff)
  define ps where "ps = map str_of s"
  have "set s = JStr ` (str_of ` set s)"
    using known by (force simp: image_iff)
  from element_set_strs [OF s this] xs have "xs = map JStr ps" and "set ps = str_of ` set s"
    by (auto simp: ps_def)
  moreover have "length s = length xs" using s xs by (auto simp: element_set_def ok_iff)
  ultimately show ?thesis
    using v n known xs
      inj_on_subset [of str_of "JStr ` set CORE_PROTOCOLS" "set s"]
    by (intro exI [of _ ps]) (auto simp: ps_def inj_on_def distinct_map card_distinct)
qed

text \<open>
  C17. Core producer: an input the package check accepts has, beside a readable producer receipt of
  schema 1 and exit code 0 for the exact target, version and source, a binary that is the digest the
  receipt names and a static ELF of that machine, the two licence texts with the receipt's digests, and
  a nonempty duplicate-free list of known protocols; a download, when there is one, is a plain HTTPS
  address and comes with a positive reserve below 2^53.
\<close>

theorem core_package_input_admits:
  assumes "core_package_input dir architecture version source download reserve = Inr ()"
  shows "\<exists>target machine record binary.
     map_of CORE_TARGETS architecture = Some (target, machine) \<and> read_json dir ''core-producer.json'' = Inr record \<and>
     get record ''exitCode'' = Inr (JInt 0) \<and> get record ''target'' = Inr (JStr target) \<and>
     get record ''coreVersion'' = Inr (JStr version) \<and> get record ''sourceSha256'' = Inr (JStr source) \<and>
     rmatch HEX64 source \<and> regular_at dir ''foxcore-cli'' binary \<and>
     get record ''binarySha256'' = Inr (JStr (sha256_hex (content binary))) \<and>
     core_static_elf (content binary) machine = Inr () \<and>
     (\<forall>n \<in> {''LICENSE'', ''THIRD_PARTY_NOTICES.md''}. \<exists>e files. regular_at dir n e \<and>
        get_or record ''filesSha256'' (JObj []) = Inr files \<and> get files n = Inr (JStr (sha256_hex (content e)))) \<and>
     (\<exists>ps. get record ''protocols'' = Inr (JArr (map JStr ps)) \<and> ps \<noteq> [] \<and> distinct ps \<and> set ps \<subseteq> set CORE_PROTOCOLS) \<and>
     (\<forall>u. download = Some u \<longrightarrow> rmatch pinned_https u \<and> positive_size reserve)"
proof -
  note facts = assms [unfolded core_package_input_def bnd_Inr_iff]
  from facts obtain t rec raw where dl: "core_download download reserve = Inr ()"
    and t: "map_of CORE_TARGETS architecture = Some t"
    and files: "\<not> some_missing dir CORE_FILES" and rc: "read_json dir ''core-producer.json'' = Inr rec"
    and ident: "core_identity rec (fst t) version source = Inr ()" and prot: "core_protocols rec = Inr ()"
    and raw: "read_bytes dir ''foxcore-cli'' = Inr raw" and elf: "core_static_elf raw (snd t) = Inr ()"
    and sha: "get rec ''binarySha256'' = Inr (JStr (sha256_hex raw))" and lic: "core_licenses dir rec = Inr ()"
    by (elim exE conjE) (auto simp: ok_iff split: option.split_asm prod.split_asm)
  have regular: "\<exists>e. regular_at dir n e" if "n \<in> set CORE_FILES" for n
    using files that by (simp add: none_missing_iff)
  then obtain binary where binary: "regular_at dir ''foxcore-cli'' binary" by (auto simp: CORE_FILES_def)
  with raw have "raw = content binary" by (auto simp: ok_iff regular_at_def)
  moreover have "\<exists>e files. regular_at dir n e \<and> get_or rec ''filesSha256'' (JObj []) = Inr files \<and>
        get files n = Inr (JStr (sha256_hex (content e)))" if "n \<in> {''LICENSE'', ''THIRD_PARTY_NOTICES.md''}" for n
    using lic that regular [of n] by (fastforce simp: core_licenses_def ok_iff regular_at_def CORE_FILES_def)
  moreover have "get rec ''exitCode'' = Inr (JInt 0)" "get rec ''target'' = Inr (JStr (fst t))"
      "get rec ''coreVersion'' = Inr (JStr version)" "get rec ''sourceSha256'' = Inr (JStr source)" "rmatch HEX64 source"
    using ident by (auto simp: core_identity_def int_not_def ok_iff)
  moreover have "\<forall>u. download = Some u \<longrightarrow> rmatch pinned_https u \<and> positive_size reserve"
    using dl core_download_ok by blast
  ultimately show ?thesis
    using t rc binary elf sha core_protocols_ok [OF prot]
    by (intro exI [of _ "fst t"] exI [of _ "snd t"] exI [of _ rec] exI [of _ binary]) simp
qed

text \<open>The smallest static ELF: a 64-byte header without program headers.\<close>

definition static_elf :: bytes where
  "static_elf = elf_magic @ [0, 0, 0, 0, 0, 0, 0, 0, 0, 0] @ [2, 0] @ [62, 0] @ [1, 0, 0, 0] @ field8 0 0 @
     field8 64 0 @ field8 0 0 @ [0, 0, 0, 0] @ [64, 0] @ [56, 0] @ [0, 0] @ [0, 0, 0, 0, 0, 0]"

definition core_receipt :: json where
  "core_receipt = JObj [(''schema'', JInt 1), (''exitCode'', JInt 0), (''target'', JStr ''x86_64-unknown-linux-musl''),
     (''coreVersion'', JStr ''1.2.0''), (''sourceSha256'', JStr (replicate 64 (CHR ''a''))),
     (''protocols'', JArr (map JStr [''vless''])), (''sourceCommit'', JStr (replicate 40 (CHR ''c''))), (''binarySha256'', JStr (sha256_hex static_elf)),
     (''filesSha256'', JObj [(''LICENSE'', JStr (sha256_hex [1])), (''THIRD_PARTY_NOTICES.md'', JStr (sha256_hex [2]))])]"

definition core_capabilities :: json where
  "core_capabilities = JObj [(''protocols'', JArr [JStr ''vless'']), (''platform'', JStr ''linux''),
     (''router_contract_version'', JInt 1), (''core_version'', JStr ''1.2.0'')]"

definition core_input :: directory where
  "core_input = \<lparr>dir_perm = 493, entries = [(''foxcore-cli'', plain_entry static_elf),
     (''core-producer.json'', plain_entry (encode_ascii (write_value core_receipt))),
     (''LICENSE'', plain_entry [1]), (''THIRD_PARTY_NOTICES.md'', plain_entry [2]),
     (''capabilities.json'', plain_entry (encode_ascii (write_value core_capabilities)))]\<rparr>"

lemma core_input_files:
  "lookup_file core_input ''foxcore-cli'' = Some (plain_entry static_elf)"
  "lookup_file core_input ''core-producer.json'' = Some (plain_entry (encode_ascii (write_value core_receipt)))"
  "lookup_file core_input ''LICENSE'' = Some (plain_entry [1])"
  "lookup_file core_input ''THIRD_PARTY_NOTICES.md'' = Some (plain_entry [2])"
  "lookup_file core_input ''capabilities.json'' = Some (plain_entry (encode_ascii (write_value core_capabilities)))"
  by (simp_all add: core_input_def lookup_file_def)

lemma static_elf_ok: "core_static_elf static_elf 62 = Inr ()"
  by (simp add: core_static_elf_def static_elf_def elf_magic_def field8_def unpack_def guard_simps)

lemma core_receipt_read: "read_json core_input ''core-producer.json'' = Inr core_receipt"
  by (rule written_read [OF core_input_files(2)])
    (simp_all add: core_receipt_def printable_int del: printable.simps(2))

lemma core_input_checked:
  assumes dl: "core_download download reserve = Inr ()"
  shows "core_package_input core_input ''x86_64'' ''1.2.0'' (replicate 64 (CHR ''a'')) download reserve = Inr ()"
proof -
  have ident: "core_identity core_receipt ''x86_64-unknown-linux-musl'' ''1.2.0'' (replicate 64 (CHR ''a'')) = Inr ()"
    by (simp add: core_identity_def core_receipt_def int_not_def guard_simps HEX64_iff list_all_iff is_hex_def in_cls_def)
  have prot: "core_protocols core_receipt = Inr ()"
    by (simp add: core_protocols_def core_receipt_def guard_simps element_set_def CORE_PROTOCOLS_def)
  have lic: "core_licenses core_input core_receipt = Inr ()"
    by (simp add: core_licenses_def core_receipt_def guard_simps read_bytes_def lstat_def core_input_files)
  have here: "\<not> some_missing core_input CORE_FILES"
    by (simp add: some_missing_def CORE_FILES_def plain_file_def core_input_files)
  have target: "map_of CORE_TARGETS ''x86_64'' = Some (''x86_64-unknown-linux-musl'', 62)"
    by (simp add: CORE_TARGETS_def)
  have raw: "read_bytes core_input ''foxcore-cli'' = Inr static_elf"
    by (simp add: read_bytes_def lstat_def core_input_files)
  have sha: "get core_receipt ''binarySha256'' = Inr (JStr (sha256_hex static_elf))"
    by (simp add: core_receipt_def)
  show ?thesis
    unfolding core_package_input_def dl target option.case bnd_simps prod.case core_receipt_read ident prot raw static_elf_ok sha lic
    by (simp add: here guard_simps)
qed

lemma core_input_accepted:
  "core_package_input core_input ''x86_64'' ''1.2.0'' (replicate 64 (CHR ''a'')) (Some ''https://a.b/core'') (Some 4096) = Inr ()"
  by (rule core_input_checked) code_simp

theorem core_package_input_admits_witness:
  "core_package_input core_input ''x86_64'' ''1.2.0'' (replicate 64 (CHR ''a'')) (Some ''https://a.b/core'') (Some 4096) = Inr () \<and>
   rmatch pinned_https ''https://a.b/core'' \<and> regular_at core_input ''foxcore-cli'' (plain_entry static_elf)"
  using core_package_input_admits [OF core_input_accepted] core_input_accepted
  by (auto simp: regular_at_def core_input_files)

section \<open>What a malformed ELF raises\<close>

lemma each_res_error:
  assumes "each_res f xs = Inl e"
  obtains x where "x \<in> set xs" and "f x = Inl e"
  using assms
proof (induction xs)
  case (Cons y ys)
  then show ?case by (cases "f y") auto
qed simp

lemma header_step_error:
  assumes "static_header_step raw offset esize msg index = Inl e" and "56 \<le> esize"
  shows "e = ValueError msg \<or> e = OverflowError \<and> 2 ^ 63 \<le> offset + index * esize"
proof -
  define data where "data = slice raw (offset + index * esize) (offset + index * esize + esize)"
  show ?thesis
  proof (cases "2 ^ 63 \<le> offset + index * esize \<or> int (length data) \<noteq> esize")
    case True
    with assms(1) show ?thesis
      by (auto simp: static_header_step_def Let_def guard_simps data_def split: if_split_asm)
  next
    case False
    then obtain t where "unpack 4 data 0 = Inr t" using assms(2) unpack_in_range [of 0 4 data] by auto
    with False assms(1) show ?thesis
      by (auto simp: static_header_step_def Let_def guard_simps data_def split: if_split_asm)
  qed
qed


text \<open>A header that points beyond every file.\<close>

definition far_elf :: bytes where
  "far_elf = elf_magic @ [0, 0, 0, 0, 0, 0, 0, 0, 0, 0] @ [2, 0] @ [62, 0] @ [1, 0, 0, 0] @ field8 0 0 @
     [255, 255, 255, 255, 255, 255, 255, 255] @ field8 0 0 @ [0, 0, 0, 0] @ [64, 0] @ [56, 0] @ [1, 0] @ [0, 0, 0, 0, 0, 0]"


end
