(* ===== verification/Indexed_Verify.thy ===== *)
theory Indexed_Verify
  imports Indexed_Auth Json_Files
begin

text \<open>
  The \<open>verify\<close> of indexed-auth.py: the assets of a package closure are checked against the digests the
  metadata anchors, each index against the keys of its role, each package against its signed index
  entry, and the native solver must select, fetch and simulate exactly the closure.

  The program \<open>apk\<close> is not part of the repository; it is the record \<open>apk_tool\<close> of its commands, each a
  function of the files it reads that fails or returns its two output streams. A solver command reads
  the architecture, the repositories (per index the files of its directory) and the combined keys.
  Times out and the effective user are not modelled.
\<close>

section \<open>The native tool\<close>

type_synonym named_files = "(string \<times> bytes) list"

record solver =
  solver_arch :: string
  repositories :: "(string \<times> named_files) list"
  solver_keys :: named_files

record apk_tool =
  apk_verify :: "named_files \<Rightarrow> bytes \<Rightarrow> (bytes \<times> bytes) res"
  apk_dump :: "bytes \<Rightarrow> (bytes \<times> bytes) res"
  apk_extract :: "bool \<Rightarrow> bytes \<Rightarrow> (string list \<times> file_entry) list res"
  apk_initdb :: "solver \<Rightarrow> (bytes \<times> bytes) res"
  apk_query :: "solver \<Rightarrow> string list \<Rightarrow> (bytes \<times> bytes) res"
  apk_fetch :: "solver \<Rightarrow> string list \<Rightarrow> ((bytes \<times> bytes) \<times> named_files) res"
  apk_simulate :: "solver \<Rightarrow> string list \<Rightarrow> (bytes \<times> bytes) res"

definition MAX_DUMP :: int where
  "MAX_DUMP = 67108864"

text \<open>\<open>run\<close>: the output, unless one of the streams contains \<open>ERROR:\<close>.\<close>

fun has_part :: "'a list \<Rightarrow> 'a list \<Rightarrow> bool" where
  "has_part p [] = (p = [])"
| "has_part p (x # xs) = (take (length p) (x # xs) = p \<or> has_part p xs)"

definition run_apk :: "(bytes \<times> bytes) res \<Rightarrow> bytes res" where
  "run_apk result =
     bnd result (\<lambda>(out, err).
     bnd (refuse [Inr (has_part (encode_ascii ''ERROR:'') err), Inr (has_part (encode_ascii ''ERROR:'') out)]
            ''Native APK authentication or solver refused the closure'') (\<lambda>_.
     Inr out))"

definition index_dump :: "apk_tool \<Rightarrow> bytes \<Rightarrow> json res" where
  "index_dump apk raw =
     bnd (run_apk (apk_dump apk raw)) (\<lambda>out.
     bnd (refuse [Inr (MAX_DUMP < int (length out))] ''Repository metadata exceeds limit'') (\<lambda>_.
     bnd (bnd (decode_ascii out) loads) (\<lambda>v.
     bnd (refuse [Inr (\<not> is_obj v),
                  lift_res (\<lambda>x. x \<noteq> JNull \<and> x \<noteq> JStr ''${name}-${version}.apk'') (get v ''pkgname-spec''),
                  lift_res (\<lambda>x. \<not> is_arr x) (get v ''packages''),
                  lift_res (\<lambda>n. \<not> (1 \<le> n \<and> n \<le> 50000)) (bnd (sub v ''packages'') len)]
            ''Unsupported original repository naming or metadata'') (\<lambda>_.
     Inr v))))"

section \<open>Anchored assets\<close>

definition auth_digest :: "hash_fun \<Rightarrow> directory \<Rightarrow> string \<Rightarrow> string res" where
  "auth_digest hash dir n =
     lift_res (\<lambda>e. hash (content e)) (some_or ''Regular authentication asset required'' (plain_file dir n))"

definition auth_asset :: "hash_fun \<Rightarrow> directory \<Rightarrow> json \<Rightarrow> string res" where
  "auth_asset hash dir v =
     bnd (refuse [Inr (\<not> is_str v), not_res (fullmatch NAME v)] ''Unsafe authentication asset name'') (\<lambda>_.
     bnd (as_str v) (\<lambda>n. bnd (auth_digest hash dir n) (\<lambda>_. Inr n)))"

text \<open>\<open>asset(root, v).stat().st_size\<close>, and the bytes of an asset.\<close>

definition asset_content :: "hash_fun \<Rightarrow> directory \<Rightarrow> json \<Rightarrow> bytes res" where
  "asset_content hash dir v = bnd (auth_asset hash dir v) (\<lambda>n. lift_res content (lstat dir n))"

definition asset_size :: "hash_fun \<Rightarrow> directory \<Rightarrow> json \<Rightarrow> int res" where
  "asset_size hash dir v = lift_res (\<lambda>b. int (length b)) (asset_content hash dir v)"

definition factory_digests :: "hash_fun \<Rightarrow> directory \<Rightarrow> string list" where
  "factory_digests hash keys = map (\<lambda>e. hash (content (snd e))) (filter (\<lambda>e. ftype (snd e) = Regular) (entries keys))"

definition check_anchored :: "hash_fun \<Rightarrow> directory \<Rightarrow> json \<Rightarrow> unit res" where
  "check_anchored hash dir value =
     bnd (bnd (sub value ''filesSha256'') items_of) (each_res (\<lambda>(n, expected).
       refuse [not_res (fullmatch HEX64 expected),
               bnd (auth_asset hash dir (JStr n)) (\<lambda>m. lift_res (\<lambda>d. JStr d \<noteq> expected) (auth_digest hash dir m))]
         ''Authentication asset differs from anchored metadata''))"

definition check_key_bytes :: "hash_fun \<Rightarrow> directory \<Rightarrow> json \<Rightarrow> string list \<Rightarrow> unit res" where
  "check_key_bytes hash dir value key_names =
     bnd (refuse [bnd (lift_res sum_list (map_res (\<lambda>n. asset_size hash dir (JStr n)) key_names)) (\<lambda>total.
                    lift_res (\<lambda>x. py_ne (JInt total) x) (sub value ''trustKeyBytes''))]
            ''Trust-key byte total differs'') (\<lambda>_.
     refuse [bnd (bnd (sub value ''trustKeys'') iter) (any_res (\<lambda>item.
               bnd (bnd (sub item ''file'') (asset_size hash dir)) (\<lambda>n.
               lift_res (\<lambda>x. py_ne (JInt n) x) (sub item ''bytes''))))]
       ''Public trust-key asset byte count differs'')"

section \<open>Indexes and their entries\<close>

text \<open>
  Per index: its directory as the solver sees it, the keys it was verified with and its metadata. The
  directories and the scratch files of the run share one parent, so an index may not have the name of
  one of them.
\<close>

record opened_index =
  index_dir :: named_files
  index_keys :: named_files
  index_meta :: json

record verify_state =
  opened :: "(string \<times> opened_index) list"
  combined :: named_files

definition trust_key_step :: "hash_fun \<Rightarrow> directory \<Rightarrow> string list \<Rightarrow> json \<Rightarrow> json \<Rightarrow> named_files \<times> named_files \<Rightarrow>
    (named_files \<times> named_files) res" where
  "trust_key_step hash dir factory role name st =
     (case st of (trusted, all_keys) \<Rightarrow>
     bnd (auth_asset hash dir name) (\<lambda>n.
     bnd (lift_res content (lstat dir n)) (\<lambda>key.
     bnd (refuse [Inr (hash key \<notin> (if role = JStr ''foxhole'' then {CANONICAL_PUBLIC_SHA} else set factory))]
            ''Repository trust role differs from original authority'') (\<lambda>_.
     bnd (refuse [Inr (16384 < int (length key))] ''Bounded public trust key required'') (\<lambda>_.
     Inr (trusted @ [(n, key)], if n \<in> fst ` set all_keys then all_keys else all_keys @ [(n, key)]))))))"

definition open_index :: "hash_fun \<Rightarrow> apk_tool \<Rightarrow> directory \<Rightarrow> string list \<Rightarrow> json \<Rightarrow> verify_state \<Rightarrow> verify_state res" where
  "open_index hash apk dir factory index st =
     bnd (bnd (sub index ''file'') (auth_asset hash dir)) (\<lambda>file.
     bnd (lift_res content (lstat dir file)) (\<lambda>raw.
     bnd (refuse [lift_res (\<lambda>x. py_ne (JInt (int (length raw))) x) (sub index ''bytes'')] ''Original index byte count differs'') (\<lambda>_.
     bnd (if file = ''keys'' \<or> file \<in> fst ` set (opened st) then Inl OSError else Inr ()) (\<lambda>_.
     bnd (bnd (sub index ''trustKeyFiles'') iter) (\<lambda>names.
     bnd (sub index ''role'') (\<lambda>role.
     bnd (fold_res (trust_key_step hash dir factory role) names ([], combined st)) (\<lambda>(trusted, all_keys).
     bnd (run_apk (apk_verify apk trusted raw)) (\<lambda>_.
     bnd (index_dump apk raw) (\<lambda>meta.
     Inr \<lparr>opened = opened st @ [(file, \<lparr>index_dir = [(''packages.adb'', raw)], index_keys = trusted, index_meta = meta\<rparr>)],
          combined = all_keys\<rparr>)))))))))"

definition entry_identity :: "json \<Rightarrow> (json \<times> json \<times> json) res" where
  "entry_identity item =
     bnd (get item ''name'') (\<lambda>n. bnd (get item ''version'') (\<lambda>v. bnd (get item ''arch'') (\<lambda>a. Inr (n, v, a))))"

definition entry_matches :: "json \<Rightarrow> json \<Rightarrow> bool res" where
  "entry_matches binding item =
     bnd (entry_identity item) (\<lambda>(n, v, a).
     lift_res (\<lambda>(n', v', a'). n = JStr n' \<and> v = JStr v' \<and> a = JStr a') (identity binding))"

fun filter_res :: "('a \<Rightarrow> bool res) \<Rightarrow> 'a list \<Rightarrow> 'a list res" where
  "filter_res f [] = Inr []"
| "filter_res f (x # xs) = bnd (f x) (\<lambda>b. lift_res (\<lambda>ys. if b then x # ys else ys) (filter_res f xs))"

text \<open>\<open>stage\<close>: a link, or a copy across devices; either way a name that exists raises.\<close>

definition stage_file :: "string \<Rightarrow> bytes \<Rightarrow> named_files \<Rightarrow> named_files res" where
  "stage_file n b files = (if n \<in> fst ` set files then Inl OSError else Inr (files @ [(n, b)]))"

definition raw_name :: "string \<Rightarrow> string \<Rightarrow> string" where
  "raw_name n v = n @ ''-'' @ v @ ''.apk''"

definition update_index :: "string \<Rightarrow> named_files \<Rightarrow> (string \<times> opened_index) list \<Rightarrow> (string \<times> opened_index) list" where
  "update_index file fs ois = map (\<lambda>(n, oi). (n, if n = file then oi\<lparr>index_dir := fs\<rparr> else oi)) ois"

definition check_binding :: "hash_fun \<Rightarrow> apk_tool \<Rightarrow> directory \<Rightarrow> package list \<Rightarrow> string list \<Rightarrow> json \<Rightarrow>
    (string \<times> opened_index) list \<Rightarrow> (string \<times> opened_index) list res" where
  "check_binding hash apk dir packages owned binding ois =
     bnd (bnd (sub binding ''indexFile'') as_str) (\<lambda>ifile.
     bnd (case map_of ois ifile of None \<Rightarrow> Inl KeyError | Some oi \<Rightarrow> Inr oi) (\<lambda>oi.
     bnd (bnd (sub (index_meta oi) ''packages'') iter) (\<lambda>items.
     bnd (filter_res (entry_matches binding) items) (\<lambda>matches.
     bnd (refuse [Inr (length matches \<noteq> 1),
                  bnd (get (hd matches) ''hashes'') (\<lambda>h. lift_res (\<lambda>p. py_ne h p) (sub binding ''packageIdentity''))]
            ''Package identity differs from the original signed entry'') (\<lambda>_.
     bnd (bnd (sub binding ''file'') (find_record packages)) (\<lambda>r.
     bnd (case r of None \<Rightarrow> Inl StopIteration | Some p \<Rightarrow> Inr p) (\<lambda>p.
     bnd (refuse [lift_res (\<lambda>x. py_ne x (JInt (archive_bytes p))) (get (hd matches) ''file-size''),
                  lift_res (\<lambda>x. py_ne x (JInt (installed_bytes p))) (get (hd matches) ''installed-size'')]
            ''Package sizes differ from the signed index'') (\<lambda>_.
     bnd (bnd (sub binding ''file'') (asset_content hash dir)) (\<lambda>source.
     bnd (bnd (sub binding ''name'') as_str) (\<lambda>n.
     bnd (bnd (sub binding ''version'') as_str) (\<lambda>v.
     bnd (stage_file (raw_name n v) source (index_dir oi)) (\<lambda>fs.
     bnd (if n \<in> set owned then lift_res (\<lambda>_. ()) (run_apk (apk_verify apk (index_keys oi) source)) else Inr ()) (\<lambda>_.
     Inr (update_index ifile fs ois))))))))))))))"

section \<open>The solver\<close>

definition package_triple :: "package \<Rightarrow> json \<times> json \<times> json" where
  "package_triple p = (JStr (pkg_name p), JStr (pkg_version p), JStr (pkg_arch p))"

text \<open>\<open>by_name[name]\<close> and \<open>expected_files[name]\<close>: the last package of that name.\<close>

definition last_package :: "(package \<Rightarrow> string) \<Rightarrow> package list \<Rightarrow> string \<Rightarrow> package option" where
  "last_package key packages n = find (\<lambda>p. key p = n) (rev packages)"

definition solver_requests :: "package list \<Rightarrow> json \<Rightarrow> string list res" where
  "solver_requests packages roots =
     bnd (bnd (bnd (py_sorted roots) iter) (map_res as_str)) (map_res (\<lambda>n.
       case last_package pkg_name packages n of
         None \<Rightarrow> Inl KeyError | Some p \<Rightarrow> Inr (n @ ''='' @ pkg_version p)))"

definition check_selection :: "apk_tool \<Rightarrow> solver \<Rightarrow> package list \<Rightarrow> string list \<Rightarrow> unit res" where
  "check_selection apk world packages requests =
     bnd (bnd (bnd (run_apk (apk_query apk world requests)) decode_ascii) loads) (\<lambda>selected.
     let expected = remdups (map package_triple packages) in
     refuse [Inr (\<not> is_arr selected), lift_res (\<lambda>n. n \<noteq> length expected) (len selected),
             bnd (iter selected) (\<lambda>items. bnd (map_res entry_identity items) (\<lambda>ids.
               if list_all (\<lambda>(n, v, a). hashable n \<and> hashable v \<and> hashable a) ids
               then Inr (\<not> same_set (map (\<lambda>(n, v, a). (canon n, canon v, canon a)) ids) expected) else Inl TypeError))]
       ''Indexed solver closure differs from the complete payload'')"

definition fetch_name :: "package \<Rightarrow> string" where
  "fetch_name p = raw_name (pkg_name p) (pkg_version p)"

definition check_fetched :: "hash_fun \<Rightarrow> package list \<Rightarrow> named_files \<Rightarrow> unit res" where
  "check_fetched hash packages fetched =
     (let names = remdups (map fetch_name packages) in
     bnd (refuse [Inr (\<not> same_set (map fst fetched) names)] ''Native authenticated fetch is incomplete'') (\<lambda>_.
     each_res (\<lambda>n. case (last_package fetch_name packages n, map_of fetched n) of
         (Some p, Some b) \<Rightarrow> refuse [Inr (hash b \<noteq> pkg_sha256 p)] ''Fetched APK differs from the anchored archive''
       | _ \<Rightarrow> Inl KeyError) names))"

definition solve :: "hash_fun \<Rightarrow> apk_tool \<Rightarrow> solver \<Rightarrow> package list \<Rightarrow> json \<Rightarrow> unit res" where
  "solve hash apk world packages roots =
     bnd (run_apk (apk_initdb apk world)) (\<lambda>_.
     bnd (refuse [Inr (\<not> distinct (map pkg_name packages))] ''Duplicate package names in closure'') (\<lambda>_.
     bnd (solver_requests packages roots) (\<lambda>requests.
     bnd (check_selection apk world packages requests) (\<lambda>_.
     bnd (apk_fetch apk world requests) (\<lambda>(result, fetched).
     bnd (run_apk (Inr result)) (\<lambda>_.
     bnd (check_fetched hash packages fetched) (\<lambda>_.
     lift_res (\<lambda>_. ()) (run_apk (apk_simulate apk world requests)))))))))"

section \<open>The whole verification\<close>

definition verify_indexed :: "hash_fun \<Rightarrow> apk_tool \<Rightarrow> directory \<Rightarrow> json \<Rightarrow> package list \<Rightarrow> json \<Rightarrow> string \<Rightarrow>
    directory \<Rightarrow> string list option \<Rightarrow> json res" where
  "verify_indexed hash apk dir value packages roots architecture factory_keys own_names =
     bnd (schema value packages own_names) (\<lambda>(indexes, bindings, key_names).
     let owned = (case own_names of None \<Rightarrow> OWN | Some ns \<Rightarrow> ns); factory = factory_digests hash factory_keys in
     bnd (refuse [Inr (factory = []), Inr (CANONICAL_PUBLIC_SHA \<in> set factory)]
            ''Independent original firmware trust keys required'') (\<lambda>_.
     bnd (check_anchored hash dir value) (\<lambda>_.
     bnd (check_key_bytes hash dir value key_names) (\<lambda>_.
     bnd (refuse [Inr (\<not> truthy roots),
                  bnd (element_set roots) (\<lambda>s. lift_res (\<lambda>n. card (set s) \<noteq> n) (len roots)),
                  lift_res (\<lambda>s. \<not> set s \<subseteq> JStr ` set (map pkg_name packages)) (element_set roots)]
            ''Exact nonempty indexed root packages required'') (\<lambda>_.
     bnd (fold_res (open_index hash apk dir factory) indexes \<lparr>opened = [], combined = []\<rparr>) (\<lambda>st.
     bnd (fold_res (check_binding hash apk dir packages owned) bindings (opened st)) (\<lambda>ois.
     bnd (if fst ` set ois \<inter> {''repositories.list'', ''database'', ''cache'', ''verified-fetch''} = {} then Inr () else Inl OSError) (\<lambda>_.
     let world = \<lparr>solver_arch = architecture, repositories = map (\<lambda>(n, oi). (n, index_dir oi)) ois,
                  solver_keys = combined st\<rparr> in
     bnd (solve hash apk world packages roots) (\<lambda>_.
     bnd (bnd (sub value ''verification'') (\<lambda>v. sub v ''factorySourceSha256'')) (\<lambda>factory_source.
     Inr (JObj [(''signatureModel'', JStr MODEL), (''signatures'', JBool True),
        (''factorySourceSha256'', factory_source), (''resolver'', JStr ''apk add --simulate --no-network'')])))))))))))"

section \<open>What verification guarantees\<close>

lemma auth_digest_iff [ok_iff]:
  "auth_digest hash dir n = Inr h \<longleftrightarrow> (\<exists>e. regular_at dir n e \<and> h = hash (content e))"
  by (cases "plain_file dir n") (auto simp: auth_digest_def plain_file_regular [symmetric])

lemma auth_asset_iff [ok_iff]:
  "auth_asset hash dir v = Inr n \<longleftrightarrow> v = JStr n \<and> rmatch NAME n \<and> (\<exists>e. regular_at dir n e)"
  by (cases v) (auto simp: auth_asset_def ok_iff)

lemma asset_content_iff [ok_iff]:
  "asset_content hash dir v = Inr b \<longleftrightarrow>
     (\<exists>n e. v = JStr n \<and> rmatch NAME n \<and> regular_at dir n e \<and> b = content e)"
proof
  assume "asset_content hash dir v = Inr b"
  then obtain n where n: "auth_asset hash dir v = Inr n" "lift_res content (lstat dir n) = Inr b"
    by (auto simp: asset_content_def bnd_Inr_iff)
  then show "\<exists>n e. v = JStr n \<and> rmatch NAME n \<and> regular_at dir n e \<and> b = content e"
    by (auto simp: auth_asset_iff lstat_def regular_at_def)
next
  assume "\<exists>n e. v = JStr n \<and> rmatch NAME n \<and> regular_at dir n e \<and> b = content e"
  then obtain n e where "auth_asset hash dir v = Inr n" "regular_at dir n e" "b = content e"
    unfolding auth_asset_iff by blast
  then show "asset_content hash dir v = Inr b"
    by (auto simp: asset_content_def lstat_def regular_at_def)
qed

text \<open>\<open>key\<close> is the content of an asset with a digest its role admits.\<close>

definition admitted_key :: "hash_fun \<Rightarrow> directory \<Rightarrow> string list \<Rightarrow> json \<Rightarrow> string \<times> bytes \<Rightarrow> bool" where
  "admitted_key hash dir factory role nk \<longleftrightarrow>
     (\<exists>e. regular_at dir (fst nk) e \<and> snd nk = content e) \<and> int (length (snd nk)) \<le> 16384 \<and>
     (if role = JStr ''foxhole'' then hash (snd nk) = CANONICAL_PUBLIC_SHA else hash (snd nk) \<in> set factory)"

lemma trust_key_step_ok:
  assumes "trust_key_step hash dir factory role name (trusted, keys) = Inr (trusted', keys')"
  shows "\<exists>nk. admitted_key hash dir factory role nk \<and> trusted' = trusted @ [nk] \<and> set keys' \<subseteq> set keys \<union> {nk}"
  using assms
  by (auto simp: trust_key_step_def ok_iff admitted_key_def lstat_def regular_at_def
      split: option.split_asm if_split_asm)

text \<open>Files the run copied or linked: each is the content of a regular asset of the closure.\<close>

definition from_assets :: "directory \<Rightarrow> named_files \<Rightarrow> bool" where
  "from_assets dir files \<longleftrightarrow> (\<forall>f \<in> set files. \<exists>m e. regular_at dir m e \<and> snd f = content e)"

lemma from_assets_simps [simp]:
  "from_assets dir []"
  "from_assets dir (files @ [f]) \<longleftrightarrow> from_assets dir files \<and> (\<exists>m e. regular_at dir m e \<and> snd f = content e)"
  by (auto simp: from_assets_def)

lemma trust_key_step_assets:
  assumes "trust_key_step hash dir factory role name st = Inr st'" and "from_assets dir (snd st)"
  shows "from_assets dir (snd st')"
  using assms
  by (cases st) (fastforce simp: trust_key_step_def ok_iff lstat_def regular_at_def split: option.split_asm if_split_asm)

lemma trust_keys_assets:
  assumes "fold_res (trust_key_step hash dir factory role) names ([], keys) = Inr (trusted, keys')" and "from_assets dir keys"
  shows "from_assets dir keys'"
  using fold_res_invariant [OF assms(1), of "\<lambda>st. from_assets dir (snd st)"] assms(2) trust_key_step_assets by fastforce

lemma trust_keys_ok:
  assumes "fold_res (trust_key_step hash dir factory role) names ([], keys) = Inr (trusted, keys')"
  shows "\<forall>nk \<in> set trusted. admitted_key hash dir factory role nk"
proof -
  have "\<forall>nk \<in> set (fst (trusted, keys')). admitted_key hash dir factory role nk"
  proof (rule fold_res_invariant [OF assms])
    fix x and s t :: "named_files \<times> named_files"
    assume "\<forall>nk \<in> set (fst s). admitted_key hash dir factory role nk"
      and "trust_key_step hash dir factory role x s = Inr t"
    then show "\<forall>nk \<in> set (fst t). admitted_key hash dir factory role nk"
      using trust_key_step_ok [of hash dir factory role x "fst s" "snd s" "fst t" "snd t"] by auto
  qed simp
  then show ?thesis by simp
qed

text \<open>An index as \<open>verify\<close> opened it.\<close>

definition opened_ok :: "hash_fun \<Rightarrow> apk_tool \<Rightarrow> directory \<Rightarrow> string list \<Rightarrow> json \<Rightarrow> string \<times> opened_index \<Rightarrow> bool" where
  "opened_ok hash apk dir factory index oi \<longleftrightarrow>
     sub index ''file'' = Inr (JStr (fst oi)) \<and>
     (\<exists>e role out. regular_at dir (fst oi) e \<and> sub index ''role'' = Inr role \<and>
        run_apk (apk_verify apk (index_keys (snd oi)) (content e)) = Inr out \<and>
        index_dump apk (content e) = Inr (index_meta (snd oi)) \<and>
        (\<forall>nk \<in> set (index_keys (snd oi)). admitted_key hash dir factory role nk))"

lemma open_index_ok:
  assumes "open_index hash apk dir factory index st = Inr st'"
  shows "\<exists>oi. opened st' = opened st @ [oi] \<and> opened_ok hash apk dir factory index oi \<and>
     from_assets dir (index_dir (snd oi)) \<and> (from_assets dir (combined st) \<longrightarrow> from_assets dir (combined st'))"
proof -
  note facts = assms [unfolded open_index_def bnd_Inr_iff sum.inject]
  from facts obtain fj fl e trusted all_keys role names v meta where
      fl: "sub index ''file'' = Inr fj" "auth_asset hash dir fj = Inr fl"
    and raw: "lift_res content (lstat dir fl) = Inr e"
    and keys: "fold_res (trust_key_step hash dir factory role) names ([], combined st) = Inr (trusted, all_keys)"
    and role: "sub index ''role'' = Inr role"
    and ver: "run_apk (apk_verify apk trusted e) = Inr v" and dump: "index_dump apk e = Inr meta"
    and st': "st' = \<lparr>opened = opened st @ [(fl, \<lparr>index_dir = [(''packages.adb'', e)], index_keys = trusted, index_meta = meta\<rparr>)],
        combined = all_keys\<rparr>"
    by (elim exE conjE) (simp split: prod.split_asm add: bnd_Inr_iff, metis)
  from fl(2) raw obtain f where f: "fj = JStr fl" "regular_at dir fl f" "e = content f"
    by (auto simp: ok_iff lstat_def regular_at_def split: option.split_asm)
  then show ?thesis
    using fl role ver dump st' trust_keys_ok [OF keys] trust_keys_assets [OF keys]
    by (intro exI [of _ "(fl, \<lparr>index_dir = [(''packages.adb'', e)], index_keys = trusted, index_meta = meta\<rparr>)"])
      (auto simp: opened_ok_def from_assets_def)
qed

lemma opened_indexes:
  assumes "fold_res (open_index hash apk dir factory) indexes \<lparr>opened = [], combined = []\<rparr> = Inr st"
  shows "\<forall>oi \<in> set (opened st). \<exists>index \<in> set indexes. opened_ok hash apk dir factory index oi"
proof (rule fold_res_invariant [OF assms])
  fix index s t
  assume "index \<in> set indexes" and "\<forall>oi \<in> set (opened s). \<exists>index \<in> set indexes. opened_ok hash apk dir factory index oi"
    and "open_index hash apk dir factory index s = Inr t"
  then show "\<forall>oi \<in> set (opened t). \<exists>index \<in> set indexes. opened_ok hash apk dir factory index oi"
    using open_index_ok by fastforce
qed simp

text \<open>\<open>entry\<close> is the one entry of the signed metadata for the bound package, with the bound hash.\<close>

definition signed_entry :: "json \<Rightarrow> json \<Rightarrow> json \<Rightarrow> bool" where
  "signed_entry meta binding entry \<longleftrightarrow>
     (\<exists>items h p. bnd (sub meta ''packages'') iter = Inr items \<and> filter_res (entry_matches binding) items = Inr [entry] \<and>
        get entry ''hashes'' = Inr h \<and> sub binding ''packageIdentity'' = Inr p \<and> py_eq h p)"

text \<open>What one pass of the binding loop has checked against the opened index \<open>oi\<close>.\<close>

definition binding_verified :: "hash_fun \<Rightarrow> apk_tool \<Rightarrow> directory \<Rightarrow> package list \<Rightarrow> string list \<Rightarrow> json \<Rightarrow> opened_index \<Rightarrow> bool" where
  "binding_verified hash apk dir packages owned binding oi \<longleftrightarrow>
     (\<exists>f p entry a i source n. sub binding ''file'' = Inr (JStr f) \<and> find (\<lambda>q. pkg_file q = f) packages = Some p \<and>
        signed_entry (index_meta oi) binding entry \<and>
        get entry ''file-size'' = Inr a \<and> py_eq a (JInt (archive_bytes p)) \<and>
        get entry ''installed-size'' = Inr i \<and> py_eq i (JInt (installed_bytes p)) \<and>
        regular_at dir f source \<and> sub binding ''name'' = Inr (JStr n) \<and>
        (n \<in> set owned \<longrightarrow> (\<exists>out. run_apk (apk_verify apk (index_keys oi) (content source)) = Inr out)))"

lemma check_binding_ok:
  assumes "check_binding hash apk dir packages owned binding ois = Inr ois'"
  shows "\<exists>ifile oi n source. sub binding ''indexFile'' = Inr (JStr ifile) \<and> map_of ois ifile = Some oi \<and>
    binding_verified hash apk dir packages owned binding oi \<and>
    (\<exists>f. regular_at dir f source) \<and> ois' = update_index ifile (index_dir oi @ [(n, content source)]) ois"
proof -
  note facts = assms [unfolded check_binding_def bnd_Inr_iff ex_unit_iff sum.inject]
  from facts obtain ifj ifile oi pk items matches fj r p aj nj n vj v src fs where
      ifile: "sub binding ''indexFile'' = Inr ifj" "as_str ifj = Inr ifile"
    and oi: "(case map_of ois ifile of None \<Rightarrow> Inl KeyError | Some oi \<Rightarrow> Inr oi) = Inr oi"
    and items: "sub (index_meta oi) ''packages'' = Inr pk" "iter pk = Inr items"
    and matches: "filter_res (entry_matches binding) items = Inr matches"
    and one: "refuse [Inr (length matches \<noteq> 1),
                  bnd (get (hd matches) ''hashes'') (\<lambda>h. lift_res (\<lambda>p. py_ne h p) (sub binding ''packageIdentity''))]
            ''Package identity differs from the original signed entry'' = Inr ()"
    and r: "sub binding ''file'' = Inr fj" "find_record packages fj = Inr r"
    and p: "(case r of None \<Rightarrow> Inl StopIteration | Some p \<Rightarrow> Inr p) = Inr p"
    and sizes: "refuse [lift_res (\<lambda>x. py_ne x (JInt (archive_bytes p))) (get (hd matches) ''file-size''),
                  lift_res (\<lambda>x. py_ne x (JInt (installed_bytes p))) (get (hd matches) ''installed-size'')]
            ''Package sizes differ from the signed index'' = Inr ()"
    and src: "sub binding ''file'' = Inr aj" "asset_content hash dir aj = Inr src"
    and n: "sub binding ''name'' = Inr nj" "as_str nj = Inr n"
    and fs: "stage_file (raw_name n v) src (index_dir oi) = Inr fs"
    and ver: "(if n \<in> set owned then lift_res (\<lambda>_. ()) (run_apk (apk_verify apk (index_keys oi) src)) else Inr ()) = Inr ()"
    and ois': "ois' = update_index ifile fs ois"
    by (elim exE conjE) (rule that, assumption+, rule sym, assumption)
  from one obtain entry h pi where entry: "matches = [entry]" "get entry ''hashes'' = Inr h"
      "sub binding ''packageIdentity'' = Inr pi" "py_eq h pi"
    by (auto simp: ok_iff length_Suc_conv)
  from r p obtain f where f: "fj = JStr f" "find (\<lambda>q. pkg_file q = f) packages = Some p"
    by (auto split: option.split_asm simp: find_record_Some)
  from src r f obtain source where source: "regular_at dir f source" "src = content source"
    by (auto simp: asset_content_iff)
  have "signed_entry (index_meta oi) binding entry"
    unfolding signed_entry_def using items matches entry by auto
  moreover from sizes entry(1) obtain a i where "get entry ''file-size'' = Inr a" "py_eq a (JInt (archive_bytes p))"
      "get entry ''installed-size'' = Inr i" "py_eq i (JInt (installed_bytes p))"
    by (auto simp: ok_iff)
  moreover from ver source(2) have "n \<in> set owned \<longrightarrow> (\<exists>out. run_apk (apk_verify apk (index_keys oi) (content source)) = Inr out)"
    by (auto simp: ok_iff)
  ultimately have "binding_verified hash apk dir packages owned binding oi"
    unfolding binding_verified_def using r(1) f source(1) n by (metis as_str_iff)
  moreover have "fs = index_dir oi @ [(raw_name n v, content source)]"
    using fs source(2) by (auto simp: stage_file_def split: if_split_asm)
  ultimately show ?thesis
    using ifile oi ois' source by (auto simp: as_str_iff split: option.split_asm)
qed

lemma verify_indexed_stages:
  assumes "verify_indexed hash apk dir value packages roots architecture factory_keys own = Inr receipt"
  obtains indexes bindings keys st ois world where
    "schema value packages own = Inr (indexes, bindings, keys)"
    and "CANONICAL_PUBLIC_SHA \<notin> set (factory_digests hash factory_keys)"
    and "check_anchored hash dir value = Inr ()"
    and "fold_res (open_index hash apk dir (factory_digests hash factory_keys)) indexes \<lparr>opened = [], combined = []\<rparr> = Inr st"
    and "fold_res (check_binding hash apk dir packages (owned_names own)) bindings (opened st) = Inr ois"
    and "world = \<lparr>solver_arch = architecture, repositories = map (\<lambda>(n, oi). (n, index_dir oi)) ois, solver_keys = combined st\<rparr>"
    and "solve hash apk world packages roots = Inr ()"
proof -
  note facts = assms [unfolded verify_indexed_def Let_def bnd_Inr_iff ex_unit_iff split_paired_Ex prod.case sum.inject]
  from facts obtain indexes bindings keys st ois where
      s: "schema value packages own = Inr (indexes, bindings, keys)"
    and f: "refuse [Inr (factory_digests hash factory_keys = []), Inr (CANONICAL_PUBLIC_SHA \<in> set (factory_digests hash factory_keys))]
            ''Independent original firmware trust keys required'' = Inr ()"
    and a: "check_anchored hash dir value = Inr ()"
    and o: "fold_res (open_index hash apk dir (factory_digests hash factory_keys)) indexes \<lparr>opened = [], combined = []\<rparr> = Inr st"
    and b: "fold_res (check_binding hash apk dir packages (case own of None \<Rightarrow> OWN | Some ns \<Rightarrow> ns)) bindings (opened st) = Inr ois"
    and w: "solve hash apk \<lparr>solver_arch = architecture, repositories = map (\<lambda>(n, oi). (n, index_dir oi)) ois,
                  solver_keys = combined st\<rparr> packages roots = Inr ()"
    by (elim exE conjE) (rule that, assumption+)
  from f have "CANONICAL_PUBLIC_SHA \<notin> set (factory_digests hash factory_keys)" by (simp add: ok_iff)
  then show thesis using that [OF s _ a o b [folded owned_names_def] refl w] by blast
qed

lemma update_index_ok:
  "\<forall>oi \<in> set ois. \<exists>index \<in> set indexes. opened_ok hash apk dir factory index oi \<Longrightarrow>
   \<forall>oi \<in> set (update_index file fs ois). \<exists>index \<in> set indexes. opened_ok hash apk dir factory index oi"
proof -
  have "opened_ok hash apk dir factory index (n, oi\<lparr>index_dir := fs\<rparr>) = opened_ok hash apk dir factory index (n, oi)"
    for index n oi
    by (simp add: opened_ok_def)
  then show "\<forall>oi \<in> set ois. \<exists>index \<in> set indexes. opened_ok hash apk dir factory index oi \<Longrightarrow>
     \<forall>oi \<in> set (update_index file fs ois). \<exists>index \<in> set indexes. opened_ok hash apk dir factory index oi"
    by (force simp: update_index_def)
qed

lemma check_binding_keeps:
  assumes "\<forall>oi \<in> set ois. \<exists>index \<in> set indexes. opened_ok hash apk dir factory index oi"
    and "check_binding hash apk dir packages owned binding ois = Inr ois'"
  shows "\<forall>oi \<in> set ois'. \<exists>index \<in> set indexes. opened_ok hash apk dir factory index oi"
proof -
  from check_binding_ok [OF assms(2)] obtain ifile fs where "ois' = update_index ifile fs ois" by blast
  with update_index_ok [OF assms(1)] show ?thesis by simp
qed

text \<open>
  C15. Package authenticity: when verification accepts a closure, each of its packages has exactly one
  entry in the metadata of one original index, with the bound hash and the sizes of the package. The
  index was verified with keys that belong to its role alone: for an owned package every key is the
  canonical public key and the package file itself was verified with them, for any other package no
  key is the canonical one and all of them are factory keys. The package file has the anchored digest.
\<close>

theorem verified_package_authentic:
  assumes accepted: "verify_indexed hash apk dir value packages roots architecture factory_keys own = Inr receipt"
    and p: "p \<in> set packages"
  shows "\<exists>binding ifile raw keys out meta entry a i source rows.
     identity binding = Inr (pkg_name p, pkg_version p, pkg_arch p) \<and>
     sub binding ''indexFile'' = Inr (JStr ifile) \<and> regular_at dir ifile raw \<and>
     run_apk (apk_verify apk keys (content raw)) = Inr out \<and> index_dump apk (content raw) = Inr meta \<and>
     signed_entry meta binding entry \<and>
     get entry ''file-size'' = Inr a \<and> py_eq a (JInt (archive_bytes p)) \<and>
     get entry ''installed-size'' = Inr i \<and> py_eq i (JInt (installed_bytes p)) \<and>
     regular_at dir (pkg_file p) source \<and>
     bnd (sub value ''filesSha256'') items_of = Inr rows \<and> (pkg_file p, JStr (hash (content source))) \<in> set rows \<and>
     (if pkg_name p \<in> set (owned_names own)
      then (\<forall>nk \<in> set keys. hash (snd nk) = CANONICAL_PUBLIC_SHA) \<and>
           (\<exists>out'. run_apk (apk_verify apk keys (content source)) = Inr out')
      else \<forall>nk \<in> set keys. hash (snd nk) \<noteq> CANONICAL_PUBLIC_SHA \<and>
             hash (snd nk) \<in> set (factory_digests hash factory_keys))"
proof -
  let ?factory = "factory_digests hash factory_keys"
  obtain indexes bindings keys st ois world where
      schema: "schema value packages own = Inr (indexes, bindings, keys)"
    and canonical: "CANONICAL_PUBLIC_SHA \<notin> set ?factory" and anchored: "check_anchored hash dir value = Inr ()"
    and opens: "fold_res (open_index hash apk dir ?factory) indexes \<lparr>opened = [], combined = []\<rparr> = Inr st"
    and binds: "fold_res (check_binding hash apk dir packages (owned_names own)) bindings (opened st) = Inr ois"
    using verify_indexed_stages [OF accepted] by metis
  note closed = schema_closed_assets [OF schema]
  obtain b ix where b: "b \<in> set bindings" and ix: "ix \<in> set indexes" and bf: "get b ''file'' = Inr (JStr (pkg_file p))"
    and ident: "identity b = Inr (pkg_name p, pkg_version p, pkg_arch p)"
    and bi: "get b ''indexFile'' = Inr (JStr (str_at ''file'' ix))"
    and role: "(pkg_name p \<in> set (owned_names own)) = (str_at ''role'' ix = ''foxhole'')"
    using schema_signing_authority [OF schema p] by (elim bexE) (rule that, assumption+, auto split: if_split_asm)
  let ?I = "\<lambda>u. \<forall>oi \<in> set u. \<exists>index \<in> set indexes. opened_ok hash apk dir ?factory index oi"
  have keeps: "?I v" if "?I u" "check_binding hash apk dir packages (owned_names own) x u = Inr v" for x u v
    by (rule check_binding_keeps [OF that])
  have "\<exists>u v. ?I u \<and> check_binding hash apk dir packages (owned_names own) b u = Inr v"
    by (rule fold_res_each_inv [where I = ?I, OF binds opened_indexes [OF opens] b]) (rule keeps)
  then obtain u v where inv: "?I u"
    and step: "check_binding hash apk dir packages (owned_names own) b u = Inr v"
    by (elim exE conjE) (rule that)
  obtain ifile oi where ifile: "sub b ''indexFile'' = Inr (JStr ifile)" and oi: "map_of u ifile = Some oi"
    and ver: "binding_verified hash apk dir packages (owned_names own) b oi"
    using check_binding_ok [OF step] by metis
  from ifile bi have same: "ifile = str_at ''file'' ix" by (cases b) (auto split: option.split_asm)
  from inv map_of_SomeD [OF oi] obtain index where index: "index \<in> set indexes"
      "opened_ok hash apk dir ?factory index (ifile, oi)" by blast
  have "str_at ''file'' index = ifile" using index(2) by (auto simp: opened_ok_def str_at_sub)
  with same closed index(1) ix have "index = ix" by (auto simp: distinct_map inj_on_def)
  from index(2) obtain raw r out where raw: "regular_at dir ifile raw" "sub index ''role'' = Inr r"
      "run_apk (apk_verify apk (index_keys oi) (content raw)) = Inr out" "index_dump apk (content raw) = Inr (index_meta oi)"
      "\<forall>nk \<in> set (index_keys oi). admitted_key hash dir ?factory r nk"
    by (auto simp: opened_ok_def)
  from ver obtain f q entry a i source n where v: "sub b ''file'' = Inr (JStr f)" "find (\<lambda>q. pkg_file q = f) packages = Some q"
      "signed_entry (index_meta oi) b entry" "get entry ''file-size'' = Inr a" "py_eq a (JInt (archive_bytes q))"
      "get entry ''installed-size'' = Inr i" "py_eq i (JInt (installed_bytes q))" "regular_at dir f source"
      "sub b ''name'' = Inr (JStr n)"
      "n \<in> set (owned_names own) \<Longrightarrow> \<exists>out. run_apk (apk_verify apk (index_keys oi) (content source)) = Inr out"
    unfolding binding_verified_def by blast
  from v(1) bf have f: "f = pkg_file p" by (cases b) (auto split: option.split_asm)
  with v(2) p closed have q: "q = p" by (auto simp: find_Some_iff distinct_map inj_on_def)
  from v(9) identity_str [OF ident] have n: "n = pkg_name p" by simp
  obtain rows where rows: "bnd (sub value ''filesSha256'') items_of = Inr rows"
      and row: "\<forall>(m, e) \<in> set rows. \<exists>s. regular_at dir m s \<and> e = JStr (hash (content s))"
    using anchored unfolding check_anchored_def bnd_Inr_iff by (fastforce simp: ok_iff list_all_iff)
  have "pkg_file p \<in> fst ` set rows"
  proof -
    obtain names where "bnd (get_or value ''filesSha256'' (JObj [])) iter = Inr (map JStr names)" "pkg_file p \<in> set names"
      using closed p by auto
    then have "map JStr (map fst rows) = map JStr names"
      using rows by (cases "value") (auto simp: bnd_Inr_iff comp_def split: option.split_asm elim!: items_of.elims)
    then have "map fst rows = names" by (rule map_injective) (simp add: inj_def)
    with \<open>pkg_file p \<in> set names\<close> show ?thesis by force
  qed
  then have anchor: "(pkg_file p, JStr (hash (content source))) \<in> set rows"
    using row v(8) f by (fastforce simp: regular_at_def)
  have "r = JStr ''foxhole'' \<longleftrightarrow> pkg_name p \<in> set (owned_names own)"
    using get_of_sub [OF raw(2)] \<open>index = ix\<close> role by (cases r) (auto simp: str_at_def)
  then have roles: "if pkg_name p \<in> set (owned_names own)
      then (\<forall>nk \<in> set (index_keys oi). hash (snd nk) = CANONICAL_PUBLIC_SHA) \<and>
           (\<exists>out'. run_apk (apk_verify apk (index_keys oi) (content source)) = Inr out')
      else \<forall>nk \<in> set (index_keys oi). hash (snd nk) \<noteq> CANONICAL_PUBLIC_SHA \<and> hash (snd nk) \<in> set ?factory"
    using raw(5) v(10) n canonical unfolding admitted_key_def by (cases "r = JStr ''foxhole''") auto
  note found = v [unfolded f q]
  show ?thesis
    by (intro exI [of _ b] exI [of _ ifile] exI [of _ raw] exI [of _ "index_keys oi"] exI [of _ out]
        exI [of _ "index_meta oi"] exI [of _ entry] exI [of _ a] exI [of _ i] exI [of _ source] exI [of _ rows] conjI)
      (fact ident ifile raw found rows anchor roles)+
qed

lemma run_apk_Inr: "run_apk r = Inr out \<Longrightarrow> \<exists>err. r = Inr (out, err)"
  by (auto simp: run_apk_def bnd_Inr_iff)

lemma opened_assets:
  assumes "fold_res (open_index hash apk dir factory) indexes \<lparr>opened = [], combined = []\<rparr> = Inr st"
  shows "(\<forall>oi \<in> set (opened st). from_assets dir (index_dir (snd oi))) \<and> from_assets dir (combined st)"
proof (rule fold_res_invariant [OF assms])
  fix index s t
  assume "(\<forall>oi \<in> set (opened s). from_assets dir (index_dir (snd oi))) \<and> from_assets dir (combined s)"
    and "open_index hash apk dir factory index s = Inr t"
  with open_index_ok [of hash apk dir factory index s t]
  show "(\<forall>oi \<in> set (opened t). from_assets dir (index_dir (snd oi))) \<and> from_assets dir (combined t)" by auto
qed simp

lemma bound_assets:
  assumes "fold_res (check_binding hash apk dir packages owned) bindings ois = Inr ois'"
    and "\<forall>oi \<in> set ois. from_assets dir (index_dir (snd oi))"
  shows "\<forall>oi \<in> set ois'. from_assets dir (index_dir (snd oi))"
proof (rule fold_res_invariant [where I = "\<lambda>ois. \<forall>oi \<in> set ois. from_assets dir (index_dir (snd oi))", OF assms])
  fix binding u v
  assume all: "\<forall>oi \<in> set u. from_assets dir (index_dir (snd oi))"
    and step: "check_binding hash apk dir packages owned binding u = Inr v"
  from check_binding_ok [OF step] obtain ifile oi n source f where oi: "map_of u ifile = Some oi"
      and "regular_at dir f source" and v: "v = update_index ifile (index_dir oi @ [(n, content source)]) u" by blast
  moreover from all map_of_SomeD [OF oi] have "from_assets dir (index_dir oi)" by auto
  ultimately have "from_assets dir (index_dir oi @ [(n, content source)])" by auto
  with all show "\<forall>oi \<in> set v. from_assets dir (index_dir (snd oi))"
    by (fastforce simp: v update_index_def simp del: from_assets_simps)
qed

definition canon_triple :: "json \<times> json \<times> json \<Rightarrow> json \<times> json \<times> json" where
  "canon_triple = (\<lambda>(n, v, a). (canon n, canon v, canon a))"

lemma selection_exact:
  assumes "check_selection apk world packages requests = Inr ()" and names: "distinct (map pkg_name packages)"
  shows "\<exists>selected ids. bnd (bnd (run_apk (apk_query apk world requests)) decode_ascii) loads = Inr (JArr selected) \<and>
     map_res entry_identity selected = Inr ids \<and> mset (map canon_triple ids) = mset (map package_triple packages)"
proof -
  let ?expected = "remdups (map package_triple packages)"
  obtain v items ids n where v: "bnd (bnd (run_apk (apk_query apk world requests)) decode_ascii) loads = Inr v" "is_arr v"
    and n: "len v = Inr n" "n = length ?expected"
    and items: "iter v = Inr items" and ids: "map_res entry_identity items = Inr ids"
    and same: "set (map canon_triple ids) = set ?expected"
    using assms(1) unfolding check_selection_def bnd_Inr_iff Let_def need_Inr_iff refuse_Inr_iff canon_triple_def
    by (elim exE conjE) (auto simp: bnd_Inr_iff lift_res_Inr_iff same_set_def split: if_split_asm)
  from v(2) items obtain xs where xs: "v = JArr xs" "items = xs" by (auto simp: is_arr_iff)
  have "distinct (map package_triple packages)"
    using names by (auto simp: distinct_map inj_on_def package_triple_def)
  then have expected: "?expected = map package_triple packages" by simp
  have "length (map canon_triple ids) = length (map package_triple packages)"
    using ids n xs expected by (auto simp: ok_iff dest: list_all2_lengthD)
  moreover have "distinct (map canon_triple ids)"
    using \<open>distinct (map package_triple packages)\<close> calculation same expected
    by (metis card_distinct distinct_card)
  ultimately have "mset (map canon_triple ids) = mset (map package_triple packages)"
    using same expected \<open>distinct (map package_triple packages)\<close> by (metis set_eq_iff_mset_eq_distinct)
  with v(1) xs ids show ?thesis by auto
qed

lemma fetched_exact:
  assumes "check_fetched hash packages fetched = Inr ()"
  shows "fst ` set fetched = fetch_name ` set packages \<and>
     (\<forall>p \<in> set packages. \<exists>q \<in> set packages. \<exists>b. fetch_name q = fetch_name p \<and>
        map_of fetched (fetch_name p) = Some b \<and> hash b = pkg_sha256 q)"
proof -
  have same: "set (map fst fetched) = set (remdups (map fetch_name packages))"
    and each: "\<forall>n \<in> fetch_name ` set packages. (case (last_package fetch_name packages n, map_of fetched n) of
         (Some p, Some b) \<Rightarrow> refuse [Inr (hash b \<noteq> pkg_sha256 p)] ''Fetched APK differs from the anchored archive''
       | _ \<Rightarrow> Inl KeyError) = Inr ()"
    using assms by (simp_all add: check_fetched_def Let_def bnd_Inr_iff ok_iff same_set_def list_all_iff)
  have "\<exists>q \<in> set packages. \<exists>b. fetch_name q = fetch_name p \<and> map_of fetched (fetch_name p) = Some b \<and> hash b = pkg_sha256 q"
    if "p \<in> set packages" for p
  proof -
    from each that have "(case (last_package fetch_name packages (fetch_name p), map_of fetched (fetch_name p)) of
         (Some q, Some b) \<Rightarrow> refuse [Inr (hash b \<noteq> pkg_sha256 q)] ''Fetched APK differs from the anchored archive''
       | _ \<Rightarrow> Inl KeyError) = Inr ()" by blast
    then obtain q b where "last_package fetch_name packages (fetch_name p) = Some q" "map_of fetched (fetch_name p) = Some b"
        "hash b = pkg_sha256 q"
      by (auto simp: ok_iff split: option.split_asm)
    moreover from this(1) have "q \<in> set packages" "fetch_name q = fetch_name p"
      using find_Some_iff [of "\<lambda>q. fetch_name q = fetch_name p" "rev packages" q] nth_mem [of _ "rev packages"]
      unfolding last_package_def by fastforce+
    ultimately show ?thesis by blast
  qed
  with same show ?thesis by auto
qed

text \<open>
  C16. The solver is given nothing but the closure and selects all of it: every file of its repositories
  and every key is the content of an asset of the bundle; its answer to the requested roots lists each
  package of the closure exactly once, by name, version and architecture; the archives it
  authenticates and fetches are named after the packages and have the recorded digests; and the
  installation of the requests succeeds in simulation.
\<close>

theorem verified_selection_complete:
  assumes "verify_indexed hash apk dir value packages roots architecture factory_keys own = Inr receipt"
  shows "\<exists>world requests selected ids out fetched sim.
     (\<forall>repo \<in> set (repositories world). from_assets dir (snd repo)) \<and> from_assets dir (solver_keys world) \<and>
     distinct (map pkg_name packages) \<and> solver_requests packages roots = Inr requests \<and>
     bnd (bnd (run_apk (apk_query apk world requests)) decode_ascii) loads = Inr (JArr selected) \<and>
     map_res entry_identity selected = Inr ids \<and> mset (map canon_triple ids) = mset (map package_triple packages) \<and>
     apk_fetch apk world requests = Inr (out, fetched) \<and> fst ` set fetched = fetch_name ` set packages \<and>
     (\<forall>p \<in> set packages. \<exists>q \<in> set packages. \<exists>b. fetch_name q = fetch_name p \<and>
        map_of fetched (fetch_name p) = Some b \<and> hash b = pkg_sha256 q) \<and>
     run_apk (apk_simulate apk world requests) = Inr sim"
proof -
  obtain indexes bindings st ois world where
      opens: "fold_res (open_index hash apk dir (factory_digests hash factory_keys)) indexes \<lparr>opened = [], combined = []\<rparr> = Inr st"
    and binds: "fold_res (check_binding hash apk dir packages (owned_names own)) bindings (opened st) = Inr ois"
    and world: "world = \<lparr>solver_arch = architecture, repositories = map (\<lambda>(n, oi). (n, index_dir oi)) ois, solver_keys = combined st\<rparr>"
    and solve: "solve hash apk world packages roots = Inr ()"
    using verify_indexed_stages [OF assms] by metis
  from solve obtain requests result fetched sim where
      names: "refuse [Inr (\<not> distinct (map pkg_name packages))] ''Duplicate package names in closure'' = Inr ()"
    and req: "solver_requests packages roots = Inr requests" and sel: "check_selection apk world packages requests = Inr ()"
    and fetch: "apk_fetch apk world requests = Inr (result, fetched)" and got: "check_fetched hash packages fetched = Inr ()"
    and sim: "lift_res (\<lambda>_. ()) (run_apk (apk_simulate apk world requests)) = Inr ()"
    unfolding solve_def bnd_Inr_iff ex_unit_iff split_paired_Ex prod.case by (elim exE conjE) (rule that, assumption+)
  have distinct: "distinct (map pkg_name packages)" using names by (simp add: ok_iff)
  from sim obtain s where s: "run_apk (apk_simulate apk world requests) = Inr s" by (auto simp: lift_res_Inr_iff)
  have "\<forall>repo \<in> set (repositories world). from_assets dir (snd repo)" "from_assets dir (solver_keys world)"
    using bound_assets [OF binds] opened_assets [OF opens] by (auto simp: world)
  with selection_exact [OF sel distinct] fetched_exact [OF got] distinct req fetch s show ?thesis by metis
qed

section \<open>A verified closure\<close>

text \<open>
  The assets of \<open>sample_closure\<close>, each made of one repeated byte from which a hash made for them tells
  its digest, and a native tool that knows the two packages.
\<close>

definition tagged_hash :: hash_fun where
  "tagged_hash b = (if b = [] then [] else if hd b = 8 then CANONICAL_PUBLIC_SHA else sha_of (char_of (48 + unat (hd b))))"

definition client_apk :: bytes where "client_apk = replicate 500 6"
definition libc_apk :: bytes where "libc_apk = replicate 900 7"
definition own_adb :: bytes where "own_adb = replicate 10 1"
definition base_adb :: bytes where "base_adb = replicate 20 2"
definition own_pem :: bytes where "own_pem = replicate 178 8"
definition base_pem :: bytes where "base_pem = replicate 180 5"

lemmas sample_files = client_apk_def libc_apk_def own_adb_def base_adb_def own_pem_def base_pem_def

definition sample_bundle :: directory where
  "sample_bundle = \<lparr>dir_perm = 493, entries = [(''client.apk'', plain_entry client_apk), (''libc.apk'', plain_entry libc_apk),
     (''own.adb'', plain_entry own_adb), (''base.adb'', plain_entry base_adb),
     (''foxhole-openwrt-apk.pem'', plain_entry own_pem), (''openwrt.pem'', plain_entry base_pem)]\<rparr>"

definition sample_factory :: directory where
  "sample_factory = \<lparr>dir_perm = 493, entries = [(''openwrt.pem'', plain_entry base_pem)]\<rparr>"

definition client_entry :: json where
  "client_entry = JObj [(''name'', JStr ''foxhole-openwrt-client''), (''version'', JStr ''1.0.0-r1''), (''arch'', JStr ''noarch''),
     (''hashes'', JStr (sha_of (CHR ''3''))), (''file-size'', JInt 500), (''installed-size'', JInt 1000)]"

definition libc_entry :: json where
  "libc_entry = JObj [(''name'', JStr ''libc''), (''version'', JStr ''1.2.5-r5''), (''arch'', JStr ''x86_64''),
     (''hashes'', JStr (sha_of (CHR ''4''))), (''file-size'', JInt 900), (''installed-size'', JInt 2000)]"

definition sample_apk :: apk_tool where
  "sample_apk = \<lparr>apk_verify = (\<lambda>keys raw. Inr ([], [])),
     apk_dump = (\<lambda>raw. Inr (encode_ascii (write_value (JObj [(''packages'',
        JArr [if hd raw = 1 then client_entry else libc_entry])])), [])),
     apk_extract = (\<lambda>untrusted raw. Inr []), apk_initdb = (\<lambda>w. Inr ([], [])),
     apk_query = (\<lambda>w rs. Inr (encode_ascii (write_value (JArr [client_entry, libc_entry])), [])),
     apk_fetch = (\<lambda>w rs. Inr (([], []), [(''foxhole-openwrt-client-1.0.0-r1.apk'', client_apk), (''libc-1.2.5-r5.apk'', libc_apk)])),
     apk_simulate = (\<lambda>w rs. Inr ([], []))\<rparr>"

lemma has_part_subset: "has_part p xs \<Longrightarrow> set p \<subseteq> set xs"
proof (induction xs)
  case (Cons x xs)
  then show ?case
    using set_take_subset [of "length p" "x # xs"] by (auto split: if_split_asm)
qed simp

lemma quiet_run:
  assumes "CHR ''E'' \<notin> set s" and "is_ascii s"
  shows "run_apk (Inr (encode_ascii s, [])) = Inr (encode_ascii s)"
proof -
  have "(69 :: u8) \<notin> set (encode_ascii s)"
  proof
    assume "(69 :: u8) \<in> set (encode_ascii s)"
    then obtain c where c: "c \<in> set s" "word_of_nat (of_char c) = (69 :: u8)" by (auto simp: encode_ascii_def)
    then have "unat (word_of_nat (of_char c) :: u8) = 69" by simp
    then have "of_char c = (69 :: nat)" by (simp add: unat_of_nat)
    also have "(69 :: nat) = of_char (CHR ''E'')" by simp
    finally have "c = CHR ''E''" by (simp only: of_char_eq_iff)
    with c assms(1) show False by simp
  qed
  then have "\<not> has_part (encode_ascii ''ERROR:'') (encode_ascii s)"
    by (auto dest!: has_part_subset simp: encode_ascii_def)
  then show ?thesis by (simp add: run_apk_def guard_simps encode_ascii_def [of "''ERROR:''"])
qed

text \<open>An E in a written document comes from one of its strings.\<close>

fun mentions :: "char \<Rightarrow> json \<Rightarrow> bool" where
  "mentions c (JStr s) = (c \<in> set s)"
| "mentions c (JArr xs) = list_ex (mentions c) xs"
| "mentions c (JObj kvs) = list_ex (\<lambda>kv. c \<in> set (fst kv) \<or> mentions c (snd kv)) kvs"
| "mentions c v = False"

lemma set_join: "set (join_with d ss) \<subseteq> set d \<union> (\<Union>s \<in> set ss. set s)"
  by (induction d ss rule: join_with.induct) auto

lemma escape_E: "CHR ''E'' \<in> set (escape_char c) \<Longrightarrow> c = CHR ''E''"
proof -
  have hex: "hex_char n \<noteq> CHR ''E''" if "n < 16" for n
  proof
    assume "hex_char n = CHR ''E''"
    then have "of_char (hex_char n) = (69 :: nat)" by simp
    with that show False by (auto simp: hex_char_def split: if_split_asm)
  qed
  have "of_char c div 16 < (16 :: nat)" "of_char c mod 16 < (16 :: nat)"
    using nat_of_char_less_256 [of c] less_mult_imp_div_less [of "of_char c" 16 "16 :: nat"] by simp_all
  then show "CHR ''E'' \<in> set (escape_char c) \<Longrightarrow> c = CHR ''E''"
    using hex [of "of_char c div 16"] hex [of "of_char c mod 16"]
    by (auto simp: escape_char_def split: if_split_asm)
qed

lemma write_string_E: "CHR ''E'' \<in> set (write_string s) \<Longrightarrow> CHR ''E'' \<in> set s"
  by (auto simp: write_string_def dest: escape_E)

lemma written_E: "CHR ''E'' \<in> set (write_value v) \<Longrightarrow> mentions (CHR ''E'') v"
proof (induction v)
  case (JInt i)
  have "CHR ''E'' \<notin> set (digits_of_nat n)" for n
    using digits_of_nat_ok [of n] by (auto simp: list_all_iff ascii_digit_def less_eq_char_def)
  with JInt show ?case by (auto simp: str_of_int_def split: if_split_asm)
next
  case (JArr xs)
  then have "CHR ''E'' \<in> set (join_with '','' (map write_value xs))" by auto
  with set_join [of "'',''" "map write_value xs"] JArr.IH show ?case by (auto simp: list_ex_iff)
next
  case (JObj kvs)
  let ?ss = "map (\<lambda>kv. write_string (fst kv) @ '':'' @ write_value (snd kv)) kvs"
  from JObj.prems have "CHR ''E'' \<in> set (join_with '','' ?ss)" by auto
  then obtain kv where kv: "kv \<in> set kvs" "CHR ''E'' \<in> set (write_string (fst kv) @ '':'' @ write_value (snd kv))"
    using subsetD [OF set_join [of "'',''" ?ss]] by (fastforce split: if_split_asm)
  then have "CHR ''E'' \<in> set (fst kv) \<or> mentions (CHR ''E'') (snd kv)"
    using JObj.IH [OF kv(1), of "snd kv"] write_string_E by (auto simp: prod_set_defs)
  with kv(1) show ?case by (auto simp: list_ex_iff)
qed (auto dest: write_string_E split: if_split_asm)

lemma dump_text:
  "run_apk (Inr (encode_ascii (write_value (JObj [(''packages'', JArr [client_entry])])), [])) =
     Inr (encode_ascii (write_value (JObj [(''packages'', JArr [client_entry])])))"
  "run_apk (Inr (encode_ascii (write_value (JObj [(''packages'', JArr [libc_entry])])), [])) =
     Inr (encode_ascii (write_value (JObj [(''packages'', JArr [libc_entry])])))"
  "run_apk (Inr (encode_ascii (write_value (JArr [client_entry, libc_entry])), [])) =
     Inr (encode_ascii (write_value (JArr [client_entry, libc_entry])))"
  by (rule quiet_run, rule notI, drule written_E, simp add: client_entry_def libc_entry_def sha_of_def, rule is_ascii_write)+

lemma sample_lookup:
  "regular_at sample_bundle ''client.apk'' (plain_entry client_apk)" "regular_at sample_bundle ''libc.apk'' (plain_entry libc_apk)"
  "regular_at sample_bundle ''own.adb'' (plain_entry own_adb)" "regular_at sample_bundle ''base.adb'' (plain_entry base_adb)"
  "regular_at sample_bundle ''foxhole-openwrt-apk.pem'' (plain_entry own_pem)"
  "regular_at sample_bundle ''openwrt.pem'' (plain_entry base_pem)"
  by (simp_all add: sample_bundle_def regular_at_def lookup_file_def)

lemma sample_digests [simp]:
  "tagged_hash client_apk = sha_of (CHR ''6'')" "tagged_hash libc_apk = sha_of (CHR ''7'')"
  "tagged_hash own_adb = sha_of (CHR ''1'')" "tagged_hash base_adb = sha_of (CHR ''2'')"
  "tagged_hash own_pem = CANONICAL_PUBLIC_SHA" "tagged_hash base_pem = sha_of (CHR ''5'')"
  by (simp_all add: tagged_hash_def sample_files char_of_def bit_0)

lemma sample_asset_names:
  "rmatch NAME ''client.apk''" "rmatch NAME ''libc.apk''" "rmatch HEX64 (sha_of (CHR ''6''))" "rmatch HEX64 (sha_of (CHR ''7''))"
  by (simp_all add: name_eval HEX64_iff is_hex_def sha_of_def list_all_iff)

lemma asset_of:
  assumes "regular_at dir n e" and "rmatch NAME n"
  shows "auth_asset hash dir (JStr n) = Inr n" and "auth_digest hash dir n = Inr (hash (content e))"
    and "lift_res content (lstat dir n) = Inr (content e)" and "asset_content hash dir (JStr n) = Inr (content e)"
    and "asset_size hash dir (JStr n) = Inr (int (length (content e)))"
proof -
  show content: "asset_content hash dir (JStr n) = Inr (content e)" using assms by (auto simp: asset_content_iff)
  then show "asset_size hash dir (JStr n) = Inr (int (length (content e)))" by (simp add: asset_size_def)
qed (use assms in \<open>auto simp: auth_asset_iff auth_digest_iff lstat_def regular_at_def\<close>)

lemmas sample_asset = sample_lookup [THEN asset_of(1)] sample_lookup [THEN asset_of(2)] sample_lookup [THEN asset_of(3)]
  sample_lookup [THEN asset_of(4)] sample_lookup [THEN asset_of(5)]

lemmas sample_assets = sample_asset [unfolded plain_entry_simps]

lemma sample_factory_digests: "factory_digests tagged_hash sample_factory = [sha_of (CHR ''5'')]"
  by (simp add: factory_digests_def sample_factory_def)

lemma sample_anchored: "check_anchored tagged_hash sample_bundle sample_closure = Inr ()"
  by (simp add: check_anchored_def sample_closure_def sample_assets sample_asset_names sample_patterns guard_simps)

lemma sample_key_bytes: "check_key_bytes tagged_hash sample_bundle sample_closure (map fst sample_roles) = Inr ()"
  by (simp add: check_key_bytes_def sample_closure_def sample_roles_def sample_assets sample_asset_names sample_patterns
      guard_simps own_pem_def base_pem_def py_eq_def)

definition own_opened :: opened_index where
  "own_opened = \<lparr>index_dir = [(''packages.adb'', own_adb)], index_keys = [(''foxhole-openwrt-apk.pem'', own_pem)],
     index_meta = JObj [(''packages'', JArr [client_entry])]\<rparr>"

definition base_opened :: opened_index where
  "base_opened = \<lparr>index_dir = [(''packages.adb'', base_adb)], index_keys = [(''openwrt.pem'', base_pem)],
     index_meta = JObj [(''packages'', JArr [libc_entry])]\<rparr>"

lemma sample_printable:
  "printable (JObj [(''packages'', JArr [client_entry])])" "printable (JObj [(''packages'', JArr [libc_entry])])"
  "printable (JArr [client_entry, libc_entry])"
  by (simp_all add: client_entry_def libc_entry_def printable_int del: printable.simps(2))

lemma sample_loads:
  assumes "printable v"
  shows "bnd (decode_ascii (encode_ascii (write_value v))) loads = Inr v"
  using assms by (simp add: decode_encode_ascii is_ascii_write loads_def plain.loads_write)

lemma written_small:
  "length (encode_ascii (write_value (JObj [(''packages'', JArr [client_entry])]))) \<le> 60000000"
  "length (encode_ascii (write_value (JObj [(''packages'', JArr [libc_entry])]))) \<le> 60000000"
  using length_write_int [of 500] length_write_int [of 1000] length_write_int [of 900] length_write_int [of 2000]
    length_write_string [of "sha_of (CHR ''3'')"] length_write_string [of "sha_of (CHR ''4'')"]
    length_write_string [of "''foxhole-openwrt-client''"] length_write_string [of "''libc''"]
    length_write_string [of "''1.0.0-r1''"] length_write_string [of "''1.2.5-r5''"]
    length_write_string [of "''noarch''"] length_write_string [of "''x86_64''"]
    length_write_string [of "''packages''"] length_write_string [of "''name''"] length_write_string [of "''version''"]
    length_write_string [of "''arch''"] length_write_string [of "''hashes''"]
    length_write_string [of "''file-size''"] length_write_string [of "''installed-size''"]
  by (simp_all add: client_entry_def libc_entry_def encode_ascii_def sha_of_def)

lemma sample_dump:
  "index_dump sample_apk own_adb = Inr (JObj [(''packages'', JArr [client_entry])])"
  "index_dump sample_apk base_adb = Inr (JObj [(''packages'', JArr [libc_entry])])"
proof -
  have heads: "hd own_adb = 1" "hd base_adb = 2" by (simp_all add: own_adb_def base_adb_def)
  have "apk_dump sample_apk own_adb = Inr (encode_ascii (write_value (JObj [(''packages'', JArr [client_entry])])), [])"
    and "apk_dump sample_apk base_adb = Inr (encode_ascii (write_value (JObj [(''packages'', JArr [libc_entry])])), [])"
    by (simp_all add: sample_apk_def heads)
  note dumped = this
  show "index_dump sample_apk own_adb = Inr (JObj [(''packages'', JArr [client_entry])])"
    unfolding index_dump_def dumped dump_text bnd_simps sample_loads [OF sample_printable(1)]
    using written_small(1) by (simp add: guard_simps MAX_DUMP_def)
  show "index_dump sample_apk base_adb = Inr (JObj [(''packages'', JArr [libc_entry])])"
    unfolding index_dump_def dumped dump_text bnd_simps sample_loads [OF sample_printable(2)]
    using written_small(2) by (simp add: guard_simps MAX_DUMP_def)
qed

lemma quiet_verify [simp]: "run_apk (apk_verify sample_apk keys raw) = Inr []"
  by (simp add: sample_apk_def run_apk_def guard_simps encode_ascii_def)

lemma sample_keys_open:
  "trust_key_step tagged_hash sample_bundle factory (JStr ''foxhole'') (JStr ''foxhole-openwrt-apk.pem'') (ks, []) =
     Inr (ks @ [(''foxhole-openwrt-apk.pem'', own_pem)], [(''foxhole-openwrt-apk.pem'', own_pem)])"
  "trust_key_step tagged_hash sample_bundle [sha_of (CHR ''5'')] (JStr ''upstream'') (JStr ''openwrt.pem'')
     (ks, [(''foxhole-openwrt-apk.pem'', own_pem)]) =
     Inr (ks @ [(''openwrt.pem'', base_pem)], [(''foxhole-openwrt-apk.pem'', own_pem), (''openwrt.pem'', base_pem)])"
  by (simp_all add: trust_key_step_def sample_assets sample_patterns guard_simps own_pem_def [THEN arg_cong, of length]
      base_pem_def [THEN arg_cong, of length])

lemma sample_open:
  "fold_res (open_index tagged_hash sample_apk sample_bundle [sha_of (CHR ''5'')]) [sample_own_index, sample_base_index]
       \<lparr>opened = [], combined = []\<rparr> =
     Inr \<lparr>opened = [(''own.adb'', own_opened), (''base.adb'', base_opened)],
          combined = [(''foxhole-openwrt-apk.pem'', own_pem), (''openwrt.pem'', base_pem)]\<rparr>"
proof -
  have sizes: "length own_adb = 10" "length base_adb = 20" by (simp_all add: sample_files)
  have "open_index tagged_hash sample_apk sample_bundle [sha_of (CHR ''5'')] sample_own_index \<lparr>opened = [], combined = []\<rparr> =
     Inr \<lparr>opened = [(''own.adb'', own_opened)], combined = [(''foxhole-openwrt-apk.pem'', own_pem)]\<rparr>"
    by (simp add: open_index_def sample_own_index_def sample_assets sample_patterns guard_simps sizes py_eq_def
        sample_keys_open sample_dump own_opened_def)
  moreover have "open_index tagged_hash sample_apk sample_bundle [sha_of (CHR ''5'')] sample_base_index
       \<lparr>opened = [(''own.adb'', own_opened)], combined = [(''foxhole-openwrt-apk.pem'', own_pem)]\<rparr> =
     Inr \<lparr>opened = [(''own.adb'', own_opened), (''base.adb'', base_opened)],
          combined = [(''foxhole-openwrt-apk.pem'', own_pem), (''openwrt.pem'', base_pem)]\<rparr>"
    by (simp add: open_index_def sample_base_index_def sample_assets sample_patterns guard_simps sizes py_eq_def
        sample_keys_open sample_dump base_opened_def)
  ultimately show ?thesis by simp
qed

definition staged_indexes :: "(string \<times> opened_index) list" where
  "staged_indexes =
     [(''own.adb'', own_opened\<lparr>index_dir := [(''packages.adb'', own_adb), (''foxhole-openwrt-client-1.0.0-r1.apk'', client_apk)]\<rparr>),
      (''base.adb'', base_opened\<lparr>index_dir := [(''packages.adb'', base_adb), (''libc-1.2.5-r5.apk'', libc_apk)]\<rparr>)]"

lemma sample_bound:
  "fold_res (check_binding tagged_hash sample_apk sample_bundle sample_packages OWN) sample_binding_list
       [(''own.adb'', own_opened), (''base.adb'', base_opened)] = Inr staged_indexes"
proof -
  let ?b = "sample_binding_list"
  have two: "?b = [?b ! 0, ?b ! 1]" by (simp add: sample_binding_list_def)
  have ids: "identity (?b ! 0) = Inr (''foxhole-openwrt-client'', ''1.0.0-r1'', ''noarch'')"
      "identity (?b ! 1) = Inr (''libc'', ''1.2.5-r5'', ''x86_64'')"
    by (simp_all add: sample_binding_list_def identity_def field_matches_def guard_simps sample_patterns)
  then have matches: "filter_res (entry_matches (?b ! 0)) [client_entry] = Inr [client_entry]"
      "filter_res (entry_matches (?b ! 1)) [libc_entry] = Inr [libc_entry]"
    by (simp_all add: entry_matches_def entry_identity_def client_entry_def libc_entry_def)
  have "check_binding tagged_hash sample_apk sample_bundle sample_packages OWN (?b ! 0)
       [(''own.adb'', own_opened), (''base.adb'', base_opened)] =
     Inr [hd staged_indexes, (''base.adb'', base_opened)]"
    using matches(1)
    by (simp add: check_binding_def sample_binding_list_def own_opened_def guard_simps client_entry_def py_eq_def
        find_record_def sample_packages_def sample_assets sample_asset_names stage_file_def raw_name_def update_index_def
        staged_indexes_def OWN_def)
  moreover have "check_binding tagged_hash sample_apk sample_bundle sample_packages OWN (?b ! 1)
       [hd staged_indexes, (''base.adb'', base_opened)] = Inr staged_indexes"
    using matches(2)
    by (simp add: check_binding_def sample_binding_list_def base_opened_def guard_simps libc_entry_def py_eq_def
        find_record_def sample_packages_def sample_assets sample_asset_names stage_file_def raw_name_def update_index_def
        staged_indexes_def OWN_def)
  ultimately have "fold_res (check_binding tagged_hash sample_apk sample_bundle sample_packages OWN) [?b ! 0, ?b ! 1]
      [(''own.adb'', own_opened), (''base.adb'', base_opened)] = Inr staged_indexes"
    by (simp only: fold_res.simps bnd_simps)
  then show ?thesis unfolding two [symmetric] .
qed

definition sample_world :: solver where
  "sample_world = \<lparr>solver_arch = ''x86_64'', repositories = map (\<lambda>(n, oi). (n, index_dir oi)) staged_indexes,
     solver_keys = [(''foxhole-openwrt-apk.pem'', own_pem), (''openwrt.pem'', base_pem)]\<rparr>"

abbreviation sample_roots :: json where
  "sample_roots \<equiv> JArr (map JStr [''foxhole-openwrt-client''])"

lemma sample_requests: "solver_requests sample_packages sample_roots = Inr [''foxhole-openwrt-client=1.0.0-r1'']"
proof -
  have "py_sorted sample_roots = Inr (JArr [JStr ''foxhole-openwrt-client''])"
    by (subst py_sorted_strs) simp
  then show ?thesis by (simp add: solver_requests_def last_package_def sample_packages_def)
qed

lemma sample_solved: "solve tagged_hash sample_apk sample_world sample_packages sample_roots = Inr ()"
proof -
  have query: "apk_query sample_apk w rs = Inr (encode_ascii (write_value (JArr [client_entry, libc_entry])), [])" for w rs
    by (simp add: sample_apk_def)
  have select: "check_selection sample_apk w sample_packages rs = Inr ()" for w rs
    unfolding check_selection_def query dump_text bnd_simps sample_loads [OF sample_printable(3)]
    by (simp add: guard_simps Let_def sample_packages_def package_triple_def entry_identity_def client_entry_def
        libc_entry_def same_set_def)
  have quiet: "run_apk (Inr ([], [])) = Inr []" by (simp add: run_apk_def guard_simps encode_ascii_def)
  have tool: "apk_initdb sample_apk w = Inr ([], [])" "apk_simulate sample_apk w rs = Inr ([], [])"
    "apk_fetch sample_apk w rs = Inr (([], []),
       [(''foxhole-openwrt-client-1.0.0-r1.apk'', client_apk), (''libc-1.2.5-r5.apk'', libc_apk)])" for w rs
    by (simp_all add: sample_apk_def)
  have fetched: "check_fetched tagged_hash sample_packages
       [(''foxhole-openwrt-client-1.0.0-r1.apk'', client_apk), (''libc-1.2.5-r5.apk'', libc_apk)] = Inr ()"
    by (simp add: check_fetched_def sample_packages_def fetch_name_def raw_name_def same_set_def guard_simps last_package_def)
  show ?thesis
    unfolding solve_def tool quiet bnd_simps sample_requests select prod.case fetched lift_res_simps
    by (simp add: guard_simps sample_packages_def)
qed

lemma sample_closure_verified:
  "\<exists>receipt. verify_indexed tagged_hash sample_apk sample_bundle sample_closure sample_packages sample_roots ''x86_64''
     sample_factory None = Inr receipt"
proof -
  have roots: "refuse [Inr (\<not> truthy sample_roots),
                  bnd (element_set sample_roots) (\<lambda>s. lift_res (\<lambda>n. card (set s) \<noteq> n) (len sample_roots)),
                  lift_res (\<lambda>s. \<not> set s \<subseteq> JStr ` set (map pkg_name sample_packages)) (element_set sample_roots)]
            ''Exact nonempty indexed root packages required'' = Inr ()"
    by (simp add: guard_simps element_set_def sample_packages_def)
  have canonical: "refuse [Inr ([sha_of (CHR ''5'')] = []), Inr (CANONICAL_PUBLIC_SHA \<in> set [sha_of (CHR ''5'')])]
            ''Independent original firmware trust keys required'' = Inr ()"
    by (simp add: guard_simps sha_of_eq)
  have free: "fst ` set staged_indexes \<inter> {''repositories.list'', ''database'', ''cache'', ''verified-fetch''} = {}"
    by (simp add: staged_indexes_def)
  have source: "bnd (sub sample_closure ''verification'') (\<lambda>v. sub v ''factorySourceSha256'') = Inr (JStr (sha_of (CHR ''a'')))"
    by (simp add: sample_closure_def)
  show ?thesis
    unfolding verify_indexed_def Let_def sample_schema bnd_simps prod.case option.case sample_factory_digests canonical
      sample_anchored sample_key_bytes roots sample_open verify_state.simps sample_bound free simp_thms if_True
      sample_world_def [symmetric] sample_solved source
    by blast
qed

theorem verified_package_authentic_witness:
  "\<exists>receipt. verify_indexed tagged_hash sample_apk sample_bundle sample_closure sample_packages sample_roots ''x86_64''
       sample_factory None = Inr receipt \<and>
     (\<exists>binding ifile. identity binding = Inr (''libc'', ''1.2.5-r5'', ''x86_64'') \<and>
        sub binding ''indexFile'' = Inr (JStr ifile) \<and> (\<exists>raw. regular_at sample_bundle ifile raw))"
proof -
  obtain receipt where ok: "verify_indexed tagged_hash sample_apk sample_bundle sample_closure sample_packages sample_roots
      ''x86_64'' sample_factory None = Inr receipt"
    using sample_closure_verified by blast
  have "sample_packages ! 1 \<in> set sample_packages" by (simp add: sample_packages_def)
  from verified_package_authentic [OF ok this] ok show ?thesis
    by (auto simp: sample_packages_def)
qed

theorem verified_selection_complete_witness:
  "\<exists>receipt world selected ids. verify_indexed tagged_hash sample_apk sample_bundle sample_closure sample_packages sample_roots
       ''x86_64'' sample_factory None = Inr receipt \<and>
     map_res entry_identity selected = Inr ids \<and> mset (map canon_triple ids) = mset (map package_triple sample_packages) \<and>
     from_assets sample_bundle (solver_keys (world :: solver))"
proof -
  obtain receipt where ok: "verify_indexed tagged_hash sample_apk sample_bundle sample_closure sample_packages sample_roots
      ''x86_64'' sample_factory None = Inr receipt"
    using sample_closure_verified by blast
  from verified_selection_complete [OF ok] ok show ?thesis
    by (elim exE conjE) (intro exI conjI, assumption+)
qed

end
