(* ===== verification/Package_Budget.thy ===== *)
theory Package_Budget
  imports Indexed_Verify Package_Inputs
begin

text \<open>
  package-budget.py: the metadata of each APK, the installation closure, the extraction receipts of the
  Core and server packages, and the budget document. A path is a directory of the model with a name; an
  extracted package is the list of its nodes by path components. The commands of \<open>apk\<close> are those of
  \<open>apk_tool\<close>; \<open>hash\<close> is SHA-256.
\<close>

type_synonym fpath = "directory \<times> string"
type_synonym extracted = "(string list \<times> file_entry) list"

section \<open>Files and sizes\<close>

definition file_hash :: "hash_fun \<Rightarrow> fpath \<Rightarrow> string res" where
  "file_hash hash p =
     lift_res (\<lambda>e. hash (content e)) (some_or ''Regular artifact required'' (plain_file (fst p) (snd p)))"

definition path_bytes :: "fpath \<Rightarrow> bytes res" where
  "path_bytes p = read_bytes (fst p) (snd p)"

definition path_size :: "fpath \<Rightarrow> int res" where
  "path_size p = lift_res (\<lambda>b. int (length b)) (path_bytes p)"

definition MAX_BYTES :: int where
  "MAX_BYTES = 2 ^ 53 - 1"

definition number :: "json \<Rightarrow> int res" where
  "number v = (case v of
     JInt i \<Rightarrow> if 0 \<le> i \<and> i \<le> MAX_BYTES then Inr i else Inl (ValueError ''Invalid package size'')
   | _ \<Rightarrow> Inl (ValueError ''Invalid package size''))"

section \<open>Dependency expressions\<close>

definition dep_class :: char_class where
  "dep_class = alnum @ [(CHR ''_'', CHR ''_''), (CHR ''.'', CHR ''.''), (CHR ''+'', CHR ''+''), (CHR '':'', CHR '':''),
     (CHR ''/'', CHR ''/''), (CHR '','', CHR '',''), (CHR ''['', CHR ''[''), (CHR '']'', CHR '']''), (CHR ''-'', CHR ''-'')]"

definition any_but_newline :: char_class where
  "any_but_newline = [(CHR 0x00, CHR 0x09), (CHR 0x0B, CHR 0xFF)]"

definition order_class :: char_class where
  "order_class = [(CHR ''<'', CHR ''<''), (CHR ''>'', CHR ''>''), (CHR ''~'', CHR ''~'')]"

definition DEPENDENCY :: rx where
  "DEPENDENCY = Seq (ropt (lit ''!'')) (Seq (rplus (Cls dep_class))
     (ropt (Seq (Alt (Seq (Cls order_class) (ropt (lit ''=''))) (lit ''='')) (rplus (Cls any_but_newline)))))"

text \<open>
  The groups of the match. The parts cannot overlap, except that an equals sign after an order sign
  belongs to the operator when a version follows it.
\<close>

definition dependency_version :: "string \<Rightarrow> string \<Rightarrow> (string option \<times> string option) res" where
  "dependency_version op v =
     (if v \<noteq> [] \<and> list_all (in_cls any_but_newline) v then Inr (Some op, Some v)
      else Inl (ValueError ''Unsupported dependency expression''))"

definition dependency_tail :: "string \<Rightarrow> (string option \<times> string option) res" where
  "dependency_tail w = (case w of
     [] \<Rightarrow> Inr (None, None)
   | c # rest \<Rightarrow>
       if in_cls order_class c then
         (if take 1 rest = ''='' \<and> 2 \<le> length rest then dependency_version [c, CHR ''=''] (drop 1 rest)
          else dependency_version [c] rest)
       else if c = CHR ''='' then dependency_version [c] rest
       else Inl (ValueError ''Unsupported dependency expression''))"

definition dependency :: "string \<Rightarrow> (string \<times> string \<times> string option \<times> string option) res" where
  "dependency raw =
     (let bang = takeWhile (\<lambda>c. c = CHR ''!'') (take 1 raw); body = drop (length bang) raw;
          name = takeWhile (in_cls dep_class) body
      in if name = [] then Inl (ValueError ''Unsupported dependency expression'')
         else lift_res (\<lambda>(op, v). (bang, name, op, v)) (dependency_tail (dropWhile (in_cls dep_class) body)))"

section \<open>Package metadata\<close>

definition str_list :: "json \<Rightarrow> string \<Rightarrow> string list res" where
  "str_list v key =
     bnd (get_or v key (JArr [])) (\<lambda>xs.
     bnd (refuse [Inr (\<not> is_arr xs), lift_res (\<lambda>ys. \<not> list_all is_str ys) (iter xs)] ''APK dependencies are missing'') (\<lambda>_.
     bnd (iter xs) (map_res as_str)))"

definition metadata :: "hash_fun \<Rightarrow> apk_tool \<Rightarrow> fpath \<Rightarrow> package res" where
  "metadata hash apk p =
     bnd (some_or ''APK must be a regular file'' (plain_file (fst p) (snd p))) (\<lambda>e.
     bnd (lift_res fst (apk_dump apk (content e))) (\<lambda>out.
     bnd (refuse [Inr (8 * 1024 * 1024 < int (length out))] ''APK metadata exceeds limit'') (\<lambda>_.
     bnd (bnd (bnd (decode_ascii out) loads) (\<lambda>doc. sub doc ''info'')) (\<lambda>v.
     bnd (each_res (\<lambda>key. refuse [lift_res (\<lambda>x. \<not> nonempty_str x) (get v key)] ''APK identity is missing'')
            [''name'', ''version'', ''arch'']) (\<lambda>_.
     bnd (bnd (get v ''installed-size'') number) (\<lambda>installed.
     bnd (str_list v ''depends'') (\<lambda>deps.
     bnd (str_list v ''provides'') (\<lambda>provs.
     bnd (number (JInt (file_bytes e))) (\<lambda>archive.
     bnd (bnd (sub v ''name'') as_str) (\<lambda>n. bnd (bnd (sub v ''version'') as_str) (\<lambda>ver. bnd (bnd (sub v ''arch'') as_str) (\<lambda>arch.
     Inr \<lparr>pkg_name = n, pkg_version = ver, pkg_arch = arch, installed_bytes = installed, archive_bytes = archive,
          pkg_file = snd p, pkg_sha256 = hash (content e), depends = deps, provides = provs\<rparr>))))))))))))"

definition package_json :: "package \<Rightarrow> json" where
  "package_json p = JObj [(''name'', JStr (pkg_name p)), (''version'', JStr (pkg_version p)), (''arch'', JStr (pkg_arch p)),
     (''installedBytes'', JInt (installed_bytes p)), (''archiveBytes'', JInt (archive_bytes p)), (''file'', JStr (pkg_file p)),
     (''sha256'', JStr (pkg_sha256 p)), (''depends'', JArr (map JStr (depends p))), (''provides'', JArr (map JStr (provides p)))]"

section \<open>The installation closure\<close>

text \<open>\<open>keys\<close> is \<open>None\<close> when no directory of keys was given or it is not a plain directory.\<close>

definition factory_part :: "hash_fun \<Rightarrow> directory \<Rightarrow> directory" where
  "factory_part hash keys = keys\<lparr>entries :=
     filter (\<lambda>e. ftype (snd e) = Regular \<and> hash (content (snd e)) \<noteq> CANONICAL_PUBLIC_SHA) (entries keys)\<rparr>"

definition closure :: "hash_fun \<Rightarrow> apk_tool \<Rightarrow> package list \<Rightarrow> json \<Rightarrow> fpath list \<Rightarrow> string \<Rightarrow> directory option \<Rightarrow> bool \<Rightarrow>
    json \<Rightarrow> directory option \<Rightarrow> directory option \<Rightarrow> json res" where
  "closure hash apk packages roots paths architecture keys development authentication bundle factory_keys =
     (let names = map pkg_name packages in
     bnd (refuse [Inr (packages = []), Inr (\<not> truthy roots), Inr (length paths \<noteq> length packages), Inr (\<not> distinct names),
                  lift_res (\<lambda>s. \<not> set s \<subseteq> JStr ` set names) (element_set roots)]
            ''Duplicate packages or missing roots'') (\<lambda>_.
     bnd (each_res (\<lambda>p. each_res (\<lambda>raw. lift_res (\<lambda>_. ()) (dependency raw)) (provides p @ depends p)) packages) (\<lambda>_.
     if authentication \<noteq> JNull then
       bnd (some_or ''Original indexed repository authority required'' bundle) (\<lambda>dir.
       bnd (case factory_keys of
              Some f \<Rightarrow> Inr f
            | None \<Rightarrow> lift_res (factory_part hash) (some_or ''Original firmware trust keys required'' keys)) (\<lambda>factory.
       verify_indexed hash apk dir authentication packages roots architecture factory None))
     else if \<not> development then Inl (ValueError ''Original signed repository indexes are required'')
     else let world = \<lparr>solver_arch = architecture, repositories = [], solver_keys = []\<rparr> in
       bnd (apk_initdb apk world) (\<lambda>_. bnd (apk_simulate apk world (map snd paths)) (\<lambda>_. Inr JNull)))))"

section \<open>Files of an extracted package\<close>

text \<open>\<open>safe\<close>: every component from the root is looked at, a symbolic link on the way is refused.\<close>

fun walk :: "extracted \<Rightarrow> string \<Rightarrow> string list \<Rightarrow> string list \<Rightarrow> file_entry res" where
  "walk tree who done [] =
     (case map_of tree done of
        Some e \<Rightarrow> if ftype e = Regular then Inr e else Inl (ValueError (who @ '' payload file is absent''))
      | None \<Rightarrow> Inl (ValueError (who @ '' payload file is absent'')))"
| "walk tree who done (p # ps) =
     (case map_of tree (done @ [p]) of
        Some e \<Rightarrow> if ftype e = Symlink then Inl (ValueError (who @ '' payload contains a symlink''))
                  else walk tree who (done @ [p]) ps
      | None \<Rightarrow> walk tree who (done @ [p]) ps)"

definition safe :: "extracted \<Rightarrow> string \<Rightarrow> string \<Rightarrow> file_entry res" where
  "safe tree who relative = walk tree who [] (filter (\<lambda>p. p \<noteq> [] \<and> p \<noteq> ''.'') (split_on (CHR ''/'') relative))"

definition text_lines :: "file_entry \<Rightarrow> string list res" where
  "text_lines e = lift_res splitlines (decode_ascii (content e))"

definition find_path :: "fpath list \<Rightarrow> string \<Rightarrow> fpath res" where
  "find_path paths n = (case find (\<lambda>p. snd p = n) paths of None \<Rightarrow> Inl StopIteration | Some p \<Rightarrow> Inr p)"

definition payload_receipt :: "hash_fun \<Rightarrow> fpath \<Rightarrow> string \<Rightarrow> fpath \<Rightarrow> json res" where
  "payload_receipt hash package digest producer_path =
     bnd (file_hash hash package) (\<lambda>sha. bnd (file_hash hash producer_path) (\<lambda>producer_sha.
     Inr (JObj [(''file'', JStr (snd package)), (''sha256'', JStr sha), (''binarySha256'', JStr digest),
        (''producerSha256'', JStr producer_sha), (''payloadVerified'', JBool True)])))"

section \<open>The Core package\<close>

definition core_ram_digest :: "hash_fun \<Rightarrow> extracted \<Rightarrow> json \<Rightarrow> fpath option \<Rightarrow> string res" where
  "core_ram_digest hash tree producer volatile =
     bnd (some_or ''Core RAM payload required'' volatile) (\<lambda>vol.
     bnd (bnd (safe tree ''Core'' ''usr/share/foxhole/core-download.txt'') text_lines) (\<lambda>lines.
     bnd (refuse [Inr (length lines \<noteq> 4), lift_res (\<lambda>x. JStr (lines ! 1) \<noteq> x) (sub producer ''binarySha256''),
                  lift_res (\<lambda>n. lines ! 2 \<noteq> str_of_int n) (path_size vol)]
            ''Core RAM wrapper does not bind the volatile producer'') (\<lambda>_.
     bnd (refuse [Inr (\<not> py_isdigit (lines ! 3)), lift_res (\<lambda>n. n < 1) (int_of_isdigit (lines ! 3))]
            ''Core RAM wrapper runtime reserve is missing'') (\<lambda>_.
     file_hash hash vol))))"

definition verify_core_payload :: "hash_fun \<Rightarrow> apk_tool \<Rightarrow> fpath list \<Rightarrow> package list \<Rightarrow> json \<Rightarrow> fpath \<Rightarrow> string \<Rightarrow> bool \<Rightarrow>
    fpath option \<Rightarrow> json res" where
  "verify_core_payload hash apk paths packages producer producer_path mode development volatile =
     (let expected = (if mode = ''flash'' then ''foxcore-cli'' else ''foxcore-cli-ram'');
          core = filter (\<lambda>p. pkg_name p \<in> {''foxcore-cli'', ''foxcore-cli-ram''}) packages in
     bnd (refuse [Inr (length core \<noteq> 1), Inr (pkg_name (hd core) \<noteq> expected)]
            ''Exactly one matching Core storage package required'') (\<lambda>_.
     bnd (find_path paths (pkg_file (hd core))) (\<lambda>package.
     bnd (bnd (path_bytes package) (apk_extract apk development)) (\<lambda>tree.
     bnd (safe tree ''Core'' ''usr/share/foxhole/core-producer.json'') (\<lambda>receipt.
     bnd (refuse [lift_res (\<lambda>h. hash (content receipt) \<noteq> h) (file_hash hash producer_path)]
            ''Core APK contains a different native producer'') (\<lambda>_.
     bnd (each_res (\<lambda>name. refuse [bnd (safe tree ''Core'' (''usr/share/licenses/foxcore-cli/'' @ name)) (\<lambda>e.
              lift_res (\<lambda>x. JStr (hash (content e)) \<noteq> x) (bnd (sub producer ''filesSha256'') (\<lambda>f. sub f name)))]
              ''Core APK license digest mismatch'') [''LICENSE'', ''THIRD_PARTY_NOTICES.md'']) (\<lambda>_.
     bnd (if mode = ''flash'' then lift_res (\<lambda>e. hash (content e)) (safe tree ''Core'' ''usr/bin/foxcore-cli'')
          else core_ram_digest hash tree producer volatile) (\<lambda>digest.
     bnd (refuse [lift_res (\<lambda>x. JStr digest \<noteq> x) (sub producer ''binarySha256'')]
            ''Installed Core binary differs from the native producer'') (\<lambda>_.
     payload_receipt hash package digest producer_path)))))))))"

section \<open>The server package\<close>

definition SERVER_PACKAGES :: "string list" where
  "SERVER_PACKAGES = [''hysteria'', ''hysteria-server-ram'', ''hysteria-ram'']"

definition payload_static_elf :: "bytes \<Rightarrow> int \<Rightarrow> unit res" where
  "payload_static_elf raw machine =
     (let header = take 64 raw in
      bnd (refuse [Inr (length header \<noteq> 64), Inr (take 6 header \<noteq> elf_magic),
                   lift_res (\<lambda>m. m \<noteq> machine) (unpack 2 header 18)]
             ''Expected server ELF required'') (\<lambda>_.
      bnd (unpack 8 header 32) (\<lambda>offset.
      bnd (unpack 2 header 54) (\<lambda>esize.
      bnd (unpack 2 header 56) (\<lambda>count.
      bnd (refuse [Inr (esize < 56), Inr (128 < count)] ''Invalid server ELF program headers'') (\<lambda>_.
      each_res (\<lambda>i. static_header_step raw offset esize ''Static server producer required'' (int i)) [0..<nat count]))))))"

definition license_name :: rx where
  "license_name = rplus (Cls (alnum @ [(CHR ''_'', CHR ''_''), (CHR ''.'', CHR ''.''), (CHR ''-'', CHR ''-'')]))"

definition commit_rx :: rx where
  "commit_rx = Rep (Cls [(CHR ''a'', CHR ''f''), (CHR ''0'', CHR ''9'')]) 40 40"

definition server_producer :: "hash_fun \<Rightarrow> json \<Rightarrow> directory \<Rightarrow> unit res" where
  "server_producer hash producer dir =
     bnd (refuse [int_not producer ''schema'' 1, int_not producer ''exitCode'' 0,
                  lift_res (\<lambda>x. x \<noteq> JStr ''hysteria'') (get producer ''name''),
                  lift_res (\<lambda>x. x \<noteq> JStr ''2.12.2'') (get producer ''version''),
                  lift_res (\<lambda>x. x \<noteq> JStr SOURCE_SHA) (get producer ''sourceSha256'')]
            ''Actual incoming server source producer required'') (\<lambda>_.
     bnd (prov_verify hash producer dir) (\<lambda>_.
     refuse [lift_res (\<lambda>s. \<not> same_set s (map JStr (LICENSES @ PROVENANCE_FILES)))
               (bnd (get_or producer ''filesSha256'' (JObj [])) element_set),
             not_res (bnd (get_or producer ''sourceCommit'' (JStr [])) (fullmatch commit_rx)),
             lift_res (\<lambda>f. py_ne f (JArr (map JStr [''incoming-hysteria2'', ''legacy-outgoing-hysteria2''])))
               (bnd (get_or producer ''features'' (JArr [])) py_sorted)]
       ''Complete incoming server provenance required''))"

definition server_target :: "string \<Rightarrow> (string \<times> int) option" where
  "server_target architecture =
     (if architecture = ''x86_64'' then Some (''linux-amd64'', 62)
      else if architecture \<in> {''aarch64_generic'', ''aarch64_cortex-a53''} then Some (''linux-arm64'', 183) else None)"

definition server_licenses_in :: "hash_fun \<Rightarrow> extracted \<Rightarrow> json \<Rightarrow> unit res" where
  "server_licenses_in hash tree producer =
     bnd (bnd (sub producer ''filesSha256'') items_of) (each_res (\<lambda>(name, digest).
       refuse [Inr (\<not> rmatch license_name name),
               lift_res (\<lambda>e. JStr (hash (content e)) \<noteq> digest) (safe tree ''Server'' (''usr/share/licenses/hysteria/'' @ name))]
         ''Server license producer digest mismatch''))"

text \<open>The binary and its digest; in RAM mode the wrapper's lines bind the volatile file.\<close>

definition server_binary :: "hash_fun \<Rightarrow> extracted \<Rightarrow> json \<Rightarrow> string \<Rightarrow> fpath option \<Rightarrow> (bytes \<times> string) res" where
  "server_binary hash tree producer mode volatile =
     (if mode = ''flash'' then lift_res (\<lambda>e. (content e, hash (content e))) (safe tree ''Server'' ''usr/bin/hysteria'')
      else
        bnd (some_or ''Exact volatile server binary required'' volatile) (\<lambda>vol.
        bnd (bnd (safe tree ''Server'' ''usr/share/foxhole/hysteria-server-download.txt'') text_lines) (\<lambda>lines.
        bnd (refuse [Inr (length lines \<noteq> 4), lift_res (\<lambda>x. JStr (lines ! 1) \<noteq> x) (sub producer ''binarySha256''),
                     lift_res (\<lambda>n. lines ! 2 \<noteq> str_of_int n) (path_size vol),
                     Inr (\<not> py_isdigit (lines ! 3)), lift_res (\<lambda>n. n < 1) (int_of_isdigit (lines ! 3))]
               ''Server RAM wrapper producer binding mismatch'') (\<lambda>_.
        bnd (file_hash hash vol) (\<lambda>digest. lift_res (\<lambda>b. (b, digest)) (path_bytes vol))))))"

definition verify_server_payload :: "hash_fun \<Rightarrow> apk_tool \<Rightarrow> fpath list \<Rightarrow> package list \<Rightarrow> fpath \<Rightarrow> string \<Rightarrow> bool \<Rightarrow>
    fpath option \<Rightarrow> json res" where
  "verify_server_payload hash apk paths packages producer_path mode development volatile =
     bnd (read_json (fst producer_path) (snd producer_path)) (\<lambda>producer.
     let expected = (if mode = ''flash'' then ''hysteria'' else ''hysteria-server-ram'');
         found = filter (\<lambda>p. pkg_name p \<in> set SERVER_PACKAGES) packages in
     bnd (refuse [Inr (length found \<noteq> 1), Inr (pkg_name (hd found) \<noteq> expected)]
            ''Exactly one separate incoming server package required'') (\<lambda>_.
     bnd (server_producer hash producer (fst producer_path)) (\<lambda>_.
     bnd (some_or ''Incoming server architecture differs'' (server_target (pkg_arch (hd found)))) (\<lambda>(target, machine).
     bnd (refuse [lift_res (\<lambda>x. x \<noteq> JStr target) (get producer ''target'')] ''Incoming server architecture differs'') (\<lambda>_.
     bnd (find_path paths (pkg_file (hd found))) (\<lambda>package.
     bnd (bnd (path_bytes package) (apk_extract apk development)) (\<lambda>tree.
     bnd (safe tree ''Server'' ''usr/share/foxhole/hysteria-producer.json'') (\<lambda>receipt.
     bnd (refuse [lift_res (\<lambda>h. hash (content receipt) \<noteq> h) (file_hash hash producer_path)]
            ''Server APK contains a different source producer'') (\<lambda>_.
     bnd (server_licenses_in hash tree producer) (\<lambda>_.
     bnd (server_binary hash tree producer mode volatile) (\<lambda>(binary, digest).
     bnd (refuse [lift_res (\<lambda>x. JStr digest \<noteq> x) (sub producer ''binarySha256'')]
            ''Server binary differs from the actual producer'') (\<lambda>_.
     bnd (refuse [lift_res (\<lambda>n. n \<noteq> int (length binary)) (bnd (get producer ''binaryBytes'') number)]
            ''Server producer byte count differs'') (\<lambda>_.
     bnd (payload_static_elf binary machine) (\<lambda>_.
     payload_receipt hash package digest producer_path))))))))))))))"

section \<open>The budget\<close>

record budget_args =
  arg_bundle :: directory
  arg_roots :: "string list"
  arg_architecture :: string
  arg_openwrt :: string
  arg_target :: string
  arg_mode :: string
  arg_volatile :: "fpath option"
  arg_volatile_sha256 :: "string option"
  arg_core_producer :: fpath
  arg_server_producer :: fpath
  arg_server_volatile :: "fpath option"
  arg_capabilities :: fpath
  arg_keys :: "directory option"
  arg_auth :: fpath
  arg_factory_keys :: directory
  arg_development :: bool
  arg_flash_reserve :: int
  arg_ram_reserve :: int
  arg_runtime_memory :: int
  arg_memory_evidence :: fpath

definition read_document :: "fpath \<Rightarrow> json res" where
  "read_document p = read_json (fst p) (snd p)"

definition memory_evidence_ok :: "json \<Rightarrow> int \<Rightarrow> unit res" where
  "memory_evidence_ok evidence runtime_memory =
     refuse [int_not evidence ''schema'' 1,
             lift_res (\<lambda>x. x \<noteq> JStr ''measured'' \<and> x \<noteq> JStr ''conservative'') (get evidence ''type''),
             lift_res (\<lambda>x. \<not> nonempty_str x) (get evidence ''description''),
             lift_res (\<lambda>n. n \<noteq> runtime_memory) (bnd (get evidence ''runtimeMemoryBytes'') number),
             Inr (runtime_memory = 0)]
       ''Explicit runtime memory evidence or conservative policy required''"

definition receipts_ok :: "json \<Rightarrow> json \<Rightarrow> unit res" where
  "receipts_ok producer capabilities =
     bnd (get producer ''protocols'') (\<lambda>protocols.
     refuse [int_not producer ''schema'' 1, int_not producer ''exitCode'' 0,
             int_not capabilities ''schema_version'' 1, int_not capabilities ''router_contract_version'' 1,
             lift_res (\<lambda>x. x \<noteq> JStr ''linux'') (get capabilities ''platform''),
             bnd (get capabilities ''core_version'') (\<lambda>a. lift_res (py_ne a) (get producer ''coreVersion'')),
             Inr (\<not> is_arr protocols), Inr (\<not> truthy protocols),
             bnd (bnd (get_or capabilities ''protocols'' (JArr [])) py_sorted) (\<lambda>a. lift_res (py_ne a) (py_sorted protocols))]
       ''Actual native producer and capability receipts required'')"

definition glob_apk :: "directory \<Rightarrow> string list" where
  "glob_apk dir = sort (filter (\<lambda>n. 4 \<le> length n \<and> drop (length n - 4) n = ''.apk'') (map fst (entries dir)))"

text \<open>The bytes that are kept in RAM, those of the server among them.\<close>

definition volatile_bytes :: "hash_fun \<Rightarrow> budget_args \<Rightarrow> (int \<times> int) res" where
  "volatile_bytes hash args =
     (if arg_mode args = ''ram'' then
        bnd (case arg_volatile args of
               None \<Rightarrow> Inl (ValueError ''Verified volatile binary is required'')
             | Some p \<Rightarrow> some_or ''Verified volatile binary is required'' (plain_file (fst p) (snd p))) (\<lambda>e.
        bnd (refuse [Inr (Some (hash (content e)) \<noteq> arg_volatile_sha256 args)] ''Volatile binary producer hash mismatch'') (\<lambda>_.
        bnd (number (JInt (file_bytes e))) (\<lambda>core.
        bnd (case arg_server_volatile args of None \<Rightarrow> Inl AttributeError | Some p \<Rightarrow> path_size p) (\<lambda>size.
        bnd (number (JInt size)) (\<lambda>server.
        Inr (core + server, server))))))
      else
        bnd (refuse [Inr (arg_volatile args \<noteq> None), Inr (arg_volatile_sha256 args \<noteq> None),
                     Inr (arg_server_volatile args \<noteq> None)] ''Flash mode cannot claim volatile storage'') (\<lambda>_.
        Inr (0, 0)))"

record totals =
  compressed :: int
  installed :: int
  dependency_bytes :: int
  staging :: int

definition package_totals :: "package list \<Rightarrow> string list \<Rightarrow> int \<Rightarrow> int \<Rightarrow> int \<Rightarrow> totals" where
  "package_totals packages roots volatile index_bytes key_bytes =
     (let c = sum_list (map archive_bytes packages); i = sum_list (map installed_bytes packages) in
      \<lparr>compressed = c, installed = i,
       dependency_bytes = sum_list (map installed_bytes (filter (\<lambda>p. pkg_name p \<notin> set roots) packages)),
       staging = 2 * c + i + volatile + 2 * index_bytes + key_bytes\<rparr>)"

text \<open>The byte counts of the document: each passes \<open>number\<close>, except the volatile sum.\<close>

definition byte_fields :: "budget_args \<Rightarrow> totals \<Rightarrow> int \<Rightarrow> (string \<times> int) list" where
  "byte_fields args t runtime_memory =
     [(''compressedBytes'', compressed t), (''installedFlashBytes'', installed t),
      (''dependencyInstalledBytes'', dependency_bytes t), (''stagingBytes'', staging t),
      (''flashReserveBytes'', arg_flash_reserve args), (''ramReserveBytes'', arg_ram_reserve args),
      (''requiredFlashBytes'', installed t + arg_flash_reserve args),
      (''requiredRamBytes'', staging t + runtime_memory + arg_ram_reserve args)]"

definition volatile_fields :: "hash_fun \<Rightarrow> budget_args \<Rightarrow> int \<Rightarrow> int \<Rightarrow> (string \<times> json) list res" where
  "volatile_fields hash args volatile server_bytes =
     (case (arg_volatile args, arg_volatile_sha256 args, arg_server_volatile args) of
        (Some vol, Some sha, Some srv) \<Rightarrow>
          if volatile = 0 then Inr []
          else bnd (path_size vol) (\<lambda>n. bnd (file_hash hash srv) (\<lambda>srv_sha. bnd (file_hash hash (arg_server_producer args)) (\<lambda>prod_sha.
            Inr [(''volatileBinary'', JObj [(''file'', JStr (snd vol)), (''bytes'', JInt n), (''sha256'', JStr sha)]),
                 (''volatileDependencies'', JArr [JObj [(''file'', JStr (snd srv)), (''bytes'', JInt server_bytes),
                    (''sha256'', JStr srv_sha), (''producerFile'', JStr (snd (arg_server_producer args))),
                    (''producerSha256'', JStr prod_sha)]])])))
      | _ \<Rightarrow> if volatile = 0 then Inr [] else Inl AttributeError)"

definition carried :: "json \<Rightarrow> string \<Rightarrow> (string \<times> json) res" where
  "carried authentication key = lift_res (\<lambda>v. (key, v)) (sub authentication key)"

definition budget_value :: "hash_fun \<Rightarrow> budget_args \<Rightarrow> json \<Rightarrow> json \<Rightarrow> package list \<Rightarrow> json \<Rightarrow> json \<Rightarrow> json \<Rightarrow> json \<Rightarrow> json res" where
  "budget_value hash args evidence protocols packages authentication verification core_package server_package =
     bnd (refuse [lift_res (\<lambda>n. n = 0) (number (JInt (arg_flash_reserve args))),
                  lift_res (\<lambda>n. n = 0) (number (JInt (arg_ram_reserve args)))] ''Positive safety reserves required'') (\<lambda>_.
     bnd (volatile_bytes hash args) (\<lambda>(volatile, server_bytes).
     let kernel = filter (\<lambda>p. pkg_name p = ''kernel'') packages in
     bnd (refuse [Inr (length kernel \<noteq> 1)] ''Exact existing firmware kernel ABI is required'') (\<lambda>_.
     bnd (bnd (sub authentication ''repositoryIndexBytes'') number) (\<lambda>index_bytes.
     bnd (bnd (sub authentication ''trustKeyBytes'') number) (\<lambda>key_bytes.
     let t = package_totals packages (arg_roots args) volatile index_bytes key_bytes; runtime_memory = arg_runtime_memory args in
     bnd (py_sorted protocols) (\<lambda>sorted_protocols.
     bnd (file_hash hash (arg_server_producer args)) (\<lambda>server_sha.
     bnd (path_bytes (arg_core_producer args)) (\<lambda>core_raw.
     bnd (path_bytes (arg_capabilities args)) (\<lambda>capabilities_raw.
     bnd (map_res (\<lambda>(k, n). lift_res (\<lambda>m. (k, JInt m)) (number (JInt n))) (byte_fields args t runtime_memory)) (\<lambda>bytes.
     bnd (map_res (carried authentication) [''repositoryIndexes'', ''trustKeys'', ''packageAuthentications'', ''filesSha256'']) (\<lambda>auth.
     bnd (volatile_fields hash args volatile server_bytes) (\<lambda>extra.
     Inr (JObj ([(''schema'', JInt 1), (''architecture'', JStr (arg_architecture args)),
        (''supportedOpenWrt'', JArr [JStr (arg_openwrt args)]), (''mode'', JStr (arg_mode args)),
        (''supportedTargets'', JArr [JStr (arg_target args)]), (''protocols'', sorted_protocols),
        (''rootPackages'', JArr (map JStr (sort (arg_roots args)))), (''corePackage'', core_package),
        (''serverPackage'', server_package), (''serverProducerSha256'', JStr server_sha),
        (''platformPackages'', JObj [(''kernel'', JStr (pkg_version (hd kernel)))]),
        (''coreProducerSha256'', JStr (hash core_raw)), (''capabilitiesSha256'', JStr (hash capabilities_raw)),
        (''installedRamBytes'', JInt volatile), (''packages'', JArr (map package_json packages)),
        (''runtimeMemoryBytes'', JInt runtime_memory), (''memoryEvidence'', evidence),
        (''repositoryIndexBytes'', JInt index_bytes), (''trustKeyBytes'', JInt key_bytes),
        (''verification'', verification)] @ bytes @ auth @ extra))))))))))))))"

definition package_budget :: "hash_fun \<Rightarrow> apk_tool \<Rightarrow> budget_args \<Rightarrow> json res" where
  "package_budget hash apk args =
     bnd (read_document (arg_memory_evidence args)) (\<lambda>evidence.
     bnd (number (JInt (arg_runtime_memory args))) (\<lambda>runtime_memory.
     bnd (memory_evidence_ok evidence runtime_memory) (\<lambda>_.
     bnd (refuse [Inr (arg_target args \<notin> {''armsr/armv8'', ''x86/64'', ''mediatek/filogic''})] ''Actual SDK target required'') (\<lambda>_.
     bnd (read_document (arg_core_producer args)) (\<lambda>producer.
     bnd (read_document (arg_capabilities args)) (\<lambda>capabilities.
     bnd (get producer ''protocols'') (\<lambda>protocols.
     bnd (receipts_ok producer capabilities) (\<lambda>_.
     let paths = map (\<lambda>n. (arg_bundle args, n)) (glob_apk (arg_bundle args)) in
     bnd (refuse [Inr (paths = []), Inr (256 < length paths)] ''Bounded complete APK closure is required'') (\<lambda>_.
     bnd (map_res (metadata hash apk) paths) (\<lambda>packages.
     bnd (refuse [Inr (list_ex (\<lambda>p. pkg_arch p \<notin> {arg_architecture args, ''all'', ''noarch''}) packages)]
            ''APK architecture mismatch'') (\<lambda>_.
     bnd (read_document (arg_auth args)) (\<lambda>authentication.
     bnd (closure hash apk packages (JArr (map JStr (arg_roots args))) paths (arg_architecture args) (arg_keys args)
            (arg_development args) authentication (Some (arg_bundle args)) (Some (arg_factory_keys args))) (\<lambda>verification.
     bnd (verify_core_payload hash apk paths packages producer (arg_core_producer args) (arg_mode args) False
            (arg_volatile args)) (\<lambda>core_package.
     bnd (verify_server_payload hash apk paths packages (arg_server_producer args) (arg_mode args) False
            (arg_server_volatile args)) (\<lambda>server_package.
     budget_value hash args evidence protocols packages authentication verification core_package server_package)))))))))))))))"

text \<open>The document as it is written to the output.\<close>

definition budget_text :: "json \<Rightarrow> string" where
  "budget_text v = dumps v @ [CHR 0x0A]"

section \<open>The dependency pattern\<close>

lemma rmatch_opt: "rmatch (ropt r) w \<longleftrightarrow> w = [] \<or> rmatch r w"
  by (auto simp: ropt_def rmatch_iff)

abbreviation version_rx :: rx where
  "version_rx \<equiv> Seq (Alt (Seq (Cls order_class) (ropt (lit ''=''))) (lit ''='')) (rplus (Cls any_but_newline))"

lemma version_rx_iff:
  "rmatch version_rx w \<longleftrightarrow>
     (\<exists>op v. w = op @ v \<and> v \<noteq> [] \<and> list_all (in_cls any_but_newline) v \<and>
        (op = ''='' \<or> (\<exists>c. in_cls order_class c \<and> (op = [c] \<or> op = [c, CHR ''='']))))"
proof -
  have order: "rmatch (Seq (Cls order_class) (ropt (lit ''=''))) op \<longleftrightarrow>
      (\<exists>c. in_cls order_class c \<and> (op = [c] \<or> op = [c, CHR ''='']))" for op
  proof
    assume "rmatch (Seq (Cls order_class) (ropt (lit ''=''))) op"
    then show "\<exists>c. in_cls order_class c \<and> (op = [c] \<or> op = [c, CHR ''=''])"
      unfolding rmatch_seq_iff rmatch_cls rmatch_opt rmatch_lit by auto
  next
    assume "\<exists>c. in_cls order_class c \<and> (op = [c] \<or> op = [c, CHR ''=''])"
    then obtain c v where "in_cls order_class c" "op = [c] @ v" "v = [] \<or> v = ''=''" by auto
    then show "rmatch (Seq (Cls order_class) (ropt (lit ''=''))) op"
      unfolding rmatch_seq_iff rmatch_cls rmatch_opt rmatch_lit by blast
  qed
  show ?thesis
    unfolding rmatch_seq_iff [of "Alt a b" for a b] rmatch_alt rmatch_lit rmatch_plus_cls order by blast
qed

abbreviation opt_text :: "string option \<Rightarrow> string" where
  "opt_text s \<equiv> (case s of None \<Rightarrow> [] | Some t \<Rightarrow> t)"

lemma dependency_version_iff:
  "dependency_version op v = Inr r \<longleftrightarrow> v \<noteq> [] \<and> list_all (in_cls any_but_newline) v \<and> r = (Some op, Some v)"
  by (auto simp: dependency_version_def)

lemma version_rxI:
  assumes "dependency_version op w = Inr r" and "op = ''='' \<or> (\<exists>c. in_cls order_class c \<and> (op = [c] \<or> op = [c, CHR ''='']))"
  shows "rmatch version_rx (op @ w)" and "r = (Some op, Some w)"
  using assms unfolding dependency_version_iff version_rx_iff by blast+

lemma dependency_tail_cases:
  assumes "dependency_tail w = Inr r"
  obtains "w = []" "r = (None, None)"
    | op v where "w = op @ v" "dependency_version op v = Inr r"
        "op = ''='' \<or> (\<exists>c. in_cls order_class c \<and> (op = [c] \<or> op = [c, CHR ''='']))"
proof (cases w)
  case Nil
  with assms that(1) show thesis by (simp add: dependency_tail_def)
next
  case (Cons c rest)
  show thesis
  proof (cases "in_cls order_class c")
    case True
    show thesis
    proof (cases "take 1 rest = ''='' \<and> 2 \<le> length rest")
      case two: True
      then have "w = [c, CHR ''=''] @ drop 1 rest" using Cons by (cases rest) auto
      with that(2) [of "[c, CHR ''='']" "drop 1 rest"] assms Cons True two show thesis
        by (simp add: dependency_tail_def)
    next
      case False
      with that(2) [of "[c]" rest] assms Cons True show thesis by (simp add: dependency_tail_def split: if_split_asm)
    qed
  next
    case False
    with that(2) [of "[c]" rest] assms Cons show thesis by (simp add: dependency_tail_def split: if_split_asm)
  qed
qed

lemma dependency_tail_ok:
  assumes "dependency_tail w = Inr (op, v)"
  shows "w = opt_text op @ opt_text v" and "rmatch (ropt version_rx) w"
proof -
  have "w = opt_text op @ opt_text v \<and> (w = [] \<or> rmatch version_rx w)"
  proof (cases rule: dependency_tail_cases [OF assms])
    case 1
    then show ?thesis by simp
  next
    case (2 o' v')
    with version_rxI [OF 2(2,3)] show ?thesis by simp
  qed
  then show "w = opt_text op @ opt_text v" and "rmatch (ropt version_rx) w" by (simp_all only: rmatch_opt) auto
qed

lemma equals_char: "in_cls any_but_newline (CHR ''='')" "\<not> in_cls order_class (CHR ''='')"
  by (simp_all add: any_but_newline_def order_class_def in_cls_def)

lemma dependency_tail_total:
  assumes "rmatch (ropt version_rx) w"
  shows "\<exists>op v. dependency_tail w = Inr (op, v)"
proof (cases "w = []")
  case True
  then show ?thesis by (simp add: dependency_tail_def)
next
  case False
  then obtain op v where w: "w = op @ v" "v \<noteq> []" "list_all (in_cls any_but_newline) v"
    and op: "op = ''='' \<or> (\<exists>c. in_cls order_class c \<and> (op = [c] \<or> op = [c, CHR ''='']))"
    using assms unfolding rmatch_opt version_rx_iff by blast
  have step: "\<exists>op v. dependency_tail (c # rest) = Inr (op, v)"
    if "rest \<noteq> []" "list_all (in_cls any_but_newline) rest" "in_cls order_class c \<or> c = CHR ''=''" for c rest
    using that by (cases rest) (auto simp: dependency_tail_def dependency_version_def equals_char)
  from op show ?thesis
  proof (elim disjE exE conjE)
    assume "op = ''=''"
    then show ?thesis using step [of v "CHR ''=''"] w by simp
  next
    fix c assume "in_cls order_class c" "op = [c]"
    then show ?thesis using step [of v c] w by simp
  next
    fix c assume "in_cls order_class c" "op = [c, CHR ''='']"
    then show ?thesis using step [of "CHR ''='' # v" c] w by (simp add: equals_char)
  qed
qed

lemma version_rx_start: "rmatch (ropt version_rx) (c # w) \<Longrightarrow> \<not> in_cls dep_class c"
  unfolding rmatch_opt version_rx_iff
  by (auto simp: Cons_eq_append_conv dep_class_def order_class_def alnum_def in_cls_def less_eq_char_def)



section \<open>Files of a package\<close>

lemma walk_ok:
  assumes "walk tree who pre ps = Inr e"
  shows "map_of tree (pre @ ps) = Some e \<and> ftype e = Regular \<and>
    (\<forall>k x. 0 < k \<and> k \<le> length ps \<and> map_of tree (pre @ take k ps) = Some x \<longrightarrow> ftype x \<noteq> Symlink)"
  using assms
proof (induction ps arbitrary: pre)
  case Nil
  then show ?case by (auto split: option.split_asm if_split_asm)
next
  case (Cons p ps)
  from Cons.prems have rest: "walk tree who (pre @ [p]) ps = Inr e"
    and here: "map_of tree (pre @ [p]) = Some x \<Longrightarrow> ftype x \<noteq> Symlink" for x
    by (auto split: option.split_asm if_split_asm)
  note ih = Cons.IH [OF rest]
  have "ftype x \<noteq> Symlink"
    if "0 < k" "k \<le> length (p # ps)" "map_of tree (pre @ take k (p # ps)) = Some x" for k x
  proof (cases "k = 1")
    case True
    with that(3) here show ?thesis by simp
  next
    case False
    with that(1) obtain j where j: "k = Suc j" "0 < j" by (cases k) auto
    with that ih show ?thesis by auto
  qed
  then have "\<forall>k x. 0 < k \<and> k \<le> length (p # ps) \<and> map_of tree (pre @ take k (p # ps)) = Some x \<longrightarrow> ftype x \<noteq> Symlink"
    by blast
  moreover have "map_of tree (pre @ p # ps) = Some e \<and> ftype e = Regular" using ih by simp
  ultimately show ?case by blast
qed

text \<open>A regular file reached without a symbolic link on the way.\<close>

definition installed_at :: "extracted \<Rightarrow> string list \<Rightarrow> file_entry \<Rightarrow> bool" where
  "installed_at tree ps e \<longleftrightarrow> map_of tree ps = Some e \<and> ftype e = Regular \<and>
     list_all (\<lambda>k. case map_of tree (take k ps) of None \<Rightarrow> True | Some x \<Rightarrow> ftype x \<noteq> Symlink) [1..<length ps]"

lemma safe_installed:
  assumes "safe tree who relative = Inr e"
    and "filter (\<lambda>p. p \<noteq> [] \<and> p \<noteq> ''.'') (split_on (CHR ''/'') relative) = ps"
  shows "installed_at tree ps e"
proof -
  have "walk tree who [] ps = Inr e" using assms by (simp add: safe_def)
  note w = walk_ok [OF this, simplified]
  then have "case map_of tree (take k ps) of None \<Rightarrow> True | Some x \<Rightarrow> ftype x \<noteq> Symlink"
    if "k \<in> set [1..<length ps]" for k
  proof (cases "map_of tree (take k ps)")
    case (Some x)
    have "0 < k" "k \<le> length ps" using that by auto
    with w Some have "ftype x \<noteq> Symlink" by blast
    with Some show ?thesis by simp
  qed simp
  with w show ?thesis unfolding installed_at_def list_all_iff by blast
qed

lemma find_path_ok: "find_path paths n = Inr p \<Longrightarrow> p \<in> set paths \<and> snd p = n"
  by (auto simp: find_path_def find_Some_iff split: option.split_asm)

lemma file_hash_iff: "file_hash hash p = Inr h \<longleftrightarrow> (\<exists>e. plain_file (fst p) (snd p) = Some e \<and> h = hash (content e))"
  by (auto simp: file_hash_def lift_res_Inr_iff some_or_Inr_iff)

lemma receipt_fields:
  assumes "payload_receipt hash package digest producer_path = Inr v"
  shows "sub v ''binarySha256'' = Inr (JStr digest)" and "lift_res JStr (file_hash hash package) = sub v ''sha256''"
  using assms by (auto simp: payload_receipt_def bnd_Inr_iff)

text \<open>What a storage mode requires of the binary whose digest the producer states.\<close>

definition core_storage :: "hash_fun \<Rightarrow> extracted \<Rightarrow> string \<Rightarrow> fpath option \<Rightarrow> string \<Rightarrow> bool" where
  "core_storage hash tree mode volatile digest =
     (if mode = ''flash'' then \<exists>e. installed_at tree [''usr'', ''bin'', ''foxcore-cli''] e \<and> hash (content e) = digest
      else \<exists>vol e wrapper lines. volatile = Some vol \<and> plain_file (fst vol) (snd vol) = Some e \<and> hash (content e) = digest \<and>
        installed_at tree [''usr'', ''share'', ''foxhole'', ''core-download.txt''] wrapper \<and>
        text_lines wrapper = Inr lines \<and> length lines = 4 \<and> lines ! 1 = digest \<and>
        lines ! 2 = str_of_int (file_bytes e))"

lemma core_ram_storage:
  assumes "core_ram_digest hash tree producer volatile = Inr digest"
    and "sub producer ''binarySha256'' = Inr (JStr digest)" and "mode \<noteq> ''flash''"
  shows "core_storage hash tree mode volatile digest"
proof -
  note facts = assms(1) [unfolded core_ram_digest_def bnd_Inr_iff ex_unit_iff some_or_Inr_iff refuse_Inr_iff lift_res_Inr_iff
      file_hash_iff sum.inject]
  obtain vol wrapper lines e n where vol: "volatile = Some vol" and w: "safe tree ''Core'' ''usr/share/foxhole/core-download.txt'' = Inr wrapper"
    and lines: "text_lines wrapper = Inr lines" "\<not> length lines \<noteq> 4" "lines ! 1 = digest"
    and n: "path_size vol = Inr n" "lines ! 2 = str_of_int n"
    and e: "plain_file (fst vol) (snd vol) = Some e" "digest = hash (content e)"
    using facts assms(2) by auto
  have "n = file_bytes e"
    using n(1) e(1) by (auto simp: path_size_def path_bytes_def lift_res_Inr_iff read_bytes_iff plain_file_iff file_bytes_def)
  moreover have "installed_at tree [''usr'', ''share'', ''foxhole'', ''core-download.txt''] wrapper"
    by (rule safe_installed [OF w]) code_simp
  ultimately show ?thesis
    unfolding core_storage_def using assms(3) vol lines n(2) e by auto
qed

text \<open>
  C20. An accepted Core payload: the bundle has exactly one Core package, the one of the storage mode; the package,
  extracted, holds the receipt of the producer and the two license files with the digests the producer
  states; and the binary has the digest the producer states, which is the one of the installed
  file (flash), or of the volatile file whose digest and size the installed wrapper names (RAM). No
  symbolic link is on the way to any of these files.
\<close>

theorem core_payload_verified:
  assumes "verify_core_payload hash apk paths packages producer producer_path mode development volatile = Inr v"
  shows "\<exists>p package raw tree receipt pe digest.
    filter (\<lambda>p. pkg_name p \<in> {''foxcore-cli'', ''foxcore-cli-ram''}) packages = [p] \<and>
    pkg_name p = (if mode = ''flash'' then ''foxcore-cli'' else ''foxcore-cli-ram'') \<and>
    package \<in> set paths \<and> snd package = pkg_file p \<and>
    path_bytes package = Inr raw \<and> apk_extract apk development raw = Inr tree \<and>
    installed_at tree [''usr'', ''share'', ''foxhole'', ''core-producer.json''] receipt \<and>
    plain_file (fst producer_path) (snd producer_path) = Some pe \<and> hash (content receipt) = hash (content pe) \<and>
    list_all (\<lambda>name. \<exists>e f. installed_at tree [''usr'', ''share'', ''licenses'', ''foxcore-cli'', name] e \<and>
        sub producer ''filesSha256'' = Inr f \<and> sub f name = Inr (JStr (hash (content e)))) [''LICENSE'', ''THIRD_PARTY_NOTICES.md''] \<and>
    sub producer ''binarySha256'' = Inr (JStr digest) \<and> core_storage hash tree mode volatile digest \<and>
    sub v ''binarySha256'' = Inr (JStr digest)"
proof -
  let ?core = "filter (\<lambda>p. pkg_name p \<in> {''foxcore-cli'', ''foxcore-cli-ram''}) packages"
  note facts = assms [unfolded verify_core_payload_def Let_def bnd_Inr_iff ex_unit_iff]
  obtain package raw tree receipt digest where
    one: "refuse [Inr (length ?core \<noteq> 1), Inr (pkg_name (hd ?core) \<noteq> (if mode = ''flash'' then ''foxcore-cli'' else ''foxcore-cli-ram''))]
            ''Exactly one matching Core storage package required'' = Inr ()"
    and package: "find_path paths (pkg_file (hd ?core)) = Inr package"
    and raw: "path_bytes package = Inr raw" "apk_extract apk development raw = Inr tree"
    and receipt: "safe tree ''Core'' ''usr/share/foxhole/core-producer.json'' = Inr receipt"
    and same: "refuse [lift_res (\<lambda>h. hash (content receipt) \<noteq> h) (file_hash hash producer_path)]
            ''Core APK contains a different native producer'' = Inr ()"
    and licenses: "each_res (\<lambda>name. refuse [bnd (safe tree ''Core'' (''usr/share/licenses/foxcore-cli/'' @ name)) (\<lambda>e.
              lift_res (\<lambda>x. JStr (hash (content e)) \<noteq> x) (bnd (sub producer ''filesSha256'') (\<lambda>f. sub f name)))]
              ''Core APK license digest mismatch'') [''LICENSE'', ''THIRD_PARTY_NOTICES.md''] = Inr ()"
    and digest: "(if mode = ''flash'' then lift_res (\<lambda>e. hash (content e)) (safe tree ''Core'' ''usr/bin/foxcore-cli'')
          else core_ram_digest hash tree producer volatile) = Inr digest"
    and stated0: "refuse [lift_res (\<lambda>x. JStr digest \<noteq> x) (sub producer ''binarySha256'')]
            ''Installed Core binary differs from the native producer'' = Inr ()"
    and v: "payload_receipt hash package digest producer_path = Inr v"
    using facts by (elim exE conjE) (rule that, assumption+)
  from one have one: "length ?core = 1" "pkg_name (hd ?core) = (if mode = ''flash'' then ''foxcore-cli'' else ''foxcore-cli-ram'')"
    unfolding refuse_Inr_iff by simp_all
  from same obtain pe where pe: "plain_file (fst producer_path) (snd producer_path) = Some pe" "hash (content receipt) = hash (content pe)"
    unfolding refuse_Inr_iff lift_res_Inr_iff file_hash_iff by auto
  from stated0 have stated: "sub producer ''binarySha256'' = Inr (JStr digest)"
    unfolding refuse_Inr_iff lift_res_Inr_iff by auto
  from one(1) obtain p where p: "?core = [p]" by (cases ?core) auto
  have path: "package \<in> set paths" "snd package = pkg_file p" using find_path_ok [OF package] p by auto
  have there: "installed_at tree [''usr'', ''share'', ''foxhole'', ''core-producer.json''] receipt"
    by (rule safe_installed [OF receipt]) code_simp
  have lic: "list_all (\<lambda>name. \<exists>e f. installed_at tree [''usr'', ''share'', ''licenses'', ''foxcore-cli'', name] e \<and>
        sub producer ''filesSha256'' = Inr f \<and> sub f name = Inr (JStr (hash (content e)))) [''LICENSE'', ''THIRD_PARTY_NOTICES.md'']"
  proof -
    have one: "\<exists>e f. installed_at tree [''usr'', ''share'', ''licenses'', ''foxcore-cli'', name] e \<and>
        sub producer ''filesSha256'' = Inr f \<and> sub f name = Inr (JStr (hash (content e)))"
      if "name \<in> {''LICENSE'', ''THIRD_PARTY_NOTICES.md''}" for name
    proof -
      from licenses that obtain e f where e: "safe tree ''Core'' (''usr/share/licenses/foxcore-cli/'' @ name) = Inr e"
        and f: "sub producer ''filesSha256'' = Inr f" "sub f name = Inr (JStr (hash (content e)))"
        unfolding each_res_Inr_iff list_all_iff by (auto simp: refuse_Inr_iff bnd_Inr_iff lift_res_Inr_iff)
      have "filter (\<lambda>p. p \<noteq> [] \<and> p \<noteq> ''.'') (split_on (CHR ''/'') (''usr/share/licenses/foxcore-cli/'' @ name)) =
          [''usr'', ''share'', ''licenses'', ''foxcore-cli'', name]"
        using that by (elim insertE emptyE; hypsubst) code_simp+
      from safe_installed [OF e this] f show ?thesis by blast
    qed
    then show ?thesis by simp
  qed
  have storage: "core_storage hash tree mode volatile digest"
  proof (cases "mode = ''flash''")
    case True
    with digest obtain e where e: "safe tree ''Core'' ''usr/bin/foxcore-cli'' = Inr e" "hash (content e) = digest"
      by (auto simp: lift_res_Inr_iff)
    have "installed_at tree [''usr'', ''bin'', ''foxcore-cli''] e"
      by (rule safe_installed [OF e(1)]) code_simp
    with True e(2) show ?thesis by (auto simp: core_storage_def)
  next
    case False
    with digest show ?thesis by (auto intro: core_ram_storage [OF _ stated])
  qed
  have named: "pkg_name p = (if mode = ''flash'' then ''foxcore-cli'' else ''foxcore-cli-ram'')"
    using one(2) p by simp
  show ?thesis
    by (intro exI [of _ p] exI [of _ package] exI [of _ raw] exI [of _ tree] exI [of _ receipt] exI [of _ pe] exI [of _ digest] conjI)
      (fact p named path raw there pe lic stated storage receipt_fields(1) [OF v])+
qed

section \<open>The accounting of the budget\<close>

lemma number_iff [ok_iff]: "number v = Inr i \<longleftrightarrow> v = JInt i \<and> 0 \<le> i \<and> i \<le> MAX_BYTES"
  by (cases v) (auto simp: number_def)

lemma byte_fields_checked:
  assumes "map_res (\<lambda>(k, n). lift_res (\<lambda>m. (k, JInt m)) (number (JInt n))) kns = Inr r"
  shows "r = map (\<lambda>(k, n). (k, JInt n)) kns" and "list_all (\<lambda>(k, n). 0 \<le> n \<and> n \<le> MAX_BYTES) kns"
proof -
  from assms have "list_all2 (\<lambda>(k, n) y. y = (k, JInt n) \<and> 0 \<le> n \<and> n \<le> MAX_BYTES) kns r"
    unfolding map_res_Inr_iff by (rule list_all2_mono) (auto simp: lift_res_Inr_iff number_iff)
  then have "r = map (\<lambda>(k, n). (k, JInt n)) kns \<and> list_all (\<lambda>(k, n). 0 \<le> n \<and> n \<le> MAX_BYTES) kns"
    by (induction rule: list_all2_induct) auto
  then show "r = map (\<lambda>(k, n). (k, JInt n)) kns" and "list_all (\<lambda>(k, n). 0 \<le> n \<and> n \<le> MAX_BYTES) kns" by auto
qed

lemma installed_split:
  "sum_list (map installed_bytes (filter P ps)) + sum_list (map installed_bytes (filter (\<lambda>p. \<not> P p) ps)) =
   sum_list (map installed_bytes ps)"
  by (induction ps) auto

lemma flash_mode_no_volatile:
  assumes "volatile_bytes hash args = Inr (r, s)" and "arg_mode args \<noteq> ''ram''"
  shows "r = 0"
  using assms by (auto simp: volatile_bytes_def bnd_Inr_iff)

lemma budget_accounting:
  assumes "budget_value hash args evidence protocols packages authentication verification core_package server_package = Inr v"
  shows "\<exists>r s x k. volatile_bytes hash args = Inr (r, s) \<and>
    list_all (\<lambda>(key, n). sub v key = Inr (JInt n) \<and> 0 \<le> n \<and> n \<le> MAX_BYTES)
      (byte_fields args (package_totals packages (arg_roots args) r x k) (arg_runtime_memory args)) \<and>
    sub v ''installedRamBytes'' = Inr (JInt r) \<and> sub v ''runtimeMemoryBytes'' = Inr (JInt (arg_runtime_memory args)) \<and>
    sub v ''repositoryIndexBytes'' = Inr (JInt x) \<and> sub v ''trustKeyBytes'' = Inr (JInt k) \<and>
    0 \<le> x \<and> x \<le> MAX_BYTES \<and> 0 \<le> k \<and> k \<le> MAX_BYTES \<and> 0 < arg_flash_reserve args \<and> 0 < arg_ram_reserve args"
proof -
  note facts = assms [unfolded budget_value_def Let_def bnd_Inr_iff ex_unit_iff split_paired_Ex prod.case]
  obtain r s x k xv kv sorted_protocols server_sha core_raw capabilities_raw bytes auth extra where
    reserves: "refuse [lift_res (\<lambda>n. n = 0) (number (JInt (arg_flash_reserve args))),
                  lift_res (\<lambda>n. n = 0) (number (JInt (arg_ram_reserve args)))] ''Positive safety reserves required'' = Inr ()"
    and volatile: "volatile_bytes hash args = Inr (r, s)"
    and "refuse [Inr (length (filter (\<lambda>p. pkg_name p = ''kernel'') packages) \<noteq> 1)] ''Exact existing firmware kernel ABI is required'' = Inr ()"
    and x: "sub authentication ''repositoryIndexBytes'' = Inr xv" "number xv = Inr x"
    and k: "sub authentication ''trustKeyBytes'' = Inr kv" "number kv = Inr k"
    and "py_sorted protocols = Inr sorted_protocols"
    and "file_hash hash (arg_server_producer args) = Inr server_sha"
    and "path_bytes (arg_core_producer args) = Inr core_raw"
    and "path_bytes (arg_capabilities args) = Inr capabilities_raw"
    and bytes: "map_res (\<lambda>(k, n). lift_res (\<lambda>m. (k, JInt m)) (number (JInt n)))
        (byte_fields args (package_totals packages (arg_roots args) r x k) (arg_runtime_memory args)) = Inr bytes"
    and "map_res (carried authentication) [''repositoryIndexes'', ''trustKeys'', ''packageAuthentications'', ''filesSha256''] = Inr auth"
    and "volatile_fields hash args r s = Inr extra"
    and v: "Inr (JObj ([(''schema'', JInt 1), (''architecture'', JStr (arg_architecture args)),
        (''supportedOpenWrt'', JArr [JStr (arg_openwrt args)]), (''mode'', JStr (arg_mode args)),
        (''supportedTargets'', JArr [JStr (arg_target args)]), (''protocols'', sorted_protocols),
        (''rootPackages'', JArr (map JStr (sort (arg_roots args)))), (''corePackage'', core_package),
        (''serverPackage'', server_package), (''serverProducerSha256'', JStr server_sha),
        (''platformPackages'', JObj [(''kernel'', JStr (pkg_version (hd (filter (\<lambda>p. pkg_name p = ''kernel'') packages))))]),
        (''coreProducerSha256'', JStr (hash core_raw)), (''capabilitiesSha256'', JStr (hash capabilities_raw)),
        (''installedRamBytes'', JInt r), (''packages'', JArr (map package_json packages)),
        (''runtimeMemoryBytes'', JInt (arg_runtime_memory args)), (''memoryEvidence'', evidence),
        (''repositoryIndexBytes'', JInt x), (''trustKeyBytes'', JInt k),
        (''verification'', verification)] @ bytes @ auth @ extra)) = (Inr v :: json res)"
    using facts by (elim exE conjE) (rule that, assumption+)
  let ?t = "package_totals packages (arg_roots args) r x k"
  note checked = byte_fields_checked [OF bytes]
  note range = checked(2)
  note looked = v [unfolded checked(1), THEN sym, simplified]
  have pos: "0 < arg_flash_reserve args" "0 < arg_ram_reserve args"
    using reserves by (auto simp: refuse_Inr_iff lift_res_Inr_iff number_iff)
  have xk: "0 \<le> x" "x \<le> MAX_BYTES" "0 \<le> k" "k \<le> MAX_BYTES" using x(2) k(2) by (auto simp: number_iff)
  have fields: "list_all (\<lambda>(key, n). sub v key = Inr (JInt n)) (byte_fields args ?t (arg_runtime_memory args))"
    by (simp add: looked byte_fields_def)
  have both: "list_all (\<lambda>(key, n). sub v key = Inr (JInt n) \<and> 0 \<le> n \<and> n \<le> MAX_BYTES)
      (byte_fields args ?t (arg_runtime_memory args))"
    using fields range unfolding list_all_iff by blast
  have others: "sub v ''installedRamBytes'' = Inr (JInt r)" "sub v ''runtimeMemoryBytes'' = Inr (JInt (arg_runtime_memory args))"
      "sub v ''repositoryIndexBytes'' = Inr (JInt x)" "sub v ''trustKeyBytes'' = Inr (JInt k)"
    by (simp_all add: looked byte_fields_def)
  show ?thesis
    by (intro exI [of _ r] exI [of _ s] exI [of _ x] exI [of _ k] conjI) (rule volatile both others xk pos)+
qed


section \<open>Concrete inputs\<close>

text \<open>A hash that keeps the bytes readable, one bundle, and a tool that extracts one tree.\<close>

definition text_hash :: hash_fun where
  "text_hash b = map (\<lambda>x. char_of (unat x)) b"

definition text_file :: "string \<Rightarrow> file_entry" where
  "text_file s = plain_entry (encode_ascii s)"

definition sample_tree :: extracted where
  "sample_tree =
     [([''usr'', ''share'', ''foxhole'', ''core-producer.json''], text_file ''receipt''),
      ([''usr'', ''share'', ''licenses'', ''foxcore-cli'', ''LICENSE''], text_file ''license''),
      ([''usr'', ''share'', ''licenses'', ''foxcore-cli'', ''THIRD_PARTY_NOTICES.md''], text_file ''notices''),
      ([''usr'', ''share'', ''foxhole'', ''core-download.txt''],
         text_file (concat (map (\<lambda>l. l @ [CHR 0x0A]) [''core'', ''binary'', ''6'', ''64''])))]"

definition sample_dir :: directory where
  "sample_dir = \<lparr>dir_perm = 493, entries =
     [(''core.apk'', text_file ''package''), (''producer.json'', text_file ''receipt''), (''core.bin'', text_file ''binary'')]\<rparr>"

definition sample_tool :: apk_tool where
  "sample_tool = \<lparr>apk_verify = \<lambda>_ _. Inr ([], []), apk_dump = \<lambda>_. Inr ([], []), apk_extract = \<lambda>_ _. Inr sample_tree,
     apk_initdb = \<lambda>_. Inr ([], []), apk_query = \<lambda>_ _. Inr ([], []), apk_fetch = \<lambda>_ _. Inr (([], []), []),
     apk_simulate = \<lambda>_ _. Inr ([], [])\<rparr>"

definition sample_package :: "string \<Rightarrow> string \<Rightarrow> package" where
  "sample_package n f = \<lparr>pkg_name = n, pkg_version = ''6.12.1'', pkg_arch = ''x86_64'', installed_bytes = 300, archive_bytes = 100,
     pkg_file = f, pkg_sha256 = ''d'', depends = [], provides = []\<rparr>"

definition sample_core_producer :: json where
  "sample_core_producer = JObj [(''binarySha256'', JStr ''binary''),
     (''filesSha256'', JObj [(''LICENSE'', JStr ''license''), (''THIRD_PARTY_NOTICES.md'', JStr ''notices'')])]"

definition sample_payload :: "json res" where
  "sample_payload = verify_core_payload text_hash sample_tool [(sample_dir, ''core.apk'')]
     [sample_package ''foxcore-cli-ram'' ''core.apk''] sample_core_producer (sample_dir, ''producer.json'') ''ram'' False
     (Some (sample_dir, ''core.bin''))"

theorem core_payload_verified_witness:
  "\<exists>v. sample_payload = Inr v \<and> sub v ''binarySha256'' = Inr (JStr ''binary'')"
proof -
  have "\<not> isl sample_payload" by code_simp
  then obtain v where v: "sample_payload = Inr v" by (cases sample_payload) (auto simp: isl_def)
  from core_payload_verified [OF v [unfolded sample_payload_def]] obtain digest
    where "sub sample_core_producer ''binarySha256'' = Inr (JStr digest)" "sub v ''binarySha256'' = Inr (JStr digest)" by blast
  with v show ?thesis by (auto simp: sample_core_producer_def)
qed

definition sample_args :: budget_args where
  "sample_args = \<lparr>arg_bundle = sample_dir, arg_roots = [''kernel''], arg_architecture = ''x86_64'', arg_openwrt = ''25.12.0'',
     arg_target = ''x86/64'', arg_mode = ''flash'', arg_volatile = None, arg_volatile_sha256 = None,
     arg_core_producer = (sample_dir, ''producer.json''), arg_server_producer = (sample_dir, ''producer.json''),
     arg_server_volatile = None, arg_capabilities = (sample_dir, ''producer.json''), arg_keys = None,
     arg_auth = (sample_dir, ''producer.json''), arg_factory_keys = sample_dir, arg_development = False,
     arg_flash_reserve = 1000, arg_ram_reserve = 2000, arg_runtime_memory = 64, arg_memory_evidence = (sample_dir, ''producer.json'')\<rparr>"

definition sample_budget :: "json res" where
  "sample_budget = budget_value text_hash sample_args JNull (JArr [JStr ''vless'']) [sample_package ''kernel'' ''kernel.apk'',
     sample_package ''foxcore-cli'' ''core.apk''] (JObj [(''repositoryIndexBytes'', JInt 10), (''trustKeyBytes'', JInt 5),
     (''repositoryIndexes'', JArr []), (''trustKeys'', JArr []), (''packageAuthentications'', JArr []), (''filesSha256'', JObj [])])
     JNull JNull JNull"


end
