(* ===== verification/Package_Catalog.thy ===== *)
theory Package_Catalog
  imports Package_Budget
begin

text \<open>
  package-catalog.py: the catalog of release variants. Each variant is read with its producer, its
  capabilities and its server producer; each of its budgets is compared with the real APK files, the
  authenticated closure and the extracted payloads; the points the variants cover are kept apart.
  \<open>root\<close> of the code is \<open>dir\<close>, a description is a path.
\<close>

section \<open>Documents and policies\<close>

definition CATALOG_PROTOCOLS :: "string list" where
  "CATALOG_PROTOCOLS = sort [''vless'', ''vmess'', ''hysteria2'', ''tuic'', ''trojan'', ''shadowsocks'', ''wireguard'',
     ''naive'', ''anytls'', ''shadowtls'', ''socks'', ''http'']"

definition catalog_document :: "hash_fun \<Rightarrow> directory \<Rightarrow> json \<Rightarrow> string \<Rightarrow> int \<Rightarrow> (json \<times> string) res" where
  "catalog_document hash dir name schema_key limit =
     bnd (catalog_asset hash dir name) (\<lambda>(n, digest).
     bnd (lstat dir n) (\<lambda>e.
     bnd (refuse [Inr (limit < file_bytes e)] ''Release metadata exceeds limit'') (\<lambda>_.
     bnd (read_json dir n) (\<lambda>v.
     bnd (refuse [Inr (\<not> is_obj v), int_not v schema_key 1] ''Unsupported release metadata'') (\<lambda>_.
     Inr (v, digest))))))"

definition policy_flag :: "json \<Rightarrow> string \<Rightarrow> unit res" where
  "policy_flag evidence key =
     bnd (keys_of evidence) (\<lambda>ks.
     if key \<in> set ks then refuse [lift_res (\<lambda>x. \<not> is_bool x) (sub evidence key)] ''Invalid memory policy qualification''
     else Inr ())"

definition memory_policy :: "json \<Rightarrow> int \<Rightarrow> bool \<Rightarrow> unit res" where
  "memory_policy evidence runtime_bytes development =
     bnd (refuse [Inr (\<not> is_obj evidence), int_not evidence ''schema'' 1,
                  lift_res (\<lambda>x. x \<noteq> JStr ''measured'' \<and> x \<noteq> JStr ''conservative'') (get evidence ''type''),
                  lift_res (\<lambda>x. case x of JStr s \<Rightarrow> \<not> (1 \<le> length s \<and> length s \<le> 4096) | _ \<Rightarrow> True) (get evidence ''description''),
                  lift_res (\<lambda>n. n \<noteq> runtime_bytes) (bnd (get evidence ''runtimeMemoryBytes'') number)]
            ''Actual memory evidence or explicit conservative policy required'') (\<lambda>_.
     bnd (each_res (policy_flag evidence) [''provisional'', ''acceptedForRelease'', ''measured'']) (\<lambda>_.
     refuse [all_of [Inr (\<not> development), any_of [lift_res (\<lambda>x. x = JBool True) (get evidence ''provisional''),
                                             lift_res (\<lambda>x. x = JBool False) (get evidence ''acceptedForRelease'')]]]
       ''Provisional laboratory memory policy cannot become a release catalog''))"

section \<open>The description of a variant\<close>

definition catalog_target :: "string \<Rightarrow> string option" where
  "catalog_target architecture = map_of [(''aarch64_generic'', ''armsr/armv8''), (''aarch64_cortex-a53'', ''mediatek/filogic''),
     (''x86_64'', ''x86/64'')] architecture"

definition variant_identity :: "string list \<Rightarrow> json \<Rightarrow> string res" where
  "variant_identity identities ident =
     (case ident of
        JStr s \<Rightarrow> if 96 < length s \<or> \<not> rmatch NAME s \<or> s \<in> set identities
                   then Inl (ValueError ''Unique variant identity required'') else Inr s
      | _ \<Rightarrow> Inl (ValueError ''Unique variant identity required''))"

record variant_input =
  var_id :: string
  var_arch :: string
  var_targets :: "string list"
  var_producer_file :: string
  var_producer :: json
  var_producer_sha :: string
  var_protocols :: json
  var_capabilities_file :: string
  var_capabilities_sha :: string
  var_server_file :: string
  var_server :: json
  var_server_sha :: string

definition producer_ok :: "json \<Rightarrow> string \<Rightarrow> unit res" where
  "producer_ok producer target =
     refuse [int_not producer ''exitCode'' 0,
             lift_res (\<lambda>x. x \<noteq> JStr (target @ ''-unknown-linux-musl'')) (get producer ''target''),
             not_res (bnd (get_or producer ''binarySha256'' (JStr [])) (fullmatch HEX64)),
             not_res (bnd (get_or producer ''sourceSha256'' (JStr [])) (fullmatch HEX64))]
       ''Verified native producer required''"

definition protocols_ok :: "json \<Rightarrow> unit res" where
  "protocols_ok protocols =
     refuse [Inr (\<not> is_arr protocols), Inr (\<not> truthy protocols),
             bnd (element_set protocols) (\<lambda>s. lift_res (\<lambda>n. card (set s) \<noteq> n) (len protocols)),
             lift_res (\<lambda>s. \<not> set s \<subseteq> JStr ` set CATALOG_PROTOCOLS) (element_set protocols)]
       ''Exact compiled protocol set required''"

definition capabilities_ok :: "json \<Rightarrow> json \<Rightarrow> json \<Rightarrow> unit res" where
  "capabilities_ok capabilities producer protocols =
     refuse [int_not capabilities ''router_contract_version'' 1,
             lift_res (\<lambda>x. x \<noteq> JStr ''linux'') (get capabilities ''platform''),
             bnd (get capabilities ''core_version'') (\<lambda>a. lift_res (py_ne a) (get producer ''coreVersion'')),
             bnd (bnd (get_or capabilities ''protocols'' (JArr [])) py_sorted) (\<lambda>a. lift_res (py_ne a) (py_sorted protocols))]
       ''Actual native capabilities differ from the producer''"

definition variant_header :: "hash_fun \<Rightarrow> directory \<Rightarrow> string list \<Rightarrow> json \<Rightarrow> variant_input res" where
  "variant_header hash dir identities v =
     bnd (sub v ''architecture'') (\<lambda>architecture.
     case architecture of JStr arch \<Rightarrow>
       (case catalog_target arch of None \<Rightarrow> Inl (ValueError ''No verified package target for this architecture'')
        | Some expected_target \<Rightarrow>
     bnd (bnd (sub v ''id'') (variant_identity identities)) (\<lambda>ident.
     bnd (sub v ''supportedTargets'') (\<lambda>targets.
     bnd (refuse [Inr (py_ne targets (JArr [JStr expected_target]))] ''Exact verified SDK target required'') (\<lambda>_.
     bnd (sub v ''coreProducerFile'') (\<lambda>producer_name.
     bnd (catalog_document hash dir producer_name ''schema'' 131072) (\<lambda>(producer, producer_hash).
     let target = (if arch = ''x86_64'' then arch else ''aarch64'') in
     bnd (producer_ok producer target) (\<lambda>_.
     bnd (get producer ''protocols'') (\<lambda>protocols.
     bnd (protocols_ok protocols) (\<lambda>_.
     bnd (sub v ''capabilitiesFile'') (\<lambda>capability_name.
     bnd (catalog_document hash dir capability_name ''schema_version'' 131072) (\<lambda>(capabilities, capability_hash).
     bnd (capabilities_ok capabilities producer protocols) (\<lambda>_.
     bnd (sub v ''serverProducerFile'') (\<lambda>server_name.
     bnd (catalog_document hash dir server_name ''schema'' 131072) (\<lambda>(server, server_hash).
     bnd (refuse [lift_res (\<lambda>x. x \<noteq> JStr (if target = ''aarch64'' then ''linux-arm64'' else ''linux-amd64'')) (get server ''target'')]
            ''Incoming server architecture differs'') (\<lambda>_.
     Inr \<lparr>var_id = ident, var_arch = arch, var_targets = [expected_target], var_producer_file = str_of producer_name,
          var_producer = producer, var_producer_sha = producer_hash, var_protocols = protocols,
          var_capabilities_file = str_of capability_name, var_capabilities_sha = capability_hash,
          var_server_file = str_of server_name, var_server = server, var_server_sha = server_hash\<rparr>)))))))))))))))
     | _ \<Rightarrow> Inl (ValueError ''No verified package target for this architecture''))"

section \<open>One budget of a variant\<close>

definition budget_bound :: "variant_input \<Rightarrow> string \<Rightarrow> json \<Rightarrow> unit res" where
  "budget_bound var mode budget =
     (let verification = get_or budget ''verification'' (JObj []) in
     refuse [lift_res (\<lambda>x. x \<noteq> JStr (var_arch var)) (get budget ''architecture''),
             lift_res (\<lambda>x. x \<noteq> JStr mode) (get budget ''mode''),
             lift_res (\<lambda>x. x \<noteq> JStr (var_producer_sha var)) (get budget ''coreProducerSha256''),
             lift_res (\<lambda>x. x \<noteq> JStr (var_capabilities_sha var)) (get budget ''capabilitiesSha256''),
             lift_res (\<lambda>x. py_ne x (JArr (map JStr (var_targets var)))) (get budget ''supportedTargets''),
             bnd (bnd (get_or budget ''protocols'' (JArr [])) py_sorted) (\<lambda>a. lift_res (py_ne a) (py_sorted (var_protocols var))),
             lift_res (\<lambda>x. x \<noteq> JStr ''apk add --simulate --no-network'') (bnd verification (\<lambda>w. get w ''resolver'')),
             lift_res (\<lambda>x. x \<noteq> JStr MODEL) (bnd verification (\<lambda>w. get w ''signatureModel'')),
             lift_res (\<lambda>x. x \<noteq> JBool True) (bnd verification (\<lambda>w. get w ''signatures''))]
       ''Budget is not bound to this verified native producer'')"

text \<open>\<open>releases\<close> of the code: \<open>None\<close> until a first budget has set it.\<close>

definition tested_versions :: "json \<Rightarrow> string list option \<Rightarrow> string list res" where
  "tested_versions budget releases =
     bnd (get budget ''supportedOpenWrt'') (\<lambda>versions.
     case versions of
       JArr vs \<Rightarrow>
         if vs = [] \<or> \<not> list_all (\<lambda>v. is_str v \<and> rmatch openwrt_release (str_of v)) vs \<or>
            (releases \<noteq> None \<and> releases \<noteq> Some (map str_of vs))
         then Inl (ValueError ''Exact tested firmware versions required'') else Inr (map str_of vs)
     | _ \<Rightarrow> Inl (ValueError ''Exact tested firmware versions required''))"

definition real_packages :: "hash_fun \<Rightarrow> apk_tool \<Rightarrow> directory \<Rightarrow> json \<Rightarrow> (fpath list \<times> package list) res" where
  "real_packages hash apk dir budget =
     bnd (get budget ''packages'') (\<lambda>records.
     bnd (refuse [Inr (\<not> is_arr records), Inr (\<not> truthy records), lift_res (\<lambda>n. 256 < n) (len records)]
            ''Nonempty complete package budget required'') (\<lambda>_.
     bnd (bnd (iter records) (map_res (\<lambda>item. bnd (bnd (sub item ''file'') (catalog_asset hash dir)) (\<lambda>(n, _). Inr (dir, n))))) (\<lambda>paths.
     bnd (map_res (metadata hash apk) paths) (\<lambda>actual.
     bnd (refuse [Inr (py_ne (JArr (map package_json actual)) records)] ''Budget does not describe the real APK files'') (\<lambda>_.
     Inr (paths, actual))))))"

definition check_sums :: "json \<Rightarrow> int \<Rightarrow> int \<Rightarrow> unit res" where
  "check_sums budget csum isum =
     refuse [lift_res (py_ne (JInt csum)) (sub budget ''compressedBytes''),
             lift_res (py_ne (JInt isum)) (sub budget ''installedFlashBytes'')]
       ''Budget totals differ from real package metadata''"

definition check_files :: "hash_fun \<Rightarrow> directory \<Rightarrow> json \<Rightarrow> unit res" where
  "check_files hash dir budget =
     bnd (bnd (sub budget ''filesSha256'') items_of) (each_res (\<lambda>(name, digest).
       refuse [lift_res (\<lambda>(_, h). JStr h \<noteq> digest) (catalog_asset hash dir (JStr name))] ''Budget package digest mismatch''))"

text \<open>The volatile files of a RAM budget: the Core binary and the server binary.\<close>

definition ram_core :: "hash_fun \<Rightarrow> directory \<Rightarrow> variant_input \<Rightarrow> json \<Rightarrow> string res" where
  "ram_core hash dir var budget =
     bnd (sub budget ''volatileBinary'') (\<lambda>volatile.
     bnd (bnd (sub volatile ''file'') (catalog_asset hash dir)) (\<lambda>(n, digest).
     bnd (refuse [lift_res (\<lambda>x. JStr digest \<noteq> x) (sub (var_producer var) ''binarySha256''),
                  lift_res (\<lambda>x. JStr digest \<noteq> x) (sub volatile ''sha256''),
                  bnd (path_size (dir, n)) (\<lambda>k. lift_res (py_ne (JInt k)) (sub volatile ''bytes''))]
            ''RAM payload does not match the exact native producer'') (\<lambda>_.
     Inr n)))"

definition ram_server :: "hash_fun \<Rightarrow> directory \<Rightarrow> variant_input \<Rightarrow> json \<Rightarrow> string res" where
  "ram_server hash dir var budget =
     bnd (get budget ''volatileDependencies'') (\<lambda>dependencies.
     case dependencies of
       JArr [dep] \<Rightarrow>
         bnd (bnd (sub dep ''file'') (catalog_asset hash dir)) (\<lambda>(n, digest).
         bnd (refuse [lift_res (\<lambda>x. x \<noteq> JStr (var_server_file var)) (sub dep ''producerFile''),
                      lift_res (\<lambda>x. x \<noteq> JStr (var_server_sha var)) (sub dep ''producerSha256''),
                      lift_res (\<lambda>x. x \<noteq> JStr digest) (sub dep ''sha256''),
                      lift_res (\<lambda>x. JStr digest \<noteq> x) (sub (var_server var) ''binarySha256''),
                      bnd (bnd (sub dep ''bytes'') number) (\<lambda>k. lift_res (\<lambda>n. k \<noteq> n) (path_size (dir, n)))]
                ''Incoming server volatile producer binding mismatch'') (\<lambda>_.
         Inr n))
     | _ \<Rightarrow> Inl (ValueError ''One complete incoming server volatile receipt required''))"

definition NUMBER_KEYS :: "string list" where
  "NUMBER_KEYS = [''compressedBytes'', ''installedFlashBytes'', ''installedRamBytes'', ''stagingBytes'', ''flashReserveBytes'',
     ''ramReserveBytes'', ''runtimeMemoryBytes'', ''requiredFlashBytes'', ''requiredRamBytes'', ''repositoryIndexBytes'', ''trustKeyBytes'']"

definition int_at :: "json \<Rightarrow> string \<Rightarrow> int res" where
  "int_at budget key = bnd (sub budget key) number"

definition check_numbers :: "json \<Rightarrow> unit res" where
  "check_numbers budget =
     bnd (each_res (\<lambda>key. lift_res (\<lambda>_. ()) (int_at budget key)) NUMBER_KEYS) (\<lambda>_.
     refuse [lift_res (\<lambda>n. n = 0) (int_at budget ''flashReserveBytes''), lift_res (\<lambda>n. n = 0) (int_at budget ''ramReserveBytes''),
             lift_res (\<lambda>n. n = 0) (int_at budget ''runtimeMemoryBytes'')]
       ''Positive working memory and safety reserves required'')"

definition check_requirements :: "json \<Rightarrow> int \<Rightarrow> int \<Rightarrow> int \<Rightarrow> unit res" where
  "check_requirements budget csum isum volatile =
     bnd (int_at budget ''stagingBytes'') (\<lambda>staging. bnd (int_at budget ''repositoryIndexBytes'') (\<lambda>index.
     bnd (int_at budget ''trustKeyBytes'') (\<lambda>key. bnd (int_at budget ''requiredFlashBytes'') (\<lambda>flash.
     bnd (int_at budget ''flashReserveBytes'') (\<lambda>flash_reserve. bnd (int_at budget ''requiredRamBytes'') (\<lambda>ram.
     bnd (int_at budget ''runtimeMemoryBytes'') (\<lambda>runtime. bnd (int_at budget ''ramReserveBytes'') (\<lambda>ram_reserve.
     refuse [Inr (staging < 2 * csum + isum + volatile + 2 * index + key),
             Inr (flash \<noteq> isum + flash_reserve), Inr (ram \<noteq> staging + runtime + ram_reserve)]
       ''Complete memory and flash budgets required''))))))))"

definition budget_step :: "hash_fun \<Rightarrow> apk_tool \<Rightarrow> directory \<Rightarrow> bool \<Rightarrow> directory option \<Rightarrow> variant_input \<Rightarrow> string \<times> json \<Rightarrow>
    (string \<times> json) list \<times> string list option \<Rightarrow> ((string \<times> json) list \<times> string list option) res" where
  "budget_step hash apk dir development keys var = (\<lambda>(mode, budget_name) (modes, releases).
     bnd (refuse [Inr (mode \<notin> {''flash'', ''ram''})] ''Unknown storage mode'') (\<lambda>_.
     bnd (catalog_document hash dir budget_name ''schema'' 1048576) (\<lambda>(budget, budget_hash).
     bnd (budget_bound var mode budget) (\<lambda>_.
     bnd (tested_versions budget releases) (\<lambda>versions.
     bnd (real_packages hash apk dir budget) (\<lambda>(paths, actual).
     bnd (sub budget ''rootPackages'') (\<lambda>roots.
     bnd (closure hash apk actual roots paths (var_arch var) keys development budget (Some dir) None) (\<lambda>verification.
     bnd (refuse [lift_res (py_ne verification) (sub budget ''verification'')]
            ''Budget differs from actual indexed authentication'') (\<lambda>_.
     let csum = sum_list (map archive_bytes actual); isum = sum_list (map installed_bytes actual) in
     bnd (check_sums budget csum isum) (\<lambda>_.
     bnd (check_files hash dir budget) (\<lambda>_.
     bnd (if mode = ''ram'' then bnd (ram_core hash dir var budget) (\<lambda>c. lift_res (\<lambda>s. (Some (dir, c), Some (dir, s))) (ram_server hash dir var budget))
          else Inr (None, None)) (\<lambda>(volatile, server_volatile).
     bnd (verify_core_payload hash apk paths actual (var_producer var) (dir, var_producer_file var) mode False volatile) (\<lambda>core.
     bnd (verify_server_payload hash apk paths actual (dir, var_server_file var) mode False server_volatile) (\<lambda>server.
     bnd (refuse [lift_res (py_ne server) (get budget ''serverPackage''),
                  lift_res (\<lambda>x. x \<noteq> JStr (var_server_sha var)) (get budget ''serverProducerSha256'')]
            ''Incoming server APK extraction receipt mismatch'') (\<lambda>_.
     bnd (refuse [lift_res (py_ne core) (get budget ''corePackage'')] ''Core APK extraction receipt mismatch'') (\<lambda>_.
     bnd (check_numbers budget) (\<lambda>_.
     bnd (int_at budget ''runtimeMemoryBytes'') (\<lambda>runtime.
     bnd (get budget ''memoryEvidence'') (\<lambda>evidence.
     bnd (memory_policy evidence runtime development) (\<lambda>_.
     bnd (case (volatile, server_volatile) of (Some c, Some s) \<Rightarrow> bnd (path_size c) (\<lambda>a. lift_res (\<lambda>b. a + b) (path_size s))
          | _ \<Rightarrow> Inr 0) (\<lambda>volatile_sum.
     bnd (check_requirements budget csum isum volatile_sum) (\<lambda>_.
     Inr (modes @ [(mode, JObj [(''budgetFile'', budget_name), (''budgetSha256'', JStr budget_hash)])], Some versions)))))))))))))))))))))))"

section \<open>The catalog\<close>

type_synonym cover_point = "string \<times> string \<times> string \<times> json"

record catalog_state =
  cat_ids :: "string list"
  cat_covered :: "cover_point list"
  cat_result :: "json list"

definition cover_step :: "cover_point \<Rightarrow> cover_point list \<Rightarrow> cover_point list res" where
  "cover_step p covered = (if p \<in> set covered then Inl (ValueError ''Overlapping exact variant coverage is ambiguous'')
     else Inr (covered @ [p]))"

definition variant_points :: "variant_input \<Rightarrow> string list \<Rightarrow> json \<Rightarrow> cover_point list" where
  "variant_points var releases protocols =
     concat (map (\<lambda>target. map (\<lambda>version. (var_arch var, target, version, protocols)) releases) (var_targets var))"

definition variant_json :: "variant_input \<Rightarrow> string list \<Rightarrow> json \<Rightarrow> (string \<times> json) list \<Rightarrow> json \<Rightarrow> json \<Rightarrow> json" where
  "variant_json var releases protocols modes binary_sha source_sha =
     JObj [(''id'', JStr (var_id var)), (''architecture'', JStr (var_arch var)), (''supportedOpenWrt'', JArr (map JStr releases)),
       (''supportedTargets'', JArr (map JStr (var_targets var))), (''protocols'', protocols),
       (''coreProducerFile'', JStr (var_producer_file var)), (''coreProducerSha256'', JStr (var_producer_sha var)),
       (''coreBinarySha256'', binary_sha), (''coreSourceSha256'', source_sha),
       (''capabilitiesFile'', JStr (var_capabilities_file var)), (''capabilitiesSha256'', JStr (var_capabilities_sha var)),
       (''serverProducerFile'', JStr (var_server_file var)), (''serverProducerSha256'', JStr (var_server_sha var)),
       (''modes'', JObj modes)]"

definition variant_step :: "hash_fun \<Rightarrow> apk_tool \<Rightarrow> directory \<Rightarrow> bool \<Rightarrow> directory option \<Rightarrow> fpath \<Rightarrow> catalog_state \<Rightarrow> catalog_state res" where
  "variant_step hash apk dir development keys description st =
     bnd (read_document description) (\<lambda>v.
     bnd (variant_header hash dir (cat_ids st) v) (\<lambda>var.
     bnd (bnd (sub v ''budgets'') items_of) (\<lambda>budgets.
     bnd (fold_res (budget_step hash apk dir development keys var) budgets ([], None)) (\<lambda>(modes, releases).
     bnd (refuse [Inr (modes = [])] ''At least one real installation budget required'') (\<lambda>_.
     bnd (case releases of None \<Rightarrow> Inl TypeError | Some vs \<Rightarrow> Inr vs) (\<lambda>versions.
     bnd (py_sorted (var_protocols var)) (\<lambda>protocols.
     bnd (fold_res cover_step (variant_points var versions protocols) (cat_covered st)) (\<lambda>covered.
     bnd (sub (var_producer var) ''binarySha256'') (\<lambda>binary_sha.
     bnd (sub (var_producer var) ''sourceSha256'') (\<lambda>source_sha.
     Inr \<lparr>cat_ids = cat_ids st @ [var_id var], cat_covered = covered,
          cat_result = cat_result st @ [variant_json var versions protocols modes binary_sha source_sha]\<rparr>))))))))))"

definition variants :: "hash_fun \<Rightarrow> apk_tool \<Rightarrow> directory \<Rightarrow> fpath list \<Rightarrow> bool \<Rightarrow> directory option \<Rightarrow> catalog_state res" where
  "variants hash apk dir descriptions development keys =
     bnd (refuse [Inr (descriptions = []), Inr (256 < length descriptions)] ''Bounded release variant catalog required'') (\<lambda>_.
     fold_res (variant_step hash apk dir development keys) descriptions \<lparr>cat_ids = [], cat_covered = [], cat_result = []\<rparr>)"

definition catalog_text :: "hash_fun \<Rightarrow> apk_tool \<Rightarrow> directory \<Rightarrow> fpath list \<Rightarrow> bool \<Rightarrow> directory option \<Rightarrow> string res" where
  "catalog_text hash apk dir descriptions development keys =
     bnd (variants hash apk dir descriptions development keys) (\<lambda>st.
     bnd (refuse [Inr (cat_result st = [])] ''Empty catalogs cannot be released'') (\<lambda>_.
     let serialized = dumps (JObj [(''schema'', JInt 1), (''defaultProtocols'', JArr [JStr ''hysteria2'']),
           (''allProtocols'', JArr (map JStr CATALOG_PROTOCOLS)), (''development'', JBool development),
           (''variants'', JArr (cat_result st))]) @ [CHR 0x0A] in
     if 131072 < length serialized then Inl (ValueError ''Catalog exceeds the consumer limit'') else Inr serialized))"

section \<open>The memory policy\<close>

lemma policy_flag_iff:
  "policy_flag (JObj kvs) key = Inr () \<longleftrightarrow> (case map_of kvs key of None \<Rightarrow> True | Some x \<Rightarrow> is_bool x)"
proof (cases "map_of kvs key")
  case None
  then have "key \<notin> fst ` set kvs" by (simp add: map_of_eq_None_iff)
  with None show ?thesis by (simp add: policy_flag_def)
next
  case (Some x)
  then have "key \<in> fst ` set kvs" by (metis map_of_SomeD fst_conv image_eqI)
  with Some show ?thesis by (simp add: policy_flag_def ok_iff)
qed

text \<open>
  C23. The memory policy, completely: evidence passes exactly when it is an object of schema 1 that is
  measured or declared conservative, has a description of 1 to 4096 characters, states the
  runtime memory of the budget, qualifies itself with booleans only, and is, outside development,
  neither provisional nor refused for release.
\<close>

theorem memory_policy_admits:
  "memory_policy evidence runtime_bytes development = Inr () \<longleftrightarrow>
     (\<exists>kvs s. evidence = JObj kvs \<and> map_of kvs ''schema'' = Some (JInt 1) \<and>
        map_of kvs ''type'' \<in> {Some (JStr ''measured''), Some (JStr ''conservative'')} \<and>
        map_of kvs ''description'' = Some (JStr s) \<and> 1 \<le> length s \<and> length s \<le> 4096 \<and>
        map_of kvs ''runtimeMemoryBytes'' = Some (JInt runtime_bytes) \<and> 0 \<le> runtime_bytes \<and> runtime_bytes < 2 ^ 53 \<and>
        list_all (\<lambda>key. map_of kvs key \<in> {None, Some (JBool True), Some (JBool False)})
          [''provisional'', ''acceptedForRelease'', ''measured''] \<and>
        \<not> (\<not> development \<and> (map_of kvs ''provisional'' = Some (JBool True) \<or> map_of kvs ''acceptedForRelease'' = Some (JBool False))))"
proof (cases "is_obj evidence")
  case False
  then have "memory_policy evidence runtime_bytes development \<noteq> Inr ()" by (simp add: memory_policy_def ok_iff)
  with False show ?thesis by (auto simp: is_obj_iff)
next
  case True
  then obtain kvs where e: "evidence = JObj kvs" by (auto simp: is_obj_iff)
  have schema: "int_not (JObj kvs) k n = Inr False \<longleftrightarrow> map_of kvs k = Some (JInt n)" for k n
    by (auto simp: int_not_def split: option.split)
  have kind: "lift_res (\<lambda>x. x \<noteq> JStr a \<and> x \<noteq> JStr b) (get (JObj kvs) k) = Inr False \<longleftrightarrow>
      map_of kvs k \<in> {Some (JStr a), Some (JStr b)}" for a b k
    by (auto split: option.split)
  have desc: "lift_res (\<lambda>x. case x of JStr s \<Rightarrow> \<not> (1 \<le> length s \<and> length s \<le> 4096) | _ \<Rightarrow> True) (get (JObj kvs) k) = Inr False \<longleftrightarrow>
      (\<exists>s. map_of kvs k = Some (JStr s) \<and> 1 \<le> length s \<and> length s \<le> 4096)" for k
    by (auto split: option.split json.split)
  have stated: "lift_res (\<lambda>n. n \<noteq> runtime_bytes) (bnd (get (JObj kvs) k) number) = Inr False \<longleftrightarrow>
      map_of kvs k = Some (JInt runtime_bytes) \<and> 0 \<le> runtime_bytes \<and> runtime_bytes < 2 ^ 53" for k
    by (auto simp: lift_res_Inr_iff number_iff MAX_BYTES_def split: option.split_asm)
  have flag: "policy_flag (JObj kvs) key = Inr () \<longleftrightarrow> map_of kvs key \<in> {None, Some (JBool True), Some (JBool False)}" for key
    unfolding policy_flag_iff by (auto simp: is_bool_iff split: option.split)
  have last: "all_of [Inr (\<not> development), any_of [lift_res (\<lambda>x. x = JBool True) (get (JObj kvs) p),
        lift_res (\<lambda>x. x = JBool False) (get (JObj kvs) a)]] = Inr False \<longleftrightarrow>
      \<not> (\<not> development \<and> (map_of kvs p = Some (JBool True) \<or> map_of kvs a = Some (JBool False)))" for p a
  proof -
    define x y where "x = (case map_of kvs p of None \<Rightarrow> JNull | Some y \<Rightarrow> y)" and "y = (case map_of kvs a of None \<Rightarrow> JNull | Some y \<Rightarrow> y)"
    have "x = JBool True \<longleftrightarrow> map_of kvs p = Some (JBool True)" "y = JBool False \<longleftrightarrow> map_of kvs a = Some (JBool False)"
      by (auto simp: x_def y_def split: option.split)
    moreover have "get (JObj kvs) p = Inr x" "get (JObj kvs) a = Inr y" by (simp_all add: x_def y_def)
    ultimately show ?thesis
      by (cases development; cases "x = JBool True"; cases "y = JBool False") (simp_all add: guard_simps)
  qed
  show ?thesis
    unfolding e memory_policy_def bnd_Inr_iff refuse_Inr_iff each_res_Inr_iff ex_unit_iff schema kind desc stated flag last
    by (simp only: is_obj.simps not_True_eq_False sum.inject simp_thms ex_simps json.inject conj_assoc)
      (rule iffI; (elim exE conjE)?; (intro exI conjI)?; assumption)
qed

section \<open>The catalog accepts the accounting of the budget tool\<close>

lemma volatile_sum_nonneg:
  assumes "volatile_bytes hash args = Inr (r, s)"
  shows "0 \<le> r"
  using assms by (auto simp: volatile_bytes_def bnd_Inr_iff number_iff split: if_split_asm)

lemma int_at_sub: "sub v key = Inr (JInt n) \<Longrightarrow> 0 \<le> n \<Longrightarrow> n \<le> MAX_BYTES \<Longrightarrow> int_at v key = Inr n"
  by (simp add: int_at_def number_def)

text \<open>
  C22. The two tools agree on the accounting: a document the budget tool writes, for a positive runtime memory in range,
  passes the catalog's comparison with the package sums, its number checks and its requirement
  checks, with the volatile bytes the budget was computed from. In particular the volatile sum, the one
  field that the budget tool writes without a check, is in range.
\<close>

theorem budget_meets_catalog:
  assumes "budget_value hash args evidence protocols packages authentication verification core_package server_package = Inr v"
    and "number (JInt (arg_runtime_memory args)) = Inr m" and "m \<noteq> 0"
    and "list_all (\<lambda>p. 0 \<le> archive_bytes p \<and> 0 \<le> installed_bytes p) packages"
  shows "\<exists>r s. volatile_bytes hash args = Inr (r, s) \<and>
    check_sums v (sum_list (map archive_bytes packages)) (sum_list (map installed_bytes packages)) = Inr () \<and>
    check_numbers v = Inr () \<and>
    check_requirements v (sum_list (map archive_bytes packages)) (sum_list (map installed_bytes packages)) r = Inr ()"
proof -
  obtain r s x k where volatile: "volatile_bytes hash args = Inr (r, s)"
    and both: "list_all (\<lambda>(key, n). sub v key = Inr (JInt n) \<and> 0 \<le> n \<and> n \<le> MAX_BYTES)
      (byte_fields args (package_totals packages (arg_roots args) r x k) (arg_runtime_memory args))"
    and others: "sub v ''installedRamBytes'' = Inr (JInt r)" "sub v ''runtimeMemoryBytes'' = Inr (JInt (arg_runtime_memory args))"
      "sub v ''repositoryIndexBytes'' = Inr (JInt x)" "sub v ''trustKeyBytes'' = Inr (JInt k)"
    and xk: "0 \<le> x" "x \<le> MAX_BYTES" "0 \<le> k" "k \<le> MAX_BYTES" and pos: "0 < arg_flash_reserve args" "0 < arg_ram_reserve args"
    using budget_accounting [OF assms(1)] by (elim exE conjE) (rule that, assumption+)
  let ?t = "package_totals packages (arg_roots args) r x k"
  let ?c = "sum_list (map archive_bytes packages)" and ?i = "sum_list (map installed_bytes packages)"
  note fields = both [unfolded byte_fields_def list.pred_inject prod.case]
  have t: "compressed ?t = ?c" "installed ?t = ?i" "staging ?t = 2 * ?c + ?i + r + 2 * x + k"
    by (simp_all add: package_totals_def Let_def)
  have nonneg: "0 \<le> ?c" "0 \<le> ?i" using assms(4) by (auto simp: list_all_iff intro!: sum_list_nonneg)
  have m: "arg_runtime_memory args = m" "0 < m" "m \<le> MAX_BYTES" using assms(2,3) by (auto simp: number_iff)
  have top: "staging ?t \<le> MAX_BYTES" using fields by blast
  have r: "0 \<le> r" "r \<le> MAX_BYTES"
    using volatile_sum_nonneg [OF volatile] top t(3) nonneg xk by linarith+
  have at: "int_at v ''compressedBytes'' = Inr ?c" "int_at v ''installedFlashBytes'' = Inr ?i" "int_at v ''stagingBytes'' = Inr (staging ?t)"
      "int_at v ''flashReserveBytes'' = Inr (arg_flash_reserve args)" "int_at v ''ramReserveBytes'' = Inr (arg_ram_reserve args)"
      "int_at v ''requiredFlashBytes'' = Inr (?i + arg_flash_reserve args)"
      "int_at v ''requiredRamBytes'' = Inr (staging ?t + m + arg_ram_reserve args)"
      "int_at v ''installedRamBytes'' = Inr r" "int_at v ''runtimeMemoryBytes'' = Inr m"
      "int_at v ''repositoryIndexBytes'' = Inr x" "int_at v ''trustKeyBytes'' = Inr k"
    using fields [unfolded t(1,2) m(1)] others r m xk by (auto intro: int_at_sub)
  have "check_sums v ?c ?i = Inr ()"
    using fields [unfolded t(1,2)] by (simp add: check_sums_def ok_iff)
  moreover have "check_numbers v = Inr ()"
    using pos m(2) by (simp add: check_numbers_def NUMBER_KEYS_def at ok_iff)
  moreover have "check_requirements v ?c ?i r = Inr ()"
    by (simp add: check_requirements_def at ok_iff t(3))
  ultimately show ?thesis using volatile by blast
qed

theorem budget_meets_catalog_witness:
  "\<exists>v. sample_budget = Inr v \<and> check_sums v 200 600 = Inr () \<and> check_numbers v = Inr ()"
proof -
  have "\<not> isl sample_budget" by code_simp
  then obtain v where v: "sample_budget = Inr v" by (cases sample_budget) (auto simp: isl_def)
  have "number (JInt (arg_runtime_memory sample_args)) = Inr 64" by (simp add: sample_args_def number_def MAX_BYTES_def)
  from budget_meets_catalog [OF v [unfolded sample_budget_def] this] v show ?thesis
    by (auto simp: sample_package_def)
qed

end
