(* ===== verification/Bundle_Transport.thy ===== *)
theory Bundle_Transport
  imports Release_Manifest Json_Files
begin

text \<open>
  build-bundle-transport.py: a flat bundle is checked against its manifest, the dependency packages are
  archived in one USTAR file, the rest is copied, and a new manifest is written. The archive is what
  \<open>tarfile\<close> writes in USTAR format for members without owner names: a header block, the bytes, zeros to
  the next block of 512, two zero blocks at the end, zeros to the next record of 10240.
\<close>

section \<open>The archive\<close>

fun octal :: "nat \<Rightarrow> nat \<Rightarrow> string" where
  "octal 0 n = []"
| "octal (Suc w) n = octal w (n div 8) @ [char_of (48 + n mod 8)]"

text \<open>\<open>stn\<close> and \<open>itn\<close>: a text field padded with zeros, a number in octal with a final zero.\<close>

definition text_field :: "nat \<Rightarrow> string \<Rightarrow> bytes" where
  "text_field w s = take w (encode_ascii s) @ replicate (w - length s) 0"

definition octal_field :: "nat \<Rightarrow> nat \<Rightarrow> bytes" where
  "octal_field w n = encode_ascii (octal (w - 1) n) @ [0]"

definition header_before :: "string \<Rightarrow> nat \<Rightarrow> bytes" where
  "header_before name n =
     text_field 100 name @ octal_field 8 420 @ octal_field 8 0 @ octal_field 8 0 @ octal_field 12 n @ octal_field 12 0"

definition header_after :: bytes where
  "header_after = encode_ascii ''0'' @ text_field 100 '''' @ encode_ascii ''ustar'' @ [0] @ encode_ascii ''00'' @
     text_field 32 '''' @ text_field 32 '''' @ text_field 8 '''' @ text_field 8 '''' @ text_field 155 '''' @ replicate 12 0"

definition checksum :: "bytes \<Rightarrow> bytes \<Rightarrow> nat" where
  "checksum a b = 256 + sum_list (map unat a) + sum_list (map unat b)"

definition ustar_header :: "string \<Rightarrow> nat \<Rightarrow> bytes" where
  "ustar_header name n =
     (let a = header_before name n; b = header_after
      in a @ encode_ascii (octal 6 (checksum a b)) @ [0, 32] @ b)"

definition pad_to :: "nat \<Rightarrow> nat \<Rightarrow> bytes" where
  "pad_to block n = replicate ((block - n mod block) mod block) 0"

definition tar_member :: "string \<times> bytes \<Rightarrow> bytes" where
  "tar_member m = ustar_header (fst m) (length (snd m)) @ snd m @ pad_to 512 (length (snd m))"

definition tar_archive :: "(string \<times> bytes) list \<Rightarrow> bytes" where
  "tar_archive ms =
     (let body = concat (map tar_member ms) @ replicate 1024 0 in body @ pad_to 10240 (length body))"

text \<open>The length the tool computes from the sizes.\<close>

definition transport_bytes :: "int list \<Rightarrow> int" where
  "transport_bytes sizes = (sum_list (map (\<lambda>n. 512 + (n + 511) div 512 * 512) sizes) + 1024 + 10239) div 10240 * 10240"

section \<open>The flat bundle\<close>

definition DEPENDENCY_NAME :: rx where
  "DEPENDENCY_NAME = Seq (lit ''apk-'') (Seq HEX64 (lit ''.apk''))"

definition TRANSPORT_TOOLS :: "string list" where
  "TRANSPORT_TOOLS = [''install-compact.sh'', ''bundle-transport-model.uc'', ''bundle-transport.uc'']"

record flat_row =
  row_sha :: string
  row_bytes :: int

type_synonym flat_rows = "(string \<times> flat_row) list"

definition reserved_names :: "string list" where
  "reserved_names = [''SHA256SUMS'', ''SHA256SUMS.asc'', ''bundle-transport.json'', ''native-install.tar'']"

definition transport_sha :: "hash_fun \<Rightarrow> directory \<Rightarrow> string \<Rightarrow> string res" where
  "transport_sha hash dir n = lift_res hash (read_bytes dir n)"

definition flat_step :: "hash_fun \<Rightarrow> directory \<Rightarrow> string \<Rightarrow> flat_rows \<times> string list \<Rightarrow> (flat_rows \<times> string list) res" where
  "flat_step hash dir line = (\<lambda>(rows, folded).
     case match_line line of
       None \<Rightarrow> Inl (ValueError ''Unique safe flat source entries required'')
     | Some (digest, name) \<Rightarrow>
         bnd (refuse [Inr (name \<in> fst ` set rows), Inr (lower name \<in> set folded), Inr (name \<in> set reserved_names)]
                ''Unique safe flat source entries required'') (\<lambda>_.
         bnd (transport_regular dir name 536870912) (\<lambda>info.
         bnd (refuse [lift_res (\<lambda>h. h \<noteq> digest) (transport_sha hash dir name)] ''Flat source file digest mismatch'') (\<lambda>_.
         Inr (rows @ [(name, \<lparr>row_sha = digest, row_bytes = file_bytes info\<rparr>)], lower name # folded)))))"

definition flat_bundle :: "hash_fun \<Rightarrow> directory \<Rightarrow> string \<Rightarrow> flat_rows res" where
  "flat_bundle hash dir expected =
     bnd (transport_regular dir ''SHA256SUMS'' 1048576) (\<lambda>sums_entry.
     bnd (refuse [Inr (hash (content sums_entry) \<noteq> expected)] ''Flat manifest digest mismatch'') (\<lambda>_.
     bnd (decode_ascii (content sums_entry)) (\<lambda>txt.
     bnd (fold_res (flat_step hash dir) (splitlines txt) ([], [])) (\<lambda>(rows, folded).
     bnd (refuse [Inr (fst ` set (entries dir) \<noteq> insert ''SHA256SUMS'' (fst ` set rows))]
            ''Exact normal unsigned flat bundle required; sign new outer manifest later'') (\<lambda>_.
     Inr rows)))))"

definition tools_assembled :: "hash_fun \<Rightarrow> directory \<Rightarrow> flat_rows \<Rightarrow> unit res" where
  "tools_assembled hash tools rows =
     each_res (\<lambda>n. refuse [lift_res (\<lambda>h. map_option row_sha (map_of rows n) \<noteq> Some h) (transport_sha hash tools n)]
       ''Archive-aware installer/helper bytes must already pass normal bundle assembly'') TRANSPORT_TOOLS"

definition archived_rows :: "flat_rows \<Rightarrow> flat_rows" where
  "archived_rows rows = filter (\<lambda>nr. rmatch DEPENDENCY_NAME (fst nr)) rows"

definition kept_rows :: "flat_rows \<Rightarrow> flat_rows" where
  "kept_rows rows = filter (\<lambda>nr. \<not> rmatch DEPENDENCY_NAME (fst nr)) rows"

definition transport_bounds :: "flat_rows \<Rightarrow> int \<Rightarrow> unit res" where
  "transport_bounds rows disk_free =
     (let archived = map (\<lambda>nr. row_bytes (snd nr)) (archived_rows rows);
          kept = map (\<lambda>nr. row_bytes (snd nr)) (kept_rows rows);
          tar_bytes = transport_bytes archived in
     bnd (refuse [Inr (\<not> (1 \<le> length archived \<and> length archived \<le> 1024)), Inr (list_ex (\<lambda>n. 134217728 < n) archived),
                  Inr (2147483648 < sum_list archived)] ''Bounded upstream dependency bank required'') (\<lambda>_.
     bnd (refuse [Inr (536870912 < tar_bytes)] ''Transport archive exceeds maximum'') (\<lambda>_.
     bnd (refuse [Inr (200 \<le> length kept + 3)] ''Actual flat transport asset count must remain below200'') (\<lambda>_.
     refuse [Inr (disk_free < 10 * 1024 ^ 3 + tar_bytes + sum_list kept)] ''Mac disk reserve10GiB required before packet copy''))))"

section \<open>Building the transport\<close>

definition member_name :: "hash_fun \<Rightarrow> string \<Rightarrow> string" where
  "member_name hash name = ''f-'' @ hash (encode_ascii name)"

definition archive_members :: "hash_fun \<Rightarrow> directory \<Rightarrow> flat_rows \<Rightarrow> (string \<times> bytes) list res" where
  "archive_members hash dir rows =
     map_res (\<lambda>nr. lift_res (\<lambda>b. (member_name hash (fst nr), take (nat (row_bytes (snd nr))) b)) (read_bytes dir (fst nr)))
       (sort_key fst (archived_rows rows))"

definition row_json :: "flat_row \<Rightarrow> json" where
  "row_json r = JObj [(''sha256'', JStr (row_sha r)), (''bytes'', JInt (row_bytes r))]"

definition descriptor_text :: "string \<Rightarrow> int \<Rightarrow> flat_rows \<Rightarrow> string" where
  "descriptor_text archive_sha tar_bytes archived =
     dumps (JObj [(''schema'', JInt 1),
       (''archive'', JObj [(''file'', JStr ''native-install.tar''), (''sha256'', JStr archive_sha), (''bytes'', JInt tar_bytes)]),
       (''entries'', JObj (map (\<lambda>nr. (fst nr, row_json (snd nr))) archived))]) @ [CHR 0x0A]"

definition copy_kept :: "directory \<Rightarrow> flat_rows \<Rightarrow> (string \<times> bytes) list res" where
  "copy_kept dir rows = map_res (\<lambda>nr. lift_res (\<lambda>b. (fst nr, b)) (read_bytes dir (fst nr))) (kept_rows rows)"

definition outer_sums :: "flat_rows \<Rightarrow> string \<Rightarrow> string \<Rightarrow> (string \<times> string) list" where
  "outer_sums rows archive_sha descriptor_sha =
     sort_key snd (map (\<lambda>nr. (row_sha (snd nr), fst nr)) rows @ [(archive_sha, ''native-install.tar''), (descriptor_sha, ''bundle-transport.json'')])"

text \<open>
  The files of the output directory; \<open>later\<close> is the bundle as the final comparison sees it.
\<close>

definition build_transport :: "hash_fun \<Rightarrow> directory \<Rightarrow> directory \<Rightarrow> directory \<Rightarrow> string \<Rightarrow> bool \<Rightarrow> int \<Rightarrow>
    ((string \<times> bytes) list \<times> json) res" where
  "build_transport hash dir later tools expected output_exists disk_free =
     bnd (refuse [Inr output_exists, Inr (\<not> rmatch HEX64 expected)] ''Fresh output and trusted inner manifest SHA required'') (\<lambda>_.
     bnd (flat_bundle hash dir expected) (\<lambda>rows.
     bnd (tools_assembled hash tools rows) (\<lambda>_.
     bnd (transport_bounds rows disk_free) (\<lambda>_.
     bnd (archive_members hash dir rows) (\<lambda>members.
     let archive = tar_archive members; tar_bytes = transport_bytes (map (\<lambda>nr. row_bytes (snd nr)) (archived_rows rows)) in
     bnd (refuse [Inr (int (length archive) \<noteq> tar_bytes)] ''Canonical USTAR padded length mismatch'') (\<lambda>_.
     let descriptor = encode_ascii (descriptor_text (hash archive) tar_bytes (archived_rows rows)) in
     bnd (refuse [Inr (1048576 < length descriptor)] ''Bounded transport descriptor required'') (\<lambda>_.
     bnd (copy_kept dir rows) (\<lambda>kept.
     let sums_text = encode_ascii (manifest_text (outer_sums rows (hash archive) (hash descriptor))) in
     bnd (refuse [any_res (\<lambda>nr. lift_res (\<lambda>h. h \<noteq> row_sha (snd nr)) (transport_sha hash later (fst nr))) rows]
            ''Original bundle changed during transport preparation'') (\<lambda>_.
     let out = [(''native-install.tar'', archive), (''bundle-transport.json'', descriptor)] @ kept @ [(''SHA256SUMS'', sums_text)] in
     Inr (out, JObj [(''schema'', JInt 1), (''kind'', JStr ''unsigned-plain-USTAR-transport-projection-not-native-qualification''),
        (''originalFlatManifestSha256'', JStr expected), (''outerManifestSha256'', JStr (hash sums_text)),
        (''archive'', JObj [(''file'', JStr ''native-install.tar''), (''sha256'', JStr (hash archive)), (''bytes'', JInt tar_bytes)]),
        (''archivedMembers'', JInt (int (length (archived_rows rows)))), (''actualFlatAssets'', JInt (int (length out))),
        (''originalInnerArtifactBytesUnchanged'', JBool True), (''signaturesOrNativeOrPhysicalAcceptance'', JNull)]))))))))))"

section \<open>The length of the archive\<close>

lemma map_res_cong: "(\<And>x. x \<in> set xs \<Longrightarrow> f x = g x) \<Longrightarrow> map_res f xs = map_res g xs"
  by (induction xs) simp_all

lemma length_octal [simp]: "length (octal w n) = w"
  by (induction w n rule: octal.induct) auto

lemma length_encode [simp]: "length (encode_ascii s) = length s"
  by (simp add: encode_ascii_def)

lemma length_text_field [simp]: "length (text_field w s) = w"
  by (simp add: text_field_def)

lemma length_octal_field [simp]: "0 < w \<Longrightarrow> length (octal_field w n) = w"
  by (simp add: octal_field_def)

lemma length_header_before: "length (header_before name n) = 148"
  by (simp add: header_before_def)

lemma length_header_after: "length header_after = 356"
  by (simp add: header_after_def)

lemma length_ustar_header: "length (ustar_header name n) = 512"
  by (simp add: ustar_header_def Let_def length_header_before length_header_after)

lemma padded_length: "0 < b \<Longrightarrow> int (n + length (pad_to b n)) = (int n + int b - 1) div int b * int b"
proof -
  assume b: "0 < b"
  have "n + (b - n mod b) mod b = (n + b - 1) div b * b"
  proof (cases "n mod b = 0")
    case True
    then obtain q where "n = b * q" by auto
    moreover have "(b * q + b - 1) div b = q"
      using b div_mult_self4 [of b q "b - 1"] by (simp add: add.commute [of _ "b - 1"])
    ultimately show ?thesis by (simp add: mult.commute)
  next
    case False
    obtain q r where qr: "q = n div b" "r = n mod b" by blast
    have n: "n = b * q + r" "0 < r" "r < b" using False b unfolding qr by simp_all
    have "n + b - 1 = (q + 1) * b + (r - 1)" using n by (simp add: algebra_simps)
    moreover have "((q + 1) * b + (r - 1)) div b = q + 1" using n(2,3) by (subst div_mult_self3) simp_all
    ultimately have "(n + b - 1) div b = q + 1" by simp
    moreover have "(b - r) mod b = b - r" using n by simp
    ultimately show ?thesis using n by (simp add: qr(2) [symmetric] algebra_simps)
  qed
  then show ?thesis using b by (simp add: pad_to_def of_nat_diff zdiv_int)
qed

lemma length_tar_member: "int (length (tar_member m)) = 512 + (int (length (snd m)) + 511) div 512 * 512"
  using padded_length [of 512 "length (snd m)"] by (simp add: tar_member_def length_ustar_header)

text \<open>
  The two computations of the archive length agree: the sum over the sizes and the bytes written.
\<close>

lemma length_tar_archive: "int (length (tar_archive ms)) = transport_bytes (map (\<lambda>m. int (length (snd m))) ms)"
proof -
  let ?body = "concat (map tar_member ms) @ replicate 1024 0"
  have members: "int (length (concat (map tar_member ms))) = sum_list (map (\<lambda>n. 512 + (n + 511) div 512 * 512) (map (\<lambda>m. int (length (snd m))) ms))"
    by (induction ms) (simp_all add: length_tar_member)
  have "int (length (tar_archive ms)) = (int (length ?body) + 10240 - 1) div 10240 * 10240"
    using padded_length [of 10240 "length ?body"] by (simp add: tar_archive_def Let_def del: length_append length_replicate) (simp)
  then show ?thesis by (simp add: transport_bytes_def members algebra_simps)
qed

section \<open>Reading the archive\<close>

definition nul_text :: "bytes \<Rightarrow> string" where
  "nul_text bs = map (\<lambda>b. char_of (unat b)) (takeWhile (\<lambda>b. b \<noteq> 0) bs)"

definition octal_value :: "bytes \<Rightarrow> nat" where
  "octal_value bs = foldl (\<lambda>a b. 8 * a + (unat b - 48)) 0 bs"

text \<open>
  The reader of the format: a header whose checksum holds names a member and its length; a block of zeros ends
  the archive. \<open>None\<close> is an archive that is not well formed, or out of fuel.
\<close>

definition header_ok :: "bytes \<Rightarrow> bool" where
  "header_ok h \<longleftrightarrow> octal_value (take 6 (drop 148 h)) = checksum (take 148 h) (drop 156 h)"

fun tar_read :: "nat \<Rightarrow> bytes \<Rightarrow> (string \<times> bytes) list option" where
  "tar_read 0 b = None"
| "tar_read (Suc k) b =
     (let h = take 512 b; rest = drop 512 b; n = octal_value (take 11 (drop 124 h)) in
      if length h < 512 then None
      else if list_all (\<lambda>x. x = 0) h then Some []
      else if \<not> header_ok h \<or> length rest < n then None
      else map_option ((#) (nul_text (take 100 h), take n rest)) (tar_read k (drop (n + length (pad_to 512 n)) rest)))"

lemma octal_value_octal: "octal_value (encode_ascii (octal w n)) = n mod 8 ^ w"
proof (induction w arbitrary: n)
  case (Suc w)
  have d: "unat (word_of_nat (of_char (char_of (48 + n mod 8) :: char)) :: u8) - 48 = n mod 8"
  proof -
    have "n mod 8 < 8" by simp
    then have "n mod 8 \<in> {0, 1, 2, 3, 4, 5, 6, 7}" by auto
    then show ?thesis by (elim insertE emptyE) simp_all
  qed
  have "octal_value (encode_ascii (octal (Suc w) n)) = 8 * octal_value (encode_ascii (octal w (n div 8))) + n mod 8"
    using d by (simp add: octal_value_def encode_ascii_def)
  also have "\<dots> = 8 * (n div 8 mod 8 ^ w) + n mod 8" by (simp add: Suc.IH)
  also have "\<dots> = n mod 8 ^ Suc w" by (simp add: mod_mult2_eq)
  finally show ?case .
qed (simp add: octal_value_def encode_ascii_def)

definition plain_name :: "string \<Rightarrow> bool" where
  "plain_name s \<longleftrightarrow> s \<noteq> [] \<and> length s \<le> 100 \<and> list_all (\<lambda>c. c \<noteq> CHR 0x00) s"

lemma char_byte: "char_of (unat (word_of_nat (of_char c) :: u8)) = c"
  by (simp add: unat_of_nat)

lemma byte_zero: "(word_of_nat (of_char c) :: u8) = 0 \<longleftrightarrow> c = CHR 0x00"
proof
  assume "(word_of_nat (of_char c) :: u8) = 0"
  then have "char_of (unat (word_of_nat (of_char c) :: u8)) = (char_of (0 :: nat) :: char)" by simp
  then show "c = CHR 0x00" unfolding char_byte by (simp add: char_of_def)
qed simp

lemma nul_text_field:
  assumes "plain_name s"
  shows "nul_text (text_field 100 s) = s"
proof -
  have nz: "list_all (\<lambda>b. b \<noteq> 0) (encode_ascii s)"
    using assms by (simp add: encode_ascii_def plain_name_def list_all_iff byte_zero)
  have zeros: "takeWhile (\<lambda>b. b \<noteq> 0) (replicate k (0 :: u8)) = []" for k by (cases k) simp_all
  have "takeWhile (\<lambda>b. b \<noteq> 0) (encode_ascii s @ replicate k 0) = encode_ascii s" for k
    using nz zeros by (subst takeWhile_append2) (simp_all add: list_all_iff)
  moreover have "text_field 100 s = encode_ascii s @ replicate (100 - length s) 0"
    using assms by (simp add: text_field_def plain_name_def)
  ultimately have "nul_text (text_field 100 s) = map (\<lambda>b. char_of (unat b)) (encode_ascii s)"
    by (simp only: nul_text_def)
  then show ?thesis by (simp add: encode_ascii_def comp_def char_byte)
qed

lemma header_parts:
  assumes "plain_name s" and "n < 8 ^ 11"
  shows "nul_text (take 100 (ustar_header s n)) = s" and "octal_value (take 11 (drop 124 (ustar_header s n))) = n"
    and "header_ok (ustar_header s n)" and "\<not> list_all (\<lambda>x. x = 0) (ustar_header s n)"
proof -
  let ?h = "ustar_header s n" and ?c = "checksum (header_before s n) header_after"
  have h: "?h = header_before s n @ encode_ascii (octal 6 ?c) @ [0, 32] @ header_after" by (simp add: ustar_header_def Let_def)
  have "take 100 ?h = text_field 100 s" unfolding h by (simp add: header_before_def)
  then show "nul_text (take 100 ?h) = s" using nul_text_field [OF assms(1)] by simp
  have "take 11 (drop 124 ?h) = encode_ascii (octal 11 n)" unfolding h by (simp add: header_before_def octal_field_def)
  then show "octal_value (take 11 (drop 124 ?h)) = n" using assms(2) by (simp add: octal_value_octal)
  have bound: "sum_list (map unat bs) \<le> 255 * length bs" for bs :: bytes
  proof (induction bs)
    case (Cons b bs)
    have "unat b < 256" using unsigned_less [of b, where 'a = nat] by simp
    with Cons show ?case by simp
  qed simp
  have "?c < 8 ^ 6"
    using bound [of "header_before s n"] bound [of header_after] by (simp add: checksum_def length_header_before length_header_after)
  then show "header_ok ?h"
    unfolding header_ok_def h by (simp add: length_header_before octal_value_octal)
  obtain c cs where "s = c # cs" "c \<noteq> CHR 0x00" using assms(1) by (cases s) (auto simp: plain_name_def)
  then have "hd ?h \<noteq> 0" unfolding h by (simp add: header_before_def text_field_def encode_ascii_def byte_zero)
  then show "\<not> list_all (\<lambda>x. x = 0) ?h" using length_ustar_header [of s n] by (cases ?h) simp_all
qed

lemma tar_read_members:
  assumes "list_all (\<lambda>m. plain_name (fst m) \<and> length (snd m) < 8 ^ 11) ms" and "length ms < k"
  shows "tar_read k (concat (map tar_member ms) @ replicate 1024 0 @ suff) = Some ms"
  using assms
proof (induction ms arbitrary: k)
  case Nil
  then obtain j where "k = Suc j" by (cases k) auto
  then show ?case by (simp add: Let_def list_all_iff)
next
  case (Cons m ms)
  then obtain j where k: "k = Suc j" "length ms < j" by (cases k) auto
  let ?h = "ustar_header (fst m) (length (snd m))" and ?rest = "concat (map tar_member ms) @ replicate 1024 0 @ suff"
  have split: "concat (map tar_member (m # ms)) @ replicate 1024 0 @ suff = ?h @ snd m @ pad_to 512 (length (snd m)) @ ?rest"
    by (simp add: tar_member_def)
  have m: "plain_name (fst m)" "length (snd m) < 8 ^ 11" using Cons.prems by auto
  note parts = header_parts [OF m]
  have ih: "tar_read j ?rest = Some ms" using Cons.IH [OF _ k(2)] Cons.prems(1) by simp
  show ?case
    unfolding split k(1) tar_read.simps Let_def
    using parts ih by (simp add: length_ustar_header)
qed

text \<open>
  C27. The length check of the transport builder is exact: the bytes the archive takes are the sum the tool
  computes from the sizes, for every list of members, so that \<open>Canonical USTAR padded length mismatch\<close> is never
  raised for files that have the sizes of their rows.
\<close>

theorem archive_length_exact:
  "int (length (tar_archive members)) = transport_bytes (map (\<lambda>m. int (length (snd m))) members)"
  by (rule length_tar_archive)

text \<open>
  C26. Archive round trip: members with plain names of at most 100 characters and lengths below \<open>8^11\<close> are read
  back from the archive by the reader of the format, names, bytes and order, and every header
  checksum holds.
\<close>

theorem archive_round_trip:
  assumes "list_all (\<lambda>m. plain_name (fst m) \<and> length (snd m) < 8 ^ 11) members"
  shows "tar_read (Suc (length members)) (tar_archive members) = Some members"
  using tar_read_members [OF assms, of "Suc (length members)"] by (simp add: tar_archive_def Let_def)

theorem archive_round_trip_witness:
  "tar_read 3 (tar_archive [(''f-ab'', [1, 2, 3]), (''f-cd'', replicate 600 0)]) = Some [(''f-ab'', [1, 2, 3]), (''f-cd'', replicate 600 0)]"
  using archive_round_trip [of "[(''f-ab'', [1, 2, 3]), (''f-cd'', replicate 600 0)]"] by (simp add: plain_name_def numeral_3_eq_3)

section \<open>What the transport preserves\<close>

definition row_ok :: "hash_fun \<Rightarrow> directory \<Rightarrow> string \<times> flat_row \<Rightarrow> bool" where
  "row_ok hash dir nr \<longleftrightarrow> (\<exists>e. lookup_file dir (fst nr) = Some e \<and> hash (content e) = row_sha (snd nr) \<and> row_bytes (snd nr) = file_bytes e)"

lemma flat_rows_ok:
  assumes "flat_bundle hash dir expected = Inr rows"
  shows "list_all (row_ok hash dir) rows"
proof -
  obtain lns folded where "fold_res (flat_step hash dir) lns ([], []) = Inr (rows, folded)"
    using assms by (auto simp: flat_bundle_def bnd_Inr_iff)
  then have "list_all (row_ok hash dir) (fst (rows, folded))"
  proof (rule fold_res_invariant [where I = "\<lambda>st. list_all (row_ok hash dir) (fst st)"])
    fix line st st'
    assume I: "list_all (row_ok hash dir) (fst st)" and step: "flat_step hash dir line st = Inr st'"
    obtain r f where st: "st = (r, f)" by (cases st)
    from step st obtain h n info where "transport_regular dir n 536870912 = Inr info" "transport_sha hash dir n = Inr h"
        and st': "fst st' = r @ [(n, \<lparr>row_sha = h, row_bytes = file_bytes info\<rparr>)]"
      by (auto simp: flat_step_def bnd_Inr_iff refuse_Inr_iff lift_res_Inr_iff split: option.split_asm prod.split_asm)
    then have "row_ok hash dir (n, \<lparr>row_sha = h, row_bytes = file_bytes info\<rparr>)"
      by (auto simp: row_ok_def transport_sha_def transport_regular_iff lift_res_Inr_iff read_bytes_iff)
    with I st st' show "list_all (row_ok hash dir) (fst st')" by simp
  qed simp
  then show ?thesis by simp
qed

lemma member_plain:
  assumes "rmatch HEX64 (hash (encode_ascii n))"
  shows "plain_name (member_name hash n)"
proof -
  have "is_hex c \<Longrightarrow> c \<noteq> CHR 0x00" for c by (auto simp: is_hex_def in_cls_def)
  then show ?thesis using assms by (auto simp: plain_name_def member_name_def HEX64_iff list_all_iff)
qed

text \<open>Where the bytes of a row are in the output.\<close>

definition delivered :: "hash_fun \<Rightarrow> (string \<times> bytes) list \<Rightarrow> (string \<times> bytes) list \<Rightarrow> string \<times> flat_row \<Rightarrow> bool" where
  "delivered hash out members nr \<longleftrightarrow>
     (\<exists>b. (if rmatch DEPENDENCY_NAME (fst nr) then (member_name hash (fst nr), b) \<in> set members else (fst nr, b) \<in> set out) \<and>
          hash b = row_sha (snd nr) \<and> int (length b) = row_bytes (snd nr))"


section \<open>A concrete bundle\<close>

text \<open>A hash of the right shape: the length of the bytes, as the last digit.\<close>

definition length_hash :: hash_fun where
  "length_hash b = replicate 63 (CHR ''0'') @ [if length b = 4 then CHR ''4'' else CHR ''e'']"

lemma length_hash_hex: "rmatch HEX64 (length_hash b)"
  by (simp add: HEX64_iff length_hash_def list_all_iff is_hex_def in_cls_def)

definition flat_name :: string where
  "flat_name = ''apk-'' @ length_hash [] @ ''.apk''"

definition flat_files :: "(string \<times> bytes) list" where
  "flat_files = [(''install-compact.sh'', [1]), (''bundle-transport-model.uc'', [1, 2]), (''bundle-transport.uc'', [1, 2, 3]),
     (flat_name, [4, 5, 6, 7])]"

definition flat_lines :: "(string \<times> string) list" where
  "flat_lines = map (\<lambda>(n, b). (length_hash b, n)) flat_files"

definition flat_manifest :: bytes where
  "flat_manifest = encode_ascii (manifest_text flat_lines)"

definition flat_dir :: directory where
  "flat_dir = \<lparr>dir_perm = 493, entries = map (\<lambda>(n, b). (n, plain_entry b)) ((''SHA256SUMS'', flat_manifest) # flat_files)\<rparr>"

definition flat_listed :: flat_rows where
  "flat_listed = map (\<lambda>(n, b). (n, \<lparr>row_sha = length_hash b, row_bytes = int (length b)\<rparr>)) flat_files"

lemma flat_name_facts:
  "flat_name \<noteq> ''SHA256SUMS''" "flat_name \<noteq> ''install-compact.sh''" "flat_name \<noteq> ''bundle-transport-model.uc''"
  "flat_name \<noteq> ''bundle-transport.uc''" "flat_name \<notin> set reserved_names" "lower flat_name = flat_name"
  "rmatch NAME flat_name" "rmatch DEPENDENCY_NAME flat_name"
  by code_simp+

lemma flat_lines_valid: "list_all valid_row flat_lines"
proof -
  have "rmatch NAME ''install-compact.sh''" "rmatch NAME ''bundle-transport-model.uc''" "rmatch NAME ''bundle-transport.uc''"
    by code_simp+
  then show ?thesis by (simp add: flat_lines_def flat_files_def valid_row_def length_hash_hex flat_name_facts)
qed

lemma flat_match: "row \<in> set flat_lines \<Longrightarrow> match_line (render_line row) = Some row"
  using flat_lines_valid by (auto simp: list_all_iff intro: sums.parse_render)

lemma flat_step_file:
  assumes "(digest, n) \<in> set flat_lines" and "lookup_file flat_dir n = Some (plain_entry b)" and "length_hash b = digest"
    and "b \<noteq> []" and "length b < 100" and "n \<notin> fst ` set rows" and "lower n \<notin> set folded" and "n \<notin> set reserved_names"
  shows "flat_step length_hash flat_dir (render_line (digest, n)) (rows, folded) =
    Inr (rows @ [(n, \<lparr>row_sha = digest, row_bytes = int (length b)\<rparr>)], lower n # folded)"
proof -
  have "transport_regular flat_dir n 536870912 = Inr (plain_entry b)"
    using assms(2,4,5) by (simp add: transport_regular_iff file_bytes_def)
  with assms show ?thesis
    by (simp add: flat_step_def flat_match transport_sha_def read_bytes_def lstat_def guard_simps file_bytes_def)
qed

lemma flat_lookup:
  "lookup_file flat_dir ''install-compact.sh'' = Some (plain_entry [1])"
  "lookup_file flat_dir ''bundle-transport-model.uc'' = Some (plain_entry [1, 2])"
  "lookup_file flat_dir ''bundle-transport.uc'' = Some (plain_entry [1, 2, 3])"
  "lookup_file flat_dir flat_name = Some (plain_entry [4, 5, 6, 7])"
  by (simp_all add: flat_dir_def flat_files_def lookup_file_def flat_name_facts)

lemma flat_bundle_accepted: "flat_bundle length_hash flat_dir (length_hash flat_manifest) = Inr flat_listed"
proof -
  have len: "0 < length flat_manifest" "length flat_manifest \<le> 227 * 4"
    using manifest_text_length [OF flat_lines_valid]
    by (simp_all add: flat_manifest_def flat_lines_def flat_files_def encode_ascii_def manifest_text_def)
  have entry: "lookup_file flat_dir ''SHA256SUMS'' = Some (plain_entry flat_manifest)"
    by (simp add: flat_dir_def lookup_file_def)
  have regular: "transport_regular flat_dir ''SHA256SUMS'' 1048576 = Inr (plain_entry flat_manifest)"
    using entry len by (simp add: transport_regular_iff file_bytes_def)
  have decoded: "decode_ascii flat_manifest = Inr (manifest_text flat_lines)"
    unfolding flat_manifest_def by (rule decode_encode_ascii [OF manifest_text_ascii [OF flat_lines_valid]])
  have lns: "splitlines (manifest_text flat_lines) = map render_line flat_lines"
    unfolding manifest_text_print by (rule sums.splitlines_print [OF flat_lines_valid])
  have lowers: "lower ''install-compact.sh'' = ''install-compact.sh''" "lower ''bundle-transport-model.uc'' = ''bundle-transport-model.uc''"
      "lower ''bundle-transport.uc'' = ''bundle-transport.uc''" "''install-compact.sh'' \<notin> set reserved_names"
      "''bundle-transport-model.uc'' \<notin> set reserved_names" "''bundle-transport.uc'' \<notin> set reserved_names" by code_simp+
  have members: "(length_hash [1], ''install-compact.sh'') \<in> set flat_lines" "(length_hash [1, 2], ''bundle-transport-model.uc'') \<in> set flat_lines"
      "(length_hash [1, 2, 3], ''bundle-transport.uc'') \<in> set flat_lines" "(length_hash [4, 5, 6, 7], flat_name) \<in> set flat_lines"
    by (simp_all add: flat_lines_def flat_files_def)
  note steps = flat_step_file [OF members(1) flat_lookup(1) refl] flat_step_file [OF members(2) flat_lookup(2) refl]
    flat_step_file [OF members(3) flat_lookup(3) refl] flat_step_file [OF members(4) flat_lookup(4) refl]
  have rows: "map render_line flat_lines = [render_line (length_hash [1], ''install-compact.sh''),
      render_line (length_hash [1, 2], ''bundle-transport-model.uc''), render_line (length_hash [1, 2, 3], ''bundle-transport.uc''),
      render_line (length_hash [4, 5, 6, 7], flat_name)]"
    by (simp add: flat_lines_def flat_files_def)
  have "fold_res (flat_step length_hash flat_dir) (map render_line flat_lines) ([], []) = Inr (flat_listed, rev (map fst flat_listed))"
    unfolding rows by (simp add: steps flat_name_facts lowers flat_listed_def flat_files_def)
  moreover have "fst ` set (entries flat_dir) = insert ''SHA256SUMS'' (fst ` set flat_listed)"
    by (simp add: flat_dir_def flat_listed_def flat_files_def)
  ultimately show ?thesis
    unfolding flat_bundle_def regular bnd_simps plain_entry_simps decoded lns by (simp add: guard_simps)
qed

lemma length_join: "length (join_with [c] ss) = sum_list (map length ss) + (length ss - 1)"
  by (induction "[c]" ss rule: join_with.induct) auto

lemma length_write_sorted: "length (write_value (sort_keys v)) = length (write_value v)"
proof (induction v)
  case (JArr xs)
  then have "map length (map write_value (map sort_keys xs)) = map length (map write_value xs)" by simp
  then show ?case by (simp add: length_join del: map_map)
next
  case (JObj kvs)
  let ?len = "\<lambda>kv. length (write_string (fst kv) @ '':'' @ write_value (snd kv))"
  have "sum_list (map ?len (sort_key fst (map (map_prod id sort_keys) kvs))) = sum_list (map ?len (map (map_prod id sort_keys) kvs))"
    unfolding sum_mset_sum_list [symmetric] mset_map mset_sort ..
  also have "map ?len (map (map_prod id sort_keys) kvs) = map ?len kvs" using JObj by auto
  finally show ?case by (simp add: length_join comp_def id_def)
qed simp_all

definition flat_archive :: bytes where
  "flat_archive = tar_archive [(member_name length_hash flat_name, [4, 5, 6, 7])]"

lemma flat_archived: "archived_rows flat_listed = [(flat_name, \<lparr>row_sha = length_hash [4, 5, 6, 7], row_bytes = 4\<rparr>)]"
  and flat_kept: "kept_rows flat_listed = map (\<lambda>(n, b). (n, \<lparr>row_sha = length_hash b, row_bytes = int (length b)\<rparr>)) (take 3 flat_files)"
  by code_simp+

lemma flat_built:
  "\<exists>out report. build_transport length_hash flat_dir flat_dir flat_dir (length_hash flat_manifest) False (20 * 1024 ^ 3) = Inr (out, report)"
proof -
  have tools: "tools_assembled length_hash flat_dir flat_listed = Inr ()"
    by (simp add: tools_assembled_def TRANSPORT_TOOLS_def transport_sha_def read_bytes_def lstat_def flat_lookup flat_listed_def flat_files_def guard_simps)
  have bounds: "transport_bounds flat_listed (20 * 1024 ^ 3) = Inr ()"
    unfolding transport_bounds_def flat_archived flat_kept
    by (simp add: Let_def guard_simps transport_bytes_def flat_files_def)
  have members: "archive_members length_hash flat_dir flat_listed = Inr [(member_name length_hash flat_name, [4, 5, 6, 7])]"
    unfolding archive_members_def flat_archived by (simp add: read_bytes_def lstat_def flat_lookup)
  have bytes: "int (length flat_archive) = 10240" "length flat_archive = 10240"
    using length_tar_archive [of "[(member_name length_hash flat_name, [4, 5, 6, 7])]"] by (simp_all add: flat_archive_def transport_bytes_def)
  have hashed: "length_hash flat_archive = length_hash []" by (simp add: length_hash_def bytes)
  have row: "transport_bytes [4] = 10240" by (simp add: transport_bytes_def)
  have kept: "copy_kept flat_dir flat_listed = Inr (take 3 flat_files)"
    unfolding copy_kept_def flat_kept by (simp add: read_bytes_def lstat_def flat_lookup flat_files_def)
  have same: "any_res (\<lambda>nr. lift_res (\<lambda>h. h \<noteq> row_sha (snd nr)) (transport_sha length_hash flat_dir (fst nr))) flat_listed = Inr False"
    by (simp add: transport_sha_def read_bytes_def lstat_def flat_lookup flat_listed_def flat_files_def)
  have descriptor: "\<not> 1048576 < length (descriptor_text (length_hash []) 10240 [(flat_name, \<lparr>row_sha = length_hash [4, 5, 6, 7], row_bytes = 4\<rparr>)])"
  proof -
    have "length (descriptor_text (length_hash []) 10240 [(flat_name, \<lparr>row_sha = length_hash [4, 5, 6, 7], row_bytes = 4\<rparr>)]) \<le> 6000"
    proof -
      have strings: "length (write_string k) \<le> 6 * length k + 2" for k by (rule length_write_string)
      have hash_len: "length (length_hash b) = 64" for b by (simp add: length_hash_def)
      have name_len: "length flat_name = 72" by (simp add: flat_name_def hash_len)
      have numbers: "length (str_of_int i) \<le> 21" if "\<bar>i\<bar> < 10 ^ 20" for i using that by (rule length_write_int)
      show ?thesis
        unfolding descriptor_text_def dumps_def length_append length_write_sorted
        using strings [of "length_hash []"] strings [of flat_name] strings [of "length_hash [4, 5, 6, 7]"]
          strings [of "''schema''"] strings [of "''archive''"] strings [of "''entries''"] strings [of "''file''"] strings [of "''sha256''"]
          strings [of "''bytes''"] strings [of "''native-install.tar''"] numbers [of 1] numbers [of 4] numbers [of 10240]
        by (simp add: row_json_def hash_len name_len)
    qed
    then show ?thesis by simp
  qed
  show ?thesis
    unfolding build_transport_def flat_bundle_accepted tools bounds members kept same flat_archived Let_def bnd_simps
      flat_archive_def [symmetric] list.map snd_conv flat_row.simps row hashed
    using descriptor by (simp add: guard_simps length_hash_hex bytes)
qed


end
