(* ===== verification/Engine_Legal.thy ===== *)
theory Engine_Legal
  imports Package_Inputs Indexed_Auth
begin

text \<open>
  engine-legal.py and check-engine-package-input.py: the original legal texts delivered with one engine
  producer, and the binding of one protocol, architecture and storage to a producer and its capabilities. A
  delivery is a directory; \<open>linked\<close> says that a symbolic link is on the way to it and \<open>uid\<close> is the user.
\<close>

section \<open>Fields\<close>

definition LEGAL_TEXTS :: "string list" where
  "LEGAL_TEXTS = [''DEPENDENCY-LICENSES.txt'', ''RUNTIME-NOTICES.txt'']"

definition AUTHORITY_KEYS :: "string list" where
  "AUTHORITY_KEYS = [''producerStageReceiptSha256'', ''producerSummaryReceiptSha256'', ''cargoCaptureSha256'',
     ''selectedCargoSbomSha256'', ''cargoOriginalNoticesReportSha256'', ''runtimeOriginalNoticesReportSha256'']"

definition LEGAL_FIELDS :: "string list" where
  "LEGAL_FIELDS = [''schema'', ''coreCommit'', ''sourceArchiveSha256'', ''target'', ''protocols'',
     ''producerSha256'', ''binarySha256'', ''originalCoreNotices'', ''files'', ''authorities'']"

definition SOURCE2_FIELDS :: "string list" where
  "SOURCE2_FIELDS = filter (\<lambda>f. f \<noteq> ''sourceArchiveSha256'') LEGAL_FIELDS @
     [''sourceContentSha256'', ''sourceManifestSha256'', ''sourceAuthority'']"

definition SOURCE2_AUTHORITY :: "string list" where
  "SOURCE2_AUTHORITY = [''commit'', ''tree'', ''signatureReceiptSha256'', ''sourceBankReceiptSha256'']"

definition commit_pattern :: rx where
  "commit_pattern = Rep (Cls [(CHR ''a'', CHR ''f''), (CHR ''0'', CHR ''9'')]) 40 40"

text \<open>\<open>not isinstance(v, str) or R.fullmatch(v) is None\<close>.\<close>

definition not_text :: "rx \<Rightarrow> json \<Rightarrow> bool" where
  "not_text r v = (case v of JStr s \<Rightarrow> \<not> rmatch r s | _ \<Rightarrow> True)"

definition keys_differ :: "json \<Rightarrow> string list \<Rightarrow> bool res" where
  "keys_differ v names = lift_res (\<lambda>s. \<not> same_set s (map JStr names)) (element_set v)"

text \<open>\<open>a.get(k) != b.get(l)\<close>.\<close>

definition fields_differ :: "json \<Rightarrow> string \<Rightarrow> json \<Rightarrow> string \<Rightarrow> bool res" where
  "fields_differ a k b l = bnd (get a k) (\<lambda>x. lift_res (py_ne x) (get b l))"

section \<open>The authorities\<close>

text \<open>The operands the two schemas share, in the order of the code.\<close>

definition producer_bindings :: "json \<Rightarrow> json \<Rightarrow> string \<Rightarrow> string \<Rightarrow> bool res list" where
  "producer_bindings v producer producer_sha protocol =
     [fields_differ v ''target'' producer ''target'',
      lift_res (\<lambda>x. py_ne x (JArr [JStr protocol])) (get v ''protocols''),
      lift_res (\<lambda>x. x \<noteq> JStr producer_sha) (get v ''producerSha256''),
      fields_differ v ''binarySha256'' producer ''binarySha256'',
      fields_differ v ''originalCoreNotices'' producer ''filesSha256'',
      bnd (get_or v ''files'' (JObj [])) (\<lambda>f. keys_differ f LEGAL_TEXTS),
      bnd (get_or v ''authorities'' (JObj [])) (\<lambda>a. keys_differ a AUTHORITY_KEYS),
      bnd (bnd (sub v ''authorities'') items_of) (\<lambda>kvs. Inr (list_ex (\<lambda>kv. not_text HEX64 (snd kv)) kvs))]"

definition validate_source2 :: "json \<Rightarrow> json \<Rightarrow> string \<Rightarrow> string \<Rightarrow> unit res" where
  "validate_source2 v producer producer_sha protocol =
     bnd (get v ''sourceAuthority'') (\<lambda>authority.
     refuse ([keys_differ v SOURCE2_FIELDS,
              fields_differ v ''coreCommit'' producer ''sourceCommit'',
              fields_differ v ''sourceContentSha256'' producer ''sourceSha256'',
              lift_res (not_text HEX64) (get v ''sourceContentSha256''),
              lift_res (not_text HEX64) (get v ''sourceManifestSha256''),
              Inr (\<not> is_obj authority), keys_differ authority SOURCE2_AUTHORITY,
              fields_differ authority ''commit'' producer ''sourceCommit'',
              lift_res (not_text commit_pattern) (get authority ''commit''),
              lift_res (not_text commit_pattern) (get authority ''tree''),
              any_res (\<lambda>k. lift_res (not_text HEX64) (get authority k)) [''signatureReceiptSha256'', ''sourceBankReceiptSha256'']]
             @ producer_bindings v producer producer_sha protocol)
       ''Source-content legal authorities differ from the exact engine producer'')"

definition validate_source1 :: "json \<Rightarrow> json \<Rightarrow> string \<Rightarrow> string \<Rightarrow> unit res" where
  "validate_source1 v producer producer_sha protocol =
     refuse ([keys_differ v LEGAL_FIELDS, int_not v ''schema'' 1,
              fields_differ v ''coreCommit'' producer ''sourceCommit'',
              fields_differ v ''sourceArchiveSha256'' producer ''sourceSha256'']
             @ producer_bindings v producer producer_sha protocol)
       ''Original legal text authorities differ from the exact engine producer''"

section \<open>The delivered files\<close>

definition legal_hash :: "hash_fun \<Rightarrow> bool \<Rightarrow> int \<Rightarrow> directory \<Rightarrow> string \<Rightarrow> int \<Rightarrow> string res" where
  "legal_hash hash linked uid dir n maximum =
     bnd (refuse [Inr linked, Inr (case lookup_file dir n of Some e \<Rightarrow> ftype e = Symlink | None \<Rightarrow> False)]
            ''Original legal delivery may not contain links'') (\<lambda>_.
     bnd (lstat dir n) (\<lambda>info.
     bnd (refuse [Inr (ftype info \<noteq> Regular), Inr (nlink info \<noteq> 1), Inr (owner info \<noteq> uid), Inr (perm info AND 18 \<noteq> 0),
                  Inr (\<not> (0 < file_bytes info \<and> file_bytes info \<le> maximum))]
            ''Bounded owned original legal delivery required'') (\<lambda>_.
     Inr (hash (content info)))))"

definition TEXT_LIMIT :: int where "TEXT_LIMIT = 33554432"

definition legal_row :: "hash_fun \<Rightarrow> bool \<Rightarrow> int \<Rightarrow> directory \<Rightarrow> json \<Rightarrow> string \<Rightarrow> int \<Rightarrow> int res" where
  "legal_row hash linked uid dir v n acc =
     bnd (bnd (sub v ''files'') (\<lambda>f. sub f n)) (\<lambda>row.
     bnd (refuse [keys_differ row [''sha256'', ''bytes''],
                  lift_res (\<lambda>x. case x of JInt i \<Rightarrow> \<not> (0 < i \<and> i \<le> TEXT_LIMIT) | _ \<Rightarrow> True) (get row ''bytes''),
                  lift_res (not_text HEX64) (get row ''sha256''),
                  bnd (legal_hash hash linked uid dir n TEXT_LIMIT) (\<lambda>h. lift_res (\<lambda>x. JStr h \<noteq> x) (sub row ''sha256'')),
                  bnd (lstat dir n) (\<lambda>e. lift_res (\<lambda>x. py_ne (JInt (file_bytes e)) x) (sub row ''bytes''))]
            ''Original dependency/runtime text bytes changed'') (\<lambda>_.
     bnd (bnd (sub row ''bytes'') as_int) (\<lambda>n. Inr (acc + n))))"

definition legal_validate :: "hash_fun \<Rightarrow> bool \<Rightarrow> int \<Rightarrow> directory \<Rightarrow> string \<Rightarrow> json \<Rightarrow> string \<Rightarrow> string \<Rightarrow> json res" where
  "legal_validate hash linked uid dir expected producer producer_sha protocol =
     bnd (refuse [Inr (\<not> rmatch HEX64 expected)] ''External actual legal provenance SHA required'') (\<lambda>_.
     bnd (refuse [lift_res (\<lambda>h. h \<noteq> expected) (legal_hash hash linked uid dir ''LEGAL-PROVENANCE.json'' 131072)]
            ''Original legal delivery provenance changed'') (\<lambda>_.
     bnd (read_json dir ''LEGAL-PROVENANCE.json'') (\<lambda>v.
     bnd (get v ''schema'') (\<lambda>schema.
     bnd (if schema = JInt 2 then validate_source2 v producer producer_sha protocol
          else validate_source1 v producer producer_sha protocol) (\<lambda>_.
     bnd (fold_res (legal_row hash linked uid dir v) LEGAL_TEXTS 0) (\<lambda>total.
     bnd (refuse [Inr (67108864 < total)] ''Original legal text delivery exceeds total budget'') (\<lambda>_.
     Inr v)))))))"

section \<open>One engine package input\<close>

record engine_args =
  eng_input :: directory
  eng_id :: string
  eng_storage :: string
  eng_arch :: string
  eng_package_arch :: string
  eng_version :: string
  eng_source_sha256 :: string
  eng_memory :: int
  eng_reserve :: int
  eng_launcher :: "(directory \<times> string) option"
  eng_legal :: directory
  eng_legal_sha256 :: string
  eng_manifest_sha256 :: "string option"

definition engine_sha :: "hash_fun \<Rightarrow> directory \<Rightarrow> string \<Rightarrow> string res" where
  "engine_sha hash dir n = lift_res (\<lambda>e. hash (content e)) (some_or ''Regular engine producer input required'' (plain_file dir n))"

text \<open>The check is a subprocess: when it fails, \<open>run\<close> raises whatever the exception of the check was.\<close>

definition subprocess_check :: "unit res \<Rightarrow> unit res" where
  "subprocess_check r = (case r of Inr _ \<Rightarrow> Inr () | Inl _ \<Rightarrow> Inl OSError)"

definition engine_receipts :: "json \<Rightarrow> json \<Rightarrow> engine_args \<Rightarrow> unit res" where
  "engine_receipts producer caps args =
     refuse [lift_res (\<lambda>x. py_ne x (JArr [JStr (eng_id args)])) (get producer ''protocols''),
             lift_res (\<lambda>x. py_ne x (JArr [JStr (eng_id args)])) (get caps ''protocols''),
             lift_res (\<lambda>x. x \<noteq> JStr ''linux'') (get caps ''platform''),
             lift_res (\<lambda>x. py_ne x (JInt 1)) (get caps ''router_contract_version''),
             lift_res (\<lambda>x. x \<noteq> JStr (eng_version args)) (get caps ''core_version''),
             not_res (field_matches commit_pattern producer ''sourceCommit'')]
       ''Actual single-protocol capabilities and source commit required''"

definition engine_manifest :: "engine_args \<Rightarrow> string \<Rightarrow> string \<Rightarrow> string \<Rightarrow> string \<Rightarrow> json \<Rightarrow> int \<Rightarrow> json" where
  "engine_manifest args binary_sha executable_sha producer_sha caps_sha commit n =
     JObj [(''schema'', JInt 1), (''id'', JStr (eng_id args)), (''storage'', JStr (eng_storage args)),
       (''version'', JStr (eng_version args)), (''architecture'', JStr (eng_package_arch args)),
       (''binarySha256'', JStr binary_sha), (''executableSha256'', JStr executable_sha), (''producerSha256'', JStr producer_sha),
       (''capabilitiesSha256'', JStr caps_sha), (''legalProvenanceSha256'', JStr (eng_legal_sha256 args)), (''sourceCommit'', commit),
       (''binaryBytes'', JInt n), (''runtimeMemoryBytes'', JInt (eng_memory args)), (''reserveBytes'', JInt (eng_reserve args))]"

definition engine_input :: "hash_fun \<Rightarrow> bool \<Rightarrow> int \<Rightarrow> engine_args \<Rightarrow> bool \<Rightarrow> (bytes \<times> string) res" where
  "engine_input hash linked uid args output_exists =
     (let dir = eng_input args in
     bnd (refuse [Inr ((eng_arch args = ''x86_64'') \<noteq> (eng_package_arch args = ''x86_64'')),
                  Inr (\<not> (0 < eng_memory args \<and> eng_memory args \<le> 2 ^ 31)),
                  Inr (\<not> (16777216 \<le> eng_reserve args \<and> eng_reserve args \<le> 2 ^ 31))]
            ''Exact target and explicit conservative memory budget required'') (\<lambda>_.
     bnd (subprocess_check (core_package_input dir (eng_arch args) (eng_version args) (eng_source_sha256 args) None None)) (\<lambda>_.
     bnd (read_json dir ''core-producer.json'') (\<lambda>producer.
     bnd (engine_sha hash dir ''capabilities.json'') (\<lambda>_.
     bnd (read_json dir ''capabilities.json'') (\<lambda>caps.
     bnd (engine_receipts producer caps args) (\<lambda>_.
     bnd (refuse [lift_res (\<lambda>x. x \<noteq> JStr (eng_arch args @ ''-unknown-linux-musl'')) (get producer ''target'')] ''Producer target differs'') (\<lambda>_.
     bnd (lstat dir ''foxcore-cli'') (\<lambda>e. let n = file_bytes e in
     bnd (refuse [Inr (\<not> (0 < n \<and> n \<le> 67108864))] ''Bounded engine ELF required'') (\<lambda>_.
     bnd (refuse [Inr (fst ` set (entries (eng_legal args)) \<noteq> set (''LEGAL-PROVENANCE.json'' # LEGAL_TEXTS))]
            ''Exactly three original legal delivery files required'') (\<lambda>_.
     bnd (engine_sha hash dir ''core-producer.json'') (\<lambda>producer_sha.
     bnd (legal_validate hash linked uid (eng_legal args) (eng_legal_sha256 args) producer producer_sha (eng_id args)) (\<lambda>_.
     bnd (engine_sha hash dir ''foxcore-cli'') (\<lambda>binary_sha.
     bnd (if eng_storage args = ''RAM'' then
            bnd (some_or ''Pinned RAM launcher required'' (eng_launcher args)) (\<lambda>(ldir, ln). engine_sha hash ldir ln)
          else Inr binary_sha) (\<lambda>executable_sha.
     bnd (engine_sha hash dir ''capabilities.json'') (\<lambda>caps_sha.
     bnd (sub producer ''sourceCommit'') (\<lambda>commit.
     let raw = encode_ascii (write_value (engine_manifest args binary_sha executable_sha producer_sha caps_sha commit n) @ [CHR 0x0A]);
         digest = hash raw in
     bnd (case eng_manifest_sha256 args of None \<Rightarrow> Inr ()
          | Some m \<Rightarrow> refuse [Inr (\<not> rmatch HEX64 m), Inr (digest \<noteq> m)] ''Immutable slot identity differs from the SDK package name'') (\<lambda>_.
     bnd (refuse [Inr output_exists] ''Fresh manifest output required'') (\<lambda>_.
     Inr (raw, digest))))))))))))))))))))"

section \<open>What an accepted delivery is\<close>

definition delivered_text :: "hash_fun \<Rightarrow> int \<Rightarrow> directory \<Rightarrow> json \<Rightarrow> string \<Rightarrow> file_entry \<Rightarrow> bool" where
  "delivered_text hash uid dir v n e \<longleftrightarrow>
     lookup_file dir n = Some e \<and> ftype e = Regular \<and> nlink e = 1 \<and> owner e = uid \<and> perm e AND 18 = 0 \<and>
     0 < file_bytes e \<and> file_bytes e \<le> TEXT_LIMIT \<and>
     (\<exists>files row. sub v ''files'' = Inr files \<and> sub files n = Inr row \<and>
        sub row ''sha256'' = Inr (JStr (hash (content e))) \<and> sub row ''bytes'' = Inr (JInt (file_bytes e)))"

lemma legal_hash_iff:
  "legal_hash hash linked uid dir n maximum = Inr h \<longleftrightarrow>
     (\<not> linked \<and> (\<exists>e. lookup_file dir n = Some e \<and> ftype e = Regular \<and> nlink e = 1 \<and> owner e = uid \<and> perm e AND 18 = 0 \<and>
        0 < file_bytes e \<and> file_bytes e \<le> maximum \<and> h = hash (content e)))"
  by (auto simp: legal_hash_def bnd_Inr_iff refuse_Inr_iff lstat_def split: option.splits)

lemma legal_row_ok:
  assumes "legal_row hash linked uid dir v n acc = Inr acc'"
  obtains e where "delivered_text hash uid dir v n e" and "acc' = acc + file_bytes e"
proof -
  note facts = assms [unfolded legal_row_def bnd_Inr_iff ex_unit_iff]
  obtain files row bv k where files: "sub v ''files'' = Inr files" "sub files n = Inr row"
    and checks: "refuse [keys_differ row [''sha256'', ''bytes''],
                  lift_res (\<lambda>x. case x of JInt i \<Rightarrow> \<not> (0 < i \<and> i \<le> TEXT_LIMIT) | _ \<Rightarrow> True) (get row ''bytes''),
                  lift_res (not_text HEX64) (get row ''sha256''),
                  bnd (legal_hash hash linked uid dir n TEXT_LIMIT) (\<lambda>h. lift_res (\<lambda>x. JStr h \<noteq> x) (sub row ''sha256'')),
                  bnd (lstat dir n) (\<lambda>e. lift_res (\<lambda>x. py_ne (JInt (file_bytes e)) x) (sub row ''bytes''))]
            ''Original dependency/runtime text bytes changed'' = Inr ()"
    and k: "sub row ''bytes'' = Inr bv" "as_int bv = Inr k" "Inr (acc + k) = (Inr acc' :: int res)"
    using facts by (elim exE conjE) (rule that, assumption+)
  from checks obtain h where h: "legal_hash hash linked uid dir n TEXT_LIMIT = Inr h" "sub row ''sha256'' = Inr (JStr h)"
    by (auto simp: refuse_Inr_iff bnd_Inr_iff lift_res_Inr_iff)
  from h(1) obtain e where e: "lookup_file dir n = Some e" "ftype e = Regular" "nlink e = 1" "owner e = uid" "perm e AND 18 = 0"
      "0 < file_bytes e" "file_bytes e \<le> TEXT_LIMIT" "h = hash (content e)"
    unfolding legal_hash_iff by auto
  have "lstat dir n = Inr e" using e(1) by (simp add: lstat_def)
  moreover have "bv = JInt k" using k(2) by (simp add: as_int_iff)
  ultimately have "k = file_bytes e" using checks k(1) by (auto simp: refuse_Inr_iff lift_res_Inr_iff)
  with e files h k show thesis
    by (intro that [of e]) (auto simp: delivered_text_def as_int_iff)
qed

lemma validated_authorities:
  assumes "(if sch = JInt 2 then validate_source2 v producer producer_sha protocol
            else validate_source1 v producer producer_sha protocol) = Inr ()"
  shows "get v ''producerSha256'' = Inr (JStr producer_sha)" and "fields_differ v ''binarySha256'' producer ''binarySha256'' = Inr False"
    and "fields_differ v ''coreCommit'' producer ''sourceCommit'' = Inr False" and "get v ''protocols'' = Inr (JArr [JStr protocol])"
proof -
  have "list_all (\<lambda>c. c = Inr False) (producer_bindings v producer producer_sha protocol) \<and>
      fields_differ v ''coreCommit'' producer ''sourceCommit'' = Inr False"
    using assms
    by (auto simp: validate_source1_def validate_source2_def bnd_Inr_iff refuse_Inr_iff producer_bindings_def split: if_split_asm)
  then show "get v ''producerSha256'' = Inr (JStr producer_sha)" and "fields_differ v ''binarySha256'' producer ''binarySha256'' = Inr False"
    and "fields_differ v ''coreCommit'' producer ''sourceCommit'' = Inr False" and "get v ''protocols'' = Inr (JArr [JStr protocol])"
    by (auto simp: producer_bindings_def lift_res_Inr_iff)
qed

text \<open>
  C28. The legal delivery is exact: an accepted delivery has the anchored provenance record, which is about this producer
  file, this binary, this commit and this protocol; and each of the two original texts is an owned regular file of one link, not
  writable by others, within its bound, with the digest and the length the record states. Together
  they stay within 64 MiB.
\<close>

theorem legal_delivery_exact:
  assumes "legal_validate hash linked uid dir expected producer producer_sha protocol = Inr v"
  shows "\<exists>deps runtime provenance.
    lookup_file dir ''LEGAL-PROVENANCE.json'' = Some provenance \<and> hash (content provenance) = expected \<and>
    read_json dir ''LEGAL-PROVENANCE.json'' = Inr v \<and>
    get v ''producerSha256'' = Inr (JStr producer_sha) \<and> get v ''protocols'' = Inr (JArr [JStr protocol]) \<and>
    fields_differ v ''binarySha256'' producer ''binarySha256'' = Inr False \<and>
    fields_differ v ''coreCommit'' producer ''sourceCommit'' = Inr False \<and>
    delivered_text hash uid dir v ''DEPENDENCY-LICENSES.txt'' deps \<and> delivered_text hash uid dir v ''RUNTIME-NOTICES.txt'' runtime \<and>
    file_bytes deps + file_bytes runtime \<le> 64 * 1024 ^ 2"
proof -
  note facts = assms [unfolded legal_validate_def bnd_Inr_iff ex_unit_iff]
  obtain w sch acc where
      prov: "refuse [lift_res (\<lambda>h. h \<noteq> expected) (legal_hash hash linked uid dir ''LEGAL-PROVENANCE.json'' 131072)]
            ''Original legal delivery provenance changed'' = Inr ()"
    and read: "read_json dir ''LEGAL-PROVENANCE.json'' = Inr w"
    and auth: "(if sch = JInt 2 then validate_source2 w producer producer_sha protocol
          else validate_source1 w producer producer_sha protocol) = Inr ()"
    and texts: "fold_res (legal_row hash linked uid dir w) LEGAL_TEXTS 0 = Inr acc"
    and bound: "refuse [Inr (67108864 < acc)] ''Original legal text delivery exceeds total budget'' = Inr ()"
    and v: "Inr w = (Inr v :: json res)"
    using facts by (elim exE conjE) (rule that, assumption+)
  have v: "w = v" using v by simp
  from prov obtain p where p: "lookup_file dir ''LEGAL-PROVENANCE.json'' = Some p" "hash (content p) = expected"
    by (auto simp: refuse_Inr_iff lift_res_Inr_iff legal_hash_iff)
  from texts obtain mid where mid: "legal_row hash linked uid dir v ''DEPENDENCY-LICENSES.txt'' 0 = Inr mid"
      "legal_row hash linked uid dir v ''RUNTIME-NOTICES.txt'' mid = Inr acc"
    by (auto simp: LEGAL_TEXTS_def v bnd_Inr_iff)
  obtain deps where deps: "delivered_text hash uid dir v ''DEPENDENCY-LICENSES.txt'' deps" "mid = 0 + file_bytes deps"
    using legal_row_ok [OF mid(1)] by blast
  obtain runtime where runtime: "delivered_text hash uid dir v ''RUNTIME-NOTICES.txt'' runtime" "acc = mid + file_bytes runtime"
    using legal_row_ok [OF mid(2)] by blast
  have "file_bytes deps + file_bytes runtime \<le> 64 * 1024 ^ 2"
    using bound deps(2) runtime(2) by (simp add: refuse_Inr_iff)
  with p read validated_authorities [OF auth] deps(1) runtime(1) show ?thesis unfolding v by blast
qed

section \<open>The manifest of an engine slot\<close>


section \<open>A concrete delivery\<close>

definition legal_digest :: string where
  "legal_digest = replicate 64 (CHR ''d'')"

definition legal_doc :: json where
  "legal_doc = JObj [(''schema'', JInt 1), (''coreCommit'', JStr (replicate 40 (CHR ''c''))),
     (''sourceArchiveSha256'', JStr (replicate 64 (CHR ''a''))), (''target'', JStr ''x86_64-unknown-linux-musl''),
     (''protocols'', JArr [JStr ''vless'']), (''producerSha256'', JStr (sha256_hex (encode_ascii (write_value core_receipt)))),
     (''binarySha256'', JStr (sha256_hex static_elf)),
     (''originalCoreNotices'', JObj [(''LICENSE'', JStr (sha256_hex [1])), (''THIRD_PARTY_NOTICES.md'', JStr (sha256_hex [2]))]),
     (''files'', JObj [(''DEPENDENCY-LICENSES.txt'', JObj [(''sha256'', JStr (sha256_hex [3])), (''bytes'', JInt 1)]),
        (''RUNTIME-NOTICES.txt'', JObj [(''sha256'', JStr (sha256_hex [4, 4])), (''bytes'', JInt 2)])]),
     (''authorities'', JObj (map (\<lambda>k. (k, JStr legal_digest)) AUTHORITY_KEYS))]"

definition legal_bytes :: bytes where
  "legal_bytes = encode_ascii (write_value legal_doc)"

definition legal_dir :: directory where
  "legal_dir = \<lparr>dir_perm = 493, entries = [(''LEGAL-PROVENANCE.json'', plain_entry legal_bytes),
     (''DEPENDENCY-LICENSES.txt'', plain_entry [3]), (''RUNTIME-NOTICES.txt'', plain_entry [4, 4])]\<rparr>"

definition engine_example :: engine_args where
  "engine_example = \<lparr>eng_input = core_input, eng_id = ''vless'', eng_storage = ''FLASH'', eng_arch = ''x86_64'',
     eng_package_arch = ''x86_64'', eng_version = ''1.2.0'', eng_source_sha256 = replicate 64 (CHR ''a''), eng_memory = 4096,
     eng_reserve = 16777216, eng_launcher = None, eng_legal = legal_dir, eng_legal_sha256 = sha256_hex legal_bytes,
     eng_manifest_sha256 = None\<rparr>"

lemma legal_files:
  "lookup_file legal_dir ''LEGAL-PROVENANCE.json'' = Some (plain_entry legal_bytes)"
  "lookup_file legal_dir ''DEPENDENCY-LICENSES.txt'' = Some (plain_entry [3])"
  "lookup_file legal_dir ''RUNTIME-NOTICES.txt'' = Some (plain_entry [4, 4])"
  by (simp_all add: legal_dir_def lookup_file_def)

lemma legal_doc_small: "length legal_bytes \<le> 131072"
proof -
  have hash_len: "length (sha256_hex b) = 64" for b by (rule sha.digest_length)
  note str = length_write_string
  show ?thesis
    unfolding legal_bytes_def encode_ascii_def length_map
    using str [of "sha256_hex (encode_ascii (write_value core_receipt))"] str [of "sha256_hex static_elf"]
      str [of "sha256_hex [1]"] str [of "sha256_hex [2]"] str [of "sha256_hex [3]"] str [of "sha256_hex [4, 4]"] str [of legal_digest]
      str [of "replicate 40 (CHR ''c'')"] str [of "replicate 64 (CHR ''a'')"]
      length_write_int [of 1] length_write_int [of 2]
    by (simp add: legal_doc_def AUTHORITY_KEYS_def hash_len write_digest legal_digest_def write_string_def escape_char_def)
qed

lemma legal_hashes:
  "legal_hash sha256_hex False 0 legal_dir ''LEGAL-PROVENANCE.json'' 131072 = Inr (sha256_hex legal_bytes)"
  "legal_hash sha256_hex False 0 legal_dir ''DEPENDENCY-LICENSES.txt'' TEXT_LIMIT = Inr (sha256_hex [3])"
  "legal_hash sha256_hex False 0 legal_dir ''RUNTIME-NOTICES.txt'' TEXT_LIMIT = Inr (sha256_hex [4, 4])"
proof -
  have "legal_bytes \<noteq> []" by (simp add: legal_bytes_def encode_ascii_def legal_doc_def)
  then show "legal_hash sha256_hex False 0 legal_dir ''LEGAL-PROVENANCE.json'' 131072 = Inr (sha256_hex legal_bytes)"
    using legal_doc_small by (simp add: legal_hash_iff legal_files file_bytes_def plain_entry_def)
qed (simp_all add: legal_hash_iff legal_files file_bytes_def TEXT_LIMIT_def plain_entry_def)

lemma legal_read: "read_json legal_dir ''LEGAL-PROVENANCE.json'' = Inr legal_doc"
  by (rule written_read [OF legal_files(1)])
    (simp_all add: legal_doc_def legal_bytes_def AUTHORITY_KEYS_def printable_int del: printable.simps(2))

lemma legal_authorities:
  "validate_source1 legal_doc core_receipt (sha256_hex (encode_ascii (write_value core_receipt))) ''vless'' = Inr ()"
proof -
  have hex: "rmatch HEX64 legal_digest" by (simp add: legal_digest_def HEX64_iff list_all_iff is_hex_def in_cls_def)
  have fields: "keys_differ legal_doc LEGAL_FIELDS = Inr False"
    by (simp add: keys_differ_def legal_doc_def LEGAL_FIELDS_def element_set_def same_set_def insert_commute)
  show ?thesis
    unfolding validate_source1_def producer_bindings_def
    by (simp add: guard_simps fields)
      (simp add: legal_doc_def core_receipt_def fields_differ_def int_not_def guard_simps keys_differ_def element_set_def same_set_def
        LEGAL_TEXTS_def AUTHORITY_KEYS_def not_text_def hex)
qed

lemma legal_accepted:
  "legal_validate sha256_hex False 0 legal_dir (sha256_hex legal_bytes) core_receipt
     (sha256_hex (encode_ascii (write_value core_receipt))) ''vless'' = Inr legal_doc"
proof -
  have row: "get legal_doc ''schema'' = Inr (JInt 1)" by (simp add: legal_doc_def)
  have rows: "legal_row sha256_hex False 0 legal_dir legal_doc ''DEPENDENCY-LICENSES.txt'' 0 = Inr 1"
      "legal_row sha256_hex False 0 legal_dir legal_doc ''RUNTIME-NOTICES.txt'' 1 = Inr 3"
    unfolding legal_row_def
    by (simp_all add: legal_hashes [unfolded TEXT_LIMIT_def] legal_doc_def guard_simps keys_differ_def element_set_def same_set_def not_text_def
        sha.digest_pattern TEXT_LIMIT_def lstat_def legal_files file_bytes_def insert_commute)
  have texts: "fold_res (legal_row sha256_hex False 0 legal_dir legal_doc) LEGAL_TEXTS 0 = Inr 3"
    by (simp add: LEGAL_TEXTS_def rows)
  show ?thesis
    unfolding legal_validate_def legal_hashes legal_read bnd_simps row texts
    by (simp add: guard_simps sha.digest_pattern legal_authorities)
qed

theorem legal_delivery_exact_witness:
  "legal_validate sha256_hex False 0 legal_dir (sha256_hex legal_bytes) core_receipt
     (sha256_hex (encode_ascii (write_value core_receipt))) ''vless'' = Inr legal_doc \<and>
   delivered_text sha256_hex 0 legal_dir legal_doc ''RUNTIME-NOTICES.txt'' (plain_entry [4, 4])"
proof -
  from legal_delivery_exact [OF legal_accepted] obtain e
    where "delivered_text sha256_hex 0 legal_dir legal_doc ''RUNTIME-NOTICES.txt'' e" by blast
  moreover from this have "e = plain_entry [4, 4]" by (simp add: delivered_text_def legal_files)
  ultimately show ?thesis using legal_accepted by simp
qed

lemma capabilities_read: "read_json core_input ''capabilities.json'' = Inr core_capabilities"
  by (rule written_read [OF core_input_files(5)])
    (simp_all add: core_capabilities_def printable_int del: printable.simps(2))

lemma engine_shas:
  "engine_sha sha256_hex core_input ''capabilities.json'' = Inr (sha256_hex (encode_ascii (write_value core_capabilities)))"
  "engine_sha sha256_hex core_input ''core-producer.json'' = Inr (sha256_hex (encode_ascii (write_value core_receipt)))"
  "engine_sha sha256_hex core_input ''foxcore-cli'' = Inr (sha256_hex static_elf)"
  by (simp_all add: engine_sha_def plain_file_def core_input_files)

lemma engine_accepted: "\<exists>raw digest. engine_input sha256_hex False 0 engine_example False = Inr (raw, digest)"
proof -
  have core: "core_package_input core_input ''x86_64'' ''1.2.0'' (replicate 64 (CHR ''a'')) None None = Inr ()"
    by (rule core_input_checked) (simp add: core_download_def)
  have commit: "rmatch commit_pattern (replicate 40 (CHR ''c''))" by code_simp
  have receipts: "engine_receipts core_receipt core_capabilities engine_example = Inr ()"
    using commit by (simp add: engine_receipts_def core_receipt_def core_capabilities_def engine_example_def guard_simps field_matches_def)
  have small: "lstat core_input ''foxcore-cli'' = Inr (plain_entry static_elf)" "file_bytes (plain_entry static_elf) = 64"
    by (simp_all add: lstat_def core_input_files file_bytes_def static_elf_def elf_magic_def field8_def)
  have names: "fst ` set (entries legal_dir) = set (''LEGAL-PROVENANCE.json'' # LEGAL_TEXTS)"
    by (auto simp: legal_dir_def LEGAL_TEXTS_def)
  have fields: "get core_receipt ''target'' = Inr (JStr ''x86_64-unknown-linux-musl'')"
      "sub core_receipt ''sourceCommit'' = Inr (JStr (replicate 40 (CHR ''c'')))"
    by (simp_all add: core_receipt_def)
  have args: "eng_input engine_example = core_input" "eng_id engine_example = ''vless''" "eng_storage engine_example = ''FLASH''"
      "eng_arch engine_example = ''x86_64''" "eng_package_arch engine_example = ''x86_64''" "eng_version engine_example = ''1.2.0''"
      "eng_source_sha256 engine_example = replicate 64 (CHR ''a'')" "eng_memory engine_example = 4096"
      "eng_reserve engine_example = 16777216" "eng_legal engine_example = legal_dir"
      "eng_legal_sha256 engine_example = sha256_hex legal_bytes" "eng_manifest_sha256 engine_example = None"
    by (simp_all add: engine_example_def)
  show ?thesis
    unfolding engine_input_def Let_def args core subprocess_check_def sum.case core_receipt_read capabilities_read engine_shas receipts
      legal_accepted small fields names bnd_simps
    by (simp add: guard_simps)
qed


end
