(* ===== verification/Engine_Catalog.thy ===== *)
theory Engine_Catalog
  imports Package_Budget Engine_Legal
begin

text \<open>
  build-engine-catalog.py: the public catalog of engine packages. The payload paths of a package are
  compared with the finite set one engine slot may have, the package with its only entry of the index, the
  extracted slot with its producer, capabilities, notices and legal delivery.
\<close>

section \<open>The payload paths\<close>

text \<open>The proper ancestors of a relative path, as strings; \<open>.\<close> is left out.\<close>

definition ancestors :: "string \<Rightarrow> string list" where
  "ancestors s = map (\<lambda>k. join_with ''/'' (take k (path_parts s))) [1..<length (path_parts s)]"

definition mode_rx :: rx where
  "mode_rx = Seq (ropt (lit ''0'')) (Rep (Cls [(CHR ''0'', CHR ''7'')]) 3 4)"

definition octal_int :: "string \<Rightarrow> int" where
  "octal_int s = foldl (\<lambda>a c. 8 * a + digit_val c) 0 s"

definition parsed_mode :: "json \<Rightarrow> json" where
  "parsed_mode mode = (case mode of JStr s \<Rightarrow> if rmatch mode_rx s then JInt (octal_int s) else mode | _ \<Rightarrow> mode)"

definition acl_ok :: "json \<Rightarrow> int \<Rightarrow> bool res" where
  "acl_ok v wanted =
     bnd (get v ''mode'') (\<lambda>mode.
     all_of [Inr (parsed_mode mode = JInt wanted),
             lift_res (\<lambda>x. x = JStr ''root'' \<or> x = JStr ''0'') (get v ''user''),
             lift_res (\<lambda>x. x = JStr ''root'' \<or> x = JStr ''0'') (get v ''group''),
             lift_res (\<lambda>x. \<not> truthy x) (get v ''xattrs'')])"

definition ROOT_ACL :: json where
  "ROOT_ACL = JObj [(''mode'', JInt 493), (''user'', JStr ''root''), (''group'', JStr ''root'')]"

definition root_record :: "bool \<Rightarrow> json \<Rightarrow> unit res" where
  "root_record seen_before directory =
     bnd (keys_of directory) (\<lambda>ks.
     refuse [Inr seen_before, Inr (\<not> set ks \<subseteq> {''name'', ''acl'', ''files''}),
             lift_res (\<lambda>a. py_ne a ROOT_ACL) (get directory ''acl''),
             if ''files'' \<in> set ks then lift_res (\<lambda>f. py_ne f (JArr [])) (sub directory ''files'') else Inr False]
       ''Engine extraction refuses unsafe native root metadata'')"

definition payload_path :: "string \<Rightarrow> json \<Rightarrow> string res" where
  "payload_path dname fl = bnd (bnd (sub fl ''name'') as_str) (\<lambda>n. Inr (dname @ ''/'' @ n))"

definition payload_file :: "string list \<Rightarrow> string \<Rightarrow> json \<Rightarrow> string list \<Rightarrow> string list res" where
  "payload_file allowed dname fl seen_files =
     bnd (payload_path dname fl) (\<lambda>path.
     bnd (refuse [Inr (path \<notin> set allowed), Inr (path \<in> set seen_files), lift_res (\<lambda>t. t \<noteq> JNull) (get fl ''target''),
                  not_res (bnd (get_or fl ''acl'' (JObj [])) (\<lambda>a. bnd (sub fl ''name'') (\<lambda>n.
                    acl_ok a (if n = JStr ''foxcore-cli'' then 493 else 420))))]
            ''Engine extraction refuses unsafe or nonregular payload paths'') (\<lambda>_.
     Inr (seen_files @ [path])))"

record payload_state =
  root_seen :: bool
  seen_dirs :: "string list"
  seen_files :: "string list"

definition payload_dir :: "string list \<Rightarrow> json \<Rightarrow> payload_state \<Rightarrow> payload_state res" where
  "payload_dir allowed directory st =
     bnd (get_or directory ''name'' (JStr [])) (\<lambda>dname.
     bnd (keys_of directory) (\<lambda>ks.
     if ''name'' \<notin> set ks \<or> dname = JStr [] then
       bnd (root_record (root_seen st) directory) (\<lambda>_. Inr (st\<lparr>root_seen := True\<rparr>))
     else
       bnd (refuse [not_res (in_strs dname (concat (map ancestors allowed))), lift_res (\<lambda>n. n \<in> set (seen_dirs st)) (as_str dname),
                    not_res (bnd (get_or directory ''acl'' (JObj [])) (\<lambda>a. acl_ok a 493))]
              ''Engine extraction refuses unsafe directory metadata'') (\<lambda>_.
       bnd (as_str dname) (\<lambda>n.
       bnd (bnd (get_or directory ''files'' (JArr [])) iter) (\<lambda>fls.
       bnd (fold_res (payload_file allowed n) fls (seen_files st)) (\<lambda>fs.
       Inr (st\<lparr>seen_dirs := seen_dirs st @ [n], seen_files := fs\<rparr>)))))))"

definition validate_engine_paths :: "json \<Rightarrow> string list \<Rightarrow> unit res" where
  "validate_engine_paths document allowed =
     bnd (bnd (get_or document ''paths'' (JArr [])) iter) (\<lambda>dirs.
     bnd (fold_res (payload_dir allowed) dirs \<lparr>root_seen = False, seen_dirs = [], seen_files = []\<rparr>) (\<lambda>st.
     refuse [Inr (set (seen_files st) \<noteq> set allowed)] ''Complete finite engine payload required''))"

section \<open>The index and the release\<close>

definition validate_unique_index_entry :: "json \<Rightarrow> json list \<Rightarrow> int \<Rightarrow> unit res" where
  "validate_unique_index_entry info index_entries nbytes =
     bnd (filter_res (\<lambda>row. bnd (sub row ''name'') (\<lambda>a. lift_res (py_eq a) (sub info ''name''))) index_entries) (\<lambda>matches.
     refuse [Inr (length matches \<noteq> 1),
             bnd (sub (hd matches) ''version'') (\<lambda>a. bnd (sub (hd matches) ''arch'') (\<lambda>b. bnd (sub (hd matches) ''file-size'') (\<lambda>c.
             bnd (sub info ''version'') (\<lambda>v. lift_res (\<lambda>w. py_ne a v \<or> py_ne b w \<or> py_ne c (JInt nbytes)) (sub info ''arch'')))))]
       ''Engine APK is not uniquely indexed by immutable name'')"

definition release_version :: rx where
  "release_version = Seq digits_rx (Seq (lit ''.'') (Seq digits_rx (Seq (lit ''.'') digits_rx)))"

definition release_base_url :: "json \<Rightarrow> string option \<Rightarrow> string res" where
  "release_base_url core_version release =
     (case (case release of None \<Rightarrow> core_version | Some r \<Rightarrow> JStr r) of
        JStr version \<Rightarrow>
          if rmatch release_version version
          then Inr (''https://github.com/foxhole-team/foxhole-openwrt-client/releases/download/v'' @ version @ ''/'')
          else Inl (ValueError ''Exact release version required'')
      | _ \<Rightarrow> Inl (ValueError ''Exact release version required''))"

section \<open>One engine package\<close>

definition ENGINE_NAME :: rx where
  "ENGINE_NAME = Seq (lit ''foxcore-engine-'') (Seq (rplus (Cls [(CHR ''a'', CHR ''z''), (CHR ''0'', CHR ''9'')]))
     (Seq (Alt (lit ''-flash-'') (lit ''-ram-'')) HEX64))"

text \<open>The protocol and the identity of a matching name: the groups have no hyphen.\<close>

definition engine_protocol :: "string \<Rightarrow> string" where
  "engine_protocol n = takeWhile (\<lambda>c. c \<noteq> CHR ''-'') (drop 15 n)"

definition engine_identity :: "string \<Rightarrow> string" where
  "engine_identity n = drop (length n - 64) n"

definition engine_allowed :: "string \<Rightarrow> string list" where
  "engine_allowed n =
     (let slot_root = ''usr/libexec/foxhole/engines/'' @ engine_protocol n @ ''/'' @ engine_identity n;
          license_root = ''usr/share/licenses/'' @ n
      in map (\<lambda>leaf. slot_root @ ''/'' @ leaf) [''foxcore-cli'', ''slot.json'', ''core-producer.json'', ''capabilities.json''] @
         map (\<lambda>leaf. license_root @ ''/'' @ leaf) ([''LICENSE'', ''THIRD_PARTY_NOTICES.md''] @ LEGAL_TEXTS @ [''LEGAL-PROVENANCE.json'']) @
         [''lib/apk/packages/'' @ n @ ''.list''])"

definition engine_run :: "(bytes \<times> bytes) res \<Rightarrow> bytes res" where
  "engine_run result =
     bnd result (\<lambda>(out, err).
     bnd (refuse [Inr (has_part (encode_ascii ''ERROR:'') out), Inr (has_part (encode_ascii ''ERROR:'') err),
                  Inr (8 * 1024 ^ 2 < int (length out))] ''Native engine APK/index validation refused'') (\<lambda>_. Inr out))"

definition engine_dump :: "apk_tool \<Rightarrow> bytes \<Rightarrow> json res" where
  "engine_dump apk raw = bnd (engine_run (apk_dump apk raw)) (\<lambda>out. bnd (decode_ascii out) loads)"

text \<open>\<open>sha\<close> and \<open>load\<close> on a file of the extracted package.\<close>

definition tree_sha :: "hash_fun \<Rightarrow> extracted \<Rightarrow> string list \<Rightarrow> string res" where
  "tree_sha hash tree p = (case map_of tree p of
     Some e \<Rightarrow> if ftype e = Regular then Inr (hash (content e)) else Inl (ValueError ''Regular public engine asset required'')
   | None \<Rightarrow> Inl (ValueError ''Regular public engine asset required''))"

definition tree_load :: "extracted \<Rightarrow> string list \<Rightarrow> json res" where
  "tree_load tree p = (case map_of tree p of
     None \<Rightarrow> Inl OSError
   | Some e \<Rightarrow> bnd (refuse [Inr (131072 < file_bytes e)] ''Bounded producer/manifest required'') (\<lambda>_. bnd (decode_ascii (content e)) loads))"

definition slot_manifests :: "extracted \<Rightarrow> string list list" where
  "slot_manifests tree = filter (\<lambda>p. length p = 7 \<and> take 4 p = [''usr'', ''libexec'', ''foxhole'', ''engines''] \<and> p ! 6 = ''slot.json'')
     (map fst tree)"

definition tree_dir :: "extracted \<Rightarrow> string list \<Rightarrow> directory" where
  "tree_dir tree p = \<lparr>dir_perm = 493, entries = map (\<lambda>(q, e). (last q, e)) (filter (\<lambda>(q, e). q \<noteq> [] \<and> butlast q = p) tree)\<rparr>"

definition tree_linked :: "extracted \<Rightarrow> string list \<Rightarrow> bool" where
  "tree_linked tree p = list_ex (\<lambda>k. case map_of tree (take k p) of Some e \<Rightarrow> ftype e = Symlink | None \<Rightarrow> False) [1..<Suc (length p)]"

definition slot_bindings :: "hash_fun \<Rightarrow> extracted \<Rightarrow> string list \<Rightarrow> json \<Rightarrow> json \<Rightarrow> json \<Rightarrow> string \<Rightarrow> string \<Rightarrow> string \<Rightarrow> unit res" where
  "slot_bindings hash tree folder manifest producer caps ident core_commit source_sha256 =
     refuse [lift_res (\<lambda>x. py_ne x (JInt 0)) (get producer ''exitCode''),
             lift_res (\<lambda>x. x \<noteq> JStr core_commit) (get producer ''sourceCommit''),
             lift_res (\<lambda>x. x \<noteq> JStr source_sha256) (get producer ''sourceSha256''),
             lift_res (\<lambda>x. py_ne x (JArr [JStr ident])) (get producer ''protocols''),
             bnd (get producer ''binarySha256'') (\<lambda>a. lift_res (py_ne a) (sub manifest ''binarySha256'')),
             bnd (tree_sha hash tree (folder @ [''core-producer.json''])) (\<lambda>h. lift_res (\<lambda>x. JStr h \<noteq> x) (sub manifest ''producerSha256'')),
             bnd (tree_sha hash tree (folder @ [''capabilities.json''])) (\<lambda>h. lift_res (\<lambda>x. JStr h \<noteq> x) (sub manifest ''capabilitiesSha256'')),
             bnd (tree_sha hash tree (folder @ [''foxcore-cli''])) (\<lambda>h. lift_res (\<lambda>x. JStr h \<noteq> x) (sub manifest ''executableSha256'')),
             lift_res (\<lambda>x. py_ne x (JArr [JStr ident])) (get caps ''protocols''),
             lift_res (\<lambda>x. py_ne x (JInt 1)) (get caps ''router_contract_version''),
             lift_res (\<lambda>x. x \<noteq> JStr ''linux'') (get caps ''platform''),
             bnd (get caps ''core_version'') (\<lambda>a. lift_res (py_ne a) (sub manifest ''version'')),
             bnd (get producer ''coreVersion'') (\<lambda>a. lift_res (py_ne a) (sub manifest ''version''))]
       ''Actual single-protocol producer/capabilities/payload binding differs''"

definition engine_hooks :: "json \<Rightarrow> json \<Rightarrow> unit res" where
  "engine_hooks document info =
     refuse [lift_res truthy (get document ''scripts''), lift_res truthy (get document ''triggers''),
             any_res (\<lambda>k. lift_res truthy (get info k)) [''provides'', ''replaces'', ''install-if'', ''recommends'']]
       ''Engine APK may not contain hooks or shared package replacements''"

text \<open>The slot of an extracted package: its folder, manifest, digest, protocol and storage.\<close>

definition engine_slot :: "hash_fun \<Rightarrow> extracted \<Rightarrow> json \<Rightarrow> (string list \<times> json \<times> string \<times> string \<times> string) res" where
  "engine_slot hash tree info =
     bnd (refuse [Inr (length (slot_manifests tree) \<noteq> 1)] ''Exactly one immutable engine slot required'') (\<lambda>_.
     let mpath = hd (slot_manifests tree); folder = butlast mpath in
     bnd (tree_load tree mpath) (\<lambda>manifest.
     bnd (tree_sha hash tree mpath) (\<lambda>manifest_sha.
     bnd (sub manifest ''id'') (\<lambda>ident. bnd (sub manifest ''storage'') (\<lambda>storage.
     bnd (refuse [not_res (in_strs ident CORE_PROTOCOLS), Inr (storage \<noteq> JStr ''FLASH'' \<and> storage \<noteq> JStr ''RAM'')]
            ''Exact supported single engine/storage required'') (\<lambda>_.
     bnd (as_str ident) (\<lambda>i. bnd (as_str storage) (\<lambda>st.
     bnd (refuse [lift_res (\<lambda>x. x \<noteq> JStr (''foxcore-engine-'' @ i @ ''-'' @ lower st @ ''-'' @ manifest_sha)) (sub info ''name''),
                  Inr (last folder \<noteq> manifest_sha), Inr (last (butlast folder) \<noteq> i),
                  bnd (sub info ''arch'') (\<lambda>a. lift_res (py_ne a) (sub manifest ''architecture''))]
            ''Package name/path/manifest identity differs'') (\<lambda>_.
     Inr (folder, manifest, manifest_sha, i, st))))))))))"

record engine_world =
  ew_key :: bytes
  ew_index :: bytes
  ew_files :: named_files
  ew_entries :: "json list"
  ew_commit :: string
  ew_source :: string
  ew_release :: "string option"
  ew_uid :: int

record engine_catalog_state =
  ec_names :: "json list"
  ec_seen :: "(string \<times> string \<times> json) list"
  ec_entries :: "json list"

definition engine_entry :: "json \<Rightarrow> json \<Rightarrow> string \<Rightarrow> string \<Rightarrow> string \<Rightarrow> string \<Rightarrow> int \<Rightarrow> int \<Rightarrow> string \<Rightarrow> string \<Rightarrow> json res" where
  "engine_entry manifest info n version slot_sha archive_sha nbytes ibytes index_sha base =
     bnd (items_of manifest) (\<lambda>kvs. bnd (sub info ''installed-size'') (\<lambda>installed_size.
       Inr (JObj (fold (\<lambda>(k, v). set_item k v)
         [(''manifestSha256'', JStr slot_sha), (''archiveBytes'', JInt nbytes), (''indexBytes'', JInt ibytes),
          (''installedBytes'', installed_size), (''packageName'', JStr n), (''packageVersion'', JStr version),
          (''packageSha256'', JStr archive_sha), (''indexSha256'', JStr index_sha),
          (''packageUrl'', JStr (base @ n @ ''-'' @ version @ ''.apk'')), (''indexUrl'', JStr (base @ ''engines.adb''))]
         (filter (\<lambda>kv. fst kv \<noteq> ''schema'') kvs)))))"

definition fetched_same :: "hash_fun \<Rightarrow> apk_tool \<Rightarrow> engine_world \<Rightarrow> string \<Rightarrow> string \<Rightarrow> string \<Rightarrow> string \<Rightarrow> unit res" where
  "fetched_same hash apk ew arch n archive_name archive_sha =
     (let world = \<lparr>solver_arch = arch, repositories = [(''repository'', ew_files ew)], solver_keys = [(''foxhole.pem'', ew_key ew)]\<rparr> in
     bnd (engine_run (apk_initdb apk world)) (\<lambda>_.
     bnd (apk_fetch apk world [n]) (\<lambda>(result, fetched).
     bnd (engine_run (Inr result)) (\<lambda>_.
     bnd (some_or ''Regular public engine asset required'' (map_of fetched archive_name)) (\<lambda>b.
     refuse [Inr (hash b \<noteq> archive_sha)] ''Fresh native indexed fetch differs from signed catalog archive'')))))"

definition engine_step :: "hash_fun \<Rightarrow> apk_tool \<Rightarrow> engine_world \<Rightarrow> fpath \<Rightarrow> engine_catalog_state \<Rightarrow> engine_catalog_state res" where
  "engine_step hash apk ew archive st =
     bnd (file_hash hash archive) (\<lambda>archive_sha.
     bnd (path_bytes archive) (\<lambda>raw.
     bnd (engine_dump apk raw) (\<lambda>document.
     bnd (sub document ''info'') (\<lambda>info.
     bnd (engine_hooks document info) (\<lambda>_.
     bnd (bnd (sub info ''name'') as_str) (\<lambda>n.
     bnd (validate_unique_index_entry info (ew_entries ew) (int (length raw))) (\<lambda>_.
     bnd (refuse [Inr (\<not> rmatch ENGINE_NAME n), Inr (engine_protocol n \<notin> set CORE_PROTOCOLS)]
            ''Exact versioned engine package identity required'') (\<lambda>_.
     bnd (validate_engine_paths document (engine_allowed n)) (\<lambda>_.
     bnd (bnd (sub info ''arch'') as_str) (\<lambda>arch.
     bnd (fetched_same hash apk ew arch n (snd archive) archive_sha) (\<lambda>_.
     bnd (apk_extract apk False raw) (\<lambda>tree.
     bnd (engine_slot hash tree info) (\<lambda>(folder, manifest, manifest_sha, ident, storage).
     bnd (tree_load tree (folder @ [''core-producer.json''])) (\<lambda>producer.
     bnd (tree_load tree (folder @ [''capabilities.json''])) (\<lambda>caps.
     bnd (slot_bindings hash tree folder manifest producer caps ident (ew_commit ew) (ew_source ew)) (\<lambda>_.
     let notices = [''usr'', ''share'', ''licenses'', n] in
     bnd (each_res (\<lambda>l. refuse [bnd (tree_sha hash tree (notices @ [l])) (\<lambda>h. lift_res (\<lambda>x. JStr h \<noteq> x)
            (bnd (sub producer ''filesSha256'') (\<lambda>f. sub f l)))] ''Engine native notice bytes differ'') [''LICENSE'', ''THIRD_PARTY_NOTICES.md'']) (\<lambda>_.
     bnd (bnd (sub manifest ''legalProvenanceSha256'') as_str) (\<lambda>legal_sha.
     bnd (tree_sha hash tree (folder @ [''core-producer.json''])) (\<lambda>producer_sha.
     bnd (legal_validate hash (tree_linked tree notices) (ew_uid ew) (tree_dir tree notices) legal_sha producer producer_sha ident) (\<lambda>_.
     let scope = (ident, storage, JStr arch) in
     bnd (refuse [Inr (scope \<in> set (ec_seen st))] ''Only one current artifact per protocol/storage/architecture'') (\<lambda>_.
     bnd (bnd (sub manifest ''version'') (\<lambda>v. release_base_url v (ew_release ew))) (\<lambda>base.
     bnd (bnd (sub info ''version'') as_str) (\<lambda>version.
     bnd (engine_entry manifest info n version manifest_sha archive_sha (int (length raw)) (int (length (ew_index ew))) (hash (ew_index ew)) base) (\<lambda>entry.
     Inr \<lparr>ec_names = ec_names st @ [JStr n], ec_seen = ec_seen st @ [scope], ec_entries = ec_entries st @ [entry]\<rparr>))))))))))))))))))))))))"

section \<open>The catalog\<close>

definition engine_filename :: "apk_tool \<Rightarrow> fpath \<Rightarrow> (string \<times> bytes) res" where
  "engine_filename apk archive =
     bnd (path_bytes archive) (\<lambda>raw.
     bnd (bnd (engine_dump apk raw) (\<lambda>d. sub d ''info'')) (\<lambda>info.
     bnd (bnd (sub info ''name'') as_str) (\<lambda>n. bnd (bnd (sub info ''version'') as_str) (\<lambda>v.
     let filename = n @ ''-'' @ v @ ''.apk'' in
     bnd (refuse [Inr (snd archive \<noteq> filename), Inr (CHR ''/'' \<in> set filename), Inr (has_part ''..'' filename)]
            ''Exact canonical archive filename required'') (\<lambda>_.
     Inr (filename, raw))))))"

definition engine_catalog :: "hash_fun \<Rightarrow> apk_tool \<Rightarrow> fpath \<Rightarrow> fpath \<Rightarrow> fpath list \<Rightarrow> string \<Rightarrow> string \<Rightarrow> string option \<Rightarrow> int \<Rightarrow> bool \<Rightarrow> string res" where
  "engine_catalog hash apk public_key index packages core_commit source_sha256 release uid output_exists =
     bnd (case release of None \<Rightarrow> Inr [] | Some r \<Rightarrow> release_base_url (JStr ''0.0.0'') (Some r)) (\<lambda>_.
     bnd (refuse [Inr (\<not> (1 \<le> length packages \<and> length packages \<le> 72)), Inr (\<not> distinct packages),
                  Inr (\<not> rmatch commit_pattern core_commit), Inr (\<not> rmatch HEX64 source_sha256),
                  lift_res (\<lambda>h. h \<noteq> CANONICAL_PUBLIC_SHA) (file_hash hash public_key), Inr (snd index \<noteq> ''engines.adb''),
                  lift_res (\<lambda>n. 8 * 1024 ^ 2 < n) (path_size index), Inr output_exists]
            ''Exact canonical engine-only index and current Core source required'') (\<lambda>_.
     bnd (path_bytes public_key) (\<lambda>pem. bnd (path_bytes index) (\<lambda>adb.
     bnd (each_res (\<lambda>p. bnd (path_bytes p) (\<lambda>raw. lift_res (\<lambda>_. ()) (engine_run (apk_verify apk [(''foxhole.pem'', pem)] raw)))) (index # packages)) (\<lambda>_.
     bnd (engine_dump apk adb) (\<lambda>ix.
     bnd (refuse [lift_res (\<lambda>x. x \<noteq> JNull \<and> x \<noteq> JStr (''$'' @ [CHR 0x7B] @ ''name'' @ [CHR 0x7D] @ ''-$'' @ [CHR 0x7B] @ ''version'' @ [CHR 0x7D] @ ''.apk''))
                    (get ix ''pkgname-spec'')] ''Exact native package filenames required'') (\<lambda>_.
     bnd (bnd (sub ix ''packages'') iter) (\<lambda>rows.
     bnd (map_res (engine_filename apk) packages) (\<lambda>files.
     bnd (fold_res (engine_step hash apk \<lparr>ew_key = pem, ew_index = adb, ew_files = (''packages.adb'', adb) # files, ew_entries = rows,
            ew_commit = core_commit, ew_source = source_sha256, ew_release = release, ew_uid = uid\<rparr>) packages
            \<lparr>ec_names = [], ec_seen = [], ec_entries = []\<rparr>) (\<lambda>st.
     bnd (map_res (\<lambda>row. sub row ''name'') rows) (\<lambda>names.
     bnd (refuse [Inr (canon ` set (ec_names st) \<noteq> canon ` set names)] ''Engine-only signed index has extra or missing packages'') (\<lambda>_.
     Inr (write_value (JObj [(''schema'', JInt 1), (''entries'', JArr (ec_entries st))]) @ [CHR 0x0A])))))))))))))"

section \<open>The accepted payload\<close>

definition payload_admits :: "string list \<Rightarrow> string \<Rightarrow> json \<Rightarrow> bool" where
  "payload_admits allowed dname fl \<longleftrightarrow>
     (\<exists>n. sub fl ''name'' = Inr (JStr n) \<and> dname @ ''/'' @ n \<in> set allowed \<and> get fl ''target'' = Inr JNull \<and>
        bnd (get_or fl ''acl'' (JObj [])) (\<lambda>a. acl_ok a (if n = ''foxcore-cli'' then 493 else 420)) = Inr True)"

interpretation payload_files: unique_loop id "\<lambda>fl. dname @ ''/'' @ str_at ''name'' fl" "payload_file allowed dname"
  "payload_admits allowed dname" for allowed dname
proof
  fix fl and seen seen' :: "string list"
  show "payload_file allowed dname fl seen = Inr seen' \<longleftrightarrow>
      payload_admits allowed dname fl \<and> id (dname @ ''/'' @ str_at ''name'' fl) \<notin> id ` set seen \<and>
      seen' = seen @ [dname @ ''/'' @ str_at ''name'' fl]"
  proof (cases "\<exists>n. sub fl ''name'' = Inr (JStr n)")
    case True
    then obtain n where n: "sub fl ''name'' = Inr (JStr n)" by blast
    have not_true: "not_res m = Inr False \<longleftrightarrow> m = Inr True" for m :: "bool res" by (cases m) auto
    show ?thesis
      using n str_at_sub [OF n]
      by (auto simp: payload_file_def payload_path_def payload_admits_def refuse_Inr_iff not_true lift_res_Inr_iff bnd_Inr_iff)
  next
    case False
    then have "payload_path dname fl \<noteq> Inr p" for p
      by (auto simp: payload_path_def bnd_Inr_iff as_str_iff)
    with False show ?thesis by (auto simp: payload_file_def payload_admits_def bnd_Inr_iff)
  qed
qed

text \<open>The directories with a name, their files, and the paths of all files.\<close>

definition named_dir :: "json \<Rightarrow> bool" where
  "named_dir d \<longleftrightarrow> get_or d ''name'' (JStr []) \<noteq> Inr (JStr [])"

definition dir_files :: "json \<Rightarrow> json list" where
  "dir_files d = (case bnd (get_or d ''files'' (JArr [])) iter of Inr xs \<Rightarrow> xs | Inl _ \<Rightarrow> [])"

definition dir_paths :: "json \<Rightarrow> string list" where
  "dir_paths d = map (\<lambda>fl. str_at ''name'' d @ ''/'' @ str_at ''name'' fl) (dir_files d)"

definition listed :: "json list \<Rightarrow> string list" where
  "listed ds = concat (map dir_paths (filter named_dir ds))"

lemma payload_dir_ok:
  assumes "payload_dir allowed d st = Inr st'"
  shows "named_dir d \<and> root_seen st' = root_seen st \<and> str_at ''name'' d \<in> set (concat (map ancestors allowed)) \<and>
       str_at ''name'' d \<notin> set (seen_dirs st) \<and> seen_dirs st' = seen_dirs st @ [str_at ''name'' d] \<and>
       seen_files st' = seen_files st @ dir_paths d \<and> distinct (dir_paths d) \<and> set (dir_paths d) \<inter> set (seen_files st) = {} \<and>
       list_all (payload_admits allowed (str_at ''name'' d)) (dir_files d)
     \<or> \<not> named_dir d \<and> \<not> root_seen st \<and> st' = st\<lparr>root_seen := True\<rparr>"
proof -
  obtain dname ks where dn: "get_or d ''name'' (JStr []) = Inr dname" "keys_of d = Inr ks"
    and body: "(if ''name'' \<notin> set ks \<or> dname = JStr [] then
       bnd (root_record (root_seen st) d) (\<lambda>_. Inr (st\<lparr>root_seen := True\<rparr>))
     else
       bnd (refuse [not_res (in_strs dname (concat (map ancestors allowed))), lift_res (\<lambda>n. n \<in> set (seen_dirs st)) (as_str dname),
                    not_res (bnd (get_or d ''acl'' (JObj [])) (\<lambda>a. acl_ok a 493))]
              ''Engine extraction refuses unsafe directory metadata'') (\<lambda>_.
       bnd (as_str dname) (\<lambda>n.
       bnd (bnd (get_or d ''files'' (JArr [])) iter) (\<lambda>fls.
       bnd (fold_res (payload_file allowed n) fls (seen_files st)) (\<lambda>fs.
       Inr (st\<lparr>seen_dirs := seen_dirs st @ [n], seen_files := fs\<rparr>)))))) = Inr st'"
    using assms by (auto simp: payload_dir_def bnd_Inr_iff)
  obtain kvs where d: "d = JObj kvs" "ks = map fst kvs" using dn(2) by (cases d) auto
  have absent: "dname = JStr []" if "''name'' \<notin> set ks"
  proof -
    from that have "map_of kvs ''name'' = None" unfolding d(2) by (simp add: map_of_eq_None_iff)
    then show ?thesis using dn(1) d(1) by simp
  qed
  show ?thesis
  proof (cases "''name'' \<notin> set ks \<or> dname = JStr []")
    case True
    then have "\<not> named_dir d" using dn(1) absent by (auto simp: named_dir_def)
    with body True show ?thesis by (auto simp: root_record_def bnd_Inr_iff refuse_Inr_iff)
  next
    case False
    then obtain n fls fs where n: "dname = JStr n" "n \<in> set (concat (map ancestors allowed))" "n \<notin> set (seen_dirs st)"
      and fls: "bnd (get_or d ''files'' (JArr [])) iter = Inr fls" and fs: "fold_res (payload_file allowed n) fls (seen_files st) = Inr fs"
      and st': "st' = st\<lparr>seen_dirs := seen_dirs st @ [n], seen_files := fs\<rparr>"
      using body by (auto simp: bnd_Inr_iff [of "refuse a b" for a b] bnd_Inr_iff [of "as_str a" for a]
          bnd_Inr_iff [of "bnd (get_or a b c) iter" for a b c] bnd_Inr_iff [of "fold_res a b c" for a b c]
          refuse_Inr_iff as_str_iff lift_res_Inr_iff in_strs_def split: if_split_asm)
    have name: "str_at ''name'' d = n"
      using dn(1) n(1) False dn(2) by (cases d) (auto simp: str_at_def get_def split: option.splits dest: map_of_SomeD)
    have files: "dir_files d = fls" by (simp add: dir_files_def fls)
    have "named_dir d" using dn(1) False by (simp add: named_dir_def)
    then show ?thesis
      using fs n(2,3) st' unfolding payload_files.run_from by (simp add: name files dir_paths_def)
  qed
qed

lemma payload_dirs_run:
  assumes "fold_res (payload_dir allowed) ds st = Inr st'" and "distinct (seen_files st)" and "distinct (seen_dirs st)"
  shows "seen_files st' = seen_files st @ listed ds \<and> distinct (seen_files st') \<and>
     seen_dirs st' = seen_dirs st @ map (str_at ''name'') (filter named_dir ds) \<and> distinct (seen_dirs st') \<and>
     set (map (str_at ''name'') (filter named_dir ds)) \<subseteq> set (concat (map ancestors allowed)) \<and>
     length (filter (\<lambda>d. \<not> named_dir d) ds) \<le> (if root_seen st then 0 else 1) \<and>
     list_all (\<lambda>d. list_all (payload_admits allowed (str_at ''name'' d)) (dir_files d)) (filter named_dir ds)"
  using assms
proof (induction ds arbitrary: st)
  case Nil
  then show ?case by (simp add: listed_def)
next
  case (Cons d ds)
  from Cons.prems(1) obtain mid where mid: "payload_dir allowed d st = Inr mid" "fold_res (payload_dir allowed) ds mid = Inr st'"
    by (auto simp: bnd_Inr_iff)
  from payload_dir_ok [OF mid(1)] show ?case
  proof (elim disjE conjE)
    assume d: "named_dir d" "root_seen mid = root_seen st" "str_at ''name'' d \<in> set (concat (map ancestors allowed))"
      "str_at ''name'' d \<notin> set (seen_dirs st)" "seen_dirs mid = seen_dirs st @ [str_at ''name'' d]"
      "seen_files mid = seen_files st @ dir_paths d" "distinct (dir_paths d)" "set (dir_paths d) \<inter> set (seen_files st) = {}"
      "list_all (payload_admits allowed (str_at ''name'' d)) (dir_files d)"
    have "distinct (seen_files mid)" "distinct (seen_dirs mid)" using d Cons.prems(2,3) by auto
    note ih = Cons.IH [OF mid(2) this]
    have parts: "listed (d # ds) = dir_paths d @ listed ds" "filter named_dir (d # ds) = d # filter named_dir ds"
        "filter (\<lambda>d. \<not> named_dir d) (d # ds) = filter (\<lambda>d. \<not> named_dir d) ds"
      using d(1) by (simp_all add: listed_def)
    from ih have files: "seen_files st' = seen_files st @ dir_paths d @ listed ds"
      and dirs: "seen_dirs st' = seen_dirs st @ map (str_at ''name'') (d # filter named_dir ds)"
      unfolding d(5,6) by simp_all
    from ih have known: "set (map (str_at ''name'') (d # filter named_dir ds)) \<subseteq> set (concat (map ancestors allowed))"
      using d(3) by (simp del: set_concat)
    have once: "distinct (seen_files st')" "distinct (seen_dirs st')" using ih by blast+
    have rest: "length (filter (\<lambda>d. \<not> named_dir d) ds) \<le> (if root_seen st then 0 else 1)"
        "list_all (\<lambda>d. list_all (payload_admits allowed (str_at ''name'' d)) (dir_files d)) (d # filter named_dir ds)"
      using ih d(2,9) by simp_all
    show ?case unfolding parts by (intro conjI files once(1) dirs once(2) known rest)
  next
    assume d: "\<not> named_dir d" "\<not> root_seen st" "mid = st\<lparr>root_seen := True\<rparr>"
    then have "distinct (seen_files mid)" "distinct (seen_dirs mid)" using Cons.prems(2,3) by auto
    note ih = Cons.IH [OF mid(2) this]
    have parts: "listed (d # ds) = listed ds" "filter named_dir (d # ds) = filter named_dir ds"
        "length (filter (\<lambda>d. \<not> named_dir d) (d # ds)) = Suc (length (filter (\<lambda>d. \<not> named_dir d) ds))"
      using d(1) by (simp_all add: listed_def)
    have same: "seen_files mid = seen_files st" "seen_dirs mid = seen_dirs st" "root_seen mid" using d(3) by simp_all
    note now = ih [unfolded same]
    have count: "Suc (length (filter (\<lambda>d. \<not> named_dir d) ds)) \<le> (if root_seen st then 0 else 1)"
      using now same(3) d(2) by simp
    show ?case
      unfolding parts using count
      by (intro conjI now [THEN conjunct1] now [THEN conjunct2, THEN conjunct1]
          now [THEN conjunct2, THEN conjunct2, THEN conjunct1] now [THEN conjunct2, THEN conjunct2, THEN conjunct2, THEN conjunct1]
          now [THEN conjunct2, THEN conjunct2, THEN conjunct2, THEN conjunct2, THEN conjunct1]
          now [THEN conjunct2, THEN conjunct2, THEN conjunct2, THEN conjunct2, THEN conjunct2, THEN conjunct2])
  qed
qed


definition sample_acl :: "int \<Rightarrow> json" where
  "sample_acl m = JObj [(''mode'', JInt m), (''user'', JStr ''root''), (''group'', JStr ''root'')]"

definition sample_paths :: json where
  "sample_paths = JObj [(''paths'', JArr
     [JObj [(''acl'', sample_acl 493)],
      JObj [(''name'', JStr ''usr''), (''acl'', sample_acl 493)],
      JObj [(''name'', JStr ''usr/slot''), (''acl'', sample_acl 493), (''files'', JArr
        [JObj [(''name'', JStr ''foxcore-cli''), (''acl'', JObj [(''mode'', JStr ''0755''), (''user'', JStr ''0''), (''group'', JStr ''root'')])],
         JObj [(''name'', JStr ''slot.json''), (''acl'', sample_acl 420)]])]])]"


end
