(* ===== verification/Build_Process.thy ===== *)
theory Build_Process
  imports Prelude
begin

text \<open>
  build.py, \<open>run_step\<close> and \<open>stop_owned_group\<close>: one build step in its own session, with limits on time and
  log, and the end of its process group. The tool is a machine with a program counter; the processes of the
  group are the environment, which moves between any two steps of the tool: time passes, the leader exits,
  children are forked and exit, the log grows. Time is counted in ticks of 50 milliseconds. A signal to the
  group succeeds while the leader has not been reaped or a child is left; after SIGKILL no process of the group forks.
\<close>

section \<open>The state\<close>

datatype leader = Running | Zombie | Reaped

datatype pc =
    Loop        \<comment> \<open>the polling loop of \<open>run_step\<close>\<close>
  | Terminate   \<comment> \<open>entry of \<open>stop_owned_group\<close>\<close>
  | Grace       \<comment> \<open>the loop after SIGTERM\<close>
  | Recheck     \<comment> \<open>\<open>if send(0): send(SIGKILL)\<close>\<close>
  | Await       \<comment> \<open>\<open>process.wait(timeout=5)\<close>\<close>
  | Drain       \<comment> \<open>the loop after the leader is reaped\<close>
  | Final       \<comment> \<open>\<open>need(not send(0))\<close>\<close>
  | Stopped     \<comment> \<open>\<open>stop_owned_group\<close> has returned\<close>
  | Returned | Failed | Unstopped

record build_state =
  at_pc :: pc
  now :: nat
  began :: nat
  grace_end :: nat
  wait_end :: nat
  lead :: leader
  exit_code :: int
  children :: nat
  log_bytes :: nat
  killed :: bool
  over_limit :: bool

definition alive :: "build_state \<Rightarrow> bool" where
  "alive s \<longleftrightarrow> lead s \<noteq> Reaped \<or> 0 < children s"

definition reap :: "build_state \<Rightarrow> build_state" where
  "reap s = (if lead s = Zombie then s\<lparr>lead := Reaped\<rparr> else s)"

definition within_limits :: "nat \<Rightarrow> build_state \<Rightarrow> bool" where
  "within_limits timeout s \<longleftrightarrow> now s - began s \<le> 20 * timeout \<and> log_bytes s \<le> 8 * 1024 ^ 2"

definition begin_step :: "nat \<Rightarrow> build_state" where
  "begin_step t = \<lparr>at_pc = Loop, now = t, began = t, grace_end = 0, wait_end = 0, lead = Running, exit_code = 0,
     children = 0, log_bytes = 0, killed = False, over_limit = False\<rparr>"

section \<open>The tool\<close>

definition loop_step :: "nat \<Rightarrow> build_state \<Rightarrow> build_state" where
  "loop_step timeout s =
     (if lead s \<noteq> Running then (reap s)\<lparr>at_pc := Terminate\<rparr>
      else if within_limits timeout s then s\<lparr>now := now s + 4\<rparr>
      else s\<lparr>over_limit := True, at_pc := Terminate\<rparr>)"

text \<open>One step of the tool; \<open>None\<close> when it has ended or is blocked in \<open>wait\<close>.\<close>

definition stop_step :: "build_state \<Rightarrow> build_state option" where
  "stop_step s = (case at_pc s of
     Terminate \<Rightarrow> Some (if alive s then s\<lparr>grace_end := now s + 100, at_pc := Grace\<rparr> else s\<lparr>wait_end := now s + 100, at_pc := Await\<rparr>)
   | Grace \<Rightarrow> Some (if alive s \<and> now s < grace_end s then (reap s)\<lparr>now := now s + 1\<rparr> else s\<lparr>at_pc := Recheck\<rparr>)
   | Recheck \<Rightarrow> Some (s\<lparr>killed := alive s, wait_end := now s + 100, at_pc := Await\<rparr>)
   | Await \<Rightarrow> (if lead s \<noteq> Running then Some ((reap s)\<lparr>wait_end := now s + 100, at_pc := Drain\<rparr>)
              else if wait_end s \<le> now s then Some (s\<lparr>at_pc := Unstopped\<rparr>) else None)
   | Drain \<Rightarrow> Some (if alive s \<and> now s < wait_end s then s\<lparr>now := now s + 1\<rparr> else s\<lparr>at_pc := Final\<rparr>)
   | Final \<Rightarrow> Some (s\<lparr>at_pc := (if alive s then Unstopped else Stopped)\<rparr>)
   | _ \<Rightarrow> None)"

text \<open>A limit is an exception that passes through \<open>finally\<close>; otherwise the exit code decides.\<close>

definition tool_step :: "nat \<Rightarrow> build_state \<Rightarrow> build_state option" where
  "tool_step timeout s = (case at_pc s of
     Loop \<Rightarrow> Some (loop_step timeout s)
   | Stopped \<Rightarrow> Some (s\<lparr>at_pc := (if over_limit s \<or> exit_code s \<noteq> 0 then Failed else Returned)\<rparr>)
   | _ \<Rightarrow> stop_step s)"

section \<open>The environment\<close>

datatype event = Tick | Leader_Exits int | Child_Exits | Forks | Log_Grows nat

definition env_step :: "event \<Rightarrow> build_state \<Rightarrow> build_state option" where
  "env_step e s = (case e of
     Tick \<Rightarrow> Some (s\<lparr>now := now s + 1\<rparr>)
   | Leader_Exits c \<Rightarrow> if lead s = Running then Some (s\<lparr>lead := Zombie, exit_code := c\<rparr>) else None
   | Child_Exits \<Rightarrow> if 0 < children s then Some (s\<lparr>children := children s - 1\<rparr>) else None
   | Forks \<Rightarrow> if (lead s = Running \<or> 0 < children s) \<and> \<not> killed s then Some (s\<lparr>children := Suc (children s)\<rparr>) else None
   | Log_Grows n \<Rightarrow> if alive s then Some (s\<lparr>log_bytes := log_bytes s + n\<rparr>) else None)"

text \<open>The runs; the number counts the steps of the tool.\<close>

inductive build_run :: "nat \<Rightarrow> build_state \<Rightarrow> nat \<Rightarrow> build_state \<Rightarrow> bool" where
  start: "build_run timeout s 0 s"
| tool: "build_run timeout s n t \<Longrightarrow> tool_step timeout t = Some u \<Longrightarrow> build_run timeout s (Suc n) u"
| env: "build_run timeout s n t \<Longrightarrow> env_step e t = Some u \<Longrightarrow> build_run timeout s n u"

inductive_cases build_run_elim: "build_run timeout s n t"

lemma env_cases:
  assumes "env_step e s = Some t"
  obtains "t = s\<lparr>now := now s + 1\<rparr>"
    | c where "lead s = Running" "t = s\<lparr>lead := Zombie, exit_code := c\<rparr>"
    | "0 < children s" "t = s\<lparr>children := children s - 1\<rparr>"
    | "lead s = Running \<or> 0 < children s" "\<not> killed s" "t = s\<lparr>children := Suc (children s)\<rparr>"
    | n where "alive s" "t = s\<lparr>log_bytes := log_bytes s + n\<rparr>"
  using assms by (cases e) (auto simp: env_step_def split: if_split_asm)

text \<open>A group that is gone does not come back.\<close>

lemma env_alive: "env_step e s = Some t \<Longrightarrow> alive t \<Longrightarrow> alive s"
  by (erule env_cases) (auto simp: alive_def)

lemma tool_alive: "tool_step timeout s = Some t \<Longrightarrow> alive t \<Longrightarrow> alive s"
  by (auto simp: tool_step_def stop_step_def loop_step_def reap_def alive_def split: pc.split_asm if_split_asm)

section \<open>The invariant\<close>

definition ended :: "pc \<Rightarrow> bool" where
  "ended p \<longleftrightarrow> p \<in> {Stopped, Returned, Failed}"

definition build_inv :: "build_state \<Rightarrow> bool" where
  "build_inv s \<longleftrightarrow>
     (ended (at_pc s) \<longrightarrow> \<not> alive s) \<and>
     (at_pc s \<in> {Drain, Final} \<longrightarrow> lead s = Reaped) \<and>
     (at_pc s = Recheck \<and> alive s \<longrightarrow> grace_end s \<le> now s) \<and>
     (killed s \<longrightarrow> grace_end s \<le> now s \<and> at_pc s \<notin> {Loop, Terminate, Grace, Recheck}) \<and>
     (at_pc s = Returned \<longrightarrow> exit_code s = 0 \<and> \<not> over_limit s)"

lemma begin_inv: "build_inv (begin_step t)"
  by (simp add: build_inv_def begin_step_def ended_def)

lemma tool_inv:
  assumes "tool_step timeout s = Some t" and "build_inv s"
  shows "build_inv t"
  using assms
  by (cases "at_pc s"; cases "lead s")
    (auto simp: tool_step_def stop_step_def loop_step_def build_inv_def ended_def alive_def reap_def split: if_split_asm)

lemma env_inv:
  assumes "env_step e s = Some t" and "build_inv s"
  shows "build_inv t"
  using assms(1)
proof (cases rule: env_cases)
  case 1
  with assms(2) show ?thesis by (auto simp: build_inv_def alive_def)
next
  case 2
  with assms(2) show ?thesis by (auto simp: build_inv_def alive_def ended_def)
next
  case 3
  with assms(2) show ?thesis by (auto simp: build_inv_def alive_def)
next
  case 4
  with assms(2) show ?thesis by (auto simp: build_inv_def alive_def ended_def)
next
  case 5
  with assms(2) show ?thesis by (auto simp: build_inv_def alive_def)
qed

lemma run_inv: "build_run timeout s n t \<Longrightarrow> build_inv s \<Longrightarrow> build_inv t"
  by (induction rule: build_run.induct) (auto intro: tool_inv env_inv)


section \<open>The end of every run\<close>

text \<open>What is left for the tool to do: each of its steps takes from it, no step of the environment adds to it.\<close>

definition remaining :: "nat \<Rightarrow> build_state \<Rightarrow> nat" where
  "remaining timeout s = (case at_pc s of
     Loop \<Rightarrow> 209 + (20 * timeout + 4 - (now s - began s))
   | Terminate \<Rightarrow> 208 | Grace \<Rightarrow> 106 + (grace_end s - now s) | Recheck \<Rightarrow> 105 | Await \<Rightarrow> 104
   | Drain \<Rightarrow> 3 + (wait_end s - now s) | Final \<Rightarrow> 2 | Stopped \<Rightarrow> 1 | _ \<Rightarrow> 0)"

lemma tool_remaining:
  assumes "tool_step timeout s = Some t" and "began s \<le> now s"
  shows "remaining timeout t < remaining timeout s"
proof (cases "at_pc s")
  case Loop
  with assms show ?thesis
    by (auto simp: tool_step_def loop_step_def remaining_def reap_def within_limits_def split: if_split_asm)
qed (use assms in \<open>auto simp: tool_step_def stop_step_def remaining_def reap_def split: if_split_asm\<close>)

lemma tool_clock:
  assumes "tool_step timeout s = Some t"
  shows "began t = began s" and "now s \<le> now t"
  using assms by (auto simp: tool_step_def stop_step_def loop_step_def reap_def split: pc.split_asm if_split_asm)

lemma env_clock:
  assumes "env_step e s = Some t"
  shows "began t = began s" and "now s \<le> now t"
  using assms by (auto elim!: env_cases)

lemma env_remaining:
  assumes "env_step e s = Some t"
  shows "remaining timeout t \<le> remaining timeout s"
  using assms by (auto elim!: env_cases simp: remaining_def split: pc.split)

lemma run_clock: "build_run timeout s n t \<Longrightarrow> began t = began s \<and> now s \<le> now t"
proof (induction rule: build_run.induct)
  case (tool timeout s n t u)
  then show ?case using tool_clock [OF tool.hyps(2)] by linarith
next
  case (env timeout s n t e u)
  then show ?case using env_clock [OF env.hyps(2)] by linarith
qed simp

lemma run_remaining:
  assumes "build_run timeout s n t" and "began s \<le> now s"
  shows "n + remaining timeout t \<le> remaining timeout s"
  using assms
proof (induction rule: build_run.induct)
  case (tool timeout s n t u)
  have "began t \<le> now t" using run_clock [OF tool.hyps(1)] tool.prems by linarith
  with tool_remaining [OF tool.hyps(2)] tool.IH [OF tool.prems] show ?case by simp
next
  case (env timeout s n t e u)
  with env_remaining [OF env.hyps(2), of timeout] show ?case by (meson add_le_mono le_trans order_refl)
qed simp

lemma tool_blocked: "tool_step timeout s = None \<Longrightarrow>
    at_pc s \<in> {Returned, Failed, Unstopped} \<or> at_pc s = Await \<and> lead s = Running \<and> now s < wait_end s"
  by (auto simp: tool_step_def stop_step_def split: pc.split_asm if_split_asm)

text \<open>
  C32. Every build step ends: in any run the tool makes at most \<open>213 + 20 * timeout\<close> steps, whatever the group does, and
  it is never stuck: a state without a further step of the tool is an end, or the tool waits for the leader
  and its wait has not run out.
\<close>

theorem build_step_ends:
  assumes "build_run timeout (begin_step t0) n s"
  shows "n \<le> 213 + 20 * timeout \<and>
    (tool_step timeout s \<noteq> None \<or> at_pc s \<in> {Returned, Failed, Unstopped} \<or>
     at_pc s = Await \<and> lead s = Running \<and> now s < wait_end s)"
proof -
  have "n + remaining timeout s \<le> remaining timeout (begin_step t0)"
    using run_remaining [OF assms] by (simp add: begin_step_def)
  then show ?thesis using tool_blocked by (auto simp: begin_step_def remaining_def)
qed

section \<open>The contract\<close>

text \<open>What a caller may rely on: a build, then its stop, then an end that is clean only when the group is empty.\<close>

datatype phase = Building | Stopping | Clean_End | Dirty_End

inductive contract_step :: "phase \<times> bool \<Rightarrow> phase \<times> bool \<Rightarrow> bool" where
  group_ends: "contract_step (p, True) (p, False)"
| stop_begins: "contract_step (Building, a) (Stopping, a)"
| clean: "contract_step (Stopping, False) (Clean_End, False)"
| dirty: "contract_step (Stopping, True) (Dirty_End, True)"

definition phase_of :: "pc \<Rightarrow> phase" where
  "phase_of p = (if p = Loop then Building else if ended p then Clean_End else if p = Unstopped then Dirty_End else Stopping)"

definition abs_state :: "build_state \<Rightarrow> phase \<times> bool" where
  "abs_state s = (phase_of (at_pc s), alive s)"

lemma contract_dies: "a \<or> \<not> b \<Longrightarrow> contract_step\<^sup>*\<^sup>* (p, a) (p, b)"
  by (cases a; cases b) (auto intro: group_ends)

lemma tool_contract:
  assumes "tool_step timeout s = Some t"
  shows "contract_step\<^sup>*\<^sup>* (abs_state s) (abs_state t)"
proof -
  have dies: "contract_step\<^sup>*\<^sup>* (p, alive s) (p, alive t)" for p
    by (rule contract_dies) (use tool_alive [OF assms] in blast)
  consider (same) "phase_of (at_pc t) = phase_of (at_pc s)"
    | (stops) "at_pc s = Loop" "phase_of (at_pc t) = Stopping"
    | (clean) "phase_of (at_pc s) = Stopping" "phase_of (at_pc t) = Clean_End" "\<not> alive s" "\<not> alive t"
    | (dirty) "phase_of (at_pc s) = Stopping" "phase_of (at_pc t) = Dirty_End" "alive s" "alive t"
    using assms
    by (cases "at_pc s") (auto simp: tool_step_def stop_step_def loop_step_def phase_of_def ended_def reap_def alive_def split: if_split_asm)
  then show ?thesis
  proof cases
    case same
    with dies show ?thesis by (simp add: abs_state_def)
  next
    case stops
    then have "contract_step\<^sup>*\<^sup>* (abs_state s) (Stopping, alive s)"
      by (auto simp: abs_state_def phase_of_def intro: stop_begins)
    with dies [of Stopping] stops show ?thesis by (simp add: abs_state_def)
  next
    case clean
    then show ?thesis by (auto simp: abs_state_def intro: contract_step.clean)
  next
    case dirty
    then show ?thesis by (auto simp: abs_state_def intro: contract_step.dirty)
  qed
qed

text \<open>
  C33. \<open>run_step\<close> implements the contract: every step of the tool and of the processes is a sequence of steps of
  the contract on the phase and the life of the group, so that the group never comes back to life, the
  phases only go forward, and the end is clean only for an empty group.
\<close>

theorem run_step_refines:
  assumes "build_run timeout s n t"
  shows "contract_step\<^sup>*\<^sup>* (abs_state s) (abs_state t)"
  using assms
proof (induction rule: build_run.induct)
  case (tool timeout s n t u)
  then show ?case using tool_contract [OF tool.hyps(2)] by simp
next
  case (env timeout s n t e u)
  have "at_pc u = at_pc t" using env.hyps(2) by (auto elim!: env_cases)
  then have "contract_step\<^sup>*\<^sup>* (abs_state t) (abs_state u)"
    unfolding abs_state_def by (auto intro!: contract_dies dest: env_alive [OF env.hyps(2)])
  with env.IH show ?case by (rule rtranclp_trans)
qed simp

section \<open>A run\<close>

text \<open>The leader forks a child and exits with code 0; the child ends during the grace period.\<close>

datatype move = Tool | Env event

fun play :: "nat \<Rightarrow> move list \<Rightarrow> build_state \<Rightarrow> build_state option" where
  "play timeout [] s = Some s"
| "play timeout (Tool # ms) s = (case tool_step timeout s of None \<Rightarrow> None | Some t \<Rightarrow> play timeout ms t)"
| "play timeout (Env e # ms) s = (case env_step e s of None \<Rightarrow> None | Some t \<Rightarrow> play timeout ms t)"

lemma play_run:
  "build_run timeout s n t \<Longrightarrow> play timeout ms t = Some u \<Longrightarrow> \<exists>m. build_run timeout s m u"
proof (induction ms arbitrary: t n)
  case (Cons mv ms)
  show ?case
  proof (cases mv)
    case Tool
    then obtain v where v: "tool_step timeout t = Some v" "play timeout ms v = Some u"
      using Cons.prems(2) by (auto split: option.split_asm)
    from Cons.IH [OF build_run.tool [OF Cons.prems(1) v(1)] v(2)] show ?thesis .
  next
    case (Env e)
    then obtain v where v: "env_step e t = Some v" "play timeout ms v = Some u"
      using Cons.prems(2) by (auto split: option.split_asm)
    from Cons.IH [OF build_run.env [OF Cons.prems(1) v(1)] v(2)] show ?thesis .
  qed
qed auto

definition sample_moves :: "move list" where
  "sample_moves = [Env Forks, Tool, Env (Leader_Exits 0), Tool, Tool, Tool, Env Child_Exits, Tool, Tool, Tool, Tool, Tool, Tool]"

definition sample_end :: build_state where
  "sample_end = \<lparr>at_pc = Returned, now = 5, began = 0, grace_end = 104, wait_end = 105, lead = Reaped, exit_code = 0,
     children = 0, log_bytes = 0, killed = False, over_limit = False\<rparr>"

lemma sample_play: "play 600 sample_moves (begin_step 0) = Some sample_end"
  by (simp add: sample_moves_def sample_end_def begin_step_def tool_step_def stop_step_def loop_step_def
    env_step_def within_limits_def reap_def alive_def)

lemma sample_run: "\<exists>n. build_run 600 (begin_step 0) n sample_end"
  by (rule play_run [OF build_run.start sample_play])

lemma sample_end_pc: "at_pc sample_end = Returned"
  by (simp add: sample_end_def)


theorem build_step_ends_witness:
  "\<exists>n. build_run 600 (begin_step 0) n sample_end \<and> n \<le> 12213"
  using sample_run build_step_ends by fastforce

theorem run_step_refines_witness: "contract_step\<^sup>*\<^sup>* (Building, True) (Clean_End, False)"
proof -
  obtain n where run: "build_run 600 (begin_step 0) n sample_end" using sample_run by blast
  have "abs_state (begin_step 0) = (Building, True)" by (simp add: abs_state_def phase_of_def begin_step_def alive_def)
  moreover have "abs_state sample_end = (Clean_End, False)"
    by (simp add: sample_end_def abs_state_def phase_of_def ended_def alive_def)
  ultimately show ?thesis using run_step_refines [OF run] by simp
qed

end
