(* ===== verification/Source_Archive.thy ===== *)
theory Source_Archive
  imports Transaction_Inputs Py_Url "HOL-Library.AList"
begin

text \<open>
  check-transaction-source.py, and the reads and extractions of build.py: the source archive of the transaction
  helper is read whole and unchanged, its members are admitted one by one, and a tree is written from them. The
  decoder of compressed archives is the parameter \<open>untar\<close>: the members \<open>tarfile\<close> lists for a mode and the raw bytes.
\<close>

section \<open>Exact reads\<close>

record read_messages =
  msg_linked :: string
  msg_kind :: string
  msg_opened :: string
  msg_reread :: string
  msg_after :: string

text \<open>\<open>pinned\<close> is what the reader asks of the bytes besides their number.\<close>

definition exact_read :: "read_messages \<Rightarrow> (bytes \<Rightarrow> bool) \<Rightarrow> int \<Rightarrow> read_trace \<Rightarrow> bytes res" where
  "exact_read m pinned n t =
     bnd (need [Inr (\<not> linked t)] (msg_linked m)) (\<lambda>_.
     bnd (os_answer (before t)) (\<lambda>bef.
     bnd (os_answer (parent t)) (\<lambda>par.
     bnd (need [Inr (is_regular (st_mode bef)), Inr (st_nlink bef = 1), Inr (st_size bef = n),
                Inr ((st_mode bef OR st_mode par) AND 18 = 0)] (msg_kind m)) (\<lambda>_.
     bnd (os_answer (opened t)) (\<lambda>op.
     bnd (need [Inr (op = bef)] (msg_opened m)) (\<lambda>_.
     let raw = take (nat n + 1) (stream t) in
     bnd (os_answer (reread t)) (\<lambda>re.
     bnd (need [Inr (re = bef)] (msg_reread m)) (\<lambda>_.
     bnd (need [Inr (int (length raw) = n), Inr (pinned raw), lift_res (\<lambda>a. a = bef) (os_answer (after t)),
                lift_res (\<lambda>a. a = par) (os_answer (parent_after t))] (msg_after m)) (\<lambda>_.
     Inr raw)))))))))"

definition SOURCE_BYTES :: int where
  "SOURCE_BYTES = 388369"

definition read_source :: "read_trace \<Rightarrow> bytes res" where
  "read_source = exact_read
     \<lparr>msg_linked = ''Linked source archive refused'', msg_kind = ''Exact regular source archive required'',
      msg_opened = ''Source archive changed before read'', msg_reread = ''Source archive changed while reading'',
      msg_after = ''Source archive changed after read''\<rparr> (\<lambda>_. True) SOURCE_BYTES"

definition exact_input :: "hash_fun \<Rightarrow> read_trace \<Rightarrow> int \<Rightarrow> string \<Rightarrow> bytes res" where
  "exact_input hash t n pin = exact_read
     \<lparr>msg_linked = ''Linked build input refused'', msg_kind = ''Exact protected build input required'',
      msg_opened = ''Build input changed before open'', msg_reread = ''Build input changed during read'',
      msg_after = ''Build input identity changed''\<rparr> (\<lambda>raw. hash raw = pin) n t"

lemma exact_read_whole:
  assumes "exact_read m pinned n t = Inr raw" and "0 \<le> n"
  shows "raw = stream t \<and> int (length raw) = n \<and> pinned raw"
proof -
  from assms(1) have raw: "raw = take (nat n + 1) (stream t)" "int (length raw) = n" "pinned raw"
    by (auto simp: exact_read_def Let_def ok_iff)
  with assms(2) have "length (stream t) < nat n + 1" by (auto simp: min_def split: if_split_asm)
  with raw show ?thesis by simp
qed

section \<open>Archive members\<close>

datatype tar_kind = Tar_File | Tar_Dir | Tar_Symlink | Tar_Other

record tar_info =
  tar_name :: string
  tar_type :: tar_kind
  tar_mode :: int
  tar_size :: int
  tar_target :: string
  tar_data :: bytes

type_synonym untar_fun = "string \<Rightarrow> bytes \<Rightarrow> tar_info list res"

text \<open>Text as UTF-8; a character is a code point below 256.\<close>

definition utf8 :: "string \<Rightarrow> bytes" where
  "utf8 s = concat (map (\<lambda>c. let n = of_char c :: nat in
     if n < 128 then [word_of_nat n] else [word_of_nat (192 + n div 64), word_of_nat (128 + n mod 64)]) s)"

definition absolute_path :: "string \<Rightarrow> bool" where
  "absolute_path s \<longleftrightarrow> take 1 s = ''/''"

definition rstrip_slash :: "string \<Rightarrow> string" where
  "rstrip_slash s = rev (dropWhile (\<lambda>c. c = CHR ''/'') (rev s))"

text \<open>\<open>as_posix\<close> of a relative path.\<close>

definition posix_text :: "string list \<Rightarrow> string" where
  "posix_text parts = (if parts = [] then ''.'' else join_with ''/'' parts)"

definition ARCHIVE_ROOT :: string where
  "ARCHIVE_ROOT = ''apk-3.0.5-foxhole-transaction-v1''"

definition SOURCE_LINK :: string where
  "SOURCE_LINK = ''src/apk-static.c''"

text \<open>The first bytes of ELF, ZIP, DEX and WebAssembly files.\<close>

definition OUTPUT_MAGIC :: "bytes list" where
  "OUTPUT_MAGIC = [[127, 69, 76, 70], [80, 75, 3, 4], [100, 101, 120, 10], [0, 97, 115, 109]]"

record source_state =
  src_files :: "(string \<times> bytes) list"
  src_links :: "(string \<times> string) list"
  src_modes :: "(string \<times> int) list"
  src_seen :: "string list"

definition no_source :: source_state where
  "no_source = \<lparr>src_files = [], src_links = [], src_modes = [], src_seen = []\<rparr>"

definition member_path :: "tar_info \<Rightarrow> string" where
  "member_path m = posix_text (tl (path_parts (tar_name m)))"

definition source_file :: "tar_info \<Rightarrow> source_state \<Rightarrow> source_state res" where
  "source_file m st =
     bnd (need [Inr (tar_type m = Tar_File), Inr (0 \<le> tar_size m \<and> tar_size m \<le> 1048576)]
            ''Only regular bounded source members are admitted'') (\<lambda>_.
     bnd (need [Inr (member_path m \<notin> {''.'', []}),
                Inr (set (path_parts (tar_name m)) \<inter> {''.git'', ''AGENTS.md'', ''__pycache__''} = {})]
            ''Local state is not source'') (\<lambda>_.
     bnd (need [Inr (int (length (tar_data m)) = tar_size m),
                Inr (\<not> list_ex (\<lambda>p. take (length p) (tar_data m) = p) OUTPUT_MAGIC)]
            ''Executable output is not source'') (\<lambda>_.
     Inr (st\<lparr>src_files := AList.update (member_path m) (tar_data m) (src_files st),
             src_modes := AList.update (member_path m) (if tar_mode m AND 73 \<noteq> 0 then 493 else 420) (src_modes st)\<rparr>))))"

definition source_member :: "tar_info \<Rightarrow> source_state \<Rightarrow> source_state res" where
  "source_member m st =
     (let parts = path_parts (tar_name m); plain = rstrip_slash (tar_name m) in
     bnd (need [Inr (\<not> absolute_path (tar_name m)), Inr (''..'' \<notin> set parts), Inr (parts \<noteq> []),
                Inr (hd parts = ARCHIVE_ROOT), Inr (posix_text parts = plain), Inr (plain \<notin> set (src_seen st))]
            ''Unsafe or duplicate source member'') (\<lambda>_.
     let st = st\<lparr>src_seen := src_seen st @ [plain]\<rparr> in
     if tar_type m = Tar_Symlink
     then bnd (need [Inr (member_path m = SOURCE_LINK), Inr (tar_target m = ''apk.c''), Inr (tar_mode m = 511),
                     Inr (src_links st = [])] ''Only the exact upstream link is admitted'') (\<lambda>_.
          Inr (st\<lparr>src_links := [(member_path m, tar_target m)]\<rparr>))
     else bnd (need [Inr (tar_mode m AND 18 = 0), Inr (tar_mode m AND 3584 = 0)] ''Unexpected source mode'') (\<lambda>_.
          if tar_type m = Tar_Dir then Inr st else source_file m st)))"

section \<open>The applets the source declares\<close>

text \<open>
  \<open>re.findall(rb'\.name\s*=\s*"([^"]+)"', applet)\<close>: a match at one position leaves no choice, since the
  characters after each repetition are not among the repeated ones.
\<close>

definition byte_space :: "u8 \<Rightarrow> bool" where
  "byte_space b \<longleftrightarrow> b \<in> {9, 10, 11, 12, 13, 32}"

definition applet_at :: "bytes \<Rightarrow> (bytes \<times> bytes) option" where
  "applet_at bs =
     (if take 5 bs \<noteq> [46, 110, 97, 109, 101] then None
      else case dropWhile byte_space (drop 5 bs) of
        [] \<Rightarrow> None
      | b # r \<Rightarrow> if b \<noteq> 61 then None
          else case dropWhile byte_space r of
            [] \<Rightarrow> None
          | q # s \<Rightarrow> if q \<noteq> 34 then None
              else (case dropWhile (\<lambda>x. x \<noteq> 34) s of
                 [] \<Rightarrow> None
               | _ # rest \<Rightarrow> if takeWhile (\<lambda>x. x \<noteq> 34) s = [] then None else Some (takeWhile (\<lambda>x. x \<noteq> 34) s, rest)))"

lemma applet_at_shorter: "applet_at bs = Some (n, rest) \<Longrightarrow> length rest < length bs"
proof -
  assume a: "applet_at bs = Some (n, rest)"
  then obtain r s x b q where step: "dropWhile byte_space (drop 5 bs) = b # r" "dropWhile byte_space r = q # s"
      "dropWhile (\<lambda>x. x \<noteq> 34) s = x # rest"
    by (auto simp: applet_at_def split: if_split_asm list.split_asm)
  have "length (x # rest) \<le> length s" "length (q # s) \<le> length r" "length (b # r) \<le> length (drop 5 bs)"
    unfolding step [symmetric] by (rule length_dropWhile_le)+
  then show ?thesis by simp
qed

function applet_names :: "bytes \<Rightarrow> bytes list" where
  "applet_names [] = []"
| "applet_names (b # bs) = (case applet_at (b # bs) of Some (n, rest) \<Rightarrow> n # applet_names rest | None \<Rightarrow> applet_names bs)"
  by pat_completeness auto
termination
  by (relation "measure length") (auto dest: applet_at_shorter)

section \<open>The admitted source\<close>

definition inspect_members :: "untar_fun \<Rightarrow> bytes \<Rightarrow> source_state res" where
  "inspect_members untar raw =
     bnd (untar ''r:gz'' raw) (\<lambda>members.
     bnd (need [Inr (1 \<le> length members \<and> length members \<le> 1024), Inr (sum_list (map tar_size members) \<le> 8 * 1024 ^ 2)]
            ''Bounded source members required'') (\<lambda>_.
     bnd (fold_res source_member members no_source) (\<lambda>st.
     bnd (need [Inr (length (src_files st) = 416), Inr (src_links st = [(SOURCE_LINK, ''apk.c'')]),
                Inr (''src/apk.c'' \<in> fst ` set (src_files st))]
            ''Exact 416 source files and one upstream link required'') (\<lambda>_.
     let applet = (case map_of (src_files st) ''src/app_foxhole_transaction.c'' of None \<Rightarrow> [] | Some b \<Rightarrow> b) in
     bnd (need [Inr (set (applet_names applet) = {encode_ascii ''foxhole-apply'', encode_ascii ''foxhole-recover''})]
            ''Only the two production transaction applets are admitted'') (\<lambda>_.
     Inr st)))))"

definition source_map :: "hash_fun \<Rightarrow> (string \<times> bytes) list \<Rightarrow> bytes" where
  "source_map hash files = concat (map (\<lambda>(n, b). utf8 n @ [0] @ utf8 (hash b) @ [10]) (sort_key fst files))"

definition verify_source :: "hash_fun \<Rightarrow> untar_fun \<Rightarrow> bytes \<Rightarrow> json res" where
  "verify_source hash untar raw =
     bnd (need [Inr (int (length raw) = SOURCE_BYTES), Inr (hash raw = SOURCE_SHA256)] ''Exact clean fork source identity required'') (\<lambda>_.
     bnd (inspect_members untar raw) (\<lambda>st.
     Inr (JObj [(''schema'', JInt 1), (''sourceArchiveSha256'', JStr SOURCE_SHA256),
                (''regularFiles'', JInt (int (length (src_files st)))),
                (''upstreamLinks'', JObj (map (map_prod id JStr) (src_links st))),
                (''sourceFileMapSha256'', JStr (hash (source_map hash (src_files st)))),
                (''targetRuntimeQualified'', JBool False)])))"

section \<open>Paths\<close>

lemma split_on_plain: "c \<notin> set w \<Longrightarrow> split_on c w = [w]"
  by (induction w) auto

lemma split_on_append: "c \<notin> set w \<Longrightarrow> split_on c (w @ c # s) = w # split_on c s"
  by (induction w) auto

lemma split_on_clean: "p \<in> set (split_on c s) \<Longrightarrow> c \<notin> set p"
  by (induction s arbitrary: p) (auto split: list.split_asm if_split_asm)

definition part_ok :: "string \<Rightarrow> bool" where
  "part_ok p \<longleftrightarrow> p \<noteq> [] \<and> p \<noteq> ''.'' \<and> CHR ''/'' \<notin> set p"

lemma path_parts_ok: "list_all part_ok (path_parts s)"
  by (auto simp: list_all_iff path_parts_def part_ok_def dest: split_on_clean)

lemma join_nonempty: "ps \<noteq> [] \<Longrightarrow> list_all part_ok ps \<Longrightarrow> join_with ''/'' ps \<noteq> []"
  by (cases ps; cases "tl ps") (auto simp: part_ok_def)

lemma path_parts_join: "list_all part_ok ps \<Longrightarrow> ps \<noteq> [] \<Longrightarrow> path_parts (join_with ''/'' ps) = ps"
proof (induction ps)
  case (Cons p ps)
  show ?case
  proof (cases ps)
    case Nil
    with Cons show ?thesis by (simp add: path_parts_def part_ok_def split_on_plain)
  next
    case (Cons q qs)
    then have "join_with ''/'' (p # ps) = p @ CHR ''/'' # join_with ''/'' ps" by simp
    moreover have "split_on (CHR ''/'') (p @ CHR ''/'' # join_with ''/'' ps) = p # split_on (CHR ''/'') (join_with ''/'' ps)"
      using Cons.prems by (intro split_on_append) (simp add: part_ok_def)
    ultimately show ?thesis using Cons.IH Cons.prems Cons by (simp add: path_parts_def part_ok_def)
  qed
qed simp

text \<open>A relative path that stays below its root and is written in one way only.\<close>

definition inner_path :: "string \<Rightarrow> bool" where
  "inner_path n \<longleftrightarrow> path_parts n \<noteq> [] \<and> n = join_with ''/'' (path_parts n) \<and>
     set (path_parts n) \<inter> {''..'', ''.git'', ''AGENTS.md'', ''__pycache__''} = {}"

lemma inner_path_join:
  assumes "list_all part_ok ps" and "ps \<noteq> []" and "set ps \<inter> {''..'', ''.git'', ''AGENTS.md'', ''__pycache__''} = {}"
  shows "inner_path (posix_text ps)"
  using assms path_parts_join [OF assms(1,2)] by (simp add: inner_path_def posix_text_def)

lemma tl_parts_ok: "list_all part_ok (tl (path_parts s))"
  using path_parts_ok [of s] by (cases "path_parts s") simp_all

lemma member_inner:
  assumes "member_path m \<noteq> ''.''" and "set (path_parts (tar_name m)) \<inter> {''..'', ''.git'', ''AGENTS.md'', ''__pycache__''} = {}"
  shows "inner_path (member_path m)"
proof -
  have "tl (path_parts (tar_name m)) \<noteq> []" using assms(1) by (auto simp: member_path_def posix_text_def)
  moreover have "set (tl (path_parts (tar_name m))) \<subseteq> set (path_parts (tar_name m))"
    by (cases "path_parts (tar_name m)") auto
  ultimately show ?thesis unfolding member_path_def using assms(2) by (intro inner_path_join tl_parts_ok) auto
qed

section \<open>The admitted members\<close>

definition regular_member :: "tar_info \<Rightarrow> bool" where
  "regular_member m \<longleftrightarrow> tar_type m = Tar_File"

definition source_row :: "tar_info \<Rightarrow> string \<times> bytes" where
  "source_row m = (member_path m, tar_data m)"

definition mode_row :: "tar_info \<Rightarrow> string \<times> int" where
  "mode_row m = (member_path m, if tar_mode m AND 73 \<noteq> 0 then 493 else 420)"

definition source_data_ok :: "bytes \<Rightarrow> bool" where
  "source_data_ok b \<longleftrightarrow> length b \<le> 1048576 \<and> \<not> list_ex (\<lambda>p. take (length p) b = p) OUTPUT_MAGIC"

definition below_root :: "tar_info \<Rightarrow> bool" where
  "below_root m \<longleftrightarrow> member_path m \<noteq> ''.'' \<longrightarrow> rstrip_slash (tar_name m) = ARCHIVE_ROOT @ ''/'' @ member_path m"

definition source_inv :: "tar_info list \<Rightarrow> source_state \<Rightarrow> bool" where
  "source_inv ms st \<longleftrightarrow>
     src_seen st = map (\<lambda>m. rstrip_slash (tar_name m)) ms \<and> list_all below_root ms \<and>
     src_files st = map source_row (filter regular_member ms) \<and>
     src_modes st = map mode_row (filter regular_member ms) \<and>
     distinct (map fst (src_files st)) \<and>
     (\<forall>m \<in> set ms. regular_member m \<longrightarrow> member_path m \<noteq> ''.'' \<and> inner_path (member_path m) \<and> source_data_ok (tar_data m)) \<and>
     src_links st = map (\<lambda>m. (SOURCE_LINK, ''apk.c'')) (filter (\<lambda>m. tar_type m = Tar_Symlink) ms) \<and>
     length (src_links st) \<le> 1 \<and>
     (\<forall>m \<in> set ms. tar_type m = Tar_Symlink \<longrightarrow> member_path m = SOURCE_LINK) \<and>
     (src_links st \<noteq> [] \<longrightarrow> SOURCE_LINK \<notin> fst ` set (src_files st))"

lemma posix_below:
  assumes "path_parts (tar_name m) \<noteq> []" and "hd (path_parts (tar_name m)) = ARCHIVE_ROOT"
    and "posix_text (path_parts (tar_name m)) = rstrip_slash (tar_name m)"
  shows "below_root m"
proof -
  obtain r where r: "path_parts (tar_name m) = ARCHIVE_ROOT # r"
    using assms(1,2) by (cases "path_parts (tar_name m)") auto
  show ?thesis
    using assms(3) by (cases r) (auto simp: below_root_def member_path_def posix_text_def r)
qed

text \<open>Two members with the same path below the root have the same name.\<close>

lemma fresh_member:
  assumes "source_inv ms st" and "below_root m" and "member_path m \<noteq> ''.''"
    and "rstrip_slash (tar_name m) \<notin> set (src_seen st)" and "m' \<in> set ms" and "member_path m' \<noteq> ''.''"
  shows "member_path m' \<noteq> member_path m"
proof
  assume same: "member_path m' = member_path m"
  have "below_root m'" and seen: "src_seen st = map (\<lambda>m. rstrip_slash (tar_name m)) ms"
    using assms(1,5) by (simp_all add: source_inv_def list_all_iff)
  with assms(2,3,6) same have "rstrip_slash (tar_name m') = rstrip_slash (tar_name m)"
    by (simp only: below_root_def)
  with assms(4,5) seen show False by (metis (mono_tags, lifting) image_eqI list.set_map)
qed

lemma update_fresh: "k \<notin> fst ` set al \<Longrightarrow> AList.update k v al = al @ [(k, v)]"
  by (induction al) auto

lemma source_file_iff:
  "source_file m st = Inr st' \<longleftrightarrow>
     regular_member m \<and> 0 \<le> tar_size m \<and> tar_size m \<le> 1048576 \<and> member_path m \<noteq> ''.'' \<and> member_path m \<noteq> [] \<and>
     set (path_parts (tar_name m)) \<inter> {''.git'', ''AGENTS.md'', ''__pycache__''} = {} \<and>
     int (length (tar_data m)) = tar_size m \<and> \<not> list_ex (\<lambda>p. take (length p) (tar_data m) = p) OUTPUT_MAGIC \<and>
     st' = st\<lparr>src_files := AList.update (member_path m) (tar_data m) (src_files st),
              src_modes := AList.update (member_path m) (snd (mode_row m)) (src_modes st)\<rparr>"
  by (auto simp: source_file_def ok_iff regular_member_def mode_row_def)

lemma source_memberE:
  assumes "source_member m st = Inr st'"
  obtains "below_root m" "''..'' \<notin> set (path_parts (tar_name m))" "rstrip_slash (tar_name m) \<notin> set (src_seen st)"
    "if tar_type m = Tar_Symlink
     then member_path m = SOURCE_LINK \<and> tar_target m = ''apk.c'' \<and> src_links st = [] \<and>
       st' = st\<lparr>src_seen := src_seen st @ [rstrip_slash (tar_name m)], src_links := [(SOURCE_LINK, ''apk.c'')]\<rparr>
     else if tar_type m = Tar_Dir then st' = st\<lparr>src_seen := src_seen st @ [rstrip_slash (tar_name m)]\<rparr>
     else source_file m (st\<lparr>src_seen := src_seen st @ [rstrip_slash (tar_name m)]\<rparr>) = Inr st'"
proof -
  note facts = assms [unfolded source_member_def Let_def bnd_Inr_iff ex_unit_iff need_Inr_iff simp_thms]
  have "below_root m" using facts by (intro posix_below) auto
  then show ?thesis using facts by (intro that) (auto simp: ok_iff split: if_split_asm)
qed

lemma source_inv_seen:
  assumes "source_inv ms st" and "below_root m"
    and "regular_member m \<longrightarrow> member_path m \<noteq> ''.'' \<and> inner_path (member_path m) \<and> source_data_ok (tar_data m)"
    and "tar_type m = Tar_Symlink \<longrightarrow> member_path m = SOURCE_LINK"
    and files: "fs = src_files st @ map source_row (filter regular_member [m])"
    and modes: "mds = src_modes st @ map mode_row (filter regular_member [m])"
    and links: "ls = src_links st @ map (\<lambda>m. (SOURCE_LINK, ''apk.c'')) (filter (\<lambda>m. tar_type m = Tar_Symlink) [m])"
    and "distinct (map fst fs)" and "length ls \<le> 1" and "ls \<noteq> [] \<longrightarrow> SOURCE_LINK \<notin> fst ` set fs"
  shows "source_inv (ms @ [m]) (st\<lparr>src_seen := src_seen st @ [rstrip_slash (tar_name m)], src_files := fs, src_modes := mds, src_links := ls\<rparr>)"
  using assms(1-4,8-10) unfolding source_inv_def files modes links
  by (simp add: list_all_iff)

lemma link_path: "SOURCE_LINK \<noteq> ''.''"
  by (simp add: SOURCE_LINK_def)

lemma fresh_file:
  assumes "source_inv ms st" and "below_root m" and "member_path m \<noteq> ''.''"
    and "rstrip_slash (tar_name m) \<notin> set (src_seen st)"
  shows "member_path m \<notin> fst ` set (src_files st)"
proof
  assume "member_path m \<in> fst ` set (src_files st)"
  then have "member_path m \<in> fst ` source_row ` set (filter regular_member ms)"
    using assms(1) by (simp add: source_inv_def)
  then obtain m' where m': "m' \<in> set ms" "regular_member m'" "member_path m' = member_path m"
    by (auto simp: source_row_def)
  have "member_path m' \<noteq> ''.''" using assms(1) m'(1,2) unfolding source_inv_def by blast
  from fresh_member [OF assms m'(1) this] m'(3) show False by simp
qed

lemma fresh_link:
  assumes "source_inv ms st" and "below_root m" and "member_path m = SOURCE_LINK"
    and "rstrip_slash (tar_name m) \<notin> set (src_seen st)"
  shows "src_links st = []"
proof (rule ccontr)
  assume "src_links st \<noteq> []"
  then obtain m' where m': "m' \<in> set ms" "tar_type m' = Tar_Symlink"
    using assms(1) by (auto simp: source_inv_def filter_empty_conv)
  with assms(1) have path: "member_path m' = SOURCE_LINK" by (simp add: source_inv_def)
  have "member_path m \<noteq> ''.''" "member_path m' \<noteq> ''.''" using link_path assms(3) path by simp_all
  from fresh_member [OF assms(1,2) this(1) assms(4) m'(1) this(2)] path assms(3) show False by simp
qed

lemma source_inv_step:
  assumes inv: "source_inv ms st" and step: "source_member m st = Inr st'"
  shows "source_inv (ms @ [m]) st'"
proof -
  let ?seen = "st\<lparr>src_seen := src_seen st @ [rstrip_slash (tar_name m)]\<rparr>"
  from step obtain below: "below_root m" and dots: "''..'' \<notin> set (path_parts (tar_name m))"
    and new: "rstrip_slash (tar_name m) \<notin> set (src_seen st)"
    and kind: "if tar_type m = Tar_Symlink
     then member_path m = SOURCE_LINK \<and> tar_target m = ''apk.c'' \<and> src_links st = [] \<and>
       st' = ?seen\<lparr>src_links := [(SOURCE_LINK, ''apk.c'')]\<rparr>
     else if tar_type m = Tar_Dir then st' = ?seen else source_file m ?seen = Inr st'"
    by (rule source_memberE) simp
  have state: "st\<lparr>src_seen := s, src_files := src_files st, src_modes := src_modes st, src_links := src_links st\<rparr> = st\<lparr>src_seen := s\<rparr>" for s
    by simp
  have base: "distinct (map fst (src_files st))" "length (src_links st) \<le> 1"
      "src_links st \<noteq> [] \<longrightarrow> SOURCE_LINK \<notin> fst ` set (src_files st)"
    using inv unfolding source_inv_def by blast+
  consider (link) "tar_type m = Tar_Symlink" | (dir) "tar_type m = Tar_Dir" | (reg) "source_file m ?seen = Inr st'"
    using kind by (auto split: if_split_asm)
  then show ?thesis
  proof cases
    case link
    with kind have l: "member_path m = SOURCE_LINK" "src_links st = []"
        "st' = ?seen\<lparr>src_files := src_files st, src_modes := src_modes st, src_links := [(SOURCE_LINK, ''apk.c'')]\<rparr>" by simp_all
    have "SOURCE_LINK \<notin> fst ` set (src_files st)"
      using fresh_file [OF inv below _ new] l(1) link_path by simp
    moreover have "distinct (map fst (src_files st))" by (rule base(1))
    ultimately show ?thesis unfolding l(3) using link l(1,2)
      by (intro source_inv_seen [OF inv below]) (simp_all add: regular_member_def)
  next
    case dir
    with kind have "st' = ?seen" by simp
    with dir base show ?thesis
      using source_inv_seen [OF inv below, of "src_files st" "src_modes st" "src_links st"]
      by (auto simp: regular_member_def state)
  next
    case reg
    note f = reg [unfolded source_file_iff]
    have fresh: "member_path m \<notin> fst ` set (src_files st)" using f by (intro fresh_file [OF inv below _ new]) simp
    have keys: "map fst (src_modes st) = map fst (src_files st)"
      using inv by (simp add: source_inv_def source_row_def mode_row_def)
    then have "fst ` set (src_modes st) = fst ` set (src_files st)" by (metis list.set_map)
    with f fresh have st': "st' = ?seen\<lparr>src_files := src_files st @ [source_row m], src_modes := src_modes st @ [mode_row m],
        src_links := src_links st\<rparr>"
      by (simp add: update_fresh source_row_def mode_row_def)
    have "inner_path (member_path m)" using f dots by (intro member_inner) auto
    moreover have "member_path m \<noteq> SOURCE_LINK" if "src_links st \<noteq> []"
      using fresh_link [OF inv below _ new] that by blast
    moreover have "source_data_ok (tar_data m)" using f by (simp add: source_data_ok_def)
    moreover have "tar_type m = Tar_File" using f by (simp add: regular_member_def)
    ultimately show ?thesis unfolding st' using f base fresh
      by (intro source_inv_seen [OF inv below]) (auto simp: regular_member_def source_row_def)
  qed
qed

lemma source_run: "fold_res source_member ms no_source = Inr st \<Longrightarrow> source_inv ms st"
proof (induction ms arbitrary: st rule: rev_induct)
  case Nil
  then show ?case by (auto simp: source_inv_def no_source_def)
next
  case (snoc m ms)
  then show ?case by (auto simp: bnd_Inr_iff intro: source_inv_step)
qed

text \<open>
  C34. The admitted source is well formed: whatever the archive lists, the file map has one entry for each regular
  member, with its bytes and the mode 755 or 644 its execute bits ask for, under pairwise distinct relative
  paths that stay below the root, have no repeated separator and name no local state; no content is larger than a
  megabyte or starts like an executable; and there is at most one link, the upstream one, whose path is no file.
\<close>

theorem source_well_formed:
  assumes "fold_res source_member members no_source = Inr st"
  shows "src_files st = map source_row (filter regular_member members) \<and>
    src_modes st = map mode_row (filter regular_member members) \<and>
    distinct (map fst (src_files st)) \<and>
    (\<forall>(n, b) \<in> set (src_files st). inner_path n \<and> source_data_ok b) \<and>
    src_links st \<in> {[], [(SOURCE_LINK, ''apk.c'')]} \<and>
    (src_links st \<noteq> [] \<longrightarrow> SOURCE_LINK \<notin> fst ` set (src_files st))"
proof -
  note inv = source_run [OF assms, unfolded source_inv_def]
  have "src_links st \<in> {[], [(SOURCE_LINK, ''apk.c'')]}"
    using inv by (cases "filter (\<lambda>m. tar_type m = Tar_Symlink) members") auto
  moreover have "\<forall>(n, b) \<in> set (src_files st). inner_path n \<and> source_data_ok b"
    using inv by (auto simp: source_row_def)
  ultimately show ?thesis using inv by blast
qed

definition sample_member :: "tar_kind \<Rightarrow> string \<Rightarrow> int \<Rightarrow> string \<Rightarrow> bytes \<Rightarrow> tar_info" where
  "sample_member k n md target b =
     \<lparr>tar_name = n, tar_type = k, tar_mode = md, tar_size = int (length b), tar_target = target, tar_data = b\<rparr>"

definition sample_archive :: "tar_info list" where
  "sample_archive =
     [sample_member Tar_Dir (ARCHIVE_ROOT @ ''/src/'') 493 [] [],
      sample_member Tar_File (ARCHIVE_ROOT @ ''/src/apk.c'') 420 [] [1, 2],
      sample_member Tar_Symlink (ARCHIVE_ROOT @ ''/src/apk-static.c'') 511 ''apk.c'' [],
      sample_member Tar_File (ARCHIVE_ROOT @ ''/run.sh'') 493 [] [35, 33]]"

definition sample_source :: source_state where
  "sample_source = \<lparr>src_files = [(''src/apk.c'', [1, 2]), (''run.sh'', [35, 33])], src_links = [(SOURCE_LINK, ''apk.c'')],
     src_modes = [(''src/apk.c'', 420), (''run.sh'', 493)],
     src_seen = [ARCHIVE_ROOT @ ''/src'', ARCHIVE_ROOT @ ''/src/apk.c'', ARCHIVE_ROOT @ ''/src/apk-static.c'', ARCHIVE_ROOT @ ''/run.sh'']\<rparr>"

lemma sample_inspected: "fold_res source_member sample_archive no_source = Inr sample_source"
  by code_simp

theorem source_well_formed_witness:
  "fold_res source_member sample_archive no_source = Inr sample_source \<and> inner_path ''src/apk.c'' \<and>
   src_links sample_source = [(SOURCE_LINK, ''apk.c'')]"
  using source_well_formed [OF sample_inspected] sample_inspected by (simp add: sample_source_def)

end
