(* ===== verification/Transaction_Build.thy ===== *)
theory Transaction_Build
  imports Source_Archive Build_Process
begin

text \<open>
  build.py: the pinned inputs of the transaction helper, the trees written from its archives, the build commands, and
  the artifact that is compared with the recorded identity. A tree lists its nodes by path components below its
  root; \<open>gz\<close> is gzip compression with its header, \<open>untar\<close> the decoder of archives, and a build step is
  the machine of \<open>Build_Process\<close>, here only its result.
\<close>

section \<open>Trees\<close>

type_synonym tree = "(string list \<times> file_entry) list"

definition dir_node :: file_entry where
  "dir_node = \<lparr>ftype = Directory, perm = 448, nlink = 1, owner = 0, content = []\<rparr>"

text \<open>The mode is 700 when an execute bit is set, 600 otherwise.\<close>

definition file_node :: "bytes \<Rightarrow> int \<Rightarrow> file_entry" where
  "file_node b mode = \<lparr>ftype = Regular, perm = (if mode AND 73 \<noteq> 0 then 448 else 384), nlink = 1, owner = 0, content = b\<rparr>"

text \<open>\<open>mkdir(parents=True, exist_ok=True)\<close> of the path \<open>d @ ps\<close>, where \<open>d\<close> is there.\<close>

fun make_dirs :: "string list \<Rightarrow> string list \<Rightarrow> tree \<Rightarrow> tree res" where
  "make_dirs d [] t = Inr t"
| "make_dirs d (p # ps) t =
     bnd (case map_of t (d @ [p]) of
            None \<Rightarrow> Inr (t @ [(d @ [p], dir_node)])
          | Some e \<Rightarrow> if ftype e = Directory then Inr t else Inl OSError)
       (make_dirs (d @ [p]) ps)"

section \<open>Extraction\<close>

definition extract_file :: "tar_info \<Rightarrow> tree \<Rightarrow> tree res" where
  "extract_file m t =
     (let parts = path_parts (tar_name m) in
     bnd (need [Inr (tar_type m = Tar_File), Inr (tar_size m \<le> 8388608)] ''Only regular dependency source files admitted'') (\<lambda>_.
     bnd (make_dirs [] (butlast parts) t) (\<lambda>t.
     case map_of t parts of
       Some e \<Rightarrow> Inl OSError
     | None \<Rightarrow> bnd (need [Inr (int (length (tar_data m)) = tar_size m)] ''Dependency source size differs'') (\<lambda>_.
         Inr (t @ [(parts, file_node (tar_data m) (tar_mode m))])))))"

definition extract_member :: "string option \<Rightarrow> tar_info \<Rightarrow> string list \<times> tree \<Rightarrow> (string list \<times> tree) res" where
  "extract_member expected m st =
     (let parts = path_parts (tar_name m) in
     bnd (need [Inr (parts \<noteq> []), Inr (\<not> absolute_path (tar_name m)), Inr (''..'' \<notin> set parts),
                Inr (tar_name m \<notin> set (fst st)), Inr (expected = None \<or> expected = Some (hd parts))]
            ''Unsafe dependency source member'') (\<lambda>_.
     lift_res (Pair (fst st @ [tar_name m]))
       (if tar_type m = Tar_Dir then make_dirs [] parts (snd st) else extract_file m (snd st))))"

definition extract_regular :: "untar_fun \<Rightarrow> bool \<Rightarrow> bytes \<Rightarrow> string \<Rightarrow> string option \<Rightarrow> tree res" where
  "extract_regular untar destination_exists raw mode expected =
     bnd (if destination_exists then Inl OSError else untar mode raw) (\<lambda>members.
     bnd (need [Inr (length members \<le> 10000), Inr (sum_list (map tar_size members) \<le> 134217728)]
            ''Bounded dependency source required'') (\<lambda>_.
     lift_res snd (fold_res (extract_member expected) members ([], []))))"

section \<open>The source tree\<close>

definition write_file :: "(string \<times> int) list \<Rightarrow> string \<times> bytes \<Rightarrow> tree \<Rightarrow> tree res" where
  "write_file modes row t =
     (let parts = path_parts (fst row) in
     bnd (make_dirs [] (butlast parts) t) (\<lambda>t.
     case map_of modes (fst row) of
       None \<Rightarrow> Inl KeyError
     | Some mode \<Rightarrow>
         (case map_of t parts of
            None \<Rightarrow> Inr (t @ [(parts, file_node (snd row) mode)])
          | Some e \<Rightarrow> if ftype e = Directory then Inl OSError else Inr (AList.update parts (file_node (snd row) mode) t))))"

definition write_link :: "string \<times> string \<Rightarrow> tree \<Rightarrow> tree res" where
  "write_link row t =
     (let parts = path_parts (fst row) in
     case (map_of t (butlast parts), map_of t parts) of
       (Some d, None) \<Rightarrow> if ftype d = Directory
         then Inr (t @ [(parts, \<lparr>ftype = Symlink, perm = 511, nlink = 1, owner = 0, content = utf8 (snd row)\<rparr>)]) else Inl OSError
     | _ \<Rightarrow> Inl OSError)"

definition write_source :: "source_state \<Rightarrow> tree res" where
  "write_source st = bnd (fold_res (write_file (src_modes st)) (src_files st) []) (fold_res write_link (src_links st))"

section \<open>Pinned inputs\<close>

definition OFFER_SHA :: string where
  "OFFER_SHA = ''df92280ae325021242d49fde13b6367f3f5460ce81364d5f62d4579c3b1023ba''"

definition MBED_SHA :: string where
  "MBED_SHA = ''8fb65fae8dcae5840f793c0a334860a411f884cc537ea290ce1c52bb64ca007a''"

definition SDK_VERSION_SHA :: string where
  "SDK_VERSION_SHA = ''ccc4753e805f2831f74605f983a7625cb1ca8e8195ebae79e39ed48158ef49d0''"

record build_target =
  toolchain :: string
  triple :: string
  cpu :: string
  dev_bytes :: int
  dev_sha :: string

definition BUILD_TARGETS :: "(string \<times> build_target) list" where
  "BUILD_TARGETS =
     [(''x86_64'', \<lparr>toolchain = ''x86_64'', triple = ''x86_64-openwrt-linux-musl'', cpu = ''x86_64'',
         dev_bytes = 77760, dev_sha = ''45c00e3be9a7d2b03b73a3bd54888b0b29412250ca8a122c4dc1a3c34ba0e6fe''\<rparr>),
      (''aarch64_cortex-a53'', \<lparr>toolchain = ''aarch64_cortex-a53'', triple = ''aarch64-openwrt-linux-musl'', cpu = ''aarch64'',
         dev_bytes = 71303, dev_sha = ''8919af1ff9aae890a48d5d2a28502d5144d9adc6bdc598632d86f08704aa0f59''\<rparr>)]"

text \<open>What one run finds: the reads of its inputs, the state of the destination and of the SDK tools.\<close>

record build_world =
  sdk_is_dir :: bool
  work_exists :: bool
  work_in_source :: bool
  fork_read :: read_trace
  zlib_read :: read_trace
  bundle_read :: read_trace
  version_read :: read_trace
  tools_inside :: "bool list"

definition MBED_MEMBER :: string where
  "MBED_MEMBER = ''foxhole-apk-transaction-v1-source-inputs/sources/mbedtls-3.6.6.tar.bz2''"

text \<open>\<open>getmember\<close> returns the last member of that name.\<close>

definition mbed_source :: "hash_fun \<Rightarrow> untar_fun \<Rightarrow> bytes \<Rightarrow> bytes res" where
  "mbed_source hash untar bundle =
     bnd (untar ''r:gz'' bundle) (\<lambda>members.
     case find (\<lambda>m. tar_name m = MBED_MEMBER) (rev members) of
       None \<Rightarrow> Inl KeyError
     | Some m \<Rightarrow>
         bnd (need [Inr (tar_type m = Tar_File), Inr (tar_size m = 5508045)] ''Complete recorded Mbed TLS source required'') (\<lambda>_.
         bnd (need [Inr (hash (tar_data m) = MBED_SHA)] ''Mbed TLS source identity differs'') (\<lambda>_.
         Inr (tar_data m))))"

text \<open>The trees of Mbed TLS, zlib and the fork.\<close>

definition build_inputs :: "hash_fun \<Rightarrow> untar_fun \<Rightarrow> build_world \<Rightarrow> string \<Rightarrow> (tree \<times> tree \<times> tree) res" where
  "build_inputs hash untar w arch =
     bnd (need [Inr (sdk_is_dir w), Inr (\<not> work_exists w), Inr (\<not> work_in_source w)] ''Fresh build work outside source tree required'') (\<lambda>_.
     bnd (read_source (fork_read w)) (\<lambda>fork.
     bnd (verify_source hash untar fork) (\<lambda>_.
     case map_of BUILD_TARGETS arch of
       None \<Rightarrow> Inl KeyError
     | Some row \<Rightarrow>
         bnd (exact_input hash (zlib_read w) (dev_bytes row) (dev_sha row)) (\<lambda>developer.
         bnd (exact_input hash (bundle_read w) 7630415 OFFER_SHA) (\<lambda>bundle.
         bnd (mbed_source hash untar bundle) (\<lambda>mbed.
         bnd (exact_input hash (version_read w) 4461 SDK_VERSION_SHA) (\<lambda>_.
         bnd (each_res (\<lambda>inside. need [Inr inside] ''Self-contained SDK tool required'') (tools_inside w)) (\<lambda>_.
         bnd (extract_regular untar False mbed ''r:bz2'' (Some ''mbedtls-3.6.6'')) (\<lambda>mbed_tree.
         bnd (extract_regular untar False developer ''r:gz'' None) (\<lambda>zlib_tree.
         bnd (inspect_members untar fork) (\<lambda>st.
         bnd (write_source st) (\<lambda>fork_tree.
         Inr (mbed_tree, zlib_tree, fork_tree)))))))))))))"

section \<open>The artifact\<close>

definition deterministic_gzip :: "(bytes \<Rightarrow> bytes) \<Rightarrow> bytes \<Rightarrow> bytes res" where
  "deterministic_gzip gz raw =
     (let packed = gz raw in
     bnd (need [Inr (take 4 packed = [0x1f, 0x8b, 8, 0]), Inr (take 4 (drop 4 packed) = [0, 0, 0, 0])]
            ''Deterministic gzip header required'') (\<lambda>_.
     if length packed \<le> 9 then Inl IndexError else Inr (packed[9 := 3])))"

definition build_identity :: "bytes \<Rightarrow> bytes \<Rightarrow> (string \<times> json) list" where
  "build_identity elf packed =
     [(''elfSha256'', JStr (sha256_hex elf)), (''elfBytes'', JInt (int (length elf))),
      (''gzipSha256'', JStr (sha256_hex packed)), (''gzipBytes'', JInt (int (length packed)))]"

definition recorded_manifest :: "read_trace \<Rightarrow> json res" where
  "recorded_manifest t = bnd (bnd (typed_read t ''manifest'' None) strict_document) validate_manifest"

text \<open>From the stripped binary: the packed helper and \<open>artifact.json\<close>.\<close>

definition build_artifact :: "(bytes \<Rightarrow> bytes) \<Rightarrow> string \<Rightarrow> string \<Rightarrow> read_trace option \<Rightarrow> bytes \<Rightarrow> (bytes \<times> json) res" where
  "build_artifact gz zlib_version arch recorded elf =
     bnd (elf_closure elf arch) (\<lambda>_.
     bnd (deterministic_gzip gz elf) (\<lambda>packed.
     bnd (case recorded of
            None \<Rightarrow> Inr ()
          | Some t \<Rightarrow> bnd (recorded_manifest t) (\<lambda>manifest.
              need [lift_res (py_eq (JObj (build_identity elf packed))) (bnd (sub manifest ''targets'') (\<lambda>ts. sub ts arch))]
                ''Rebuild differs from recorded target identity'')) (\<lambda>_.
     Inr (packed, JObj ([(''schema'', JInt 1), (''architecture'', JStr arch), (''sourceArchiveSha256'', JStr SOURCE_SHA256)] @
            build_identity elf packed @
            [(''targetRuntimeQualified'', JBool False), (''compressionZlibVersion'', JStr zlib_version)])))))"

text \<open>The whole build: every step of the tool chain, then the artifact of the binary it leaves.\<close>

definition sdk_tool :: "string \<Rightarrow> build_target \<Rightarrow> string \<Rightarrow> string" where
  "sdk_tool sdk row n = sdk @ ''/staging_dir/toolchain-'' @ toolchain row @ ''_gcc-14.3.0_musl/bin/'' @ triple row @ ''-'' @ n"

definition build_commands :: "string \<Rightarrow> string \<Rightarrow> build_target \<Rightarrow> (string \<times> string list) list" where
  "build_commands sdk work row =
     (let host = sdk @ ''/staging_dir/host/bin'' in
     [(''mbed-configure'', [''cmake'', ''-S'', work @ ''/mbed-src/mbedtls-3.6.6'', ''-B'', work @ ''/mbed-build'',
         ''-DCMAKE_SYSTEM_NAME=Linux'', ''-DCMAKE_C_COMPILER='' @ sdk_tool sdk row ''gcc'', ''-DCMAKE_AR='' @ sdk_tool sdk row ''ar'',
         ''-DCMAKE_BUILD_TYPE=Release'', ''-DENABLE_TESTING=OFF'', ''-DENABLE_PROGRAMS=OFF'',
         ''-DUSE_SHARED_MBEDTLS_LIBRARY=OFF'', ''-DUSE_STATIC_MBEDTLS_LIBRARY=ON'',
         ''-DCMAKE_POSITION_INDEPENDENT_CODE=ON'', ''-DCMAKE_INSTALL_PREFIX='' @ work @ ''/deps'']),
      (''mbed-build'', [''cmake'', ''--build'', work @ ''/mbed-build'', ''-j2'']),
      (''mbed-install'', [''cmake'', ''--install'', work @ ''/mbed-build'']),
      (''apk-configure'', [host @ ''/meson.py'', ''setup'', work @ ''/apk-build'', work @ ''/apk-src/'' @ ARCHIVE_ROOT,
         ''--cross-file'', work @ ''/cross.ini'', ''--buildtype=release'', ''-Ddocs=disabled'', ''-Dhelp=disabled'', ''-Dlua=disabled'',
         ''-Dpython=disabled'', ''-Dtests=disabled'', ''-Dminimal=false'', ''-Durl_backend=wget'', ''-Dcrypto_backend=mbedtls'',
         ''-Dzstd=disabled'', ''-Ddefault_library=static'']),
      (''apk-build'', [host @ ''/ninja'', ''-C'', work @ ''/apk-build'', ''-j2'']),
      (''strip'', [sdk_tool sdk row ''strip'', ''--strip-unneeded'', work @ ''/foxhole-transaction-normal''])])"

text \<open>\<open>run label argv\<close> is the result of one build step; \<open>elf\<close> is the binary the last one leaves.\<close>

definition build_transaction :: "hash_fun \<Rightarrow> untar_fun \<Rightarrow> (bytes \<Rightarrow> bytes) \<Rightarrow> build_world \<Rightarrow> string \<Rightarrow> string \<Rightarrow> string \<Rightarrow>
    (string \<Rightarrow> string list \<Rightarrow> unit res) \<Rightarrow> string \<Rightarrow> read_trace option \<Rightarrow> bytes \<Rightarrow> (bytes \<times> json) res" where
  "build_transaction hash untar gz w sdk work arch run zlib_version recorded elf =
     bnd (build_inputs hash untar w arch) (\<lambda>_.
     case map_of BUILD_TARGETS arch of
       None \<Rightarrow> Inl KeyError
     | Some row \<Rightarrow> bnd (each_res (\<lambda>(label, argv). run label argv) (build_commands sdk work row)) (\<lambda>_.
         build_artifact gz zlib_version arch recorded elf))"

section \<open>Well-formed trees\<close>

definition dir_at :: "tree \<Rightarrow> string list \<Rightarrow> bool" where
  "dir_at t p \<longleftrightarrow> (\<exists>e. map_of t p = Some e \<and> ftype e = Directory)"

definition tree_files :: "tree \<Rightarrow> tree" where
  "tree_files t = filter (\<lambda>pe. ftype (snd pe) \<noteq> Directory) t"

text \<open>Distinct paths; the parent of a node below the top is a directory of the tree.\<close>

definition tree_ok :: "tree \<Rightarrow> bool" where
  "tree_ok t \<longleftrightarrow> distinct (map fst t) \<and> (\<forall>p \<in> fst ` set t. p \<noteq> [] \<and> (butlast p \<noteq> [] \<longrightarrow> dir_at t (butlast p)))"

lemma map_of_snoc: "map_of (t @ [(p, e)]) q = (case map_of t q of None \<Rightarrow> if q = p then Some e else None | Some x \<Rightarrow> Some x)"
  by (auto simp: map_add_def split: option.split)

lemma dir_at_snoc: "dir_at t q \<Longrightarrow> dir_at (t @ [(p, e)]) q"
  by (auto simp: dir_at_def map_of_snoc)

lemma dir_at_new: "map_of t p = None \<Longrightarrow> dir_at (t @ [(p, dir_node)]) p"
  unfolding dir_at_def map_of_snoc by (simp add: dir_node_def)

lemma tree_ok_snoc:
  assumes "tree_ok t" and "map_of t p = None" and "p \<noteq> []" and "butlast p \<noteq> [] \<Longrightarrow> dir_at t (butlast p)"
  shows "tree_ok (t @ [(p, e)])"
  using assms by (auto simp: tree_ok_def map_of_eq_None_iff intro: dir_at_snoc)

lemma tree_files_snoc: "tree_files (t @ [(p, e)]) = tree_files t @ (if ftype e = Directory then [] else [(p, e)])"
  by (simp add: tree_files_def)

lemma make_dirs_ok:
  assumes "make_dirs d ps t = Inr t'" and "tree_ok t" and "d \<noteq> [] \<Longrightarrow> dir_at t d"
  shows "tree_ok t' \<and> tree_files t' = tree_files t \<and> (d @ ps \<noteq> [] \<longrightarrow> dir_at t' (d @ ps))"
  using assms
proof (induction d ps t arbitrary: t' rule: make_dirs.induct)
  case (1 d t)
  then show ?case by auto
next
  case (2 d p ps t)
  from "2.prems"(1) obtain u where u: "(case map_of t (d @ [p]) of
            None \<Rightarrow> Inr (t @ [(d @ [p], dir_node)])
          | Some e \<Rightarrow> if ftype e = Directory then Inr t else Inl OSError) = Inr u"
      and rest: "make_dirs (d @ [p]) ps u = Inr t'"
    by (auto simp: bnd_Inr_iff)
  have "tree_ok u \<and> tree_files u = tree_files t \<and> dir_at u (d @ [p])"
  proof (cases "map_of t (d @ [p])")
    case None
    with u have "u = t @ [(d @ [p], dir_node)]" by simp
    with None "2.prems"(2,3) show ?thesis
      by (auto intro!: tree_ok_snoc dir_at_new simp: tree_files_snoc) (simp add: dir_node_def)
  next
    case (Some e)
    with u "2.prems"(2) show ?thesis by (auto simp: dir_at_def split: if_split_asm)
  qed
  with "2.IH" [OF u rest] show ?case by simp
qed

lemma make_dirs_keys:
  assumes "make_dirs d ps t = Inr t'" and "q \<in> fst ` set t'"
  shows "q \<in> fst ` set t \<or> (\<exists>k \<le> length ps. 0 < k \<and> q = d @ take k ps)"
  using assms
proof (induction d ps t arbitrary: t' rule: make_dirs.induct)
  case (2 d p ps t)
  from "2.prems"(1) obtain u where u: "(case map_of t (d @ [p]) of
            None \<Rightarrow> Inr (t @ [(d @ [p], dir_node)])
          | Some e \<Rightarrow> if ftype e = Directory then Inr t else Inl OSError) = Inr u"
      and rest: "make_dirs (d @ [p]) ps u = Inr t'"
    by (auto simp: bnd_Inr_iff)
  from "2.IH" [OF u rest "2.prems"(2)] consider "q \<in> fst ` set u" | k where "k \<le> length ps" "q = d @ take (Suc k) (p # ps)" by auto
  then show ?case
  proof cases
    case 1
    with u have "q \<in> fst ` set t \<or> q = d @ take 1 (p # ps)" by (auto split: option.split_asm if_split_asm)
    then show ?thesis by (metis One_nat_def Suc_le_mono le0 length_Cons zero_less_one)
  next
    case 2
    then show ?thesis by (metis Suc_le_mono length_Cons zero_less_Suc)
  qed
qed simp

section \<open>What an extraction leaves\<close>

definition extracted_file :: "tar_info \<Rightarrow> string list \<times> file_entry" where
  "extracted_file m = (path_parts (tar_name m), file_node (tar_data m) (tar_mode m))"

text \<open>A path below the destination, in the directory that was asked for.\<close>

definition inner_key :: "string option \<Rightarrow> string list \<Rightarrow> bool" where
  "inner_key expected p \<longleftrightarrow> p \<noteq> [] \<and> list_all part_ok p \<and> ''..'' \<notin> set p \<and> (expected = None \<or> expected = Some (hd p))"

lemma inner_key_take: "inner_key expected p \<Longrightarrow> 0 < k \<Longrightarrow> inner_key expected (take k p)"
  by (cases p; cases k) (auto simp: inner_key_def list_all_iff dest: in_set_takeD)

lemma make_dirs_inner:
  assumes "make_dirs [] ps t = Inr t'" and "inner_key expected (ps @ qs)" and "\<forall>p \<in> fst ` set t. inner_key expected p"
  shows "\<forall>p \<in> fst ` set t'. inner_key expected p"
proof
  fix q assume "q \<in> fst ` set t'"
  from make_dirs_keys [OF assms(1) this] consider "q \<in> fst ` set t" | k where "k \<le> length ps" "0 < k" "q = take k (ps @ qs)" by auto
  then show "inner_key expected q"
  proof cases
    case 1
    with assms(3) show ?thesis by blast
  next
    case 2
    show ?thesis unfolding 2(3) by (rule inner_key_take [OF assms(2) 2(2)])
  qed
qed

definition extract_inv :: "string option \<Rightarrow> tar_info list \<Rightarrow> string list \<times> tree \<Rightarrow> bool" where
  "extract_inv expected ms st \<longleftrightarrow> tree_ok (snd st) \<and> tree_files (snd st) = map extracted_file (filter regular_member ms) \<and>
     (\<forall>p \<in> fst ` set (snd st). inner_key expected p) \<and> (\<forall>m \<in> set ms. tar_type m = Tar_File \<or> tar_type m = Tar_Dir)"

lemma extract_inv_step:
  assumes inv: "extract_inv expected ms st" and step: "extract_member expected m st = Inr st'"
  shows "extract_inv expected (ms @ [m]) st'"
proof -
  let ?p = "path_parts (tar_name m)"
  have key: "inner_key expected ?p" using step path_parts_ok [of "tar_name m"]
    by (auto simp: extract_member_def Let_def ok_iff inner_key_def)
  have ok: "tree_ok (snd st)" and files: "tree_files (snd st) = map extracted_file (filter regular_member ms)"
    and keys: "\<forall>p \<in> fst ` set (snd st). inner_key expected p"
    and types: "\<forall>m \<in> set ms. tar_type m = Tar_File \<or> tar_type m = Tar_Dir"
    using inv by (simp_all add: extract_inv_def)
  from step consider (dir) "tar_type m = Tar_Dir" "make_dirs [] ?p (snd st) = Inr (snd st')"
    | (reg) "extract_file m (snd st) = Inr (snd st')"
    by (auto simp: extract_member_def Let_def ok_iff split: if_split_asm)
  then show ?thesis
  proof cases
    case dir
    have "\<forall>p \<in> fst ` set (snd st'). inner_key expected p"
      using key by (intro make_dirs_inner [OF dir(2) _ keys, of "[]"]) simp
    moreover have "tree_ok (snd st')" "tree_files (snd st') = tree_files (snd st)"
      using make_dirs_ok [OF dir(2) ok] by simp_all
    ultimately show ?thesis using files types dir(1) by (simp add: extract_inv_def regular_member_def)
  next
    case reg
    then obtain t where reg_file: "tar_type m = Tar_File" and t: "make_dirs [] (butlast ?p) (snd st) = Inr t" "map_of t ?p = None"
        "snd st' = t @ [extracted_file m]"
      by (auto simp: extract_file_def Let_def ok_iff extracted_file_def split: option.split_asm)
    have "?p \<noteq> []" using key by (simp add: inner_key_def)
    have parents: "\<forall>p \<in> fst ` set t. inner_key expected p"
      using key \<open>?p \<noteq> []\<close> by (intro make_dirs_inner [OF t(1) _ keys, of "[last ?p]"]) simp
    note made = make_dirs_ok [OF t(1) ok]
    have "tree_ok (snd st')"
      unfolding t(3) extracted_file_def using made t(2) \<open>?p \<noteq> []\<close> by (intro tree_ok_snoc) simp_all
    moreover have "tree_files (snd st') = tree_files (snd st) @ [extracted_file m]"
      using made by (simp add: t(3) extracted_file_def tree_files_snoc file_node_def)
    ultimately show ?thesis
      using files types reg_file parents key by (auto simp: extract_inv_def regular_member_def t(3)) (simp_all add: extracted_file_def)
  qed
qed

lemma extract_run: "fold_res (extract_member expected) ms ([], []) = Inr st \<Longrightarrow> extract_inv expected ms st"
proof (induction ms arbitrary: st rule: rev_induct)
  case Nil
  then show ?case by (auto simp: extract_inv_def tree_ok_def tree_files_def)
next
  case (snoc m ms)
  then show ?case by (auto simp: bnd_Inr_iff intro: extract_inv_step)
qed

text \<open>
  C35. Extraction stays inside and is exact: when an archive is extracted, every node of the new tree is a directory or
  one of the regular members, under a path of plain components below the destination (and below the expected
  top directory); the files are those of the regular members, each once, with its bytes and a mode that
  keeps only the execute bit; the archive had no link, device or other special member; and the parent of every node is there.
\<close>

theorem extraction_exact:
  assumes "extract_regular untar destination_exists raw mode expected = Inr tree"
  shows "\<exists>members. untar mode raw = Inr members \<and> \<not> destination_exists \<and>
     tree_files tree = map extracted_file (filter regular_member members) \<and>
     (\<forall>m \<in> set members. tar_type m = Tar_File \<or> tar_type m = Tar_Dir) \<and>
     (\<forall>p \<in> fst ` set tree. inner_key expected p) \<and> tree_ok tree"
proof -
  from assms obtain members st where m: "\<not> destination_exists" "untar mode raw = Inr members"
      "fold_res (extract_member expected) members ([], []) = Inr st" "tree = snd st"
    by (auto simp: extract_regular_def ok_iff split: if_split_asm)
  from extract_run [OF m(3)] m show ?thesis by (auto simp: extract_inv_def)
qed

text \<open>An archive of one directory and one executable file.\<close>

definition sample_untar :: untar_fun where
  "sample_untar mode raw = Inr [sample_member Tar_Dir ''mbedtls-3.6.6/'' 493 [] [],
     sample_member Tar_File ''mbedtls-3.6.6/./scripts/run'' 493 [] raw]"

definition sample_tree :: tree where
  "sample_tree = [([''mbedtls-3.6.6''], dir_node), ([''mbedtls-3.6.6'', ''scripts''], dir_node),
     ([''mbedtls-3.6.6'', ''scripts'', ''run''], file_node [1, 2] 493)]"

lemma sample_extracted: "extract_regular sample_untar False [1, 2] ''r:bz2'' (Some ''mbedtls-3.6.6'') = Inr sample_tree"
proof -
  have "fold_res (extract_member (Some ''mbedtls-3.6.6'')) [sample_member Tar_Dir ''mbedtls-3.6.6/'' 493 [] [],
      sample_member Tar_File ''mbedtls-3.6.6/./scripts/run'' 493 [] [1, 2]] ([], []) =
      Inr ([''mbedtls-3.6.6/'', ''mbedtls-3.6.6/./scripts/run''], sample_tree)"
    by code_simp
  then show ?thesis by (simp add: extract_regular_def sample_untar_def need_pure guard_simps sample_member_def)
qed

theorem extraction_exact_witness:
  "extract_regular sample_untar False [1, 2] ''r:bz2'' (Some ''mbedtls-3.6.6'') = Inr sample_tree \<and>
   list_all (inner_key (Some ''mbedtls-3.6.6'')) (map fst sample_tree) \<and> tree_ok sample_tree"
  using extraction_exact [OF sample_extracted] sample_extracted unfolding list_all_iff set_map by blast

section \<open>The rebuilt helper passes verification\<close>

lemma canon_items:
  assumes "py_eq (JObj a) (JObj b)" and "distinct (map fst a)" and "distinct (map fst b)"
  shows "map_option canon (map_of a k) = map_option canon (map_of b k)"
proof -
  let ?c = "map (map_prod id canon)"
  have "mset (?c a) = mset (?c b)"
    using assms(1) mset_sort [of fst "?c a"] mset_sort [of fst "?c b"] by (simp add: py_eq_def)
  then have "set (?c a) = set (?c b)" by (metis set_mset_mset)
  moreover have "map fst (?c x) = map fst x" for x :: "(string \<times> json) list" by simp
  ultimately have "map_of (?c a) = map_of (?c b)"
    using assms(2,3) by (intro map_of_inject_set [THEN iffD2]) simp_all
  moreover have "map_of (?c x) k = map_option canon (map_of x k)" for x
    by (induction x) auto
  ultimately show ?thesis by metis
qed

lemma canon_int: "canon x = JInt n \<Longrightarrow> int_between lo hi x \<Longrightarrow> x = JInt n"
  by (cases x) (auto simp: int_between_def)

lemma canon_str: "canon x = JStr s \<Longrightarrow> x = JStr s"
  by (cases x) (auto split: if_split_asm)

lemma str_field: "Some (JStr s) = map_option canon (map_of kvs k) \<Longrightarrow> map_of kvs k = Some (JStr s)"
  by (cases "map_of kvs k") (auto dest: canon_str [OF sym])

lemma int_field:
  "Some (JInt n) = map_option canon (map_of kvs k) \<Longrightarrow> \<exists>x. map_of kvs k = Some x \<and> int_between lo hi x \<Longrightarrow>
     map_of kvs k = Some (JInt n)"
proof -
  assume c: "Some (JInt n) = map_option canon (map_of kvs k)" and "\<exists>x. map_of kvs k = Some x \<and> int_between lo hi x"
  then obtain x where x: "map_of kvs k = Some x" "int_between lo hi x" by blast
  with c have "canon x = JInt n" by simp
  from canon_int [OF this x(2)] x(1) show ?thesis by simp
qed

lemma row_identity:
  assumes "check_row row = Inr ()" and "keyed row" and eq: "py_eq (JObj (build_identity elf packed)) row"
  shows "sub row ''elfSha256'' = Inr (JStr (sha256_hex elf)) \<and> sub row ''elfBytes'' = Inr (JInt (int (length elf))) \<and>
    sub row ''gzipSha256'' = Inr (JStr (sha256_hex packed)) \<and> sub row ''gzipBytes'' = Inr (JInt (int (length packed)))"
proof -
  obtain kvs where row: "row = JObj kvs" using assms(1) by (auto simp: check_row_def ok_iff is_obj_iff)
  have "distinct (map fst (build_identity elf packed))" by (simp add: build_identity_def)
  moreover have "distinct (map fst kvs)" using assms(2) row by simp
  ultimately have fields: "map_option canon (map_of (build_identity elf packed) k) = map_option canon (map_of kvs k)" for k
    using eq row by (intro canon_items) simp_all
  have ints: "\<exists>x. map_of kvs ''elfBytes'' = Some x \<and> int_between 64 16777216 x" "\<exists>x. map_of kvs ''gzipBytes'' = Some x \<and> int_between 1 8388608 x"
    using assms(1) by (auto simp: row check_row_def ok_iff split: option.split_asm)
  have "map_of kvs ''elfSha256'' = Some (JStr (sha256_hex elf))" "map_of kvs ''gzipSha256'' = Some (JStr (sha256_hex packed))"
    using fields [of "''elfSha256''"] fields [of "''gzipSha256''"] by (intro str_field; simp add: build_identity_def)+
  moreover have "map_of kvs ''elfBytes'' = Some (JInt (int (length elf)))"
    using fields [of "''elfBytes''"] by (intro int_field [OF _ ints(1)]) (simp add: build_identity_def)
  moreover have "map_of kvs ''gzipBytes'' = Some (JInt (int (length packed)))"
    using fields [of "''gzipBytes''"] by (intro int_field [OF _ ints(2)]) (simp add: build_identity_def)
  ultimately show ?thesis by (simp add: row)
qed

lemma strict_document_keyed: "strict_document raw = Inr v \<Longrightarrow> keyed v"
  by (auto simp: strict_document_def bnd_Inr_iff dest: strict.loads_agrees)

text \<open>
  C36. A rebuild that matches the record is what the package check admits: when the build compares its result with a
  recorded manifest and succeeds, then under that manifest the packed helper passes the gzip, digest and ELF
  checks of check-transaction-inputs.py, with the closure of the very binary that was built.
\<close>

theorem rebuild_verifies:
  assumes build: "build_artifact gz version arch (Some trace) elf = Inr (packed, artifact)"
    and gunzip: "\<And>n. gunzip packed n = Inr (take n elf)"
  shows "\<exists>manifest row c. recorded_manifest trace = Inr manifest \<and> bnd (sub manifest ''targets'') (\<lambda>ts. sub ts arch) = Inr row \<and>
     verify_gzip gunzip packed row arch = Inr c \<and> elf_closure elf arch = Inr c"
proof -
  note facts = build [unfolded build_artifact_def bnd_Inr_iff need_Inr_iff simp_thms option.case lift_res_Inr_iff]
  then obtain c manifest row where c: "elf_closure elf arch = Inr c" and packed: "deterministic_gzip gz elf = Inr packed"
    and m: "recorded_manifest trace = Inr manifest" and row: "bnd (sub manifest ''targets'') (\<lambda>ts. sub ts arch) = Inr row"
    and eq: "py_eq (JObj (build_identity elf packed)) row"
    by (auto simp: bnd_Inr_iff)
  from m obtain raw v where v: "strict_document raw = Inr v" "validate_manifest v = Inr manifest"
    by (auto simp: recorded_manifest_def bnd_Inr_iff)
  from row obtain ts where ts: "sub manifest ''targets'' = Inr ts" "sub ts arch = Inr row" by (auto simp: bnd_Inr_iff)
  then obtain rows where rows: "ts = JObj rows" "map_of rows arch = Some row" by (auto simp: sub_Inr_iff)
  have items: "bnd (sub manifest ''targets'') items_of = Inr rows" using ts rows by simp
  have same: "manifest = v" and check: "check_row row = Inr ()"
    using validate_manifest_targets [OF v(2) items] rows(2) by (auto dest: map_of_SomeD)
  have "keyed row" using strict_document_keyed [OF v(1)] ts same keyed_sub by blast
  from row_identity [OF check this eq] packed gunzip c m row show ?thesis
    by (auto simp: verify_gzip_def deterministic_gzip_def Let_def ok_iff drop_update_swap split: if_split_asm)
qed

lemma sample_recorded: "recorded_manifest (quiet_trace sample_raw) = Inr sample_manifest"
proof -
  have "typed_read (quiet_trace sample_raw) ''manifest'' None = Inr sample_raw"
    using sample_raw_length by (intro quiet_read [of _ 16384]) (simp_all add: role_maximum_def)
  moreover have "strict_document sample_raw = Inr sample_manifest"
    unfolding sample_raw_def by (rule strict_document_written [OF sample_manifest_printable])
  moreover have "validate_manifest sample_manifest = Inr sample_manifest"
    using sample_row_ok [of sample_elf] sample_row_ok [of sample_arm]
    by (simp add: validate_manifest_def sample_manifest_def has_keys_def type_int_is_def guard_simps
        TARGETS_def sample_lengths insert_commute)
  ultimately show ?thesis by (simp add: recorded_manifest_def)
qed

lemma sample_gzip: "deterministic_gzip stored elf = Inr (stored elf)"
  by (simp add: deterministic_gzip_def stored_def guard_simps)

lemma sample_built: "\<exists>artifact. build_artifact stored ''1.3.1'' ''x86_64'' (Some (quiet_trace sample_raw)) sample_elf = Inr (stored sample_elf, artifact)"
proof -
  have "JObj (build_identity sample_elf (stored sample_elf)) = sample_row sample_elf"
    by (simp add: build_identity_def sample_row_def)
  then show ?thesis
    by (simp add: build_artifact_def sample_elf_admitted sample_gzip sample_recorded sample_manifest_def guard_simps)
qed

theorem rebuild_verifies_witness:
  "\<exists>c. verify_gzip unstore (stored sample_elf) (sample_row sample_elf) ''x86_64'' = Inr c \<and> elf_closure sample_elf ''x86_64'' = Inr c"
proof -
  obtain artifact where built: "build_artifact stored ''1.3.1'' ''x86_64'' (Some (quiet_trace sample_raw)) sample_elf = Inr (stored sample_elf, artifact)"
    using sample_built by blast
  have "unstore (stored sample_elf) n = Inr (take n sample_elf)" for n by (simp add: unstore_def stored_def)
  from rebuild_verifies [OF built, of unstore, OF this] show ?thesis
    by (auto simp: sample_recorded sample_manifest_def)
qed

end
