(* ===== verification/Compact_Bundle.thy ===== *)
theory Compact_Bundle
  imports Engine_Catalog Transaction_Inputs
begin

text \<open>
  compact-install-bundle.py: which files a compact bundle consists of. The engine catalog and the package universe of
  each platform are documents of the bundle; every file they point to is pinned by a digest, and the release that
  the engine packages come from is read off their addresses.
\<close>

section \<open>Documents\<close>

definition compact_pair :: "string \<times> json \<Rightarrow> (string \<times> json) list \<Rightarrow> (string \<times> json) list res" where
  "compact_pair kv result = bnd (refuse [Inr (fst kv \<in> fst ` set result)] ''Duplicate compact metadata key'') (\<lambda>_. Inr (result @ [kv]))"

definition compact_pairs :: "(string \<times> json) list \<Rightarrow> json res" where
  "compact_pairs rows = lift_res JObj (fold_res compact_pair rows [])"

definition compact_document :: "directory \<Rightarrow> json \<Rightarrow> int \<Rightarrow> json res" where
  "compact_document dir n maximum =
     bnd (compact_asset dir n maximum) (\<lambda>p.
     bnd (bnd (bnd (read_bytes dir p) decode_ascii) (loads_with compact_pairs)) (\<lambda>v.
     bnd (refuse [Inr (\<not> is_obj v)] ''Compact metadata object required'') (\<lambda>_. Inr v)))"

text \<open>\<open>sha(asset(root, name, maximum)) != digest\<close> as a refusal.\<close>

definition pinned_asset :: "directory \<Rightarrow> json \<Rightarrow> int \<Rightarrow> json res \<Rightarrow> string \<Rightarrow> string res" where
  "pinned_asset dir n maximum digest msg =
     bnd (compact_asset dir n maximum) (\<lambda>p.
     bnd (refuse [bnd (compact_sha dir p) (\<lambda>h. lift_res (\<lambda>d. d \<noteq> JStr h) digest)] msg) (\<lambda>_. Inr p))"

definition pinned_pointer :: "directory \<Rightarrow> int \<Rightarrow> string \<Rightarrow> json \<Rightarrow> string res" where
  "pinned_pointer dir maximum msg pointer =
     bnd (sub pointer ''file'') (\<lambda>f. pinned_asset dir f maximum (sub pointer ''sha256'') msg)"

section \<open>The engine catalog of a platform\<close>

definition last_segment :: "string \<Rightarrow> string" where
  "last_segment s = rev (takeWhile (\<lambda>c. c \<noteq> CHR ''/'') (rev s))"

record engine_rows =
  er_rows :: "(json \<times> string) list"
  er_ids :: "json list list"
  er_files :: "string list"

definition engine_row :: "directory \<Rightarrow> json \<Rightarrow> engine_rows \<Rightarrow> engine_rows res" where
  "engine_row dir entry st =
     bnd (map_res (sub entry) [''id'', ''storage'', ''architecture'']) (\<lambda>ident.
     bnd (bnd (sub entry ''packageUrl'') as_str) (\<lambda>url.
     let filename = last_segment url in
     bnd (refuse [if list_all hashable ident then Inr (map canon ident \<in> set (er_ids st)) else Inl TypeError,
                  Inr (filename \<in> set (er_files st)),
                  bnd (bnd (sub entry ''packageName'') as_str) (\<lambda>n. bnd (bnd (sub entry ''packageVersion'') as_str) (\<lambda>v.
                    Inr (filename \<noteq> n @ ''-'' @ v @ ''.apk''))),
                  lift_res (\<lambda>x. \<not> int_between 1 134217728 x) (sub entry ''archiveBytes'')]
            ''Duplicate or invalid global engine artifact identity'') (\<lambda>_.
     bnd (compact_asset dir (JStr filename) 134217728) (\<lambda>p.
     bnd (refuse [bnd (compact_sha dir p) (\<lambda>h. lift_res (\<lambda>d. d \<noteq> JStr h) (sub entry ''packageSha256'')),
                  bnd (lstat dir p) (\<lambda>e. lift_res (\<lambda>x. py_ne (JInt (file_bytes e)) x) (sub entry ''archiveBytes''))]
            ''Global engine artifact bytes differ from the anchored catalog'') (\<lambda>_.
     Inr \<lparr>er_rows = er_rows st @ [(entry, p)], er_ids = er_ids st @ [map canon ident], er_files = er_files st @ [filename]\<rparr>)))))"

definition engine_artifact_rows :: "directory \<Rightarrow> json \<Rightarrow> (json \<times> string) list res" where
  "engine_artifact_rows dir platform =
     bnd (sub platform ''engineCatalog'') (\<lambda>pointer.
     bnd (bnd (sub pointer ''file'') (\<lambda>f. compact_document dir f 524288)) (\<lambda>catalog.
     bnd (refuse [bnd (bnd (sub pointer ''file'') (\<lambda>f. compact_asset dir f 524288)) (\<lambda>p. bnd (compact_sha dir p) (\<lambda>h.
                    lift_res (\<lambda>d. d \<noteq> JStr h) (sub pointer ''sha256''))),
                  not_res (has_keys catalog [''schema'', ''entries'']),
                  lift_res (\<lambda>x. x \<noteq> JInt 1) (sub catalog ''schema''),
                  lift_res (\<lambda>x. \<not> is_arr x) (sub catalog ''entries''),
                  bnd (sub catalog ''entries'') (\<lambda>x. lift_res (\<lambda>n. \<not> (1 \<le> n \<and> n \<le> 72)) (len x))]
            ''Exact bounded global engine artifact catalog required'') (\<lambda>_.
     bnd (bnd (sub catalog ''entries'') iter) (\<lambda>entries.
     lift_res er_rows (fold_res (engine_row dir) entries \<lparr>er_rows = [], er_ids = [], er_files = []\<rparr>)))))"

section \<open>The files of a bundle\<close>

text \<open>The items of a map of names to digests, each a pinned file of the bundle.\<close>

definition pinned_files :: "directory \<Rightarrow> int \<Rightarrow> string \<Rightarrow> json \<Rightarrow> string list res" where
  "pinned_files dir maximum msg v =
     bnd (items_of v) (map_res (\<lambda>(n, d). pinned_asset dir (JStr n) maximum (Inr d) msg))"

definition ram_engine :: "directory \<Rightarrow> json \<Rightarrow> string list res" where
  "ram_engine dir client =
     bnd (sub client ''storage'') (\<lambda>storage.
     if storage \<noteq> JStr ''ram'' then Inr []
     else bnd (sub client ''entry'') (\<lambda>entry.
          bnd (map_res (\<lambda>k. bnd (sub entry k) as_str) [''id'', ''architecture'', ''binarySha256'']) (\<lambda>parts.
          lift_res (\<lambda>p. [p])
            (pinned_asset dir (JStr (''engine-'' @ parts ! 0 @ ''-'' @ parts ! 1 @ ''-'' @ parts ! 2 @ ''.bin'')) 67108864
              (sub entry ''binarySha256'') ''RAM engine differs from its native producer''))))"

definition client_assets :: "directory \<Rightarrow> json \<Rightarrow> string list res" where
  "client_assets dir client =
     bnd (map_res (\<lambda>k. bnd (sub client k) (pinned_pointer dir 131072 ''Native module metadata digest differs''))
            [''producer'', ''capabilities'', ''slotManifest'']) (\<lambda>names.
     lift_res (\<lambda>ram. names @ ram) (ram_engine dir client))"

definition volatile_server :: "directory \<Rightarrow> json \<Rightarrow> string list res" where
  "volatile_server dir server =
     bnd (get server ''volatileFile'') (\<lambda>f.
     if \<not> truthy f then Inr []
     else lift_res (\<lambda>p. [p]) (pinned_asset dir f 67108864 (sub server ''binarySha256'') ''RAM server differs from its native producer''))"

definition server_assets :: "hash_fun \<Rightarrow> directory \<Rightarrow> json \<Rightarrow> json \<Rightarrow> string list res" where
  "server_assets hash dir platform universe =
     bnd (get platform ''server'') (\<lambda>server.
     if server = JNull then Inr []
     else bnd (sub server ''producer'') (\<lambda>pointer.
          bnd (pinned_pointer dir 131072 ''Optional server producer digest differs'' pointer) (\<lambda>p.
          bnd (compact_document dir (JStr p) 131072) (\<lambda>producer.
          bnd (prov_verify hash producer dir) (\<lambda>_.
          bnd (bnd (sub producer ''filesSha256'') (pinned_files dir 33554432 ''Optional server original notices differ'')) (\<lambda>notices.
          bnd (bnd (get_or universe ''server'' (JObj [])) items_of) (\<lambda>rows.
          bnd (map_res (\<lambda>row. volatile_server dir (snd row)) rows) (\<lambda>volatile.
          Inr (p # notices @ concat volatile)))))))))"

definition platform_assets :: "hash_fun \<Rightarrow> directory \<Rightarrow> json \<Rightarrow> string list res" where
  "platform_assets hash dir platform =
     bnd (engine_artifact_rows dir platform) (\<lambda>rows.
     bnd (map_res (\<lambda>k. bnd (sub platform k) (pinned_pointer dir 2097152 ''Compact metadata digest differs''))
            [''engineCatalog'', ''packageUniverse'']) (\<lambda>metadata_files.
     bnd (bnd (bnd (sub platform ''packageUniverse'') (\<lambda>u. sub u ''file'')) (\<lambda>f. compact_document dir f 2097152)) (\<lambda>universe.
     bnd (refuse [bnd (get_or universe ''filesSha256'' (JObj [])) (\<lambda>f. lift_res (\<lambda>n. 1024 < n) (len f))] ''Bounded package universe required'') (\<lambda>_.
     bnd (bnd (sub universe ''filesSha256'') (pinned_files dir 536870912 ''Package universe asset differs'')) (\<lambda>files.
     bnd (bnd (sub platform ''clients'') iter) (\<lambda>clients.
     bnd (map_res (client_assets dir) clients) (\<lambda>modules.
     bnd (server_assets hash dir platform universe) (\<lambda>server.
     Inr (map snd rows @ metadata_files @ files @ concat modules @ server)))))))))"

definition INSTALLERS :: "string list" where
  "INSTALLERS = [''install.sh'', ''install-core.sh'', ''install-compact.sh'', ''install-plan.uc'', ''install-plan-model.uc'',
     ''install-compact-plan.uc'', ''engine-package-layout.uc'', ''register-compact-engines.uc'', ''indexed-install.uc'',
     ''bundle-transport-model.uc'', ''bundle-transport.uc'']"

text \<open>The set of names, without repetitions.\<close>

definition bundle_assets :: "hash_fun \<Rightarrow> directory \<Rightarrow> json \<Rightarrow> string list res" where
  "bundle_assets hash dir catalog =
     bnd (refuse [lift_res (\<lambda>x. x \<noteq> JInt 2) (get catalog ''schema''),
                  lift_res (\<lambda>x. x \<noteq> JStr ''compact-client-engines-v1'') (get catalog ''kind''),
                  lift_res (\<lambda>x. \<not> is_arr x) (get catalog ''platforms''),
                  bnd (sub catalog ''platforms'') (\<lambda>x. lift_res (\<lambda>n. \<not> (1 \<le> n \<and> n \<le> 16)) (len x))]
            ''Separate compact v2 catalog required'') (\<lambda>_.
     bnd (bnd (sub catalog ''platforms'') iter) (\<lambda>platforms.
     bnd (map_res (platform_assets hash dir) platforms) (\<lambda>found.
     let names = remdups ([''package-catalog.json'', ''foxhole-openwrt-apk.pem''] @ concat found) in
     bnd (refuse [Inr (4096 < length names + length INSTALLERS),
                  lift_res (\<lambda>sizes. 2147483648 < sum_list sizes)
                    (map_res (\<lambda>n. bnd (compact_asset dir (JStr n) 536870912) (\<lambda>p. lift_res file_bytes (lstat dir p))) names)]
            ''Bounded complete compact bundle required'') (\<lambda>_.
     Inr names))))"

section \<open>The release of the engine packages\<close>

definition decimal_rx :: rx where
  "decimal_rx = Alt (lit ''0'') (Seq (Cls [(CHR ''1'', CHR ''9'')]) (Star (Cls [(CHR ''0'', CHR ''9'')])))"

definition canonical_version :: rx where
  "canonical_version = Seq decimal_rx (Seq (lit ''.'') (Seq decimal_rx (Seq (lit ''.'') decimal_rx)))"

definition RELEASES :: string where
  "RELEASES = ''https://github.com/foxhole-team/foxhole-openwrt-client/releases/download/v''"

definition index_url_rx :: rx where
  "index_url_rx = Seq (lit RELEASES) (Seq canonical_version (lit ''/engines.adb''))"

text \<open>The two groups of a match: the release directory, and the version.\<close>

definition url_version :: "string \<Rightarrow> string" where
  "url_version url = take (length url - length RELEASES - 12) (drop (length RELEASES) url)"

definition release_reference :: "json \<Rightarrow> string res" where
  "release_reference entry =
     bnd (refuse [Inr (\<not> is_obj entry)] ''Engine catalog entry required'') (\<lambda>_.
     bnd (map_res (get entry) [''indexUrl'', ''packageUrl'', ''packageName'', ''packageVersion'']) (\<lambda>values.
     bnd (refuse [Inr (\<not> list_all is_str values)] ''Exact engine release references required'') (\<lambda>_.
     let texts = map str_of values; filename = texts ! 2 @ ''-'' @ texts ! 3 @ ''.apk'' in
     bnd (refuse [Inr (\<not> rmatch index_url_rx (texts ! 0)), Inr (\<not> rmatch NAME filename),
                  Inr (texts ! 1 \<noteq> RELEASES @ url_version (texts ! 0) @ ''/'' @ filename)]
            ''Canonical engine release references required'') (\<lambda>_.
     Inr (url_version (texts ! 0))))))"

definition catalog_release_version :: "json list \<Rightarrow> string res" where
  "catalog_release_version rows =
     bnd (refuse [Inr (rows = [])] ''Nonempty engine catalog required'') (\<lambda>_.
     bnd (map_res release_reference rows) (\<lambda>versions.
     bnd (refuse [Inr (length (remdups versions) \<noteq> 1)] ''One exact router release required for engine catalog'') (\<lambda>_.
     Inr (hd versions))))"

lemma index_url_iff:
  "rmatch index_url_rx u \<longleftrightarrow> (\<exists>v. u = RELEASES @ v @ ''/engines.adb'' \<and> rmatch canonical_version v)"
  unfolding index_url_rx_def rmatch_lit_seq by (auto simp: rmatch_seq_iff simp del: lit.simps)

lemma url_version_of: "url_version (RELEASES @ v @ ''/engines.adb'') = v"
  by (simp add: url_version_def)

definition release_entry :: "string \<Rightarrow> json \<Rightarrow> bool" where
  "release_entry v e \<longleftrightarrow> (\<exists>n w. get e ''indexUrl'' = Inr (JStr (RELEASES @ v @ ''/engines.adb'')) \<and>
     get e ''packageUrl'' = Inr (JStr (RELEASES @ v @ ''/'' @ n @ ''-'' @ w @ ''.apk'')) \<and>
     get e ''packageName'' = Inr (JStr n) \<and> get e ''packageVersion'' = Inr (JStr w) \<and> rmatch NAME (n @ ''-'' @ w @ ''.apk''))"

lemma release_reference_iff: "release_reference e = Inr v \<longleftrightarrow> rmatch canonical_version v \<and> release_entry v e"
proof
  assume "release_reference e = Inr v"
  then obtain xs where xs: "map_res (get e) [''indexUrl'', ''packageUrl'', ''packageName'', ''packageVersion''] = Inr xs"
      "list_all is_str xs" "rmatch index_url_rx (map str_of xs ! 0)"
      "rmatch NAME (map str_of xs ! 2 @ ''-'' @ map str_of xs ! 3 @ ''.apk'')"
      "map str_of xs ! 1 = RELEASES @ url_version (map str_of xs ! 0) @ ''/'' @ map str_of xs ! 2 @ ''-'' @ map str_of xs ! 3 @ ''.apk''"
      "v = url_version (map str_of xs ! 0)"
    unfolding release_reference_def Let_def bnd_Inr_iff ex_unit_iff refuse_Inr_iff by auto
  from xs(1) obtain a b c d where parts: "get e ''indexUrl'' = Inr a" "get e ''packageUrl'' = Inr b" "get e ''packageName'' = Inr c"
      "get e ''packageVersion'' = Inr d" and four: "xs = [a, b, c, d]"
    by (auto simp: bnd_Inr_iff)
  from xs(2) four obtain a' b' c' d' where strs: "a = JStr a'" "b = JStr b'" "c = JStr c'" "d = JStr d'"
    by (auto simp: is_str_iff)
  from xs(3) strs four obtain u where u: "a' = RELEASES @ u @ ''/engines.adb''" "rmatch canonical_version u"
    by (auto simp: index_url_iff)
  have "url_version a' = u" unfolding u(1) by (rule url_version_of)
  with xs strs four u parts show "rmatch canonical_version v \<and> release_entry v e" by (simp add: release_entry_def)
next
  assume v: "rmatch canonical_version v \<and> release_entry v e"
  then obtain n w where e: "get e ''indexUrl'' = Inr (JStr (RELEASES @ v @ ''/engines.adb''))"
     "get e ''packageUrl'' = Inr (JStr (RELEASES @ v @ ''/'' @ n @ ''-'' @ w @ ''.apk''))"
     "get e ''packageName'' = Inr (JStr n)" "get e ''packageVersion'' = Inr (JStr w)" "rmatch NAME (n @ ''-'' @ w @ ''.apk'')"
    by (auto simp: release_entry_def)
  have "is_obj e" using e(1) by (cases e) (simp_all add: get_def)
  moreover have "rmatch index_url_rx (RELEASES @ v @ ''/engines.adb'')" using v index_url_iff by blast
  ultimately show "release_reference e = Inr v"
    using e by (simp add: release_reference_def url_version_of guard_simps)
qed

lemma remdups_one: "length (remdups xs) = 1 \<longleftrightarrow> xs \<noteq> [] \<and> set xs \<subseteq> {hd xs}"
proof (cases xs)
  case (Cons x ys)
  have "length (remdups xs) = card (set xs)" by (simp add: length_remdups_card_conv)
  moreover have "card (set xs) = 1 \<longleftrightarrow> set xs = {x}"
    using Cons by (metis card_1_singletonE is_singletonI is_singleton_altdef list.set_intros(1) singletonD)
  ultimately show ?thesis using Cons by auto
qed simp

text \<open>
  C38. The release of an engine catalog, exactly: a version is returned if and only if the catalog has entries, the version is
  three canonical decimals, and every entry names that release in its index address and in its package
  address, which ends in the file name that its package name and version make up.
\<close>

theorem catalog_release_version_iff:
  "catalog_release_version rows = Inr v \<longleftrightarrow>
     rows \<noteq> [] \<and> rmatch canonical_version v \<and> list_all (release_entry v) rows"
proof
  assume run: "catalog_release_version rows = Inr v"
  then have "rows \<noteq> []" by (cases rows) (simp_all add: catalog_release_version_def guard_simps)
  with run have run': "bnd (map_res release_reference rows) (\<lambda>versions.
     bnd (refuse [Inr (length (remdups versions) \<noteq> 1)] ''One exact router release required for engine catalog'') (\<lambda>_.
     Inr (hd versions))) = Inr v"
    by (simp add: catalog_release_version_def refuse_pure)
  then obtain vs where ref: "map_res release_reference rows = Inr vs" by (auto simp only: bnd_Inr_iff)
  have one: "length (remdups vs) = 1"
    using run' unfolding ref bnd_simps refuse_pure by (simp split: if_split_asm)
  then have hd: "v = hd vs" using run' unfolding ref bnd_simps refuse_pure by simp
  have vs: "rows \<noteq> []" "list_all2 (\<lambda>e w. release_reference e = Inr w) rows vs" "length (remdups vs) = 1" "v = hd vs"
    using \<open>rows \<noteq> []\<close> ref one hd unfolding map_res_Inr_iff by blast+
  have "set vs \<subseteq> {hd vs}" using iffD1 [OF remdups_one vs(3)] by simp
  then have same: "w = v" if "w \<in> set vs" for w using that vs(4) by auto
  have each: "\<exists>w \<in> set vs. release_reference e = Inr w" if "e \<in> set rows" for e
    using list_all2_set1 [OF vs(2) that] .
  with same have all: "release_reference e = Inr v" if "e \<in> set rows" for e using that by blast
  then show "rows \<noteq> [] \<and> rmatch canonical_version v \<and> list_all (release_entry v) rows"
    using vs(1) by (cases rows) (auto simp: list_all_iff release_reference_iff)
next
  assume r: "rows \<noteq> [] \<and> rmatch canonical_version v \<and> list_all (release_entry v) rows"
  then have "list_all (\<lambda>e. release_reference e = Inr v) rows" by (simp add: release_reference_iff list_all_iff)
  then have "map_res release_reference rows = Inr (map (\<lambda>_. v) rows)"
    by (simp add: map_res_Inr_iff list.rel_map list_all2_same list_all_iff)
  moreover have "length (remdups (map (\<lambda>_. v) rows)) = 1" using r by (subst remdups_one) (cases rows, auto)
  ultimately show "catalog_release_version rows = Inr v"
    unfolding catalog_release_version_def bnd_Inr_iff ex_unit_iff refuse_Inr_iff
    using r by (intro exI [of _ "map (\<lambda>_. v) rows"] conjI) (simp_all add: hd_map del: length_remdups_card_conv)
qed

text \<open>The builder of the engine catalog derives the same release directory from that version.\<close>

lemma rmatch_star_cls: "rmatch (Star (Cls b)) w \<longleftrightarrow> list_all (in_cls b) w"
  unfolding rmatch_iff by (rule lang_star_cls)

lemma decimal_digits: "rmatch decimal_rx s \<Longrightarrow> rmatch digits_rx s"
  unfolding decimal_rx_def digits_rx_def rmatch_plus_cls rmatch_alt rmatch_lit rmatch_seq_iff rmatch_star_cls rmatch_cls
  by (auto simp: in_cls_def less_eq_char_def)

lemma release_base_agrees:
  assumes "rmatch canonical_version v"
  shows "release_base_url core (Some v) = Inr (RELEASES @ v @ ''/'')"
proof -
  have "rmatch release_version v"
    using assms decimal_digits unfolding canonical_version_def release_version_def rmatch_seq_iff by blast
  then show ?thesis by (simp add: release_base_url_def RELEASES_def)
qed

section \<open>What the bundle carries\<close>

interpretation compact_keys: unique_loop fst id compact_pair "\<lambda>_. True"
  by unfold_locales (auto simp: compact_pair_def ok_iff)

interpretation compact_strict: strict_hook compact_pairs
  by unfold_locales (auto simp: compact_pairs_def ok_iff compact_keys.run_iff list_all_iff)

text \<open>The value names a regular file with one link among \<open>names\<close>, whose digest is the other value.\<close>

definition carries :: "directory \<Rightarrow> string list \<Rightarrow> json \<Rightarrow> json \<Rightarrow> bool" where
  "carries dir names v digest \<longleftrightarrow> (\<exists>n e. v = JStr n \<and> n \<in> set names \<and> lookup_file dir n = Some e \<and> ftype e = Regular \<and>
     nlink e = 1 \<and> digest = JStr (sha256_hex (content e)))"

definition pointer_carried :: "directory \<Rightarrow> string list \<Rightarrow> json res \<Rightarrow> bool" where
  "pointer_carried dir names p \<longleftrightarrow> (\<exists>pointer f d. p = Inr pointer \<and> sub pointer ''file'' = Inr f \<and> sub pointer ''sha256'' = Inr d \<and>
     carries dir names f d)"

lemma pinned_asset_carries: "pinned_asset dir v maximum digest msg = Inr n \<Longrightarrow> n \<in> set names \<Longrightarrow> v = JStr n \<and> (\<exists>d. digest = Inr d \<and> carries dir names v d)"
  by (auto simp: pinned_asset_def ok_iff carries_def)

lemma pinned_pointer_carried:
  assumes "bnd p (pinned_pointer dir maximum msg) = Inr n" and "n \<in> set names"
  shows "pointer_carried dir names p"
proof -
  from assms(1) obtain pointer f where p: "p = Inr pointer" "sub pointer ''file'' = Inr f"
      "pinned_asset dir f maximum (sub pointer ''sha256'') msg = Inr n"
    by (auto simp: pinned_pointer_def bnd_Inr_iff)
  from pinned_asset_carries [OF p(3) assms(2)] p show ?thesis by (auto simp: pointer_carried_def)
qed

definition row_carried :: "directory \<Rightarrow> string list \<Rightarrow> json \<times> string \<Rightarrow> bool" where
  "row_carried dir names row \<longleftrightarrow> (\<exists>d. sub (fst row) ''packageSha256'' = Inr d \<and> carries dir names (JStr (snd row)) d)"

lemma engine_rows_carried:
  assumes "engine_artifact_rows dir platform = Inr rows" and "set (map snd rows) \<subseteq> set names"
  shows "list_all (row_carried dir names) rows"
proof -
  from assms(1) obtain entries st where st: "fold_res (engine_row dir) entries \<lparr>er_rows = [], er_ids = [], er_files = []\<rparr> = Inr st"
      "rows = er_rows st"
    by (auto simp: engine_artifact_rows_def ok_iff)
  have "list_all (\<lambda>row. row_carried dir [snd row] row) (er_rows st)"
  proof (rule fold_res_invariant [where I = "\<lambda>st. list_all (\<lambda>row. row_carried dir [snd row] row) (er_rows st)", OF st(1)])
    fix entry u v
    assume u: "list_all (\<lambda>row. row_carried dir [snd row] row) (er_rows u)" and step: "engine_row dir entry u = Inr v"
    from step obtain p e where "er_rows v = er_rows u @ [(entry, p)]" "lookup_file dir p = Some e" "ftype e = Regular" "nlink e = 1"
        "sub entry ''packageSha256'' = Inr (JStr (sha256_hex (content e)))"
      unfolding engine_row_def Let_def bnd_Inr_iff ex_unit_iff refuse_Inr_iff by (auto simp: ok_iff)
    with u show "list_all (\<lambda>row. row_carried dir [snd row] row) (er_rows v)"
      by (simp add: row_carried_def carries_def)
  qed simp
  with st(2) assms(2) show ?thesis
    by (auto simp: list_all_iff row_carried_def carries_def subset_iff)
qed

lemma pinned_files_carried:
  assumes "pinned_files dir maximum msg v = Inr found" and "set found \<subseteq> set names"
  shows "\<exists>files. v = JObj files \<and> (\<forall>(n, d) \<in> set files. carries dir names (JStr n) d)"
proof -
  from assms(1) obtain files where files: "v = JObj files"
      "list_all2 (\<lambda>nd p. pinned_asset dir (JStr (fst nd)) maximum (Inr (snd nd)) msg = Inr p) files found"
    by (cases v) (auto simp: pinned_files_def ok_iff case_prod_beta)
  have "carries dir names (JStr n) d" if "(n, d) \<in> set files" for n d
  proof -
    from list_all2_set1 [OF files(2) that] obtain p where "p \<in> set found" "pinned_asset dir (JStr n) maximum (Inr d) msg = Inr p" by auto
    with assms(2) pinned_asset_carries show ?thesis by fastforce
  qed
  with files(1) show ?thesis by blast
qed

lemma client_carried:
  assumes "client_assets dir client = Inr found" and "set found \<subseteq> set names" and "k \<in> {''producer'', ''capabilities'', ''slotManifest''}"
  shows "pointer_carried dir names (sub client k)"
proof -
  from assms(1) obtain ns ram where ns: "list_all2 (\<lambda>k n. bnd (sub client k) (pinned_pointer dir 131072 ''Native module metadata digest differs'') = Inr n)
      [''producer'', ''capabilities'', ''slotManifest''] ns" "found = ns @ ram"
    unfolding client_assets_def bnd_Inr_iff [of "map_res _ _"] lift_res_Inr_iff map_res_Inr_iff by auto
  from list_all2_set1 [OF ns(1), of k] assms(3) obtain n where n: "n \<in> set ns" "bnd (sub client k) (pinned_pointer dir 131072 ''Native module metadata digest differs'') = Inr n"
    by auto
  show ?thesis using n(1) ns(2) assms(2) by (intro pinned_pointer_carried [OF n(2)]) auto
qed

text \<open>Everything a platform points to is in the bundle, with the bytes its digest stands for.\<close>

definition platform_carried :: "directory \<Rightarrow> string list \<Rightarrow> json \<Rightarrow> bool" where
  "platform_carried dir names p \<longleftrightarrow>
     (\<exists>rows. engine_artifact_rows dir p = Inr rows \<and> list_all (row_carried dir names) rows) \<and>
     (\<forall>k \<in> {''engineCatalog'', ''packageUniverse''}. pointer_carried dir names (sub p k)) \<and>
     (\<exists>universe files. bnd (bnd (sub p ''packageUniverse'') (\<lambda>u. sub u ''file'')) (\<lambda>f. compact_document dir f 2097152) = Inr universe \<and>
        sub universe ''filesSha256'' = Inr (JObj files) \<and> (\<forall>(n, d) \<in> set files. carries dir names (JStr n) d)) \<and>
     (\<exists>clients. bnd (sub p ''clients'') iter = Inr clients \<and>
        (\<forall>c \<in> set clients. \<forall>k \<in> {''producer'', ''capabilities'', ''slotManifest''}. pointer_carried dir names (sub c k)))"

lemma platform_assets_carried:
  assumes run: "platform_assets hash dir p = Inr found" and sub: "set found \<subseteq> set names"
  shows "platform_carried dir names p"
proof -
  note facts = run [unfolded platform_assets_def bnd_Inr_iff ex_unit_iff]
  obtain rows ms u f universe v files cv clients modules server where rows: "engine_artifact_rows dir p = Inr rows"
    and ms: "map_res (\<lambda>k. bnd (sub p k) (pinned_pointer dir 2097152 ''Compact metadata digest differs'')) [''engineCatalog'', ''packageUniverse''] = Inr ms"
    and document: "sub p ''packageUniverse'' = Inr u" "sub u ''file'' = Inr f" "compact_document dir f 2097152 = Inr universe"
    and bounded: "refuse [bnd (get_or universe ''filesSha256'' (JObj [])) (\<lambda>f. lift_res (\<lambda>n. 1024 < n) (len f))] ''Bounded package universe required'' = Inr ()"
    and v: "sub universe ''filesSha256'' = Inr v" "pinned_files dir 536870912 ''Package universe asset differs'' v = Inr files"
    and cs: "sub p ''clients'' = Inr cv" "iter cv = Inr clients" and modules: "map_res (client_assets dir) clients = Inr modules"
    and server: "server_assets hash dir p universe = Inr server"
    and res: "Inr (map snd rows @ ms @ files @ concat modules @ server) = (Inr found :: string list res)"
    using facts by (elim exE conjE) (rule that, assumption+)
  have found: "found = map snd rows @ ms @ files @ concat modules @ server" using res by simp
  have universe: "bnd (bnd (sub p ''packageUniverse'') (\<lambda>u. sub u ''file'')) (\<lambda>f. compact_document dir f 2097152) = Inr universe"
    and clients: "bnd (sub p ''clients'') iter = Inr clients"
    using document cs by simp_all
  have "list_all (row_carried dir names) rows"
    using sub found by (intro engine_rows_carried [OF rows]) auto
  moreover have "pointer_carried dir names (sub p k)" if k: "k \<in> {''engineCatalog'', ''packageUniverse''}" for k
  proof -
    from list_all2_set1 [OF ms [unfolded map_res_Inr_iff], of k] k obtain n where n: "n \<in> set ms"
        "bnd (sub p k) (pinned_pointer dir 2097152 ''Compact metadata digest differs'') = Inr n" by auto
    show ?thesis using n(1) sub found by (intro pinned_pointer_carried [OF n(2)]) auto
  qed
  moreover from sub found have "set files \<subseteq> set names" by auto
  from pinned_files_carried [OF v(2) this] obtain items where "v = JObj items" "\<forall>(n, d) \<in> set items. carries dir names (JStr n) d" by blast
  with v(1) have "\<exists>items. sub universe ''filesSha256'' = Inr (JObj items) \<and> (\<forall>(n, d) \<in> set items. carries dir names (JStr n) d)" by blast
  moreover have "pointer_carried dir names (sub c k)" if "c \<in> set clients" "k \<in> {''producer'', ''capabilities'', ''slotManifest''}" for c k
  proof -
    from list_all2_set1 [OF modules [unfolded map_res_Inr_iff] that(1)] obtain ns where "ns \<in> set modules" "client_assets dir c = Inr ns" by blast
    with sub found show ?thesis by (intro client_carried [OF _ _ that(2)]) auto
  qed
  ultimately show ?thesis unfolding platform_carried_def using rows universe clients by blast
qed

definition asset_bytes :: "directory \<Rightarrow> string \<Rightarrow> int" where
  "asset_bytes dir n = (case lookup_file dir n of None \<Rightarrow> 0 | Some e \<Rightarrow> file_bytes e)"

definition bundle_file :: "directory \<Rightarrow> string \<Rightarrow> bool" where
  "bundle_file dir n \<longleftrightarrow> rmatch NAME n \<and>
     (\<exists>e. lookup_file dir n = Some e \<and> ftype e = Regular \<and> nlink e = 1 \<and> 0 < file_bytes e \<and> file_bytes e \<le> 536870912)"


section \<open>A bundle\<close>

definition written_file :: "json \<Rightarrow> file_entry" where
  "written_file v = new_file (encode_ascii (write_value v))"

lemma compact_document_written:
  assumes "lookup_file dir n = Some (written_file v)" and "rmatch NAME n" and "printable v" and "is_obj v"
    and "int (length (write_value v)) \<le> maximum" and "write_value v \<noteq> []"
  shows "compact_document dir (JStr n) maximum = Inr v"
proof -
  have "compact_asset dir (JStr n) maximum = Inr n"
    using assms by (auto simp: ok_iff written_file_def new_file_def file_bytes_def encode_ascii_def)
  moreover have "bnd (read_bytes dir n) decode_ascii = Inr (write_value v)"
    using assms(1) by (simp add: read_bytes_def lstat_def written_file_def new_file_def decode_encode_ascii is_ascii_write)
  ultimately show ?thesis
    using assms(3,4) by (simp add: compact_document_def compact_strict.loads_write guard_simps)
qed

definition entry_doc :: json where
  "entry_doc = JObj [(''id'', JStr ''vless''), (''storage'', JStr ''FLASH''), (''architecture'', JStr ''x86_64''),
     (''packageUrl'', JStr ''https://x/a-1.apk''), (''packageName'', JStr ''a''), (''packageVersion'', JStr ''1''),
     (''archiveBytes'', JInt 2), (''packageSha256'', JStr (sha256_hex [1, 2])),
     (''indexSha256'', JStr (sha256_hex [7])), (''indexUrl'', JStr ''https://x/engines.adb'')]"

definition engines_doc :: json where
  "engines_doc = JObj [(''schema'', JInt 1), (''entries'', JArr [entry_doc])]"

definition universe_doc :: json where
  "universe_doc = JObj [(''filesSha256'', JObj [(''a-1.apk'', JStr (sha256_hex [1, 2]))]),
     (''repositoryIndexes'', JArr [JObj [(''file'', JStr ''engines.adb''), (''sha256'', JStr (sha256_hex [7])),
        (''sourceUrl'', JStr ''https://x/engines.adb'')]])]"

definition pointer_doc :: "string \<Rightarrow> json \<Rightarrow> json" where
  "pointer_doc n v = JObj [(''file'', JStr n), (''sha256'', JStr (sha256_hex (encode_ascii (write_value v))))]"

definition platform_doc :: json where
  "platform_doc = JObj [(''engineCatalog'', pointer_doc ''engines.json'' engines_doc),
     (''packageUniverse'', pointer_doc ''universe.json'' universe_doc), (''clients'', JArr []),
     (''id'', JStr ''x86''), (''basePackage'', JObj [(''file'', JStr ''a-1.apk'')])]"

definition catalog_doc :: json where
  "catalog_doc = JObj [(''schema'', JInt 2), (''kind'', JStr ''compact-client-engines-v1''), (''platforms'', JArr [platform_doc])]"

definition compact_dir :: directory where
  "compact_dir = \<lparr>dir_perm = 493, entries = [(''package-catalog.json'', new_file [123]), (''foxhole-openwrt-apk.pem'', new_file [45]),
     (''a-1.apk'', new_file [1, 2]), (''engines.json'', written_file engines_doc), (''universe.json'', written_file universe_doc)]\<rparr>"

lemma compact_names: "rmatch NAME ''package-catalog.json''" "rmatch NAME ''foxhole-openwrt-apk.pem''" "rmatch NAME ''a-1.apk''"
    "rmatch NAME ''engines.json''" "rmatch NAME ''universe.json''"
  by code_simp+

lemma compact_lookups:
  "lookup_file compact_dir ''package-catalog.json'' = Some (new_file [123])" "lookup_file compact_dir ''foxhole-openwrt-apk.pem'' = Some (new_file [45])"
  "lookup_file compact_dir ''a-1.apk'' = Some (new_file [1, 2])" "lookup_file compact_dir ''engines.json'' = Some (written_file engines_doc)"
  "lookup_file compact_dir ''universe.json'' = Some (written_file universe_doc)"
  by (simp_all add: lookup_file_def compact_dir_def)

lemma doc_lengths: "length (write_value engines_doc) \<le> 1000" "length (write_value universe_doc) \<le> 1000"
    "write_value engines_doc \<noteq> []" "write_value universe_doc \<noteq> []"
  by (simp_all add: engines_doc_def entry_doc_def universe_doc_def write_digest)
    (simp add: write_string_def escape_char_def str_of_int_def digits_of_nat.simps)+

lemma docs_printable: "printable engines_doc" "printable universe_doc"
  by (simp_all add: engines_doc_def entry_doc_def universe_doc_def printable_int del: printable.simps(2)) 

lemma compact_docs:
  "compact_document compact_dir (JStr ''engines.json'') 524288 = Inr engines_doc"
  "compact_document compact_dir (JStr ''universe.json'') 2097152 = Inr universe_doc"
  using doc_lengths docs_printable compact_names compact_lookups
  by (auto intro!: compact_document_written simp: engines_doc_def universe_doc_def)

definition doc_text :: "json \<Rightarrow> bytes" where
  "doc_text v = encode_ascii (write_value v)"

lemma compact_assets:
  "524288 \<le> m \<Longrightarrow> compact_asset compact_dir (JStr ''engines.json'') m = Inr ''engines.json''"
  "524288 \<le> m \<Longrightarrow> compact_asset compact_dir (JStr ''universe.json'') m = Inr ''universe.json''"
  "524288 \<le> m \<Longrightarrow> compact_asset compact_dir (JStr ''a-1.apk'') m = Inr ''a-1.apk''"
  "524288 \<le> m \<Longrightarrow> compact_asset compact_dir (JStr ''package-catalog.json'') m = Inr ''package-catalog.json''"
  "524288 \<le> m \<Longrightarrow> compact_asset compact_dir (JStr ''foxhole-openwrt-apk.pem'') m = Inr ''foxhole-openwrt-apk.pem''"
  using doc_lengths compact_names
  by (simp_all add: compact_asset_iff compact_lookups written_file_def new_file_def file_bytes_def encode_ascii_def)

lemma compact_digests:
  "compact_sha compact_dir ''engines.json'' = Inr (sha256_hex (doc_text engines_doc))"
  "compact_sha compact_dir ''universe.json'' = Inr (sha256_hex (doc_text universe_doc))"
  "compact_sha compact_dir ''a-1.apk'' = Inr (sha256_hex [1, 2])"
  by (simp_all add: compact_sha_iff compact_lookups written_file_def new_file_def doc_text_def)

lemma pointer_fields:
  "sub (pointer_doc n v) ''file'' = Inr (JStr n)" "sub (pointer_doc n v) ''sha256'' = Inr (JStr (sha256_hex (doc_text v)))"
  by (simp_all add: pointer_doc_def doc_text_def)

lemma platform_fields:
  "sub platform_doc ''engineCatalog'' = Inr (pointer_doc ''engines.json'' engines_doc)"
  "sub platform_doc ''packageUniverse'' = Inr (pointer_doc ''universe.json'' universe_doc)"
  "sub platform_doc ''clients'' = Inr (JArr [])" "get platform_doc ''server'' = Inr JNull"
  by (simp_all add: platform_doc_def)

lemma compact_rows: "engine_artifact_rows compact_dir platform_doc = Inr [(entry_doc, ''a-1.apk'')]"
proof -
  have catalog: "has_keys engines_doc [''schema'', ''entries''] = Inr True" "sub engines_doc ''schema'' = Inr (JInt 1)"
      "sub engines_doc ''entries'' = Inr (JArr [entry_doc])"
    by (simp_all add: engines_doc_def has_keys_def)
  have "lstat compact_dir ''a-1.apk'' = Inr (new_file [1, 2])" by (simp add: lstat_def compact_lookups)
  moreover have "last_segment ''https://x/a-1.apk'' = ''a-1.apk''" by code_simp
  ultimately have "engine_row compact_dir entry_doc \<lparr>er_rows = [], er_ids = [], er_files = []\<rparr> =
      Inr \<lparr>er_rows = [(entry_doc, ''a-1.apk'')], er_ids = [[JStr ''vless'', JStr ''FLASH'', JStr ''x86_64'']], er_files = [''a-1.apk'']\<rparr>"
    by (simp add: engine_row_def Let_def entry_doc_def int_between_def compact_assets compact_digests guard_simps file_bytes_def new_file_def)
  then show ?thesis
    by (simp add: engine_artifact_rows_def platform_fields pointer_fields compact_docs compact_assets compact_digests catalog guard_simps)
qed

lemma compact_platform: "platform_assets hash compact_dir platform_doc = Inr [''a-1.apk'', ''engines.json'', ''universe.json'', ''a-1.apk'']"
proof -
  have pointers: "pinned_pointer compact_dir 2097152 msg (pointer_doc ''engines.json'' engines_doc) = Inr ''engines.json''"
      "pinned_pointer compact_dir 2097152 msg (pointer_doc ''universe.json'' universe_doc) = Inr ''universe.json''" for msg
    by (simp_all add: pinned_pointer_def pinned_asset_def pointer_fields compact_assets compact_digests guard_simps)
  have files: "sub universe_doc ''filesSha256'' = Inr (JObj [(''a-1.apk'', JStr (sha256_hex [1, 2]))])"
      "get_or universe_doc ''filesSha256'' (JObj []) = Inr (JObj [(''a-1.apk'', JStr (sha256_hex [1, 2]))])"
    by (simp_all add: universe_doc_def)
  show ?thesis
    by (simp add: platform_assets_def compact_rows platform_fields pointer_fields pointers compact_docs files guard_simps
        pinned_files_def pinned_asset_def compact_assets compact_digests server_assets_def)
qed

lemma compact_bundle: "bundle_assets sha256_hex compact_dir catalog_doc =
    Inr [''package-catalog.json'', ''foxhole-openwrt-apk.pem'', ''engines.json'', ''universe.json'', ''a-1.apk'']"
proof -
  have bytes: "lift_res file_bytes (lstat compact_dir n) = Inr (asset_bytes compact_dir n)" if "lookup_file compact_dir n \<noteq> None" for n
    using that by (auto simp: lstat_def asset_bytes_def)
  have small: "asset_bytes compact_dir ''engines.json'' \<le> 1000" "asset_bytes compact_dir ''universe.json'' \<le> 1000"
      "asset_bytes compact_dir ''package-catalog.json'' = 1" "asset_bytes compact_dir ''foxhole-openwrt-apk.pem'' = 1" "asset_bytes compact_dir ''a-1.apk'' = 2"
    using doc_lengths by (simp_all add: asset_bytes_def compact_lookups file_bytes_def written_file_def new_file_def encode_ascii_def)
  show ?thesis
    using small by (simp add: bundle_assets_def catalog_doc_def compact_platform compact_assets bytes compact_lookups guard_simps INSTALLERS_def)
qed


end
