(* ===== verification/Json_Layout.thy ===== *)
theory Json_Layout
  imports Json_Files
begin

text \<open>
  \<open>json.dumps\<close> without separators, and with \<open>indent=2\<close>: the same text as the compact writer up to blanks. A
  layout says which blanks follow an opening bracket, a comma and a colon and which precede a closing bracket, at a
  nesting depth; every layout is read back as the value.
\<close>

section \<open>Layouts\<close>

record layout =
  after_open :: "nat \<Rightarrow> string"
  after_comma :: "nat \<Rightarrow> string"
  after_colon :: string
  before_close :: "nat \<Rightarrow> string"

definition plain_layout :: layout where
  "plain_layout = \<lparr>after_open = (\<lambda>d. []), after_comma = (\<lambda>d. '' ''), after_colon = '' '', before_close = (\<lambda>d. [])\<rparr>"

definition new_line :: "nat \<Rightarrow> string" where
  "new_line d = CHR 0x0A # replicate (2 * d) (CHR '' '')"

definition indent_layout :: layout where
  "indent_layout = \<lparr>after_open = (\<lambda>d. new_line (d + 1)), after_comma = (\<lambda>d. new_line (d + 1)), after_colon = '' '',
     before_close = new_line\<rparr>"

fun write_layout :: "layout \<Rightarrow> nat \<Rightarrow> json \<Rightarrow> string" where
  "write_layout lay d JNull = ''null''"
| "write_layout lay d (JBool b) = (if b then ''true'' else ''false'')"
| "write_layout lay d (JInt i) = str_of_int i"
| "write_layout lay d (JFloat q) = []"
| "write_layout lay d (JStr s) = write_string s"
| "write_layout lay d (JArr xs) =
     (if xs = [] then ''[]''
      else ''['' @ after_open lay d @ join_with (CHR '','' # after_comma lay d) (map (write_layout lay (Suc d)) xs) @
           before_close lay d @ '']'')"
| "write_layout lay d (JObj kvs) =
     (if kvs = [] then [CHR 0x7B, CHR 0x7D]
      else [CHR 0x7B] @ after_open lay d @
           join_with (CHR '','' # after_comma lay d)
             (map (\<lambda>kv. write_string (fst kv) @ CHR '':'' # after_colon lay @ write_layout lay (Suc d) (snd kv)) kvs) @
           before_close lay d @ [CHR 0x7D])"

text \<open>\<open>json.dumps(v)\<close> and \<open>json.dumps(v, indent=2)\<close>.\<close>

definition dumps_plain :: "json \<Rightarrow> string" where
  "dumps_plain v = write_layout plain_layout 0 v"

definition dumps_indent :: "json \<Rightarrow> string" where
  "dumps_indent v = write_layout indent_layout 0 v"

section \<open>Reading a layout back\<close>

lemma write_layout_starts: "printable v \<Longrightarrow> starts_value (write_layout lay d v)"
proof (cases v)
  case (JInt i)
  then show ?thesis
    using str_of_int_start [of i]
    by (auto simp: starts_value_def json_blank_def ascii_digit_def less_eq_char_def)
qed (auto simp: starts_value_def json_blank_def write_string_def)

lemma skip_blanks: "list_all json_blank b \<Longrightarrow> skip_blank (b @ s) = skip_blank s"
  by (induction b) auto

lemma starts_append: "starts_value s \<Longrightarrow> starts_value (s @ t)"
  by (cases s) (auto simp: starts_value_def)

lemma starts_join: "starts_value s \<Longrightarrow> starts_value (join_with c (s # ss) @ t)"
  by (cases ss) (simp_all add: starts_append)

locale layout_reader = object_hook hook for hook +
  fixes lay :: layout
  assumes blanks: "list_all json_blank (after_open lay d)" "list_all json_blank (after_comma lay d)"
      "list_all json_blank (after_colon lay)" "list_all json_blank (before_close lay d)"
    and close_line: "before_close lay d = [] \<or> hd (before_close lay d) = CHR 0x0A"
begin

definition reads_layout :: "nat \<Rightarrow> json \<Rightarrow> bool" where
  "reads_layout d v \<longleftrightarrow> (\<forall>n rest. length (write_layout lay d v) \<le> n \<longrightarrow> delimited rest \<longrightarrow>
     read_value hook n (write_layout lay d v @ rest) = Inr (v, rest))"

lemma skip_to: "list_all json_blank b \<Longrightarrow> starts_value s \<Longrightarrow> skip_blank (b @ s) = s"
  using skip_blank_start [of s "[]"] by (simp add: skip_blanks)

lemma delimited_close: "delimited (before_close lay d @ CHR '']'' # s)" "delimited (before_close lay d @ CHR 0x7D # s)"
  using close_line [of d] by (cases "before_close lay d"; simp add: delimited_def)+

lemma skip_close: "skip_blank (before_close lay d @ CHR '']'' # s) = CHR '']'' # s"
    "skip_blank (before_close lay d @ CHR 0x7D # s) = CHR 0x7D # s"
  using blanks(4) [of d] by (simp_all add: skip_blanks)

abbreviation comma :: "nat \<Rightarrow> string" where
  "comma d \<equiv> CHR '','' # after_comma lay d"

lemma read_items_layout:
  assumes "\<forall>x \<in> set (x # xs). reads_layout (Suc d) x \<and> printable x"
    and "length (join_with (comma d) (map (write_layout lay (Suc d)) (x # xs))) < n"
  shows "read_items hook n (join_with (comma d) (map (write_layout lay (Suc d)) (x # xs)) @ before_close lay d @ CHR '']'' # rest)
    = Inr (x # xs, rest)"
  using assms
proof (induction xs arbitrary: x n)
  case Nil
  then obtain m where n: "n = Suc m" "length (write_layout lay (Suc d) x) \<le> m" by (cases n) auto
  with Nil show ?case by (simp add: reads_layout_def delimited_close skip_close)
next
  case (Cons y ys)
  let ?tail = "join_with (comma d) (map (write_layout lay (Suc d)) (y # ys)) @ before_close lay d @ CHR '']'' # rest"
  from Cons.prems obtain m where n: "n = Suc m" by (cases n) auto
  have len: "length (write_layout lay (Suc d) x) \<le> m"
      "length (join_with (comma d) (map (write_layout lay (Suc d)) (y # ys))) < m"
    using Cons.prems(2) n by simp_all
  have "read_value hook m (write_layout lay (Suc d) x @ comma d @ ?tail) = Inr (x, comma d @ ?tail)"
    using Cons.prems(1) len(1) by (simp add: reads_layout_def)
  moreover have "skip_blank (after_comma lay d @ ?tail) = ?tail"
    using Cons.prems(1) by (intro skip_to blanks) (simp add: starts_join write_layout_starts)
  moreover have "read_items hook m ?tail = Inr (y # ys, rest)"
    using Cons.prems(1) len(2) by (intro Cons.IH) auto
  ultimately show ?case by (simp add: n)
qed

definition layout_pair :: "nat \<Rightarrow> string \<times> json \<Rightarrow> string" where
  "layout_pair d kv = write_string (fst kv) @ CHR '':'' # after_colon lay @ write_layout lay d (snd kv)"

lemma read_pairs_layout:
  assumes "\<forall>kv \<in> set (kv # kvs). reads_layout (Suc d) (snd kv) \<and> printable (snd kv)"
    and "length (join_with (comma d) (map (layout_pair (Suc d)) (kv # kvs))) < n"
  shows "read_pairs hook n (join_with (comma d) (map (layout_pair (Suc d)) (kv # kvs)) @ before_close lay d @ CHR 0x7D # rest)
    = Inr (kv # kvs, rest)"
  using assms
proof (induction kvs arbitrary: kv n)
  case Nil
  then obtain m where n: "n = Suc m" "length (write_layout lay (Suc d) (snd kv)) \<le> m"
    by (cases n) (auto simp: layout_pair_def)
  have "skip_blank (after_colon lay @ write_layout lay (Suc d) (snd kv) @ before_close lay d @ CHR 0x7D # rest) =
      write_layout lay (Suc d) (snd kv) @ before_close lay d @ CHR 0x7D # rest"
    using Nil.prems(1) by (intro skip_to blanks starts_append write_layout_starts) simp
  with Nil n show ?case
    by (cases kv) (simp add: layout_pair_def write_string_def read_pair_head reads_layout_def delimited_close skip_close)
next
  case (Cons kv' kvs)
  let ?tail = "join_with (comma d) (map (layout_pair (Suc d)) (kv' # kvs)) @ before_close lay d @ CHR 0x7D # rest"
  let ?shown = "write_layout lay (Suc d) (snd kv)"
  from Cons.prems obtain m where n: "n = Suc m" by (cases n) auto
  have len: "length ?shown \<le> m" "length (join_with (comma d) (map (layout_pair (Suc d)) (kv' # kvs))) < m"
    using Cons.prems(2) n by (simp_all add: layout_pair_def [of _ kv])
  have "read_value hook m (?shown @ comma d @ ?tail) = Inr (snd kv, comma d @ ?tail)"
    using Cons.prems(1) len(1) by (simp add: reads_layout_def)
  moreover have "skip_blank (after_colon lay @ ?shown @ comma d @ ?tail) = ?shown @ comma d @ ?tail"
    using Cons.prems(1) by (intro skip_to blanks starts_append write_layout_starts) simp
  moreover have "skip_blank (after_comma lay d @ ?tail) = ?tail"
    by (intro skip_to blanks) (cases kvs, simp_all add: layout_pair_def [of _ kv'] write_string_def starts_value_def json_blank_def)
  moreover have "read_pairs hook m ?tail = Inr (kv' # kvs, rest)"
    using Cons.prems(1) len(2) by (intro Cons.IH) auto
  ultimately show ?case
    by (cases kv) (simp add: n layout_pair_def [of _ "(a, b)" for a b] write_string_def read_pair_head)
qed

lemma layout_obj:
  "kvs \<noteq> [] \<Longrightarrow> write_layout lay d (JObj kvs) =
     CHR 0x7B # after_open lay d @ join_with (comma d) (map (layout_pair (Suc d)) kvs) @ before_close lay d @ [CHR 0x7D]"
  by (simp add: layout_pair_def [abs_def])

lemma reads_same: "write_layout lay d v = write_value v \<Longrightarrow> printable v \<Longrightarrow> reads_layout d v"
  using read_write [of v] by (simp add: reads_layout_def reads_def)

lemma read_layout: "printable v \<Longrightarrow> reads_layout d v"
proof (induction v arbitrary: d)
  case (JArr xs)
  show ?case
    unfolding reads_layout_def
  proof (intro allI impI)
    fix n rest
    assume n: "length (write_layout lay d (JArr xs)) \<le> n" and rest: "delimited rest"
    then obtain m where m: "n = Suc m" by (cases n) (auto split: if_splits)
    show "read_value hook n (write_layout lay d (JArr xs) @ rest) = Inr (JArr xs, rest)"
    proof (cases xs)
      case Nil
      then show ?thesis by (simp add: m)
    next
      case (Cons y ys)
      let ?body = "join_with (comma d) (map (write_layout lay (Suc d)) xs) @ before_close lay d @ CHR '']'' # rest"
      have all: "\<forall>x \<in> set (y # ys). reads_layout (Suc d) x \<and> printable x"
        using JArr Cons by (auto simp: list_all_iff)
      then have start: "starts_value ?body"
        using Cons by (simp add: starts_join write_layout_starts)
      then obtain b bs where b: "?body = b # bs" "skip_blank (after_open lay d @ ?body) = b # bs" "b \<noteq> CHR '']''"
        using skip_to [OF blanks(1) start, of d] by (cases ?body) (auto simp: starts_value_def)
      have "length (join_with (comma d) (map (write_layout lay (Suc d)) (y # ys))) < m" using n m Cons by simp
      from read_items_layout [OF all this, of rest] b Cons m show ?thesis by simp
    qed
  qed
next
  case (JObj kvs)
  show ?case
    unfolding reads_layout_def
  proof (intro allI impI)
    fix n rest
    assume n: "length (write_layout lay d (JObj kvs)) \<le> n" and rest: "delimited rest"
    then obtain m where m: "n = Suc m" by (cases n) (auto split: if_splits)
    have hook: "hook kvs = Inr (JObj kvs)" using JObj.prems by (intro hook_distinct) simp
    show "read_value hook n (write_layout lay d (JObj kvs) @ rest) = Inr (JObj kvs, rest)"
    proof (cases kvs)
      case Nil
      then show ?thesis using hook by (simp add: m)
    next
      case (Cons y ys)
      then have written: "write_layout lay d (JObj kvs) =
          CHR 0x7B # after_open lay d @ join_with (comma d) (map (layout_pair (Suc d)) kvs) @ before_close lay d @ [CHR 0x7D]"
        by (intro layout_obj) simp
      have all: "\<forall>kv \<in> set (y # ys). reads_layout (Suc d) (snd kv) \<and> printable (snd kv)"
        using JObj Cons by (fastforce simp: list_all_iff)
      have len: "length (join_with (comma d) (map (layout_pair (Suc d)) (y # ys))) < m"
        using n m unfolding written unfolding Cons by simp
      obtain ds where ds: "join_with (comma d) (map (layout_pair (Suc d)) kvs) @ before_close lay d @ CHR 0x7D # rest = CHR 0x22 # ds"
        unfolding Cons by (cases ys) (auto simp: layout_pair_def write_string_def)
      from read_pairs_layout [OF all len, of rest]
      have pairs: "read_pairs hook m (CHR 0x22 # ds) = Inr (kvs, rest)" unfolding Cons [symmetric] ds .
      have "skip_blank (after_open lay d @ CHR 0x22 # ds) = CHR 0x22 # ds"
        by (rule skip_to [OF blanks(1)]) (simp add: starts_value_def json_blank_def)
      with hook pairs show ?thesis
        unfolding written m append_Cons append_assoc append_Nil ds by (simp add: skip_blank_start)
    qed
  qed
qed (rule reads_same; simp)+

lemma loads_layout:
  assumes v: "printable v" and tail: "list_all json_blank s" "delimited s"
  shows "loads_with hook (write_layout lay d v @ s) = Inr v"
proof -
  have "read_value hook (Suc (length (write_layout lay d v @ s))) (write_layout lay d v @ s) = Inr (v, s)"
    using read_layout [OF v, unfolded reads_layout_def, rule_format, of d "Suc (length (write_layout lay d v @ s))" s] tail(2)
    by (simp del: read_value.simps)
  moreover have "skip_blank s = []" using tail(1) by (simp add: list_all_iff)
  ultimately show ?thesis
    using skip_blank_start [OF write_layout_starts [OF v], of lay d s] by (simp add: loads_with_def del: read_value.simps)
qed

end

interpretation plain_dumps: layout_reader dict_hook plain_layout
  by unfold_locales (simp_all add: plain_layout_def json_blank_def)

interpretation indent_dumps: layout_reader dict_hook indent_layout
  by unfold_locales (simp_all add: indent_layout_def new_line_def json_blank_def list_all_iff)

section \<open>The text is ASCII\<close>

definition ascii_layout :: "layout \<Rightarrow> bool" where
  "ascii_layout lay \<longleftrightarrow> is_ascii (after_colon lay) \<and>
     (\<forall>d. is_ascii (after_open lay d) \<and> is_ascii (after_comma lay d) \<and> is_ascii (before_close lay d))"

lemma ascii_layouts: "ascii_layout plain_layout" "ascii_layout indent_layout"
  by (auto simp: ascii_layout_def plain_layout_def indent_layout_def new_line_def is_ascii_def list_all_iff)

lemma is_ascii_layout: "ascii_layout lay \<Longrightarrow> is_ascii (write_layout lay d v)"
proof (induction v arbitrary: d)
  case (JArr xs)
  then show ?case
    by (simp add: is_ascii_append is_ascii_lits list_all_iff ascii_layout_def is_ascii_join)
next
  case (JObj kvs)
  have str: "is_ascii (write_string s)" for s using is_ascii_write [of "JStr s"] by simp
  from JObj show ?case
    by (auto simp: is_ascii_append is_ascii_lits str list_all_iff ascii_layout_def intro!: is_ascii_join)
next
  case (JInt i)
  show ?case using is_ascii_write [of "JInt i"] by simp
next
  case (JStr s)
  show ?case using is_ascii_write [of "JStr s"] by simp
qed (simp_all add: is_ascii_def)

lemma layout_read:
  assumes "lookup_file dir n = Some e" and "content e = encode_ascii (write_layout lay d v @ s)"
    and "layout_reader dict_hook lay" and "ascii_layout lay" and "printable v" and "s \<in> {[], [CHR 0x0A]}"
  shows "read_json dir n = Inr v"
proof -
  have "is_ascii (write_layout lay d v @ s)"
    using assms(4,6) is_ascii_layout [of lay d v] by (auto simp: is_ascii_append is_ascii_lits)
  moreover have "loads_with dict_hook (write_layout lay d v @ s) = Inr v"
    using layout_reader.loads_layout [OF assms(3,5), of s d] assms(6) by (auto simp: json_blank_def)
  ultimately show ?thesis using assms(1,2) by (simp add: read_json_def lstat_def decode_encode_ascii loads_def)
qed

end
