(* ===== verification/Package_Signing.thy ===== *)
theory Package_Signing
  imports Package_Budget Json_Layout Release_Manifest
begin

text \<open>
  sign-apks.py, check-apk-signing.py, stage-apk-assets.py and prepare-release.py: signing a directory of packages
  without changing their contents, the exercise of the signatures with disposable keys, staging packages under
  names that are their digests, and the check of a historical release candidate. The programs \<open>openssl\<close> and \<open>apk\<close>
  are the record \<open>sign_tools\<close>; a command that exits with an error is \<open>Inl\<close>.
\<close>

section \<open>Signing\<close>

record sign_tools =
  pub_out :: "bytes \<Rightarrow> bytes res"
  adb_sign :: "bytes \<Rightarrow> bytes \<Rightarrow> bytes res"
  adb_verify :: "named_files \<Rightarrow> bytes \<Rightarrow> bytes res"
  adb_reset :: "bytes \<Rightarrow> bytes res"
  adb_version :: "bytes res"

definition PUBLIC_NAME :: string where
  "PUBLIC_NAME = ''foxhole-openwrt-apk.pem''"

definition SIGNATURES_NAME :: string where
  "SIGNATURES_NAME = ''APK-SIGNATURES.json''"

definition package_names :: "directory \<Rightarrow> string list res" where
  "package_names source =
     (let names = glob_apk source in
     bnd (refuse [Inr (names = []), Inr (512 < length names)] ''Bounded real APK candidates required'') (\<lambda>_. Inr names))"

definition signing_inputs :: "directory \<Rightarrow> fpath \<Rightarrow> fpath \<Rightarrow> string list \<Rightarrow> unit res" where
  "signing_inputs source private public names =
     each_res (\<lambda>p. refuse [Inr (plain_file (fst p) (snd p) = None)] ''Signing inputs must be regular files'')
       (private # public # map (\<lambda>n. (source, n)) names)"

text \<open>One package: the signed file, and the row of the receipt.\<close>

record signed_package =
  sp_name :: string
  sp_bytes :: bytes
  sp_unsigned :: string
  sp_signed :: string
  sp_content :: string

definition sign_package :: "sign_tools \<Rightarrow> directory \<Rightarrow> bytes \<Rightarrow> bytes \<Rightarrow> string \<Rightarrow> signed_package res" where
  "sign_package tools source key public name =
     bnd (read_bytes source name) (\<lambda>original.
     bnd (adb_sign tools key original) (\<lambda>signed.
     bnd (adb_verify tools [(PUBLIC_NAME, public)] signed) (\<lambda>_.
     bnd (map_res (\<lambda>copy. lift_res sha256_hex (adb_reset tools copy)) [original, signed]) (\<lambda>normalized.
     bnd (refuse [Inr (normalized ! 0 \<noteq> normalized ! 1)] ''Package content changed during signing'') (\<lambda>_.
     Inr \<lparr>sp_name = name, sp_bytes = signed, sp_unsigned = sha256_hex original, sp_signed = sha256_hex signed,
          sp_content = normalized ! 0\<rparr>)))))"

definition signed_row :: "signed_package \<Rightarrow> string \<times> json" where
  "signed_row p = (sp_name p, JObj [(''unsigned_sha256'', JStr (sp_unsigned p)), (''signed_sha256'', JStr (sp_signed p)),
     (''content_sha256'', JStr (sp_content p))])"

definition signing_record :: "bytes \<Rightarrow> string \<Rightarrow> signed_package list \<Rightarrow> json" where
  "signing_record public version packages =
     JObj [(''schema'', JInt 1), (''algorithm'', JStr ''ECDSA-P256-SHA256''), (''public_key_sha256'', JStr (sha256_hex public)),
       (''apk_tools'', JStr version), (''packages'', JObj (map signed_row packages))]"

text \<open>\<open>taken\<close>: the output path exists, and \<open>mkdir\<close> raises.\<close>

definition sign_apks :: "sign_tools \<Rightarrow> directory \<Rightarrow> bool \<Rightarrow> fpath \<Rightarrow> fpath \<Rightarrow> directory res" where
  "sign_apks tools source taken private public =
     bnd (package_names source) (\<lambda>names.
     bnd (signing_inputs source private public names) (\<lambda>_.
     bnd (lstat (fst private) (snd private)) (\<lambda>secret.
     bnd (refuse [Inr (perm secret AND 63 \<noteq> 0)] ''Private key permissions must exclude group and other'') (\<lambda>_.
     bnd (path_bytes public) (\<lambda>public_bytes.
     bnd (refuse [lift_res (\<lambda>b. b \<noteq> public_bytes) (pub_out tools (content secret))]
            ''Private key does not match the pinned public key'') (\<lambda>_.
     bnd (if taken then Inl OSError else Inr ()) (\<lambda>_.
     bnd (map_res (sign_package tools source (content secret) public_bytes) names) (\<lambda>packages.
     bnd (bnd (adb_version tools) decode_ascii) (\<lambda>version.
     let record_text = dumps_indent (signing_record public_bytes (py_strip version) packages) @ [CHR 0x0A] in
     Inr \<lparr>dir_perm = 493, entries = map (\<lambda>p. (sp_name p, new_file (sp_bytes p))) packages @
       [(PUBLIC_NAME, new_file public_bytes), (SIGNATURES_NAME, new_file (encode_ascii record_text))]\<rparr>)))))))))"

section \<open>The exercise of the signatures\<close>

text \<open>\<open>data[-16] ^= 1\<close>.\<close>

definition tamper :: "bytes \<Rightarrow> bytes res" where
  "tamper b = (if length b < 16 then Inl IndexError
     else Inr (b[length b - 16 := (b ! (length b - 16)) XOR 1]))"

definition must_fail :: "'a res \<Rightarrow> unit res" where
  "must_fail r = (case r of Inl e \<Rightarrow> Inr () | Inr x \<Rightarrow> Inl AssertionError)"

definition exercise_signing :: "sign_tools \<Rightarrow> directory \<Rightarrow> bytes \<Rightarrow> unit res" where
  "exercise_signing tools source key =
     bnd (pub_out tools key) (\<lambda>public.
     let root_dir = \<lparr>dir_perm = 448, entries = [(''test.key'', (new_file key)\<lparr>perm := 384\<rparr>), (''test.pem'', new_file public)]\<rparr> in
     bnd (sign_apks tools source False (root_dir, ''test.key'') (root_dir, ''test.pem'')) (\<lambda>signed.
     bnd (package_names source) (each_res (\<lambda>name.
       bnd (read_bytes signed name) (\<lambda>b.
       bnd (must_fail (adb_verify tools [] b)) (\<lambda>_.
       bnd (tamper b) (\<lambda>b'. must_fail (adb_verify tools [(''test.pem'', public)] b'))))))))"

section \<open>Staging under digest names\<close>

definition variant_rx :: rx where
  "variant_rx = Seq (Cls alnum) (Rep (Cls (alnum @ [(CHR ''_'', CHR ''_''), (CHR ''.'', CHR ''.''), (CHR ''-'', CHR ''-'')])) 0 95)"

definition asset_name :: "string \<Rightarrow> string" where
  "asset_name digest = ''apk-'' @ digest @ ''.apk''"

definition stage_asset :: "hash_fun \<Rightarrow> directory \<Rightarrow> string \<times> package \<Rightarrow> named_files \<Rightarrow> named_files res" where
  "stage_asset hash source row out =
     (let asset = asset_name (pkg_sha256 (snd row)) in
     bnd (refuse [Inr (asset \<in> fst ` set out)] ''Release asset collision'') (\<lambda>_.
     bnd (read_bytes source (fst row)) (\<lambda>b.
     bnd (refuse [Inr (hash b \<noteq> pkg_sha256 (snd row))] ''APK changed during asset staging'') (\<lambda>_.
     Inr (out @ [(asset, b)])))))"

definition staged_row :: "string \<times> package \<Rightarrow> json" where
  "staged_row row = JObj [(''sourceFile'', JStr (fst row)), (''releaseFile'', JStr (asset_name (pkg_sha256 (snd row)))),
     (''name'', JStr (pkg_name (snd row))), (''version'', JStr (pkg_version (snd row))),
     (''architecture'', JStr (pkg_arch (snd row))), (''sha256'', JStr (pkg_sha256 (snd row)))]"

definition stage_assets :: "hash_fun \<Rightarrow> apk_tool \<Rightarrow> directory \<Rightarrow> bool \<Rightarrow> string \<Rightarrow> named_files res" where
  "stage_assets hash apk source taken variant =
     bnd (refuse [Inr (\<not> rmatch variant_rx variant)] ''Safe variant identity required'') (\<lambda>_.
     let names = glob_apk source in
     bnd (refuse [Inr (names = []), Inr (256 < length names)] ''Bounded real APK input required'') (\<lambda>_.
     bnd (map_res (\<lambda>n. metadata hash apk (source, n)) names) (\<lambda>records.
     bnd (refuse [Inr (\<not> distinct (map pkg_name records))] ''One package version per exact variant required'') (\<lambda>_.
     bnd (if taken then Inl OSError else Inr ()) (\<lambda>_.
     bnd (fold_res (stage_asset hash source) (zip names records) []) (\<lambda>out.
     Inr (out @ [(''apk-assets.json'', encode_ascii (dumps (JObj [(''schema'', JInt 1),
       (''packages'', JArr (map staged_row (zip names records)))]) @ [CHR 0x0A]))])))))))"

section \<open>A historical candidate\<close>

definition LEGACY_PACKAGES :: "string list" where
  "LEGACY_PACKAGES = [''foxhole-openwrt-client-1.0.0-r1.apk'', ''hysteria-2.12.2-r5.apk'', ''hysteria-ram-2.12.2-r2.apk'']"

definition PAYLOAD :: "string list" where
  "PAYLOAD = LEGACY_PACKAGES @ [''install.sh'', ''sdk.config'', ''feeds.buildinfo'', ''CANDIDATE.json'',
     ''foxhole-openwrt-client-source.zip'', ''foxhole-openwrt-client-source.zip.sha256'']"

definition candidate_rx :: rx where
  "candidate_rx = Seq (Rep (Cls [(CHR ''a'', CHR ''f''), (CHR ''0'', CHR ''9'')]) 64 64) (Seq (lit ''  '')
     (rplus (Cls (alnum @ [(CHR ''_'', CHR ''_''), (CHR ''.'', CHR ''.''), (CHR ''-'', CHR ''-'')]))))"

definition candidate_line :: "directory \<Rightarrow> string \<Rightarrow> string list \<Rightarrow> string list res" where
  "candidate_line source line seen =
     (let name = drop 66 line in
     bnd (refuse [Inr (\<not> rmatch candidate_rx line), Inr (name \<notin> set PAYLOAD), Inr (name \<in> set seen)] ''Invalid manifest entry'') (\<lambda>_.
     bnd (read_bytes source name) (\<lambda>b.
     bnd (refuse [Inr (sha256_hex b \<noteq> take 64 line)] ''Candidate file hash mismatch'') (\<lambda>_.
     Inr (seen @ [name])))))"

text \<open>The directory of the candidate, its \<open>release-candidate\<close>, and the installer of the checked-out tree.\<close>

definition verify_candidate :: "directory \<Rightarrow> directory \<Rightarrow> bytes \<Rightarrow> string \<Rightarrow> string \<Rightarrow> json res" where
  "verify_candidate candidate source installer main_commit tree =
     bnd (read_json candidate ''RELEASE.json'') (\<lambda>release.
     bnd (refuse [Inr (fst ` set (entries source) \<noteq> set (PAYLOAD @ [''SHA256SUMS'']))] ''Unexpected candidate files'') (\<lambda>_.
     bnd (refuse [Inr (\<not> list_all (\<lambda>e. ftype (snd e) = Regular) (entries source))] ''Non-regular candidate file'') (\<lambda>_.
     bnd (read_bytes source ''SHA256SUMS'') (\<lambda>listing.
     bnd (refuse [lift_res (\<lambda>x. x \<noteq> JStr (sha256_hex listing)) (sub release ''candidate_manifest_sha256'')]
            ''Candidate manifest mismatch'') (\<lambda>_.
     bnd (decode_ascii listing) (\<lambda>lines.
     bnd (fold_res (candidate_line source) (splitlines lines) []) (\<lambda>seen.
     bnd (refuse [Inr (set seen \<noteq> set PAYLOAD)] ''Incomplete candidate manifest'') (\<lambda>_.
     bnd (read_json source ''CANDIDATE.json'') (\<lambda>candidate_record.
     bnd (refuse [lift_res (\<lambda>x. x \<noteq> JStr main_commit) (sub release ''main_commit''),
                  lift_res (\<lambda>x. x \<noteq> JStr tree) (sub release ''source_tree'')] ''Candidate does not match checked-out main'') (\<lambda>_.
     bnd (refuse [lift_res (\<lambda>dev. py_ne candidate_record (JObj [(''schema'', JInt 1), (''source_commit'', dev), (''source_tree'', JStr tree),
            (''target'', JStr ''openwrt-25.12.5-aarch64_generic''), (''package_signatures'', JStr ''unsigned''),
            (''firmware_acceptance'', JStr ''pending'')])) (sub release ''dev_commit'')] ''Candidate provenance mismatch'') (\<lambda>_.
     bnd (read_bytes source ''install.sh'') (\<lambda>b.
     bnd (refuse [Inr (b \<noteq> installer)] ''Installer differs from checked-out main'') (\<lambda>_.
     Inr release)))))))))))))"

section \<open>What signing leaves\<close>

lemma sign_package_name: "sign_package tools source key public n = Inr p \<Longrightarrow> sp_name p = n"
  by (auto simp: sign_package_def bnd_Inr_iff ex_unit_iff)

text \<open>The package of one name: signed under the key, verified with the public one, and the same after a reset.\<close>

definition signed_from :: "sign_tools \<Rightarrow> directory \<Rightarrow> bytes \<Rightarrow> bytes \<Rightarrow> signed_package \<Rightarrow> bool" where
  "signed_from tools source key public p \<longleftrightarrow>
     (\<exists>e c c' out. lookup_file source (sp_name p) = Some e \<and> ftype e = Regular \<and> adb_sign tools key (content e) = Inr (sp_bytes p) \<and>
        adb_verify tools [(PUBLIC_NAME, public)] (sp_bytes p) = Inr out \<and>
        adb_reset tools (content e) = Inr c \<and> adb_reset tools (sp_bytes p) = Inr c' \<and>
        sp_content p = sha256_hex c \<and> sha256_hex c' = sha256_hex c \<and>
        sp_unsigned p = sha256_hex (content e) \<and> sp_signed p = sha256_hex (sp_bytes p))"

lemma signing_inputs_iff:
  "signing_inputs source private public names = Inr () \<longleftrightarrow>
     plain_file (fst private) (snd private) \<noteq> None \<and> plain_file (fst public) (snd public) \<noteq> None \<and>
     list_all (\<lambda>n. plain_file source n \<noteq> None) names"
  by (simp add: signing_inputs_def ok_iff list.pred_map comp_def)

lemma sign_package_from:
  assumes "sign_package tools source key public n = Inr p" and "plain_file source n \<noteq> None"
  shows "signed_from tools source key public p"
  using assms
  by (auto simp: sign_package_def bnd_Inr_iff ex_unit_iff refuse_Inr_iff read_bytes_iff lift_res_Inr_iff plain_file_iff
      signed_from_def map_res.simps)

lemma package_names_iff:
  "package_names source = Inr names \<longleftrightarrow> names = glob_apk source \<and> names \<noteq> [] \<and> length names \<le> 512"
  by (auto simp: package_names_def Let_def ok_iff)

lemma glob_apk_suffix: "n \<in> set (glob_apk dir) \<Longrightarrow> n \<noteq> PUBLIC_NAME \<and> n \<noteq> SIGNATURES_NAME"
  by (auto simp: glob_apk_def PUBLIC_NAME_def SIGNATURES_NAME_def)

lemma glob_apk_distinct: "distinct (map fst (entries dir)) \<Longrightarrow> distinct (glob_apk dir)"
  by (simp add: glob_apk_def)

lemma sign_apksD:
  assumes "sign_apks tools source taken private public = Inr out"
  obtains secret pub packages version names where "names = glob_apk source" "names \<noteq> []" "length names \<le> 512"
    "list_all (\<lambda>n. plain_file source n \<noteq> None) names"
    "plain_file (fst private) (snd private) = Some secret" "perm secret AND 63 = 0"
    "plain_file (fst public) (snd public) = Some pub" "pub_out tools (content secret) = Inr (content pub)" "\<not> taken"
    "map_res (sign_package tools source (content secret) (content pub)) names = Inr packages"
    "out = \<lparr>dir_perm = 493, entries = map (\<lambda>p. (sp_name p, new_file (sp_bytes p))) packages @
       [(PUBLIC_NAME, new_file (content pub)), (SIGNATURES_NAME, new_file (encode_ascii
          (dumps_indent (signing_record (content pub) (py_strip version) packages) @ [CHR 0x0A])))]\<rparr>"
proof -
  note facts = assms [unfolded sign_apks_def Let_def bnd_Inr_iff ex_unit_iff]
  obtain names secret pub packages version raw where r: "package_names source = Inr names"
      "signing_inputs source private public names = Inr ()" "lstat (fst private) (snd private) = Inr secret"
      "refuse [Inr (perm secret AND 63 \<noteq> 0)] ''Private key permissions must exclude group and other'' = Inr ()"
      "path_bytes public = Inr pub"
      "refuse [lift_res (\<lambda>b. b \<noteq> pub) (pub_out tools (content secret))] ''Private key does not match the pinned public key'' = Inr ()"
      "(if taken then Inl OSError else Inr ()) = (Inr () :: unit res)"
      "map_res (sign_package tools source (content secret) pub) names = Inr packages"
      "adb_version tools = Inr raw" "decode_ascii raw = Inr version"
      "Inr \<lparr>dir_perm = 493, entries = map (\<lambda>p. (sp_name p, new_file (sp_bytes p))) packages @
         [(PUBLIC_NAME, new_file pub), (SIGNATURES_NAME, new_file (encode_ascii
          (dumps_indent (signing_record pub (py_strip version) packages) @ [CHR 0x0A])))]\<rparr> = (Inr out :: directory res)"
    using facts by (elim exE conjE) (rule that, assumption+)
  from r(2) obtain s p where sp: "plain_file (fst private) (snd private) = Some s" "plain_file (fst public) (snd public) = Some p"
      and files: "list_all (\<lambda>n. plain_file source n \<noteq> None) names"
    by (auto simp: signing_inputs_iff)
  have "s = secret" and "content p = pub"
    using sp r(3,5) by (auto simp: plain_file_iff lstat_def path_bytes_def read_bytes_iff)
  with r sp files show thesis
    by (intro that [of names secret p packages version])
      (auto simp: package_names_iff refuse_Inr_iff lift_res_Inr_iff ex_Inr_bool split: if_splits)
qed

lemma signed_names:
  assumes "map_res (sign_package tools source key public) names = Inr packages"
  shows "map sp_name packages = names"
  using assms [unfolded map_res_Inr_iff]
  by (induction names packages rule: list_all2_induct) (auto dest: sign_package_name)

lemma signed_packages:
  assumes "map_res (sign_package tools source key public) names = Inr packages"
    and "list_all (\<lambda>n. plain_file source n \<noteq> None) names"
  shows "list_all (signed_from tools source key public) packages"
proof -
  have "signed_from tools source key public p" if p: "p \<in> set packages" for p
  proof -
    obtain n where "n \<in> set names" "sign_package tools source key public n = Inr p"
      using list_all2_set2 [OF assms(1) [unfolded map_res_Inr_iff] p] by blast
    then show ?thesis using sign_package_from assms(2) by (auto simp: list_all_iff)
  qed
  then show ?thesis by (simp add: list_all_iff)
qed

lemma map_of_signed:
  "distinct (map sp_name packages) \<Longrightarrow> p \<in> set packages \<Longrightarrow>
   map_of (map (\<lambda>p. (sp_name p, f p)) packages @ rest) (sp_name p) = Some (f p)"
proof (induction packages)
  case (Cons q packages)
  show ?case
  proof (cases "p = q")
    case False
    with Cons.prems have "sp_name p \<noteq> sp_name q" by (metis image_eqI list.set_map set_ConsD distinct.simps(2) list.simps(9))
    with False Cons show ?thesis by simp
  qed simp
qed simp

lemma signing_printable: "distinct (map sp_name packages) \<Longrightarrow> printable (signing_record public version packages)"
  by (simp add: signing_record_def signed_row_def comp_def list_all_iff digits_of_nat.simps)

text \<open>What signing one package has done, by the files of both directories and the row of the receipt.\<close>

definition signed_unchanged :: "sign_tools \<Rightarrow> directory \<Rightarrow> directory \<Rightarrow> bytes \<Rightarrow> bytes \<Rightarrow> (string \<times> json) list \<Rightarrow> string \<Rightarrow> bool" where
  "signed_unchanged tools source out key public rows n \<longleftrightarrow>
     (\<exists>e s c c' answer. lookup_file source n = Some e \<and> ftype e = Regular \<and> lookup_file out n = Some (new_file s) \<and>
        adb_sign tools key (content e) = Inr s \<and> adb_verify tools [(PUBLIC_NAME, public)] s = Inr answer \<and>
        adb_reset tools (content e) = Inr c \<and> adb_reset tools s = Inr c' \<and> sha256_hex c' = sha256_hex c \<and>
        map_of rows n = Some (JObj [(''unsigned_sha256'', JStr (sha256_hex (content e))), (''signed_sha256'', JStr (sha256_hex s)),
          (''content_sha256'', JStr (sha256_hex c))]))"

text \<open>
  C40. Signing changes no package: when a directory of packages has been signed, the key was private and belonged to
  the public key; the output holds the signed packages, the public key and the receipt and nothing else; every signed
  package verifies under the public key alone and has, once the signatures are reset, the content digest of the original;
  and the receipt, read back, states for every package the digests of the two files and of the content.
\<close>

theorem signing_preserves:
  assumes run: "sign_apks tools source taken private public = Inr out"
    and entries: "distinct (map fst (entries source))"
  shows "\<exists>secret pub receipt rows. plain_file (fst private) (snd private) = Some secret \<and> perm secret AND 63 = 0 \<and>
    plain_file (fst public) (snd public) = Some pub \<and> pub_out tools (content secret) = Inr (content pub) \<and>
    map fst (entries out) = glob_apk source @ [PUBLIC_NAME, SIGNATURES_NAME] \<and>
    lookup_file out PUBLIC_NAME = Some (new_file (content pub)) \<and>
    read_json out SIGNATURES_NAME = Inr receipt \<and> sub receipt ''public_key_sha256'' = Inr (JStr (sha256_hex (content pub))) \<and>
    sub receipt ''packages'' = Inr (JObj rows) \<and> map fst rows = glob_apk source \<and>
    list_all (signed_unchanged tools source out (content secret) (content pub) rows) (glob_apk source)"
proof -
  from run obtain secret pub packages version where r: "list_all (\<lambda>n. plain_file source n \<noteq> None) (glob_apk source)"
      "plain_file (fst private) (snd private) = Some secret" "perm secret AND 63 = 0"
      "plain_file (fst public) (snd public) = Some pub" "pub_out tools (content secret) = Inr (content pub)"
      "map_res (sign_package tools source (content secret) (content pub)) (glob_apk source) = Inr packages"
    and out: "out = \<lparr>dir_perm = 493, entries = map (\<lambda>p. (sp_name p, new_file (sp_bytes p))) packages @
       [(PUBLIC_NAME, new_file (content pub)), (SIGNATURES_NAME, new_file (encode_ascii
          (dumps_indent (signing_record (content pub) (py_strip version) packages) @ [CHR 0x0A])))]\<rparr>"
    by (rule sign_apksD) (rule that; simp)
  let ?receipt = "signing_record (content pub) (py_strip version) packages"
  have names: "map sp_name packages = glob_apk source" by (rule signed_names [OF r(6)])
  then have apart: "distinct (map sp_name packages)" using glob_apk_distinct [OF entries] by simp
  have other: "n \<notin> set (map sp_name packages)" if "n = PUBLIC_NAME \<or> n = SIGNATURES_NAME" for n
    using glob_apk_suffix [of n source] that unfolding names by blast
  have rest: "map_of (map (\<lambda>p. (sp_name p, f p)) packages @ xs) n = map_of xs n" if "n = PUBLIC_NAME \<or> n = SIGNATURES_NAME" for f xs n
    using other [OF that] by (induction packages) simp_all
  have files: "lookup_file out PUBLIC_NAME = Some (new_file (content pub))"
      "lookup_file out SIGNATURES_NAME = Some (new_file (encode_ascii (dumps_indent ?receipt @ [CHR 0x0A])))"
    unfolding lookup_file_def out directory.simps rest [OF disjI1 [OF refl]] rest [OF disjI2 [OF refl]]
    by (simp_all add: PUBLIC_NAME_def SIGNATURES_NAME_def)
  have receipt: "read_json out SIGNATURES_NAME = Inr ?receipt"
    by (rule layout_read [where d = 0 and s = "[CHR 0x0A]", OF files(2) _ indent_dumps.layout_reader_axioms ascii_layouts(2)
          signing_printable [OF apart]])
      (simp_all add: new_file_def dumps_indent_def)
  have "signed_unchanged tools source out (content secret) (content pub) (map signed_row packages) n"
    if n: "n \<in> set (glob_apk source)" for n
  proof -
    obtain p where p: "p \<in> set packages" "sp_name p = n" using n unfolding names [symmetric] by auto
    have "lookup_file out n = Some (new_file (sp_bytes p))"
      unfolding lookup_file_def out directory.simps p(2) [symmetric] by (rule map_of_signed [OF apart p(1)])
    moreover have "map_of (map signed_row packages) n = Some (snd (signed_row p))"
      using map_of_signed [OF apart p(1), of "\<lambda>p. snd (signed_row p)" "[]"] p(2) by (simp add: signed_row_def [abs_def])
    moreover have "signed_from tools source (content secret) (content pub) p"
      using signed_packages [OF r(6,1)] p(1) by (simp add: list_all_iff)
    ultimately show ?thesis
      using p(2) unfolding signed_unchanged_def signed_from_def by (auto simp: signed_row_def)
  qed
  then have each: "list_all (signed_unchanged tools source out (content secret) (content pub) (map signed_row packages)) (glob_apk source)"
    by (simp add: list_all_iff)
  show ?thesis
    by (rule exI [of _ secret], rule exI [of _ pub], rule exI [of _ ?receipt], rule exI [of _ "map signed_row packages"], intro conjI)
      (use r files receipt each names in \<open>simp_all add: out signing_record_def signed_row_def comp_def\<close>)
qed

text \<open>Two packages and a note, signed by appending the key.\<close>

definition toy_signer :: sign_tools where
  "toy_signer = \<lparr>pub_out = (\<lambda>k. Inr (k @ [0])), adb_sign = (\<lambda>k b. Inr (b @ 255 # k)),
     adb_verify = (\<lambda>keys b. if keys = [(PUBLIC_NAME, tl (dropWhile (\<lambda>x. x \<noteq> 255) b) @ [0])] then Inr [] else Inl OSError),
     adb_reset = (\<lambda>b. Inr (takeWhile (\<lambda>x. x \<noteq> 255) b)), adb_version = Inr (encode_ascii ''apk-tools 3.0.5'')\<rparr>"

definition unsigned_dir :: directory where
  "unsigned_dir = \<lparr>dir_perm = 493, entries = [(''b.apk'', new_file [1, 2]), (''note.txt'', new_file [9]), (''a.apk'', new_file [3])]\<rparr>"

definition key_dir :: directory where
  "key_dir = \<lparr>dir_perm = 448, entries = [(''signing.key'', (new_file [7])\<lparr>perm := 384\<rparr>), (''signing.pem'', new_file [7, 0])]\<rparr>"

definition signed_dir :: directory where
  "signed_dir = (case sign_apks toy_signer unsigned_dir False (key_dir, ''signing.key'') (key_dir, ''signing.pem'') of
     Inr out \<Rightarrow> out | Inl e \<Rightarrow> unsigned_dir)"

lemma unsigned_glob: "glob_apk unsigned_dir = [''a.apk'', ''b.apk'']"
  by code_simp

lemma toy_signs: "sign_apks toy_signer unsigned_dir False (key_dir, ''signing.key'') (key_dir, ''signing.pem'') = Inr signed_dir"
proof -
  have "\<exists>v. decode_ascii (encode_ascii ''apk-tools 3.0.5'') = Inr v" by (rule exI) code_simp
  moreover have "lookup_file unsigned_dir ''a.apk'' = Some (new_file [3])" "lookup_file unsigned_dir ''b.apk'' = Some (new_file [1, 2])"
    by (simp_all add: lookup_file_def unsigned_dir_def)
  moreover have "lookup_file key_dir ''signing.key'' = Some ((new_file [7])\<lparr>perm := 384\<rparr>)" "lookup_file key_dir ''signing.pem'' = Some (new_file [7, 0])"
    by (simp_all add: lookup_file_def key_dir_def)
  ultimately have "\<exists>out. sign_apks toy_signer unsigned_dir False (key_dir, ''signing.key'') (key_dir, ''signing.pem'') = Inr out"
    by (auto simp: sign_apks_def Let_def package_names_def unsigned_glob signing_inputs_def plain_file_def lstat_def path_bytes_def
        read_bytes_def toy_signer_def sign_package_def guard_simps new_file_def)
  then show ?thesis by (auto simp: signed_dir_def)
qed

theorem signing_preserves_witness:
  "map fst (entries signed_dir) = [''a.apk'', ''b.apk'', ''foxhole-openwrt-apk.pem'', ''APK-SIGNATURES.json''] \<and>
   lookup_file signed_dir ''foxhole-openwrt-apk.pem'' = Some (new_file [7, 0])"
proof -
  have "distinct (map fst (entries unsigned_dir))" by code_simp
  from signing_preserves [OF toy_signs this] show ?thesis
    by (auto simp: unsigned_glob PUBLIC_NAME_def SIGNATURES_NAME_def plain_file_def lookup_file_def key_dir_def new_file_def
        split: if_splits)
qed

section \<open>What staging and the candidate check leave\<close>

definition source_bytes :: "directory \<Rightarrow> string \<Rightarrow> bytes" where
  "source_bytes source n = (case lookup_file source n of None \<Rightarrow> [] | Some e \<Rightarrow> content e)"

definition staged_file :: "directory \<Rightarrow> string \<times> package \<Rightarrow> string \<times> bytes" where
  "staged_file source row = (asset_name (pkg_sha256 (snd row)), source_bytes source (fst row))"

definition stage_admits :: "hash_fun \<Rightarrow> directory \<Rightarrow> string \<times> package \<Rightarrow> bool" where
  "stage_admits hash source row \<longleftrightarrow>
     (case lookup_file source (fst row) of None \<Rightarrow> False | Some e \<Rightarrow> hash (content e) = pkg_sha256 (snd row))"

interpretation staging: unique_loop fst "staged_file source" "stage_asset hash source" "stage_admits hash source" for hash source
  by unfold_locales
    (auto simp: stage_asset_def Let_def ok_iff staged_file_def stage_admits_def source_bytes_def split: option.splits)

text \<open>Every staged file holds the bytes of its package under the name of their digest, and no two share a name.\<close>

lemma staged_by_digest:
  assumes "stage_assets hash apk source taken variant = Inr out"
  shows "\<exists>records. map_res (\<lambda>n. metadata hash apk (source, n)) (glob_apk source) = Inr records \<and> distinct (map pkg_name records) \<and>
    butlast out = map (staged_file source) (zip (glob_apk source) records) \<and> distinct (map fst (butlast out)) \<and>
    list_all (\<lambda>f. fst f = asset_name (hash (snd f))) (butlast out)"
proof -
  from assms obtain records files where r: "map_res (\<lambda>n. metadata hash apk (source, n)) (glob_apk source) = Inr records"
      "distinct (map pkg_name records)" "fold_res (stage_asset hash source) (zip (glob_apk source) records) [] = Inr files"
      "butlast out = files"
    by (auto simp: stage_assets_def Let_def bnd_Inr_iff ex_unit_iff refuse_Inr_iff)
  from r(3) have files: "list_all (stage_admits hash source) (zip (glob_apk source) records)" "distinct (map fst files)"
      "files = map (staged_file source) (zip (glob_apk source) records)"
    by (auto simp: staging.run_iff)
  have "list_all (\<lambda>f. fst f = asset_name (hash (snd f))) files"
    using files(1) unfolding files(3) list.pred_map
    by (rule list.pred_mono_strong) (auto simp: stage_admits_def staged_file_def source_bytes_def split: option.splits)
  with r files show ?thesis by auto
qed

definition candidate_admits :: "directory \<Rightarrow> string \<Rightarrow> bool" where
  "candidate_admits source line \<longleftrightarrow> rmatch candidate_rx line \<and> drop 66 line \<in> set PAYLOAD \<and>
     (case lookup_file source (drop 66 line) of None \<Rightarrow> False | Some e \<Rightarrow> sha256_hex (content e) = take 64 line)"

interpretation candidate_rows: unique_loop id "drop 66" "candidate_line source" "candidate_admits source" for source
  by unfold_locales (auto simp: candidate_line_def Let_def ok_iff candidate_admits_def split: option.splits)

text \<open>An accepted candidate has one line per payload file, with its digest, in a manifest its record anchors.\<close>

lemma candidate_listed:
  assumes "verify_candidate candidate source installer main_commit tree = Inr release"
  shows "\<exists>e lines. lookup_file source ''SHA256SUMS'' = Some e \<and>
    sub release ''candidate_manifest_sha256'' = Inr (JStr (sha256_hex (content e))) \<and> decode_ascii (content e) = Inr lines \<and>
    list_all (candidate_admits source) (splitlines lines) \<and> distinct (map (drop 66) (splitlines lines)) \<and>
    drop 66 ` set (splitlines lines) = set PAYLOAD \<and> fst ` set (entries source) = insert ''SHA256SUMS'' (set PAYLOAD) \<and>
    read_bytes source ''install.sh'' = Inr installer"
proof -
  note facts = assms [unfolded verify_candidate_def bnd_Inr_iff ex_unit_iff refuse_Inr_iff]
  obtain raw seen lines b where r: "fst ` set (entries source) = set (PAYLOAD @ [''SHA256SUMS''])"
      "read_bytes source ''SHA256SUMS'' = Inr raw" "sub release ''candidate_manifest_sha256'' = Inr (JStr (sha256_hex raw))"
      "decode_ascii raw = Inr lines" "fold_res (candidate_line source) (splitlines lines) [] = Inr seen" "set seen = set PAYLOAD"
      "read_bytes source ''install.sh'' = Inr b" "b = installer"
    using facts by (auto simp: lift_res_Inr_iff ex_Inr_bool)
  then show ?thesis
    by (auto simp: read_bytes_iff candidate_rows.run_iff)
qed
end
