(* ===== verification/Compact_Verify.thy ===== *)
theory Compact_Verify
  imports Compact_Bundle Engine_Catalog Json_Layout
begin

text \<open>
  compact-install-bundle.py, \<open>verify_payloads\<close>, \<open>verify\<close> and \<open>main\<close>: the bundle is checked against its signed payloads. The
  engine catalogs of all platforms are merged, each control package must embed its catalog, the merged catalog must be what
  build-engine-catalog.py generates from the packages, and every selection the installer offers is planned,
  authenticated and covered by the package universe. The planner (ucode) is the parameter \<open>plan\<close>; the catalog generator is
  called on its model. Symbolic links inside an extracted package are not followed.
\<close>

section \<open>Native tools\<close>

definition native :: "(bytes \<times> bytes) res \<Rightarrow> bytes res" where
  "native result =
     bnd result (\<lambda>(out, err).
     bnd (refuse [Inr (8388608 < length out), Inr (1048576 < length err), Inr (has_part (encode_ascii ''ERROR:'') out),
                  Inr (has_part (encode_ascii ''ERROR:'') err)] ''Native compact artifact validation refused'') (\<lambda>_.
     Inr out))"

section \<open>The merged engine catalog\<close>

type_synonym engine_key = "json list"

definition entry_key :: "json \<Rightarrow> engine_key res" where
  "entry_key entry =
     bnd (map_res (sub entry) [''id'', ''storage'', ''architecture'']) (\<lambda>ks.
     if list_all hashable ks then Inr (map canon ks) else Inl TypeError)"

fun put_entry :: "engine_key \<Rightarrow> json \<Rightarrow> (engine_key \<times> json) list \<Rightarrow> (engine_key \<times> json) list" where
  "put_entry k v [] = [(k, v)]"
| "put_entry k v ((k', v') # kvs) = (if k = k' then (k, v) # kvs else (k', v') # put_entry k v kvs)"

definition add_name :: "'a \<Rightarrow> 'a list \<Rightarrow> 'a list" where
  "add_name x xs = (if x \<in> set xs then xs else xs @ [x])"

definition add_value :: "json \<Rightarrow> json list \<Rightarrow> json list res" where
  "add_value v s = (if hashable v then Inr (add_name (canon v) s) else Inl TypeError)"

record merged_state =
  ps_entries :: "(engine_key \<times> json) list"
  ps_archives :: "string list"
  ps_indexes :: "json list"
  ps_bases :: "string list"

text \<open>The one index of the universe that an entry names; its file joins the indexes.\<close>

definition index_of :: "string \<Rightarrow> json \<Rightarrow> json \<Rightarrow> json list \<Rightarrow> json list res" where
  "index_of msg universe entry indexes =
     bnd (bnd (sub universe ''repositoryIndexes'') iter) (\<lambda>rows.
     bnd (filter_res (\<lambda>row. bnd (sub row ''sha256'') (\<lambda>a. lift_res (py_eq a) (sub entry ''indexSha256''))) rows) (\<lambda>matches.
     bnd (refuse [Inr (length matches \<noteq> 1), bnd (sub (hd matches) ''sourceUrl'') (\<lambda>a. lift_res (py_ne a) (sub entry ''indexUrl''))] msg) (\<lambda>_.
     bnd (sub (hd matches) ''file'') (\<lambda>f. add_value f indexes))))"

definition engine_payload :: "json \<Rightarrow> json \<times> string \<Rightarrow> merged_state \<Rightarrow> merged_state res" where
  "engine_payload universe row st =
     bnd (entry_key (fst row)) (\<lambda>key.
     bnd (refuse [Inr (case map_of (ps_entries st) key of None \<Rightarrow> False | Some e \<Rightarrow> py_ne e (fst row))] ''Conflicting engine catalogs'') (\<lambda>_.
     bnd (index_of ''Global engine artifact index identity differs'' universe (fst row) (ps_indexes st)) (\<lambda>indexes.
     Inr (st\<lparr>ps_entries := put_entry key (fst row) (ps_entries st), ps_archives := add_name (snd row) (ps_archives st),
             ps_indexes := indexes\<rparr>))))"

definition client_payload :: "directory \<Rightarrow> string \<Rightarrow> string \<Rightarrow> json \<Rightarrow> json \<Rightarrow> merged_state \<Rightarrow> merged_state res" where
  "client_payload dir core_commit core_source universe client st =
     bnd (sub client ''entry'') (\<lambda>entry.
     bnd (bnd (bnd (sub client ''producer'') (\<lambda>p. sub p ''file'')) (\<lambda>f. compact_document dir f 131072)) (\<lambda>producer.
     bnd (refuse [lift_res (\<lambda>x. x \<noteq> JStr core_commit) (get producer ''sourceCommit''),
                  lift_res (\<lambda>x. x \<noteq> JStr core_source) (get producer ''sourceSha256'')]
            ''Actual current native module source required'') (\<lambda>_.
     bnd (bnd (sub entry ''packageUrl'') as_str) (\<lambda>url.
     bnd (compact_asset dir (JStr (last_segment url)) 134217728) (\<lambda>archive.
     bnd (index_of ''Engine index identity differs'' universe entry (ps_indexes st)) (\<lambda>indexes.
     Inr (st\<lparr>ps_archives := add_name archive (ps_archives st), ps_indexes := indexes\<rparr>)))))))"

text \<open>The control package of a platform, verified with the release key and extracted, embeds the platform's catalog.\<close>

definition CATALOG_MEMBER :: "string list" where
  "CATALOG_MEMBER = [''usr'', ''share'', ''foxhole'', ''engine-catalog.json'']"

definition LAYOUT_MEMBER :: "string list" where
  "LAYOUT_MEMBER = [''usr'', ''share'', ''foxhole'', ''engine-package-layout.uc'']"

definition member_sha :: "extracted \<Rightarrow> string list \<Rightarrow> string res" where
  "member_sha tree p = (case map_of tree p of
     None \<Rightarrow> Inl (ValueError ''Independent regular compact release asset required'')
   | Some e \<Rightarrow> if ftype e \<noteq> Regular \<or> nlink e \<noteq> 1 then Inl (ValueError ''Independent regular compact release asset required'')
               else Inr (sha256_hex (content e)))"

definition base_payload :: "apk_tool \<Rightarrow> directory \<Rightarrow> named_files \<Rightarrow> json \<Rightarrow> merged_state \<Rightarrow> merged_state res" where
  "base_payload apk dir own_keys platform st =
     bnd (bnd (bnd (sub platform ''basePackage'') (\<lambda>b. sub b ''file'')) (\<lambda>f. compact_asset dir f 536870912)) (\<lambda>panel.
     bnd (bnd (sub platform ''id'') as_str) (\<lambda>ident.
     bnd (if CHR ''/'' \<in> set ident \<or> ident \<in> set (ps_bases st) then Inl OSError else Inr ()) (\<lambda>_.
     bnd (read_bytes dir panel) (\<lambda>raw.
     bnd (native (apk_verify apk own_keys raw)) (\<lambda>_.
     bnd (apk_extract apk False raw) (\<lambda>tree.
     bnd (refuse [bnd (member_sha tree CATALOG_MEMBER) (\<lambda>h. lift_res (\<lambda>x. JStr h \<noteq> x) (bnd (sub platform ''engineCatalog'') (\<lambda>p. sub p ''sha256'')))]
            ''Control base embeds a different engine catalog'') (\<lambda>_.
     bnd (refuse [Inr (case map_of tree LAYOUT_MEMBER of Some e \<Rightarrow> ftype e \<noteq> Regular | None \<Rightarrow> True)]
            ''Control base lacks the current strict package format validator'') (\<lambda>_.
     Inr (st\<lparr>ps_bases := ps_bases st @ [ident]\<rparr>)))))))))"

definition platform_payload :: "apk_tool \<Rightarrow> directory \<Rightarrow> named_files \<Rightarrow> string \<Rightarrow> string \<Rightarrow> json \<Rightarrow> merged_state \<Rightarrow> merged_state res" where
  "platform_payload apk dir own_keys core_commit core_source platform st =
     bnd (bnd (bnd (sub platform ''engineCatalog'') (\<lambda>p. sub p ''file'')) (\<lambda>f. compact_document dir f 524288)) (\<lambda>catalog.
     bnd (refuse [not_res (has_keys catalog [''schema'', ''entries'']), lift_res (\<lambda>x. py_ne x (JInt 1)) (sub catalog ''schema'')]
            ''Strict engine catalog required'') (\<lambda>_.
     bnd (bnd (bnd (sub platform ''packageUniverse'') (\<lambda>p. sub p ''file'')) (\<lambda>f. compact_document dir f 2097152)) (\<lambda>universe.
     bnd (engine_artifact_rows dir platform) (\<lambda>rows.
     bnd (fold_res (engine_payload universe) rows st) (\<lambda>st1.
     bnd (bnd (sub platform ''clients'') iter) (\<lambda>clients.
     bnd (fold_res (client_payload dir core_commit core_source universe) clients st1) (\<lambda>st2.
     base_payload apk dir own_keys platform st2)))))))"

definition collect_payloads :: "apk_tool \<Rightarrow> directory \<Rightarrow> named_files \<Rightarrow> string \<Rightarrow> string \<Rightarrow> json \<Rightarrow> merged_state res" where
  "collect_payloads apk dir own_keys core_commit core_source catalog =
     bnd (bnd (sub catalog ''platforms'') iter) (\<lambda>platforms.
     bnd (fold_res (platform_payload apk dir own_keys core_commit core_source) platforms
            \<lparr>ps_entries = [], ps_archives = [], ps_indexes = [], ps_bases = []\<rparr>) (\<lambda>st.
     bnd (refuse [Inr (length (ps_indexes st) \<noteq> 1)] ''One exact canonical engine-only index required'') (\<lambda>_.
     Inr st)))"

text \<open>Two dicts are equal; the dict of the generated entries.\<close>

definition dict_equal :: "(engine_key \<times> json) list \<Rightarrow> (engine_key \<times> json) list \<Rightarrow> bool" where
  "dict_equal a b \<longleftrightarrow> fst ` set a = fst ` set b \<and>
     list_all (\<lambda>(k, v). case map_of b k of None \<Rightarrow> False | Some w \<Rightarrow> py_eq v w) a"

definition by_key :: "json list \<Rightarrow> (engine_key \<times> json) list res" where
  "by_key rows = fold_res (\<lambda>row acc. bnd (entry_key row) (\<lambda>k. Inr (put_entry k row acc))) rows []"

definition verify_payloads :: "apk_tool \<Rightarrow> directory \<Rightarrow> named_files \<Rightarrow> int \<Rightarrow> string \<Rightarrow> string \<Rightarrow> json \<Rightarrow> unit res" where
  "verify_payloads apk dir own_keys uid core_commit core_source catalog =
     bnd (collect_payloads apk dir own_keys core_commit core_source catalog) (\<lambda>st.
     bnd (bnd (compact_asset dir (hd (ps_indexes st)) 8388608) (read_bytes dir)) (\<lambda>index.
     bnd (catalog_release_version (map snd (ps_entries st))) (\<lambda>version.
     bnd (engine_catalog sha256_hex apk (dir, ''foxhole-openwrt-apk.pem'')
            (\<lparr>dir_perm = 448, entries = [(''engines.adb'', new_file index)]\<rparr>, ''engines.adb'')
            (map (Pair dir) (ps_archives st)) core_commit core_source (Some version) uid False) (\<lambda>regenerated.
     bnd (loads regenerated) (\<lambda>actual.
     bnd (bnd (bnd (sub actual ''entries'') iter) by_key) (\<lambda>generated.
     refuse [Inr (\<not> dict_equal generated (ps_entries st))]
       ''Engine catalog differs from signed native payloads and legal notices''))))))"

section \<open>What the merged catalog holds\<close>

text \<open>
  A loop whose state only grows: what one round establishes for its element stays true of every later state.
\<close>

locale growing_loop =
  fixes body :: "'a \<Rightarrow> 's \<Rightarrow> 's res" and below :: "'s \<Rightarrow> 's \<Rightarrow> bool" and holds :: "'a \<Rightarrow> 's \<Rightarrow> bool"
  assumes below_refl: "below s s"
    and below_trans: "below s t \<Longrightarrow> below t u \<Longrightarrow> below s u"
    and grows: "body x s = Inr t \<Longrightarrow> below s t"
    and establishes: "body x s = Inr t \<Longrightarrow> holds x t"
    and stays: "holds x s \<Longrightarrow> below s t \<Longrightarrow> holds x t"
begin

lemma run_grows: "fold_res body xs s = Inr t \<Longrightarrow> below s t"
proof (induction xs arbitrary: s)
  case Nil
  then show ?case by (simp add: below_refl)
next
  case (Cons x xs)
  then obtain u where "body x s = Inr u" "fold_res body xs u = Inr t" by (auto simp: bnd_Inr_iff)
  then show ?case using grows below_trans Cons.IH by blast
qed

lemma run_holds: "fold_res body xs s = Inr t \<Longrightarrow> list_all (\<lambda>x. holds x t) xs"
proof (induction xs arbitrary: s)
  case (Cons x xs)
  then obtain u where u: "body x s = Inr u" "fold_res body xs u = Inr t" by (auto simp: bnd_Inr_iff)
  have "holds x t" by (rule stays [OF establishes [OF u(1)] run_grows [OF u(2)]])
  with Cons.IH [OF u(2)] show ?case by simp
qed simp

end

definition payload_below :: "merged_state \<Rightarrow> merged_state \<Rightarrow> bool" where
  "payload_below s t \<longleftrightarrow>
     (\<forall>k e. map_of (ps_entries s) k = Some e \<longrightarrow> (\<exists>e'. map_of (ps_entries t) k = Some e' \<and> py_eq e' e)) \<and>
     set (ps_archives s) \<subseteq> set (ps_archives t) \<and> set (ps_indexes s) \<subseteq> set (ps_indexes t) \<and> set (ps_bases s) \<subseteq> set (ps_bases t)"

lemma payload_below_refl: "payload_below s s"
  by (auto simp: payload_below_def)

lemma payload_below_trans: "payload_below s t \<Longrightarrow> payload_below t u \<Longrightarrow> payload_below s u"
  unfolding payload_below_def by (meson py_eq_trans subset_trans)

lemma map_of_put: "map_of (put_entry k v kvs) = (map_of kvs)(k \<mapsto> v)"
  by (induction kvs) (auto simp: fun_eq_iff)

lemma set_add_name: "set (add_name x xs) = insert x (set xs)"
  by (auto simp: add_name_def)

text \<open>The universe names exactly one index for an entry: its digest, its address and its file.\<close>

definition named_index :: "json \<Rightarrow> json \<Rightarrow> json \<Rightarrow> bool" where
  "named_index universe entry index \<longleftrightarrow>
     (\<exists>rows row a b c d f. bnd (sub universe ''repositoryIndexes'') iter = Inr rows \<and> row \<in> set rows \<and>
        sub row ''sha256'' = Inr a \<and> sub entry ''indexSha256'' = Inr b \<and> py_eq a b \<and>
        sub row ''sourceUrl'' = Inr c \<and> sub entry ''indexUrl'' = Inr d \<and> py_eq c d \<and>
        sub row ''file'' = Inr f \<and> canon f = index)"

lemma filter_res_mem: "filter_res f xs = Inr ys \<Longrightarrow> y \<in> set ys \<Longrightarrow> y \<in> set xs \<and> f y = Inr True"
  by (induction xs arbitrary: ys) (auto simp: bnd_Inr_iff lift_res_Inr_iff split: if_splits)

lemma index_of_named:
  assumes "index_of msg universe entry s = Inr t"
  shows "\<exists>index. index \<in> set t \<and> named_index universe entry index \<and> set t = insert index (set s)"
proof -
  obtain rows matches f where r: "bnd (sub universe ''repositoryIndexes'') iter = Inr rows"
      "filter_res (\<lambda>row. bnd (sub row ''sha256'') (\<lambda>a. lift_res (py_eq a) (sub entry ''indexSha256''))) rows = Inr matches"
      "length matches = 1" "bnd (sub (hd matches) ''sourceUrl'') (\<lambda>a. lift_res (py_ne a) (sub entry ''indexUrl'')) = Inr False"
      "sub (hd matches) ''file'' = Inr f" "t = add_name (canon f) s"
    using assms by (auto simp: index_of_def bnd_Inr_iff [of "filter_res g xs" for g xs] bnd_Inr_iff [of "refuse cs m" for cs m] bnd_Inr_iff [of "bnd m iter" for m]
        bnd_Inr_iff [of "sub v ''file''" for v] refuse_Inr_iff add_value_def split: if_splits)
  from r(3) have "hd matches \<in> set matches" by (cases matches) auto
  then have found: "hd matches \<in> set rows"
      "bnd (sub (hd matches) ''sha256'') (\<lambda>a. lift_res (py_eq a) (sub entry ''indexSha256'')) = Inr True"
    using filter_res_mem [OF r(2)] by blast+
  have "named_index universe entry (canon f)"
    unfolding named_index_def
    by (rule exI [of _ rows], rule exI [of _ "hd matches"])
      (use found r in \<open>auto simp: bnd_Inr_iff [of "sub (hd matches) k" for k] lift_res_Inr_iff\<close>)
  with r(6) show ?thesis by (auto simp: set_add_name)
qed

definition engine_collected :: "json \<Rightarrow> json \<times> string \<Rightarrow> merged_state \<Rightarrow> bool" where
  "engine_collected universe row st \<longleftrightarrow> snd row \<in> set (ps_archives st) \<and>
     (\<exists>k e. entry_key (fst row) = Inr k \<and> map_of (ps_entries st) k = Some e \<and> py_eq e (fst row)) \<and>
     (\<exists>index \<in> set (ps_indexes st). named_index universe (fst row) index)"

lemma engine_payloadD:
  assumes "engine_payload universe row s = Inr t"
  obtains k indexes where "entry_key (fst row) = Inr k" "\<forall>e. map_of (ps_entries s) k = Some e \<longrightarrow> py_eq e (fst row)"
    "index_of ''Global engine artifact index identity differs'' universe (fst row) (ps_indexes s) = Inr indexes"
    "t = s\<lparr>ps_entries := put_entry k (fst row) (ps_entries s), ps_archives := add_name (snd row) (ps_archives s), ps_indexes := indexes\<rparr>"
  using assms by (auto simp: engine_payload_def bnd_Inr_iff refuse_Inr_iff ex_unit_iff split: option.splits)

interpretation engine_loop: growing_loop "engine_payload universe" payload_below "engine_collected universe" for universe
proof
  show "payload_below s s" for s by (rule payload_below_refl)
  show "payload_below s t \<Longrightarrow> payload_below t u \<Longrightarrow> payload_below s u" for s t u by (rule payload_below_trans)
  fix row s t
  show "engine_collected universe row s \<Longrightarrow> payload_below s t \<Longrightarrow> engine_collected universe row t"
    unfolding engine_collected_def payload_below_def by (meson py_eq_trans subsetD)
  assume run: "engine_payload universe row s = Inr t"
  from run obtain k indexes where r: "entry_key (fst row) = Inr k" "\<forall>e. map_of (ps_entries s) k = Some e \<longrightarrow> py_eq e (fst row)"
      "index_of ''Global engine artifact index identity differs'' universe (fst row) (ps_indexes s) = Inr indexes"
      "t = s\<lparr>ps_entries := put_entry k (fst row) (ps_entries s), ps_archives := add_name (snd row) (ps_archives s), ps_indexes := indexes\<rparr>"
    by (rule engine_payloadD) (rule that; assumption)
  show "payload_below s t"
    using index_of_named [OF r(3)] r(2,4) by (auto simp: payload_below_def map_of_put set_add_name intro: py_eq_sym)
  show "engine_collected universe row t"
    using index_of_named [OF r(3)] r(1,4) by (auto simp: engine_collected_def map_of_put set_add_name)
qed

definition client_collected :: "directory \<Rightarrow> string \<Rightarrow> string \<Rightarrow> json \<Rightarrow> json \<Rightarrow> merged_state \<Rightarrow> bool" where
  "client_collected dir core_commit core_source universe client st \<longleftrightarrow>
     (\<exists>producer. bnd (bnd (sub client ''producer'') (\<lambda>p. sub p ''file'')) (\<lambda>f. compact_document dir f 131072) = Inr producer \<and>
        get producer ''sourceCommit'' = Inr (JStr core_commit) \<and> get producer ''sourceSha256'' = Inr (JStr core_source)) \<and>
     (\<exists>entry url. sub client ''entry'' = Inr entry \<and> sub entry ''packageUrl'' = Inr (JStr url) \<and> last_segment url \<in> set (ps_archives st) \<and>
        (\<exists>index \<in> set (ps_indexes st). named_index universe entry index))"

interpretation client_loop: growing_loop "client_payload dir core_commit core_source universe" payload_below
    "client_collected dir core_commit core_source universe" for dir core_commit core_source universe
proof
  show "payload_below s s" for s by (rule payload_below_refl)
  show "payload_below s t \<Longrightarrow> payload_below t u \<Longrightarrow> payload_below s u" for s t u by (rule payload_below_trans)
  fix client s t
  show "client_collected dir core_commit core_source universe client s \<Longrightarrow> payload_below s t \<Longrightarrow>
      client_collected dir core_commit core_source universe client t"
    unfolding client_collected_def payload_below_def by (meson subsetD)
  assume run: "client_payload dir core_commit core_source universe client s = Inr t"
  note facts = run [unfolded client_payload_def bnd_Inr_iff [of "sub client k" for k] bnd_Inr_iff [of "bnd (bnd m f) g" for m f g]
      bnd_Inr_iff [of "refuse cs m" for cs m] bnd_Inr_iff [of "bnd m as_str" for m] bnd_Inr_iff [of "compact_asset d n k" for d n k]
      bnd_Inr_iff [of "index_of m u e i" for m u e i] ex_unit_iff]
  obtain entry producer url archive indexes where r: "sub client ''entry'' = Inr entry"
      "bnd (bnd (sub client ''producer'') (\<lambda>p. sub p ''file'')) (\<lambda>f. compact_document dir f 131072) = Inr producer"
      "refuse [lift_res (\<lambda>x. x \<noteq> JStr core_commit) (get producer ''sourceCommit''),
         lift_res (\<lambda>x. x \<noteq> JStr core_source) (get producer ''sourceSha256'')] ''Actual current native module source required'' = Inr ()"
      "bnd (sub entry ''packageUrl'') as_str = Inr url" "compact_asset dir (JStr (last_segment url)) 134217728 = Inr archive"
      "index_of ''Engine index identity differs'' universe entry (ps_indexes s) = Inr indexes"
      "t = s\<lparr>ps_archives := add_name archive (ps_archives s), ps_indexes := indexes\<rparr>"
    using facts by (elim exE conjE) (rule that, assumption+, simp)
  from r(5) have archive: "archive = last_segment url" by (simp add: compact_asset_iff)
  show "payload_below s t"
    using index_of_named [OF r(6)] r(7) by (auto simp: payload_below_def set_add_name)
  show "client_collected dir core_commit core_source universe client t"
    using index_of_named [OF r(6)] r archive
    by (auto simp: client_collected_def set_add_name refuse_Inr_iff bnd_Inr_iff lift_res_Inr_iff ex_Inr_bool as_str_iff)
qed

text \<open>The control package: verified under the release key, extracted, and carrying the catalog that the platform points to.\<close>

definition base_verified :: "apk_tool \<Rightarrow> directory \<Rightarrow> named_files \<Rightarrow> json \<Rightarrow> bool" where
  "base_verified apk dir own_keys platform \<longleftrightarrow>
     (\<exists>f panel raw out tree e digest. bnd (sub platform ''basePackage'') (\<lambda>b. sub b ''file'') = Inr f \<and>
        compact_asset dir f 536870912 = Inr panel \<and> read_bytes dir panel = Inr raw \<and>
        native (apk_verify apk own_keys raw) = Inr out \<and> apk_extract apk False raw = Inr tree \<and>
        map_of tree CATALOG_MEMBER = Some e \<and> ftype e = Regular \<and>
        bnd (sub platform ''engineCatalog'') (\<lambda>p. sub p ''sha256'') = Inr digest \<and> digest = JStr (sha256_hex (content e)) \<and>
        map_of tree LAYOUT_MEMBER \<noteq> None)"

lemma base_payloadD:
  assumes "base_payload apk dir own_keys platform s = Inr t"
  shows "base_verified apk dir own_keys platform" and "payload_below s t" and "ps_entries t = ps_entries s"
proof -
  note facts = assms [unfolded base_payload_def bnd_Inr_iff [of "sub platform k" for k] bnd_Inr_iff [of "compact_asset d n k" for d n k]
      bnd_Inr_iff [of "bnd m as_str" for m] bnd_Inr_iff [of "if b then x else y" for b x y] bnd_Inr_iff [of "read_bytes d n" for d n]
      bnd_Inr_iff [of "native r" for r] bnd_Inr_iff [of "apk_extract a b r" for a b r] bnd_Inr_iff [of "refuse cs m" for cs m]
      bnd_Inr_iff [of "bnd (bnd m f) g" for m f g] ex_unit_iff]
  obtain panel ident raw out tree where r: "bnd (bnd (sub platform ''basePackage'') (\<lambda>b. sub b ''file'')) (\<lambda>f. compact_asset dir f 536870912) = Inr panel"
      "read_bytes dir panel = Inr raw" "native (apk_verify apk own_keys raw) = Inr out" "apk_extract apk False raw = Inr tree"
      "refuse [bnd (member_sha tree CATALOG_MEMBER) (\<lambda>h. lift_res (\<lambda>x. JStr h \<noteq> x) (bnd (sub platform ''engineCatalog'') (\<lambda>p. sub p ''sha256'')))]
         ''Control base embeds a different engine catalog'' = Inr ()"
      "refuse [Inr (case map_of tree LAYOUT_MEMBER of Some e \<Rightarrow> ftype e \<noteq> Regular | None \<Rightarrow> True)]
         ''Control base lacks the current strict package format validator'' = Inr ()"
      "t = s\<lparr>ps_bases := ps_bases s @ [ident]\<rparr>"
    using facts by (auto split: if_splits)
  from r(5) obtain h where h: "member_sha tree CATALOG_MEMBER = Inr h"
      "bnd (sub platform ''engineCatalog'') (\<lambda>p. sub p ''sha256'') = Inr (JStr h)"
    by (auto simp: refuse_Inr_iff bnd_Inr_iff [of "member_sha u v" for u v] lift_res_Inr_iff)
  from r(1) obtain f where f: "bnd (sub platform ''basePackage'') (\<lambda>b. sub b ''file'') = Inr f" "compact_asset dir f 536870912 = Inr panel"
    unfolding bnd_Inr_iff [of "bnd m g" for m g] by blast
  from h(1) obtain e where e: "map_of tree CATALOG_MEMBER = Some e" "ftype e = Regular" "h = sha256_hex (content e)"
    by (auto simp: member_sha_def split: option.splits if_splits)
  have "map_of tree LAYOUT_MEMBER \<noteq> None" using r(6) by (auto simp: refuse_Inr_iff split: option.splits)
  with f r(2,3,4) e h(2) show "base_verified apk dir own_keys platform" unfolding base_verified_def by blast
  show "payload_below s t" "ps_entries t = ps_entries s"
    using r(7) payload_below_refl [of s] by (auto simp: payload_below_def)
qed

definition platform_collected :: "apk_tool \<Rightarrow> directory \<Rightarrow> named_files \<Rightarrow> string \<Rightarrow> string \<Rightarrow> json \<Rightarrow> merged_state \<Rightarrow> bool" where
  "platform_collected apk dir own_keys core_commit core_source platform st \<longleftrightarrow>
     (\<exists>universe rows clients. bnd (bnd (sub platform ''packageUniverse'') (\<lambda>p. sub p ''file'')) (\<lambda>f. compact_document dir f 2097152) = Inr universe \<and>
        engine_artifact_rows dir platform = Inr rows \<and> list_all (\<lambda>row. engine_collected universe row st) rows \<and>
        bnd (sub platform ''clients'') iter = Inr clients \<and>
        list_all (\<lambda>client. client_collected dir core_commit core_source universe client st) clients) \<and>
     base_verified apk dir own_keys platform"

interpretation platform_loop: growing_loop "platform_payload apk dir own_keys core_commit core_source" payload_below
    "platform_collected apk dir own_keys core_commit core_source" for apk dir own_keys core_commit core_source
proof
  show "payload_below s s" for s by (rule payload_below_refl)
  show "payload_below s t \<Longrightarrow> payload_below t u \<Longrightarrow> payload_below s u" for s t u by (rule payload_below_trans)
  fix platform s t
  show "platform_collected apk dir own_keys core_commit core_source platform s \<Longrightarrow> payload_below s t \<Longrightarrow>
      platform_collected apk dir own_keys core_commit core_source platform t"
    unfolding platform_collected_def list_all_iff by (meson engine_loop.stays client_loop.stays)
  assume run: "platform_payload apk dir own_keys core_commit core_source platform s = Inr t"
  note facts = run [unfolded platform_payload_def bnd_Inr_iff [of "bnd (bnd m f) g" for m f g] bnd_Inr_iff [of "refuse cs m" for cs m]
      bnd_Inr_iff [of "engine_artifact_rows d p" for d p] bnd_Inr_iff [of "fold_res f xs u" for f xs u]
      bnd_Inr_iff [of "bnd (sub platform ''clients'') iter"] ex_unit_iff]
  obtain universe rows s1 clients s2 where r: "bnd (bnd (sub platform ''packageUniverse'') (\<lambda>p. sub p ''file'')) (\<lambda>f. compact_document dir f 2097152) = Inr universe"
      "engine_artifact_rows dir platform = Inr rows" "fold_res (engine_payload universe) rows s = Inr s1"
      "bnd (sub platform ''clients'') iter = Inr clients" "fold_res (client_payload dir core_commit core_source universe) clients s1 = Inr s2"
      "base_payload apk dir own_keys platform s2 = Inr t"
    using facts by (elim exE conjE) (rule that, assumption+)
  have below: "payload_below s s1" "payload_below s1 s2" "payload_below s2 t"
    using engine_loop.run_grows [OF r(3)] client_loop.run_grows [OF r(5)] base_payloadD(2) [OF r(6)] by blast+
  then show "payload_below s t" by (meson payload_below_trans)
  have after: "payload_below s1 t" using below(2,3) by (rule payload_below_trans)
  have "list_all (\<lambda>row. engine_collected universe row t) rows"
    using engine_loop.run_holds [OF r(3)] engine_loop.stays [OF _ after] by (auto simp: list_all_iff)
  moreover have "list_all (\<lambda>client. client_collected dir core_commit core_source universe client t) clients"
    using client_loop.run_holds [OF r(5)] client_loop.stays [OF _ below(3)] by (auto simp: list_all_iff)
  ultimately show "platform_collected apk dir own_keys core_commit core_source platform t"
    unfolding platform_collected_def using r(1,2,4) base_payloadD(1) [OF r(6)] by blast
qed

text \<open>
  C39. The merged engine catalog of a bundle is consistent and signed: when the payloads of all platforms have been collected, every entry
  of every platform's engine catalog is in the merged one, up to the equality of values, under its protocol, storage and
  architecture; its archive and the archive of every client are collected; each client's producer was built from the given
  commit and source; all entries and clients name one and the same index, by digest and address; and the
  control package of every platform verifies under the release key and embeds exactly the catalog
  the platform points to.
\<close>

theorem payloads_collected:
  assumes "collect_payloads apk dir own_keys core_commit core_source catalog = Inr st"
  shows "\<exists>platforms index. bnd (sub catalog ''platforms'') iter = Inr platforms \<and> ps_indexes st = [index] \<and>
    list_all (\<lambda>platform. platform_collected apk dir own_keys core_commit core_source platform st) platforms"
proof -
  from assms obtain platforms where r: "bnd (sub catalog ''platforms'') iter = Inr platforms" "length (ps_indexes st) = 1"
      "fold_res (platform_payload apk dir own_keys core_commit core_source) platforms
        \<lparr>ps_entries = [], ps_archives = [], ps_indexes = [], ps_bases = []\<rparr> = Inr st"
    by (auto simp: collect_payloads_def bnd_Inr_iff [of "bnd m iter" for m] bnd_Inr_iff [of "fold_res f xs u" for f xs u]
        bnd_Inr_iff [of "refuse cs m" for cs m] refuse_Inr_iff)
  from r(2) obtain index where "ps_indexes st = [index]" by (auto simp: length_Suc_conv)
  with r(1) platform_loop.run_holds [OF r(3)] show ?thesis by blast
qed

text \<open>The bundle of Compact_Bundle, with a tool that verifies everything and a control package that embeds the catalog.\<close>

definition control_tree :: extracted where
  "control_tree = [(CATALOG_MEMBER, new_file (doc_text engines_doc)), (LAYOUT_MEMBER, new_file [35])]"

definition control_apk :: apk_tool where
  "control_apk = \<lparr>apk_verify = (\<lambda>keys raw. Inr ([], [])), apk_dump = (\<lambda>raw. Inl OSError), apk_extract = (\<lambda>dev raw. Inr control_tree),
     apk_initdb = (\<lambda>w. Inl OSError), apk_query = (\<lambda>w r. Inl OSError), apk_fetch = (\<lambda>w r. Inl OSError), apk_simulate = (\<lambda>w r. Inl OSError)\<rparr>"

definition collected :: merged_state where
  "collected = \<lparr>ps_entries = [([JStr ''vless'', JStr ''FLASH'', JStr ''x86_64''], entry_doc)], ps_archives = [''a-1.apk''],
     ps_indexes = [JStr ''engines.adb''], ps_bases = [''x86'']\<rparr>"

lemma control_platform:
  "platform_payload control_apk compact_dir keys commit source platform_doc
     \<lparr>ps_entries = [], ps_archives = [], ps_indexes = [], ps_bases = []\<rparr> = Inr collected"
proof -
  have catalog: "has_keys engines_doc [''schema'', ''entries''] = Inr True" "sub engines_doc ''schema'' = Inr (JInt 1)"
    by (simp_all add: engines_doc_def has_keys_def)
  have entry: "entry_key entry_doc = Inr [JStr ''vless'', JStr ''FLASH'', JStr ''x86_64'']"
    by (simp add: entry_key_def entry_doc_def)
  have index: "index_of msg universe_doc entry_doc [] = Inr [JStr ''engines.adb'']" for msg
    by (simp add: index_of_def universe_doc_def entry_doc_def add_value_def add_name_def guard_simps)
  have base: "sub platform_doc ''basePackage'' = Inr (JObj [(''file'', JStr ''a-1.apk'')])" "sub platform_doc ''id'' = Inr (JStr ''x86'')"
    by (simp_all add: platform_doc_def)
  have raw: "read_bytes compact_dir ''a-1.apk'' = Inr [1, 2]"
    by (simp add: read_bytes_def lstat_def compact_lookups new_file_def)
  have digest: "member_sha control_tree CATALOG_MEMBER = Inr (sha256_hex (doc_text engines_doc))" "map_of control_tree LAYOUT_MEMBER = Some (new_file [35])"
    by (simp_all add: member_sha_def control_tree_def CATALOG_MEMBER_def LAYOUT_MEMBER_def new_file_def)
  have tool: "native (apk_verify control_apk keys [1, 2]) = Inr []" "apk_extract control_apk False [1, 2] = Inr control_tree"
    by (simp_all add: native_def control_apk_def guard_simps encode_ascii_def)
  show ?thesis
    by (simp add: platform_payload_def platform_fields pointer_fields compact_docs catalog compact_rows engine_payload_def entry index
        base_payload_def base compact_assets raw digest tool collected_def add_name_def guard_simps) (simp add: new_file_def)
qed

theorem payloads_collected_witness:
  "platform_collected control_apk compact_dir [] ''c'' ''s'' platform_doc collected \<and> base_verified control_apk compact_dir [] platform_doc"
proof -
  have "collect_payloads control_apk compact_dir [] ''c'' ''s'' catalog_doc = Inr collected"
    by (simp add: collect_payloads_def catalog_doc_def control_platform) (simp add: collected_def guard_simps)
  from payloads_collected [OF this] show ?thesis
    by (auto simp: catalog_doc_def platform_collected_def)
qed

section \<open>The whole verification\<close>

text \<open>
  Of the selections the installer offers: the distinct values of a key of the clients, those of one mode, and the number of
  plans of a platform. \<open>{... for client in clients}\<close> raises when a value has no hash.
\<close>

definition value_set :: "json list \<Rightarrow> json list res" where
  "value_set vs = (if list_all hashable vs then Inr (remdups (map canon vs)) else Inl TypeError)"

definition client_modes :: "json \<Rightarrow> json list res" where
  "client_modes platform =
     bnd (bnd (sub platform ''clients'') iter) (\<lambda>clients. bnd (map_res (\<lambda>c. sub c ''storage'') clients) value_set)"

definition mode_clients :: "json \<Rightarrow> json \<Rightarrow> json list res" where
  "mode_clients platform mode =
     bnd (bnd (sub platform ''clients'') iter) (\<lambda>clients.
     bnd (filter_res (\<lambda>c. lift_res (\<lambda>s. py_eq s mode) (sub c ''storage'')) clients) (\<lambda>found.
     bnd (map_res (\<lambda>c. sub c ''id'') found) value_set))"

text \<open>\<open>(platform.get('server') or {}).get('modes', {}).get(mode)\<close>, as a truth value.\<close>

definition server_offered :: "json \<Rightarrow> json \<Rightarrow> bool res" where
  "server_offered platform mode =
     bnd (get platform ''server'') (\<lambda>server.
     bnd (get_or (if truthy server then server else JObj []) ''modes'' (JObj [])) (\<lambda>modes.
     case mode of JStr m \<Rightarrow> lift_res truthy (get modes m) | _ \<Rightarrow> lift_res (\<lambda>_. False) (keys_of modes)))"

definition platform_cases :: "json \<Rightarrow> nat res" where
  "platform_cases platform =
     bnd (client_modes platform) (\<lambda>modes.
     lift_res sum_list (map_res (\<lambda>mode.
       bnd (mode_clients platform mode) (\<lambda>ids.
       bnd (bnd (sub platform ''supportedOpenWrt'') len) (\<lambda>releases.
       bnd (server_offered platform mode) (\<lambda>server.
       Inr ((length ids + (if 1 < length ids then 1 else 0)) * releases * (if server then 2 else 1)))))) modes))"

text \<open>One call of the planner, \<open>install-compact-plan.uc budget\<close>.\<close>

record plan_request =
  pl_bundle :: directory
  pl_arch :: string
  pl_release :: string
  pl_selected :: "string list"
  pl_development :: bool
  pl_target :: string
  pl_mode :: string
  pl_server :: bool

type_synonym planner = "plan_request \<Rightarrow> (bytes \<times> bytes) res"

definition selections_of :: "json list \<Rightarrow> json list res" where
  "selections_of ids =
     bnd (bnd (py_sorted (JArr ids)) iter) (\<lambda>available.
     bnd (py_sorted (JArr (remdups (map (\<lambda>i. JArr [i]) available @ [JArr available])))) iter)"

definition planned_budget :: "planner \<Rightarrow> directory \<Rightarrow> bool \<Rightarrow> json \<Rightarrow> json \<Rightarrow> json \<Rightarrow> json \<Rightarrow> bool \<Rightarrow> json res" where
  "planned_budget plan dir development platform mode release selected server =
     bnd (bnd (sub platform ''architecture'') as_str) (\<lambda>arch. bnd (as_str release) (\<lambda>rel.
     bnd (bnd (iter selected) (map_res as_str)) (\<lambda>names.
     bnd (bnd (sub platform ''supportedTargets'') iter) (\<lambda>targets.
     bnd (case targets of [] \<Rightarrow> Inl IndexError | t # ts \<Rightarrow> as_str t) (\<lambda>target. bnd (as_str mode) (\<lambda>m.
     bnd (native (plan \<lparr>pl_bundle = dir, pl_arch = arch, pl_release = rel, pl_selected = names, pl_development = development,
            pl_target = target, pl_mode = m, pl_server = server\<rparr>)) (\<lambda>raw.
     bnd (decode_ascii raw) loads)))))))"

definition server_binding :: "apk_tool \<Rightarrow> directory \<Rightarrow> json \<Rightarrow> string \<Rightarrow> json \<Rightarrow> string list \<Rightarrow> package list \<Rightarrow> unit res" where
  "server_binding apk dir platform mode budget files actual =
     bnd (bnd (bnd (bnd (sub platform ''server'') (\<lambda>s. sub s ''producer'')) (\<lambda>p. sub p ''file'')) as_str) (\<lambda>producer_file.
     bnd (if mode = ''ram'' then lift_res Some (bnd (bnd (sub budget ''server'') (\<lambda>s. sub s ''volatileFile'')) (\<lambda>f. compact_asset dir f 536870912))
          else Inr None) (\<lambda>volatile.
     bnd (verify_server_payload sha256_hex apk (map (Pair dir) files) actual (dir, producer_file) mode False (map_option (Pair dir) volatile)) (\<lambda>result.
     refuse (map (\<lambda>k. bnd (sub result k) (\<lambda>a. lift_res (py_ne a) (bnd (sub budget ''server'') (\<lambda>s. sub s k)))) [''producerSha256'', ''binarySha256''])
       ''Optional server payload binding differs'')))"

text \<open>One plan: its packages are the real ones, its closure is authenticated; the files it covers are added.\<close>

definition check_plan :: "apk_tool \<Rightarrow> planner \<Rightarrow> directory \<Rightarrow> directory \<Rightarrow> bool \<Rightarrow> json \<Rightarrow> json \<Rightarrow> json \<Rightarrow> json \<Rightarrow> bool \<Rightarrow> json list \<Rightarrow> json list res" where
  "check_plan apk plan dir keys development platform mode release selected server covered =
     bnd (planned_budget plan dir development platform mode release selected server) (\<lambda>budget.
     bnd (sub budget ''packages'') (\<lambda>packages.
     bnd (iter packages) (\<lambda>rows.
     bnd (map_res (\<lambda>row. sub row ''file'') rows) (\<lambda>found.
     bnd (fold_res add_value found covered) (\<lambda>covered'.
     bnd (map_res (\<lambda>f. bnd (compact_asset dir f 536870912) (\<lambda>n. lift_res (Pair n) (metadata sha256_hex apk (dir, n)))) found) (\<lambda>pairs.
     let files = map fst pairs; actual = map snd pairs in
     bnd (refuse [Inr (py_ne (JArr (map package_json actual)) packages)] ''Package universe differs from actual native APK metadata'') (\<lambda>_.
     bnd (sub budget ''rootPackages'') (\<lambda>roots.
     bnd (bnd (iter roots) value_set) (\<lambda>owned.
     bnd (case roots of JArr rs \<Rightarrow> Inr (JArr (rs @ [JStr ''kernel''])) | _ \<Rightarrow> Inl TypeError) (\<lambda>with_kernel.
     bnd (bnd (sub platform ''architecture'') as_str) (\<lambda>arch.
     bnd (verify_indexed sha256_hex apk dir budget actual with_kernel arch keys (Some (map str_of (filter is_str owned)))) (\<lambda>verification.
     bnd (refuse [lift_res (py_ne verification) (sub budget ''verification'')] ''Compact closure lacks actual native indexed authentication'') (\<lambda>_.
     bnd (if server then server_binding apk dir platform (str_of mode) budget files actual else Inr ()) (\<lambda>_.
     Inr covered'))))))))))))))"

definition check_selections :: "apk_tool \<Rightarrow> planner \<Rightarrow> directory \<Rightarrow> directory \<Rightarrow> bool \<Rightarrow> json \<Rightarrow> json \<Rightarrow> json list \<Rightarrow> json list res" where
  "check_selections apk plan dir keys development platform mode covered =
     bnd (mode_clients platform mode) (\<lambda>ids.
     bnd (selections_of ids) (\<lambda>selections.
     bnd (bnd (sub platform ''supportedOpenWrt'') iter) (\<lambda>releases.
     fold_res (\<lambda>(release, selected, server) acc.
         bnd (if server then server_offered platform mode else Inr True) (\<lambda>offered.
         if offered then check_plan apk plan dir keys development platform mode release selected server acc else Inr acc))
       [(release, selected, server). release \<leftarrow> releases, selected \<leftarrow> selections, server \<leftarrow> [False, True]] covered)))"

definition check_platform :: "apk_tool \<Rightarrow> planner \<Rightarrow> directory \<Rightarrow> directory \<Rightarrow> bool \<Rightarrow> json \<Rightarrow> unit res" where
  "check_platform apk plan dir keys development platform =
     bnd (client_modes platform) (\<lambda>found.
     bnd (bnd (py_sorted (JArr found)) iter) (\<lambda>modes.
     bnd (fold_res (check_selections apk plan dir keys development platform) modes []) (\<lambda>covered.
     bnd (bnd (bnd (sub platform ''packageUniverse'') (\<lambda>p. sub p ''file'')) (\<lambda>f. compact_document dir f 2097152)) (\<lambda>universe.
     bnd (bnd (sub universe ''packages'') iter) (\<lambda>rows.
     bnd (bnd (map_res (\<lambda>row. sub row ''file'') rows) value_set) (\<lambda>files.
     refuse [Inr (\<not> same_set covered files)]
       ''Package universe contains unselected or unavailable package roles''))))))"

definition installers_same :: "directory \<Rightarrow> directory \<Rightarrow> unit res" where
  "installers_same dir checkout =
     each_res (\<lambda>n. refuse [bnd (bnd (compact_asset dir (JStr n) 2097152) (compact_sha dir)) (\<lambda>a. lift_res (\<lambda>b. a \<noteq> b) (compact_sha checkout n))]
       ''Compact installer differs from the checked-out source'') INSTALLERS"

text \<open>\<open>checkout\<close> holds the installers of the checked-out source under their bundle names.\<close>

definition compact_verify :: "apk_tool \<Rightarrow> planner \<Rightarrow> directory \<Rightarrow> directory \<Rightarrow> directory \<Rightarrow> int \<Rightarrow> bool \<Rightarrow> string \<Rightarrow> string \<Rightarrow> string list res" where
  "compact_verify apk plan dir keys checkout uid development core_commit core_source =
     bnd (refuse [Inr (\<not> rmatch commit_rx core_commit), Inr (\<not> rmatch HEX64 core_source)] ''Exact current native source binding required'') (\<lambda>_.
     bnd (compact_document dir (JStr ''package-catalog.json'') 524288) (\<lambda>catalog.
     bnd (refuse [lift_res (\<lambda>x. x \<noteq> JBool development) (get catalog ''development'')] ''Compact trust mode differs'') (\<lambda>_.
     bnd (bundle_assets sha256_hex dir catalog) (\<lambda>names.
     bnd (bnd (sub catalog ''platforms'') iter) (\<lambda>platforms.
     bnd (lift_res sum_list (map_res platform_cases platforms)) (\<lambda>cases.
     bnd (refuse [Inr (\<not> (1 \<le> cases \<and> cases \<le> 64))] ''At most64 finite native compact closure checks per bundle'') (\<lambda>_.
     bnd (refuse [bnd (compact_asset dir (JStr ''foxhole-openwrt-apk.pem'') 16384) (\<lambda>p. lift_res (\<lambda>h. h \<noteq> CANONICAL_PUBLIC_SHA) (compact_sha dir p))]
            ''Canonical public signing identity required'') (\<lambda>_.
     bnd (installers_same dir checkout) (\<lambda>_.
     bnd (read_bytes dir ''foxhole-openwrt-apk.pem'') (\<lambda>pem.
     bnd (verify_payloads apk dir [(''foxhole-openwrt-apk.pem'', pem)] uid core_commit core_source catalog) (\<lambda>_.
     bnd (each_res (check_platform apk plan dir keys development) platforms) (\<lambda>_.
     Inr names))))))))))))"

section \<open>Assembling a bundle, and checking one\<close>

text \<open>\<open>blocked\<close>: the output exists or lies in the input.\<close>

definition prepare_compact :: "directory \<Rightarrow> directory \<Rightarrow> string list \<Rightarrow> directory res" where
  "prepare_compact dir checkout names =
     bnd (map_res (\<lambda>n. bnd (bnd (compact_asset dir (JStr n) 536870912) (read_bytes dir)) (\<lambda>b. Inr (n, new_file b))) (sort names)) (\<lambda>copied.
     bnd (map_res (\<lambda>n. lift_res (\<lambda>b. (n, new_file b)) (read_bytes checkout n)) INSTALLERS) (\<lambda>installers.
     Inr \<lparr>dir_perm = 493, entries = filter (\<lambda>e. fst e \<notin> set INSTALLERS) copied @ installers\<rparr>))"

definition assemble_compact :: "apk_tool \<Rightarrow> planner \<Rightarrow> directory \<Rightarrow> directory \<Rightarrow> directory \<Rightarrow> int \<Rightarrow> bool \<Rightarrow> bool \<Rightarrow> string \<Rightarrow> string \<Rightarrow>
    (directory \<times> string) res" where
  "assemble_compact apk plan dir keys checkout uid development blocked core_commit core_source =
     bnd (refuse [Inr blocked] ''New compact bundle output outside original inputs required'') (\<lambda>_.
     bnd (compact_document dir (JStr ''package-catalog.json'') 524288) (\<lambda>catalog.
     bnd (bundle_assets sha256_hex dir catalog) (\<lambda>names.
     bnd (prepare_compact dir checkout names) (\<lambda>prepared.
     bnd (compact_verify apk plan prepared keys checkout uid development core_commit core_source) (\<lambda>verified.
     bnd (refuse [Inr (\<not> same_set (map fst (entries prepared)) (verified @ INSTALLERS))] ''Unclassified compact bundle asset'') (\<lambda>_.
     write_manifest prepared))))))"

definition check_compact :: "apk_tool \<Rightarrow> planner \<Rightarrow> directory \<Rightarrow> directory \<Rightarrow> directory \<Rightarrow> int \<Rightarrow> bool \<Rightarrow> string \<Rightarrow> string \<Rightarrow> string \<Rightarrow> unit res" where
  "check_compact apk plan dir keys checkout uid development anchor core_commit core_source =
     bnd (compact_manifest dir anchor) (\<lambda>rows.
     bnd (compact_verify apk plan dir keys checkout uid development core_commit core_source) (\<lambda>verified.
     refuse [Inr (\<not> same_set (map fst rows) (verified @ INSTALLERS)),
             Inr (\<not> same_set (map fst (entries dir)) (verified @ INSTALLERS @ [''SHA256SUMS'']))]
       ''Exact complete compact bundle required''))"

section \<open>The manifest of an assembled bundle\<close>

lemma installers_distinct: "distinct INSTALLERS" and installers_not_sums: "''SHA256SUMS'' \<notin> set INSTALLERS"
  by (simp_all add: INSTALLERS_def)

lemma list_all2_fst: "list_all2 P xs ys \<Longrightarrow> (\<And>x y. P x y \<Longrightarrow> fst y = x) \<Longrightarrow> map fst ys = xs"
  by (induction xs ys rule: list_all2_induct) auto

lemma prepare_compactD:
  assumes "prepare_compact dir checkout names = Inr prepared"
  shows "fst ` set (entries prepared) = set names \<union> set INSTALLERS"
    and "distinct names \<Longrightarrow> distinct (map fst (entries prepared))"
    and "(n, e) \<in> set (entries prepared) \<Longrightarrow> n \<notin> set INSTALLERS \<Longrightarrow> \<exists>b. e = new_file b \<and> rmatch NAME n \<and> 0 < length b \<and> int (length b) \<le> 536870912"
    and "(n, e) \<in> set (entries prepared) \<Longrightarrow> \<exists>b. e = new_file b"
proof -
  obtain copied installers where r: "list_all2 (\<lambda>n f. bnd (bnd (compact_asset dir (JStr n) 536870912) (read_bytes dir)) (\<lambda>b. Inr (n, new_file b)) = Inr f) (sort names) copied"
      "list_all2 (\<lambda>n f. lift_res (\<lambda>b. (n, new_file b)) (read_bytes checkout n) = Inr f) INSTALLERS installers"
      "entries prepared = filter (\<lambda>e. fst e \<notin> set INSTALLERS) copied @ installers"
    using assms by (auto simp: prepare_compact_def bnd_Inr_iff [of "map_res f xs" for f xs] map_res_Inr_iff)
  have fsts: "map fst copied = sort names" "map fst installers = INSTALLERS"
    using r(1,2) by (auto intro!: list_all2_fst simp: bnd_Inr_iff lift_res_Inr_iff)
  then have sets: "fst ` set copied = set names" "fst ` set installers = set INSTALLERS"
    by (metis list.set_map set_sort) (metis fsts(2) list.set_map)
  then show "fst ` set (entries prepared) = set names \<union> set INSTALLERS"
  proof -
    have "fst ` {e \<in> set copied. fst e \<notin> set INSTALLERS} = fst ` set copied - set INSTALLERS" by auto
    then show ?thesis unfolding r(3) by (simp add: image_Un sets)
  qed
  show "distinct (map fst (entries prepared))" if "distinct names"
  proof -
    have "distinct (map fst (filter (\<lambda>e. fst e \<notin> set INSTALLERS) copied))"
      using that fsts(1) by (simp add: distinct_map_filter)
    then show ?thesis unfolding r(3) using fsts(2) installers_distinct sets(2) by auto
  qed
  have copied: "\<exists>b. f = (fst f, new_file b) \<and> rmatch NAME (fst f) \<and> 0 < length b \<and> int (length b) \<le> 536870912" if "f \<in> set copied" for f
    using list_all2_set2 [OF r(1) that]
    by (auto simp: bnd_Inr_iff compact_asset_iff read_bytes_iff file_bytes_def)
  have installed: "\<exists>b. f = (fst f, new_file b)" if "f \<in> set installers" for f
    using list_all2_set2 [OF r(2) that] by (auto simp: lift_res_Inr_iff)
  show "\<exists>b. e = new_file b \<and> rmatch NAME n \<and> 0 < length b \<and> int (length b) \<le> 536870912"
    if that: "(n, e) \<in> set (entries prepared)" "n \<notin> set INSTALLERS"
  proof -
    have "(n, e) \<notin> set installers" using that(2) imageI [of "(n, e)" "set installers" fst] unfolding sets(2) by auto
    then have "(n, e) \<in> set copied" using that(1) unfolding r(3) by auto
    from copied [OF this] show ?thesis by auto
  qed
  show "\<exists>b. e = new_file b" if "(n, e) \<in> set (entries prepared)"
  proof -
    from that have "(n, e) \<in> set copied \<or> (n, e) \<in> set installers" unfolding r(3) by auto
    then show ?thesis using copied installed by fastforce
  qed
qed

text \<open>What a passed verification says of the installers and of the number of files.\<close>

lemma compact_verifyD:
  assumes "compact_verify apk plan dir keys checkout uid development core_commit core_source = Inr names"
  shows "\<exists>catalog. bundle_assets sha256_hex dir catalog = Inr names"
    and "n \<in> set INSTALLERS \<Longrightarrow> compact_asset dir (JStr n) 2097152 = Inr n"
proof -
  note facts = assms [unfolded compact_verify_def bnd_Inr_iff [of "refuse cs m" for cs m] bnd_Inr_iff [of "compact_document d n k" for d n k]
      bnd_Inr_iff [of "bundle_assets h d c" for h d c] bnd_Inr_iff [of "bnd m iter" for m] bnd_Inr_iff [of "lift_res f m" for f m]
      bnd_Inr_iff [of "installers_same d c" for d c] bnd_Inr_iff [of "read_bytes d n" for d n]
      bnd_Inr_iff [of "verify_payloads a d k u c s t" for a d k u c s t] bnd_Inr_iff [of "each_res f xs" for f xs] ex_unit_iff]
  obtain catalog found where "bundle_assets sha256_hex dir catalog = Inr found" "installers_same dir checkout = Inr ()"
      "Inr found = (Inr names :: string list res)"
    using facts by (elim exE conjE) (rule that, assumption+)
  then have r: "bundle_assets sha256_hex dir catalog = Inr names" "installers_same dir checkout = Inr ()" by simp_all
  then show "\<exists>catalog. bundle_assets sha256_hex dir catalog = Inr names" by blast
  assume "n \<in> set INSTALLERS"
  with r(2) have "refuse [bnd (bnd (compact_asset dir (JStr n) 2097152) (compact_sha dir)) (\<lambda>a. lift_res (\<lambda>b. a \<noteq> b) (compact_sha checkout n))]
      ''Compact installer differs from the checked-out source'' = Inr ()"
    by (simp add: installers_same_def each_res_Inr_iff list_all_iff)
  then show "compact_asset dir (JStr n) 2097152 = Inr n"
    by (auto simp: refuse_Inr_iff bnd_Inr_iff compact_asset_iff)
qed

lemma bundle_names:
  assumes "bundle_assets hash dir catalog = Inr names"
  shows "distinct names" and "length names + length INSTALLERS \<le> 4096"
  using assms unfolding bundle_assets_def Let_def bnd_Inr_iff ex_unit_iff by (auto simp: refuse_Inr_iff)

text \<open>
  The manifest of an assembled bundle is accepted by the reader of the same tool under the anchor that assembly reports, and
  lists exactly the verified files and the installers, unless a file of the bundle is itself called SHA256SUMS.
\<close>

lemma assembled_manifest_reads:
  assumes run: "assemble_compact apk plan dir keys checkout uid development blocked core_commit core_source = Inr (out, anchor)"
    and names: "compact_document dir (JStr ''package-catalog.json'') 524288 = Inr catalog" "bundle_assets sha256_hex dir catalog = Inr names"
    and free: "''SHA256SUMS'' \<notin> set names"
  shows "\<exists>prepared verified rows. prepare_compact dir checkout names = Inr prepared \<and>
    compact_verify apk plan prepared keys checkout uid development core_commit core_source = Inr verified \<and>
    compact_manifest out anchor = Inr rows \<and> set (map fst rows) = set verified \<union> set INSTALLERS \<and>
    set (map fst rows) = set names \<union> set INSTALLERS"
proof -
  note facts = run [unfolded assemble_compact_def bnd_Inr_iff ex_unit_iff]
  obtain c found prepared verified where found: "compact_document dir (JStr ''package-catalog.json'') 524288 = Inr c"
      "bundle_assets sha256_hex dir c = Inr found" "prepare_compact dir checkout found = Inr prepared"
      "compact_verify apk plan prepared keys checkout uid development core_commit core_source = Inr verified"
      "refuse [Inr (\<not> same_set (map fst (entries prepared)) (verified @ INSTALLERS))] ''Unclassified compact bundle asset'' = Inr ()"
      "write_manifest prepared = Inr (out, anchor)"
    using facts by (elim exE conjE) (rule that, assumption+)
  with names have r: "prepare_compact dir checkout names = Inr prepared"
      "compact_verify apk plan prepared keys checkout uid development core_commit core_source = Inr verified"
      "same_set (map fst (entries prepared)) (verified @ INSTALLERS)" "write_manifest prepared = Inr (out, anchor)"
    by (auto simp: refuse_Inr_iff)
  note prep = prepare_compactD [OF r(1)]
  obtain catalog' where checked: "bundle_assets sha256_hex prepared catalog' = Inr verified" using compact_verifyD(1) [OF r(2)] by blast
  have files: "set (map fst (entries prepared)) = set verified \<union> set INSTALLERS" using r(3) by (auto simp: same_set_def)
  have apart: "distinct (map fst (entries prepared))" by (rule prep(2) [OF bundle_names(1) [OF names(2)]])
  have "length (entries prepared) = card (set (map fst (entries prepared)))" using distinct_card [OF apart] by simp
  also have "\<dots> \<le> length verified + length INSTALLERS"
    unfolding files using card_length [of "verified @ INSTALLERS"] by simp
  also have "\<dots> \<le> 4096" by (rule bundle_names(2) [OF checked])
  finally have few: "length (entries prepared) \<le> 4096" .
  have "bundle_entry_ok (n, e)" if mem: "(n, e) \<in> set (entries prepared)" for n e
  proof (cases "n \<in> set INSTALLERS")
    case True
    have "lookup_file prepared n = Some e" using mem apart by (simp add: lookup_file_def)
    moreover have "n \<noteq> ''SHA256SUMS''" using True installers_not_sums by auto
    moreover have "compact_asset prepared (JStr n) 2097152 = Inr n" by (rule compact_verifyD(2) [OF r(2) True])
    ultimately show ?thesis by (auto simp: compact_asset_iff bundle_entry_ok_def)
  next
    case False
    have "n \<in> set names" using mem False prep(1) imageI [OF mem, of fst] by auto
    with free have "n \<noteq> ''SHA256SUMS''" by auto
    with prep(3) [OF mem False] show ?thesis by (auto simp: bundle_entry_ok_def new_file_def file_bytes_def)
  qed
  then have "list_all bundle_entry_ok (entries prepared)" by (auto simp: list_all_iff)
  moreover have "''install.sh'' \<in> set (map fst (entries prepared))" unfolding files by (simp add: INSTALLERS_def)
  then have "entries prepared \<noteq> []" by auto
  ultimately have "prepared_bundle prepared" using apart few by (simp add: prepared_bundle_def)
  from written_manifest_reads [OF this r(4)] obtain rows where rows: "compact_manifest out anchor = Inr rows"
      "map fst rows = sort (map fst (entries prepared))"
    by blast
  have "set (map fst rows) = set verified \<union> set INSTALLERS" "set (map fst rows) = set names \<union> set INSTALLERS"
    unfolding rows(2) set_sort using files prep(1) by simp_all
  with r(1,2) rows(1) show ?thesis by blast
qed
end
