(* ===== verification/Install_Bundle.thy ===== *)
theory Install_Bundle
  imports Package_Catalog Release_Manifest Json_Layout
begin

text \<open>
  prepare-install-bundle.py and verify-install-bundle.py: which files of an input belong to an installation bundle, how the bundle
  is assembled under a new manifest, and the recheck of a bundle against its anchor, in which the descriptions are
  rebuilt from the catalog and the catalog is generated again from the payloads. A set of names is a list of values;
  \<open>checkout\<close> holds the installers of the checked-out source under their bundle names.
\<close>

section \<open>The files of a bundle\<close>

definition into_set :: "json \<Rightarrow> json list \<Rightarrow> json list res" where
  "into_set v s = (if \<not> hashable v then Inl TypeError else if canon v \<in> set s then Inr s else Inr (s @ [canon v]))"

definition values_of :: "json \<Rightarrow> json list res" where
  "values_of v = lift_res (map snd) (items_of v)"

definition budget_assets :: "directory \<Rightarrow> bool \<Rightarrow> json \<Rightarrow> json list \<Rightarrow> json list res" where
  "budget_assets source development mode names =
     bnd (sub mode ''budgetFile'') (\<lambda>name.
     bnd (into_set name names) (\<lambda>s1.
     bnd (lift_res fst (catalog_document sha256_hex source name ''schema'' 1048576)) (\<lambda>budget.
     bnd (get_or budget ''memoryEvidence'' (JObj [])) (\<lambda>evidence.
     bnd (refuse [all_of [Inr (\<not> development), any_of [lift_res (\<lambda>x. x = JBool True) (get evidence ''provisional''),
                                                   lift_res (\<lambda>x. x = JBool False) (get evidence ''acceptedForRelease'')]]]
            ''Provisional laboratory memory policy cannot become a release bundle'') (\<lambda>_.
     bnd (bnd (bnd (sub budget ''filesSha256'') iter) (\<lambda>files. fold_res into_set files s1)) (\<lambda>s2.
     bnd (get budget ''volatileBinary'') (\<lambda>volatile.
     bnd (if truthy volatile then bnd (bnd (sub budget ''volatileBinary'') (\<lambda>v. sub v ''file'')) (\<lambda>f. into_set f s2) else Inr s2) (\<lambda>s3.
     bnd (bnd (get_or budget ''volatileDependencies'' (JArr [])) iter) (\<lambda>deps.
     fold_res (\<lambda>dep s. bnd (bnd (sub dep ''file'') (\<lambda>f. into_set f s)) (\<lambda>s'. bnd (sub dep ''producerFile'') (\<lambda>f. into_set f s'))) deps s3)))))))))"

definition variant_assets :: "directory \<Rightarrow> bool \<Rightarrow> json \<Rightarrow> json list \<Rightarrow> json list res" where
  "variant_assets source development variant names =
     bnd (fold_res (\<lambda>k s. bnd (sub variant k) (\<lambda>f. into_set f s)) [''coreProducerFile'', ''capabilitiesFile'', ''serverProducerFile''] names) (\<lambda>s1.
     bnd (bnd (sub variant ''serverProducerFile'') (\<lambda>f. lift_res fst (catalog_document sha256_hex source f ''schema'' 131072))) (\<lambda>server.
     bnd (prov_verify sha256_hex server source) (\<lambda>_.
     bnd (bnd (bnd (sub server ''filesSha256'') iter) (\<lambda>files. fold_res into_set files s1)) (\<lambda>s2.
     bnd (bnd (sub variant ''modes'') values_of) (\<lambda>modes.
     fold_res (budget_assets source development) modes s2)))))"

definition INSTALLER_FILES :: "string list" where
  "INSTALLER_FILES = [''install.sh'', ''install-core.sh'', ''install-plan.uc'', ''install-plan-model.uc'', ''indexed-install.uc'']"

definition selected_assets :: "directory \<Rightarrow> bool \<Rightarrow> json list res" where
  "selected_assets source development =
     bnd (lift_res fst (catalog_document sha256_hex source (JStr ''package-catalog.json'') ''schema'' 131072)) (\<lambda>catalog.
     bnd (get catalog ''variants'') (\<lambda>variants.
     bnd (refuse [lift_res (\<lambda>x. x \<noteq> JBool development) (get catalog ''development''), Inr (\<not> is_arr variants),
                  lift_res (\<lambda>n. \<not> (1 \<le> n \<and> n \<le> 256)) (len variants)] ''Bounded catalog with matching trust mode required'') (\<lambda>_.
     bnd (iter variants) (\<lambda>vs.
     bnd (fold_res (variant_assets source development) vs [JStr ''package-catalog.json'', JStr ''foxhole-openwrt-apk.pem'']) (\<lambda>names.
     bnd (refuse [Inr (4096 < length names + length INSTALLER_FILES)] ''Too many installation assets'') (\<lambda>_.
     Inr names))))))"

section \<open>The recheck of a bundle\<close>

definition PUBLIC_KEY_SHA :: string where
  "PUBLIC_KEY_SHA = CANONICAL_PUBLIC_SHA"

text \<open>The description of a variant, rebuilt from the catalog, and the metadata it names.\<close>

definition mode_budgets :: "json \<Rightarrow> (string \<times> json) list res" where
  "mode_budgets variant =
     bnd (bnd (sub variant ''modes'') items_of) (map_res (\<lambda>(mode, entry). lift_res (Pair mode) (sub entry ''budgetFile'')))"

definition variant_description :: "json \<Rightarrow> json res" where
  "variant_description variant =
     bnd (map_res (\<lambda>k. lift_res (Pair k) (sub variant k))
            [''id'', ''architecture'', ''supportedTargets'', ''coreProducerFile'', ''capabilitiesFile'', ''serverProducerFile'']) (\<lambda>fields.
     bnd (mode_budgets variant) (\<lambda>budgets.
     Inr (JObj (fields @ [(''budgets'', JObj budgets)]))))"

definition listed_in :: "(string \<times> string) list \<Rightarrow> json \<Rightarrow> bool res" where
  "listed_in rows name = in_strs name (map fst rows)"

definition budget_listed :: "directory \<Rightarrow> (string \<times> string) list \<Rightarrow> json \<Rightarrow> unit res" where
  "budget_listed dir rows name =
     bnd (lift_res fst (catalog_document sha256_hex dir name ''schema'' 1048576)) (\<lambda>budget.
     bnd (bnd (sub budget ''filesSha256'') iter) (\<lambda>files.
     bnd (get budget ''volatileBinary'') (\<lambda>volatile.
     bnd (if truthy volatile then lift_res (\<lambda>f. [f]) (bnd (sub budget ''volatileBinary'') (\<lambda>v. sub v ''file'')) else Inr []) (\<lambda>binary.
     bnd (bnd (bnd (get_or budget ''volatileDependencies'' (JArr [])) iter) (map_res (\<lambda>item. sub item ''file''))) (\<lambda>deps.
     refuse (map (\<lambda>f. not_res (listed_in rows f)) (files @ binary @ deps)) ''Installation payload is absent from anchored manifest'')))))"

definition recheck_variant :: "directory \<Rightarrow> (string \<times> string) list \<Rightarrow> json \<Rightarrow> json res" where
  "recheck_variant dir rows variant =
     bnd (variant_description variant) (\<lambda>description.
     bnd (mode_budgets variant) (\<lambda>budgets.
     bnd (map_res (sub variant) [''coreProducerFile'', ''capabilitiesFile'', ''serverProducerFile'']) (\<lambda>files.
     bnd (each_res (\<lambda>f. refuse [not_res (listed_in rows f)] ''Metadata is absent from anchored manifest'') (files @ map snd budgets)) (\<lambda>_.
     bnd (each_res (\<lambda>b. budget_listed dir rows (snd b)) budgets) (\<lambda>_.
     Inr description)))))"

text \<open>The descriptions are written to \<open>variant-0.json\<close>, \<open>variant-1.json\<close> and so on in one directory.\<close>

definition description_name :: "nat \<Rightarrow> string" where
  "description_name i = ''variant-'' @ digits_of_nat i @ ''.json''"

definition description_dir :: "json list \<Rightarrow> directory" where
  "description_dir descriptions = \<lparr>dir_perm = 448,
     entries = map (\<lambda>(i, d). (description_name i, new_file (encode_ascii (dumps_plain d)))) (enumerate 0 descriptions)\<rparr>"

definition description_paths :: "json list \<Rightarrow> fpath list" where
  "description_paths descriptions = map (\<lambda>i. (description_dir descriptions, description_name i)) [0..<length descriptions]"

definition recheck_bundle :: "apk_tool \<Rightarrow> directory \<Rightarrow> directory \<Rightarrow> bool \<Rightarrow> string \<Rightarrow> unit res" where
  "recheck_bundle apk dir keys development anchor =
     bnd (recheck_manifest dir anchor) (\<lambda>rows.
     bnd (lift_res fst (catalog_document sha256_hex dir (JStr ''package-catalog.json'') ''schema'' 131072)) (\<lambda>catalog.
     bnd (refuse [lift_res (\<lambda>x. x \<noteq> JBool development) (get catalog ''development'')] ''Release trust mode differs'') (\<lambda>_.
     bnd (refuse [all_of [Inr (\<not> development), lift_res (\<lambda>h. h \<noteq> PUBLIC_KEY_SHA) (file_hash sha256_hex (keys, ''foxhole-openwrt-apk.pem''))]]
            ''Canonical signing key differs'') (\<lambda>_.
     bnd (bnd (get_or catalog ''variants'' (JArr [])) iter) (\<lambda>vs.
     bnd (map_res (recheck_variant dir rows) vs) (\<lambda>descriptions.
     bnd (variants sha256_hex apk dir (description_paths descriptions) development (Some keys)) (\<lambda>st.
     refuse [lift_res (py_ne (JArr (cat_result st))) (sub catalog ''variants'')]
       ''Catalog differs from actual signed payloads and budgets'')))))))"

section \<open>Assembly\<close>

definition prepare_install :: "directory \<Rightarrow> directory \<Rightarrow> json list \<Rightarrow> directory res" where
  "prepare_install source checkout names =
     bnd (bnd (py_sorted (JArr names)) iter) (\<lambda>sorted_names.
     bnd (map_res (\<lambda>name.
       bnd (catalog_asset sha256_hex source name) (\<lambda>(n, _).
       bnd (read_bytes source n) (\<lambda>b.
       bnd (refuse [Inr (536870912 < length b)] ''Installation asset exceeds bound'') (\<lambda>_. Inr (n, new_file b))))) sorted_names) (\<lambda>copied.
     bnd (map_res (\<lambda>n.
       bnd (refuse [Inr (plain_file checkout n = None)] ''Regular checked-out installer sources required'') (\<lambda>_.
       lift_res (\<lambda>b. (n, new_file b)) (read_bytes checkout n))) INSTALLER_FILES) (\<lambda>installers.
     Inr \<lparr>dir_perm = 493, entries = filter (\<lambda>e. fst e \<notin> set INSTALLER_FILES) copied @ installers\<rparr>)))"

text \<open>\<open>blocked\<close>: the output exists or lies in the input.\<close>

definition assemble_install :: "apk_tool \<Rightarrow> directory \<Rightarrow> directory \<Rightarrow> directory \<Rightarrow> bool \<Rightarrow> bool \<Rightarrow> (directory \<times> string) res" where
  "assemble_install apk source checkout keys development blocked =
     bnd (refuse [Inr blocked] ''New output directory outside the input bundle required'') (\<lambda>_.
     bnd (selected_assets source development) (\<lambda>names.
     bnd (prepare_install source checkout names) (\<lambda>prepared.
     bnd (map_res (\<lambda>n. lift_res (\<lambda>h. (h, n)) (file_hash sha256_hex (prepared, n))) (sort (map fst (entries prepared)))) (\<lambda>rows.
     let manifest = encode_ascii (manifest_text rows); out = prepared\<lparr>entries := (''SHA256SUMS'', new_file manifest) # entries prepared\<rparr> in
     bnd (refuse [Inr (1048576 < length manifest)] ''Installation manifest exceeds bound'') (\<lambda>_.
     bnd (recheck_bundle apk out keys development (sha256_hex manifest)) (\<lambda>_.
     Inr (out, sha256_hex manifest)))))))"

section \<open>What a rechecked bundle is\<close>

lemma digits_inj: "digits_of_nat i = digits_of_nat j \<Longrightarrow> i = j"
  by (metis digits_of_nat_ok of_nat_eq_iff)

lemma description_entries: "map fst (entries (description_dir ds)) = map description_name [0..<length ds]"
proof -
  have "map fst (map (\<lambda>(i, d). (f i, g d)) xs) = map f (map fst xs)" for f :: "nat \<Rightarrow> string" and g :: "json \<Rightarrow> file_entry" and xs
    by (induction xs) auto
  then show ?thesis by (simp only: description_dir_def directory.simps map_fst_enumerate) simp
qed

lemma description_lookup:
  assumes "i < length ds"
  shows "lookup_file (description_dir ds) (description_name i) = Some (new_file (encode_ascii (dumps_plain (ds ! i))))"
proof -
  have "distinct (map fst (entries (description_dir ds)))"
    unfolding description_entries by (auto simp: distinct_map inj_on_def description_name_def dest: digits_inj)
  moreover have "(i, ds ! i) \<in> set (enumerate 0 ds)" using assms by (simp add: in_set_enumerate_eq)
  then have "(description_name i, new_file (encode_ascii (dumps_plain (ds ! i)))) \<in> set (entries (description_dir ds))"
    by (force simp: description_dir_def)
  ultimately show ?thesis by (simp add: lookup_file_def)
qed

text \<open>Each rebuilt description is read back by the catalog tool as it was built.\<close>

lemma description_read:
  assumes "i < length ds" and "printable (ds ! i)"
  shows "read_document (description_paths ds ! i) = Inr (ds ! i)"
proof -
  have "read_json (description_dir ds) (description_name i) = Inr (ds ! i)"
    by (rule layout_read [where d = 0 and s = "[]", OF description_lookup [OF assms(1)] _ plain_dumps.layout_reader_axioms
          ascii_layouts(1) assms(2)])
      (simp_all add: new_file_def dumps_plain_def)
  then show ?thesis using assms(1) by (simp add: read_document_def description_paths_def)
qed

definition named_in :: "(string \<times> string) list \<Rightarrow> json \<Rightarrow> bool" where
  "named_in rows v \<longleftrightarrow> (\<exists>n \<in> set (map fst rows). v = JStr n)"

lemma listed_in_iff: "listed_in rows v = Inr True \<longleftrightarrow> named_in rows v"
  by (auto simp: listed_in_def in_strs_True_iff named_in_def)

lemma not_listed: "not_res (listed_in rows v) = Inr False \<longleftrightarrow> named_in rows v"
  using listed_in_iff [of rows v] by (cases "listed_in rows v") auto

lemma refuse_map: "refuse (map f xs) msg = Inr () \<longleftrightarrow> list_all (\<lambda>x. f x = Inr False) xs"
  by (induction xs) (auto simp: refuse_Inr_iff)

text \<open>The metadata of a variant and the packages of each of its budgets are in the anchored manifest.\<close>

definition budget_anchored :: "directory \<Rightarrow> (string \<times> string) list \<Rightarrow> json \<Rightarrow> bool" where
  "budget_anchored dir rows name \<longleftrightarrow> named_in rows name \<and>
     (\<exists>budget digest files. catalog_document sha256_hex dir name ''schema'' 1048576 = Inr (budget, digest) \<and>
        bnd (sub budget ''filesSha256'') iter = Inr files \<and> list_all (named_in rows) files)"

definition variant_anchored :: "directory \<Rightarrow> (string \<times> string) list \<Rightarrow> json \<Rightarrow> bool" where
  "variant_anchored dir rows variant \<longleftrightarrow>
     (\<forall>k \<in> {''coreProducerFile'', ''capabilitiesFile'', ''serverProducerFile''}. \<exists>f. sub variant k = Inr f \<and> named_in rows f) \<and>
     (\<exists>budgets. mode_budgets variant = Inr budgets \<and> list_all (\<lambda>b. budget_anchored dir rows (snd b)) budgets)"

lemma budget_listed_anchored:
  assumes "budget_listed dir rows name = Inr ()" and "named_in rows name"
  shows "budget_anchored dir rows name"
proof -
  note facts = assms(1) [unfolded budget_listed_def bnd_Inr_iff [of "lift_res f m" for f m] bnd_Inr_iff [of "bnd (sub b ''filesSha256'') iter" for b]
      bnd_Inr_iff [of "get b k" for b k] bnd_Inr_iff [of "if b then x else y" for b x y] bnd_Inr_iff [of "bnd m (map_res f)" for m f]]
  obtain budget files bin deps where r: "lift_res fst (catalog_document sha256_hex dir name ''schema'' 1048576) = Inr budget"
      "bnd (sub budget ''filesSha256'') iter = Inr files"
      "refuse (map (\<lambda>f. not_res (listed_in rows f)) (files @ bin @ deps)) ''Installation payload is absent from anchored manifest'' = Inr ()"
    using facts by (elim exE conjE) (rule that, assumption+)
  from r(3) have "list_all (named_in rows) files" unfolding refuse_map not_listed by simp
  with r(1,2) assms(2) show ?thesis by (auto simp: budget_anchored_def lift_res_Inr_iff)
qed

lemma recheck_variantD:
  assumes "recheck_variant dir rows variant = Inr description"
  shows "variant_anchored dir rows variant" and "variant_description variant = Inr description"
proof -
  note facts = assms [unfolded recheck_variant_def bnd_Inr_iff ex_unit_iff]
  obtain budgets files d where r: "variant_description variant = Inr d" "mode_budgets variant = Inr budgets"
      "map_res (sub variant) [''coreProducerFile'', ''capabilitiesFile'', ''serverProducerFile''] = Inr files"
      "each_res (\<lambda>f. refuse [not_res (listed_in rows f)] ''Metadata is absent from anchored manifest'') (files @ map snd budgets) = Inr ()"
      "each_res (\<lambda>b. budget_listed dir rows (snd b)) budgets = Inr ()" "Inr d = (Inr description :: json res)"
    using facts by (elim exE conjE) (rule that, assumption+)
  have named: "list_all (named_in rows) (files @ map snd budgets)"
    using r(4) by (simp add: each_res_Inr_iff refuse_Inr_iff not_listed)
  have "list_all (\<lambda>b. budget_anchored dir rows (snd b)) budgets"
    using r(5) named by (auto simp: each_res_Inr_iff list_all_iff intro: budget_listed_anchored)
  moreover have "\<exists>f. sub variant k = Inr f \<and> named_in rows f"
    if "k \<in> {''coreProducerFile'', ''capabilitiesFile'', ''serverProducerFile''}" for k
    using r(3) named that by (auto simp: bnd_Inr_iff)
  ultimately show "variant_anchored dir rows variant" using r(2) unfolding variant_anchored_def by blast
  show "variant_description variant = Inr description" using r(1,6) by simp
qed

text \<open>
  A bundle that passes the recheck has all metadata and packages of its variants in the manifest under the anchor, and its catalog is, up
  to the equality of values, the one that package-catalog.py generates from descriptions rebuilt from it.
\<close>

lemma rechecked_bundle:
  assumes "recheck_bundle apk dir keys development anchor = Inr ()"
  shows "\<exists>rows catalog vs descriptions st v. recheck_manifest dir anchor = Inr rows \<and> get catalog ''development'' = Inr (JBool development) \<and>
    bnd (get_or catalog ''variants'' (JArr [])) iter = Inr vs \<and> list_all (variant_anchored dir rows) vs \<and>
    list_all2 (\<lambda>v d. variant_description v = Inr d) vs descriptions \<and>
    variants sha256_hex apk dir (description_paths descriptions) development (Some keys) = Inr st \<and>
    sub catalog ''variants'' = Inr v \<and> py_eq (JArr (cat_result st)) v \<and>
    (development \<or> file_hash sha256_hex (keys, ''foxhole-openwrt-apk.pem'') = Inr CANONICAL_PUBLIC_SHA)"
proof -
  note facts = assms [unfolded recheck_bundle_def bnd_Inr_iff [of "recheck_manifest d a" for d a] bnd_Inr_iff [of "lift_res f m" for f m]
      bnd_Inr_iff [of "refuse cs m" for cs m] bnd_Inr_iff [of "bnd (get_or c k x) iter" for c k x] bnd_Inr_iff [of "map_res f xs" for f xs]
      bnd_Inr_iff [of "variants h a d p e k" for h a d p e k] ex_unit_iff]
  obtain rows catalog vs descriptions st where r: "recheck_manifest dir anchor = Inr rows"
      "refuse [lift_res (\<lambda>x. x \<noteq> JBool development) (get catalog ''development'')] ''Release trust mode differs'' = Inr ()"
      "refuse [all_of [Inr (\<not> development), lift_res (\<lambda>h. h \<noteq> PUBLIC_KEY_SHA) (file_hash sha256_hex (keys, ''foxhole-openwrt-apk.pem''))]]
            ''Canonical signing key differs'' = Inr ()"
      "bnd (get_or catalog ''variants'' (JArr [])) iter = Inr vs" "map_res (recheck_variant dir rows) vs = Inr descriptions"
      "variants sha256_hex apk dir (description_paths descriptions) development (Some keys) = Inr st"
      "refuse [lift_res (py_ne (JArr (cat_result st))) (sub catalog ''variants'')] ''Catalog differs from actual signed payloads and budgets'' = Inr ()"
    using facts by (elim exE conjE) (rule that, assumption+)
  have each: "list_all2 (\<lambda>v d. recheck_variant dir rows v = Inr d) vs descriptions" using r(5) by (simp add: map_res_Inr_iff)
  then have "list_all2 (\<lambda>v d. variant_description v = Inr d) vs descriptions"
    by (rule list_all2_mono) (rule recheck_variantD(2))
  moreover have "list_all (variant_anchored dir rows) vs"
    using list_all2_set1 [OF each] recheck_variantD(1) by (fastforce simp: list_all_iff)
  moreover have "development \<or> file_hash sha256_hex (keys, ''foxhole-openwrt-apk.pem'') = Inr CANONICAL_PUBLIC_SHA"
  proof (cases development)
    case False
    with r(3) show ?thesis
      by (cases "file_hash sha256_hex (keys, ''foxhole-openwrt-apk.pem'')") (auto simp: guard_simps PUBLIC_KEY_SHA_def split: if_splits)
  qed simp
  moreover obtain v where "sub catalog ''variants'' = Inr v" "py_eq (JArr (cat_result st)) v"
    using r(7) by (auto simp: refuse_Inr_iff lift_res_Inr_iff)
  moreover have "get catalog ''development'' = Inr (JBool development)"
    using r(2) by (auto simp: refuse_Inr_iff lift_res_Inr_iff)
  ultimately show ?thesis using r(1,4,6) by blast
qed
end
