(* ===== verification/Server_Reuse.thy ===== *)
theory Server_Reuse
  imports Package_Budget Hysteria_Security Py_Url Json_Layout Release_Manifest
begin

text \<open>
  server-package-reuse.py: the plan for shipping existing server packages again. Every input is read protected and pinned; each
  package is bound to the canonical receipt, to its only entry of the signed index and to the producer record; the state of the
  security scan is classified, and never admits shipping. A directory has the text of its path, because the plan
  records paths; \<open>isotext\<close> is \<open>isoformat\<close> of a parsed time. The age in seconds is kept as the quotient it rounds.
\<close>

section \<open>Protected inputs\<close>

definition META_LIMIT :: int where
  "META_LIMIT = 1048576"

definition BINARY_LIMIT :: int where
  "BINARY_LIMIT = 67108864"

definition PLATFORMS :: "(string \<times> string \<times> string \<times> string) list" where
  "PLATFORMS = [(''x86'', ''x86_64'', ''linux-amd64'', ''x86/64''), (''filogic'', ''aarch64_cortex-a53'', ''linux-arm64'', ''mediatek/filogic'')]"

record located =
  loc_text :: string
  loc_dir :: directory

record binding =
  bd_path :: string
  bd_sha :: string
  bd_bytes :: int

definition binding_json :: "binding \<Rightarrow> json" where
  "binding_json b = JObj [(''path'', JStr (bd_path b)), (''sha256'', JStr (bd_sha b)), (''bytes'', JInt (bd_bytes b))]"

text \<open>\<open>checked\<close> on the entry, the permissions of its directory, and the expected digest, null for none.\<close>

definition checked_entry :: "file_entry res \<Rightarrow> int res \<Rightarrow> string \<Rightarrow> int \<Rightarrow> json \<Rightarrow> binding res" where
  "checked_entry entry parent shown limit expected =
     bnd entry (\<lambda>info. bnd parent (\<lambda>mode.
     bnd (refuse [Inr (ftype info \<noteq> Regular), Inr (nlink info \<noteq> 1), Inr (perm info AND 18 \<noteq> 0), Inr (mode AND 18 \<noteq> 0),
                  Inr (\<not> (0 < file_bytes info \<and> file_bytes info \<le> limit))] ''Protected regular bounded input required'') (\<lambda>_.
     let digest = sha256_hex (content info) in
     bnd (refuse [all_of [Inr (expected \<noteq> JNull), any_of [not_res (fullmatch HEX64 expected), Inr (JStr digest \<noteq> expected)]]]
            ''Pinned input digest differs'') (\<lambda>_.
     Inr \<lparr>bd_path = shown, bd_sha = digest, bd_bytes = file_bytes info\<rparr>))))"

definition checked :: "located \<Rightarrow> string \<Rightarrow> int \<Rightarrow> json \<Rightarrow> binding res" where
  "checked loc n limit expected =
     checked_entry (lstat (loc_dir loc) n) (Inr (dir_perm (loc_dir loc))) (loc_text loc @ ''/'' @ n) limit expected"

text \<open>A member of an extracted package; its directory must be one.\<close>

definition checked_member :: "extracted \<Rightarrow> string list \<Rightarrow> int \<Rightarrow> json \<Rightarrow> binding res" where
  "checked_member tree p limit expected =
     checked_entry (case map_of tree p of None \<Rightarrow> Inl OSError | Some e \<Rightarrow> Inr e)
       (case map_of tree (butlast p) of None \<Rightarrow> Inl OSError
        | Some e \<Rightarrow> if ftype e = Directory then Inr (perm e) else Inl (ValueError ''Protected regular bounded input required''))
       (join_with ''/'' p) limit expected"

definition reuse_document :: "located \<Rightarrow> string \<Rightarrow> json \<Rightarrow> (json \<times> binding) res" where
  "reuse_document loc n expected =
     bnd (checked loc n META_LIMIT expected) (\<lambda>binding. bnd (read_json (loc_dir loc) n) (\<lambda>v. Inr (v, binding)))"

section \<open>The address and the reserve of a RAM wrapper\<close>

definition release_path :: rx where
  "release_path = Seq (lit ''/foxhole-team/foxhole-openwrt-client/releases/download/'')
     (Seq (rplus (Cls (alnum @ [(CHR ''_'', CHR ''_''), (CHR ''.'', CHR ''.''), (CHR ''-'', CHR ''-'')]))) (Alt (lit ''/'') (lit [])))"

definition release_base :: "string \<Rightarrow> string res" where
  "release_base v =
     bnd (urlsplit v) (\<lambda>parsed.
     bnd (refuse [Inr (url_parts.scheme parsed \<noteq> ''https''), Inr (hostname parsed \<noteq> Some ''github.com''),
                  lift_res (\<lambda>p. p \<noteq> None \<and> p \<noteq> Some 443) (port parsed), Inr (username parsed \<noteq> None), Inr (password parsed \<noteq> None),
                  Inr (url_parts.query parsed \<noteq> []), Inr (fragment parsed \<noteq> []), Inr (\<not> rmatch release_path (url_parts.path parsed))]
            ''Exact public HTTPS release asset namespace required'') (\<lambda>_.
     Inr (rev (dropWhile (\<lambda>c. c = CHR ''/'') (rev v)))))"

definition wrapper_url :: rx where
  "wrapper_url = Seq (lit ''https://'') (rplus (Cls (alnum @ map (\<lambda>c. (c, c)) ''_./%+-'')))"

text \<open>\<open>line == str(v)\<close>; the text of a float or a container is not modelled and compares unequal.\<close>

fun line_is_str :: "string \<Rightarrow> json \<Rightarrow> bool" where
  "line_is_str line (JInt i) = (line = str_of_int i)"
| "line_is_str line (JStr s) = (line = s)"
| "line_is_str line (JBool b) = (line = (if b then ''True'' else ''False''))"
| "line_is_str line JNull = (line = ''None'')"
| "line_is_str line v = False"

definition ram_binding :: "string list \<Rightarrow> json \<Rightarrow> string option \<Rightarrow> int option \<Rightarrow> json res" where
  "ram_binding lines producer desired_base reserve =
     bnd (refuse [Inr (length lines \<noteq> 4), Inr (\<not> rmatch wrapper_url (lines ! 0)),
                  lift_res (\<lambda>x. JStr (lines ! 1) \<noteq> x) (sub producer ''binarySha256''),
                  lift_res (\<lambda>x. \<not> line_is_str (lines ! 2) x) (sub producer ''binaryBytes''),
                  Inr (\<not> py_isdigit (lines ! 3)), lift_res (\<lambda>n. \<not> (0 < n \<and> n \<le> 2 ^ 53 - 1)) (int_of_isdigit (lines ! 3))]
            ''RAM wrapper does not bind the exact native bytes and positive reserve'') (\<lambda>_.
     bnd (refuse [Inr (case reserve of None \<Rightarrow> False | Some r \<Rightarrow> \<not> (0 < r \<and> r \<le> 2 ^ 53 - 1))] ''Positive explicitly admitted RAM reserve required'') (\<lambda>_.
     bnd (case desired_base of None \<Rightarrow> Inr None
          | Some b \<Rightarrow> bnd (release_base b) (\<lambda>base. bnd (bnd (sub producer ''binarySha256'') as_str) (\<lambda>h.
              Inr (Some (base @ ''/hysteria-'' @ h @ ''.bin''))))) (\<lambda>desired.
     bnd (int_of_isdigit (lines ! 3)) (\<lambda>current.
     Inr (JObj [(''currentURL'', JStr (lines ! 0)), (''currentReserveBytes'', JInt current),
       (''desiredURL'', case desired of None \<Rightarrow> JNull | Some d \<Rightarrow> JStr d),
       (''desiredReserveBytes'', case reserve of None \<Rightarrow> JNull | Some r \<Rightarrow> JInt r),
       (''wrapperRebuildRequired'', JBool (desired = None \<or> reserve = None \<or> desired \<noteq> Some (lines ! 0) \<or> reserve \<noteq> Some current)),
       (''resourceAdmissionRequired'', JBool True), (''newNativeBuildRequired'', JBool False),
       (''newPackageRevisionRequiredIfChanged'', JBool True)])))))"

section \<open>The state of the security scan\<close>

text \<open>\<open>re.search\<close> of the literals between word boundaries.\<close>

definition word_char :: "char \<Rightarrow> bool" where
  "word_char c \<longleftrightarrow> in_cls (alnum @ [(CHR ''_'', CHR ''_'')]) c"

definition boundary :: "char option \<Rightarrow> string \<Rightarrow> bool" where
  "boundary before rest \<longleftrightarrow>
     (case before of None \<Rightarrow> False | Some c \<Rightarrow> word_char c) \<noteq> (case rest of [] \<Rightarrow> False | c # cs \<Rightarrow> word_char c)"

definition word_here :: "char option \<Rightarrow> string \<Rightarrow> string \<Rightarrow> bool" where
  "word_here before word text \<longleftrightarrow> take (length word) text = word \<and> boundary before text \<and>
     boundary (Some (last word)) (drop (length word) text)"

fun has_word :: "string list \<Rightarrow> char option \<Rightarrow> string \<Rightarrow> bool" where
  "has_word ws before [] = False"
| "has_word ws before (c # cs) = (list_ex (\<lambda>w. word_here before w (c # cs)) ws \<or> has_word ws (Some c) cs)"

definition candidate_finding :: "string \<Rightarrow> bool" where
  "candidate_finding s \<longleftrightarrow> has_word [''g1.26.10'', ''go1.26.10'', ''1.26.10''] None s \<or>
     (has_part ''golang.org/x/net'' s \<and> has_part ''0.60.0'' s)"

definition upper_char :: "char \<Rightarrow> char" where
  "upper_char c = (if CHR ''a'' \<le> c \<and> c \<le> CHR ''z'' then char_of (of_char c - 32 :: nat) else c)"

definition grave :: "json \<Rightarrow> bool res" where
  "grave finding = (if \<not> is_obj finding then Inr False
     else lift_res (\<lambda>s. case s of JStr t \<Rightarrow> map upper_char t \<in> {''HIGH'', ''CRITICAL''} | _ \<Rightarrow> False) (get_or finding ''severity'' (JStr [])))"

definition candidate_hash :: "json \<Rightarrow> json list \<Rightarrow> json list res" where
  "candidate_hash finding hashes =
     bnd (grave finding) (\<lambda>g.
     let shown = dumps_plain (sort_keys finding) in
     Inr (if g \<and> candidate_finding shown then hashes @ [JStr (sha256_hex (encode_ascii shown))] else hashes))"

definition zulu :: "string \<Rightarrow> string" where
  "zulu s = concat (map (\<lambda>c. if c = CHR ''Z'' then ''+00:00'' else [c]) s)"

definition admission_of :: "bool \<Rightarrow> int \<Rightarrow> bool \<Rightarrow> bool \<Rightarrow> string" where
  "admission_of matched age whole inventory =
     (if \<not> matched then ''UNKNOWN_SOURCE'' else if age < - 300000000 \<or> 6 * 3600000000 < age then ''UNKNOWN_STALE''
      else if \<not> whole \<or> \<not> inventory then ''UNKNOWN_INCOMPLETE'' else ''APPLICABILITY_REVIEW_REQUIRED'')"

definition scan_common :: "(string \<times> json) list" where
  "scan_common = [(''shippingAdmitted'', JBool False),
     (''coordinates'', JObj [(''Go'', JStr ''go1.26.10''), (''golang.org/x/net'', JStr ''v0.60.0'')]),
     (''applicabilityReviewRequired'', JBool True), (''reportNotContentProof'', JBool True)]"

definition security_status :: "calendar \<Rightarrow> (string \<Rightarrow> string) \<Rightarrow> int option \<Rightarrow> (located \<times> string) option \<Rightarrow> json \<Rightarrow> json \<Rightarrow> json res" where
  "security_status cal isotext now report_path expected repository =
     (case report_path of
        None \<Rightarrow> Inr (JObj ((''admission'', JStr ''UNKNOWN_MISSING'') # scan_common))
      | Some (loc, n) \<Rightarrow>
          bnd (refuse [Inr (expected = JNull), Inr (repository = JNull)] ''Pinned report digest and trusted scanner repository required'') (\<lambda>_.
          bnd (reuse_document loc n expected) (\<lambda>(report, binding).
          bnd (bnd (sub report ''generatedAt'') (\<lambda>v. case v of JStr s \<Rightarrow> Inr (zulu s) | _ \<Rightarrow> Inl AttributeError)) (\<lambda>stamp.
          bnd (parse_time cal stamp) (\<lambda>generated.
          bnd (refuse [Inr (generated = None), Inr (now = None)] ''UTC-aware scanner times required'') (\<lambda>_.
          let age = the now - the generated in
          bnd (get_or report ''source'' (JObj [])) (\<lambda>source.
          bnd (if is_obj source then lift_res (py_eq repository) (get source ''repository'') else Inr False) (\<lambda>matched.
          bnd (get report ''complete'') (\<lambda>whole. bnd (get report ''inventoryComplete'') (\<lambda>inventory. bnd (get report ''coverage'') (\<lambda>coverage.
          bnd (bnd (get_or report ''findings'' (JArr [])) iter) (\<lambda>found.
          bnd (fold_res candidate_hash found []) (\<lambda>hashes.
          Inr (JObj ((''admission'', JStr (admission_of matched age (whole = JBool True) (inventory = JBool True))) # scan_common @
            [(''report'', binding_json binding), (''generatedAt'', JStr (isotext stamp)), (''ageSeconds'', JFloat (of_int age / 1000000)),
             (''sourceMatched'', JBool matched), (''complete'', JBool (whole = JBool True)),
             (''inventoryComplete'', JBool (inventory = JBool True)), (''coverage'', coverage),
             (''exactCoordinateCandidateHashes'', JArr hashes), (''candidateMatchingIsNotAffectedRangeAnalysis'', JBool True)])))))))))))))))"

section \<open>One platform of the plan\<close>

definition reuse_run :: "(bytes \<times> bytes) res \<Rightarrow> bytes res" where
  "reuse_run result = bnd result (\<lambda>(out, err).
     bnd (refuse [Inr (8 * META_LIMIT < int (length out))] ''Readonly APK inspection refused or exceeded its bound'') (\<lambda>_. Inr out))"

definition reuse_dump :: "apk_tool \<Rightarrow> bytes \<Rightarrow> json res" where
  "reuse_dump apk raw = bnd (bnd (reuse_run (apk_dump apk raw)) decode_ascii) loads"

definition apk_identity :: "apk_tool \<Rightarrow> bytes \<Rightarrow> json res" where
  "apk_identity apk raw =
     bnd (bnd (reuse_dump apk raw) (\<lambda>d. sub d ''info'')) (\<lambda>v.
     bnd (refuse [any_res (\<lambda>k. lift_res (\<lambda>x. \<not> nonempty_str x) (get v k)) [''name'', ''version'', ''arch'', ''hashes'']] ''Exact APK identity required'') (\<lambda>_.
     Inr v))"

record reuse_args =
  ra_canonical :: located
  ra_canonical_sha :: json
  ra_contract_sha :: json
  ra_signed :: "string \<Rightarrow> located"
  ra_records :: "string \<Rightarrow> located"
  ra_assets :: located
  ra_tool :: "located \<times> string"
  ra_tool_sha :: json
  ra_public :: "located \<times> string"
  ra_helper :: "located \<times> string"
  ra_helper_after :: located
  ra_scan :: "(located \<times> string) option"
  ra_scan_sha :: json
  ra_scan_repository :: json
  ra_base :: "string option"
  ra_reserve :: "int option"

text \<open>The two rows of a platform in the input contract, and the producer digest they agree on.\<close>

definition server_rows :: "json \<Rightarrow> string \<Rightarrow> (json list \<times> json) res" where
  "server_rows contract platform =
     bnd (bnd (bnd (sub contract ''platforms'') (\<lambda>p. sub p platform)) (\<lambda>p. sub p ''rows'')) (\<lambda>v.
     bnd (refuse [lift_res (\<lambda>n. n \<noteq> 2) (len v),
                  bnd (iter v) (\<lambda>rows. bnd (map_res (\<lambda>r. sub r ''storage'') rows) (\<lambda>ss.
                    if list_all hashable ss then Inr (\<not> same_set (map canon ss) [JStr ''FLASH'', JStr ''RAM'']) else Inl TypeError))]
            ''Exactly FLASH and RAM server source rows required'') (\<lambda>_.
     bnd (iter v) (\<lambda>rows.
     bnd (map_res (\<lambda>r. bnd (sub r ''payload'') (\<lambda>p. sub p ''producerSha256'')) rows) (\<lambda>hashes.
     bnd (refuse [if list_all hashable hashes then Inr (length (remdups (map canon hashes)) \<noteq> 1) else Inl TypeError]
            ''Server modes refer to different native producers'') (\<lambda>_.
     Inr (rows, hd hashes))))))"

definition canonical_platform :: "json \<Rightarrow> string \<Rightarrow> string \<Rightarrow> json res" where
  "canonical_platform canonical platform key =
     bnd (bnd (sub canonical ''platforms'') (\<lambda>p. sub p platform)) (\<lambda>p. sub p key)"

definition package_authority :: "json \<Rightarrow> string \<Rightarrow> string \<Rightarrow> json res" where
  "package_authority canonical platform name = bnd (canonical_platform canonical platform ''packages'') (\<lambda>p. sub p name)"

fun put_named :: "string \<Rightarrow> 'a \<Rightarrow> (string \<times> 'a) list \<Rightarrow> (string \<times> 'a) list" where
  "put_named n b [] = [(n, b)]"
| "put_named n b ((m, c) # rest) = (if n = m then (n, b) # rest else (m, c) # put_named n b rest)"

text \<open>
  One legal file of the producer: checked in the carrier, copied beside the producer, shared by the platforms. A link in the
  directory of assets is taken to resolve.
\<close>

definition legal_step :: "located \<Rightarrow> extracted \<Rightarrow> string \<Rightarrow> string \<times> json \<Rightarrow> (string \<times> file_entry) list \<times> (string \<times> json) list \<Rightarrow>
    ((string \<times> file_entry) list \<times> (string \<times> json) list) res" where
  "legal_step assets tree carrier row st =
     (let name = fst row; digest = snd row; member = [''usr'', ''share'', ''licenses'', ''hysteria'', name] in
     bnd (refuse [Inr (\<not> rmatch license_name name)] ''Unsafe legal provenance filename'') (\<lambda>_.
     bnd (checked_member tree member META_LIMIT digest) (\<lambda>found.
     bnd (case map_of tree member of None \<Rightarrow> Inl OSError | Some e \<Rightarrow> Inr (content e)) (\<lambda>b.
     bnd (refuse [case map_of (snd st) name of None \<Rightarrow> Inr False | Some item \<Rightarrow> lift_res (py_ne digest) (sub item ''sha256'')]
            ''Server legal assets collide across architectures'') (\<lambda>_.
     bnd (if lookup_file (loc_dir assets) name = None then Inr () else lift_res (\<lambda>_. ()) (checked assets name META_LIMIT digest)) (\<lambda>_.
     Inr (put_named name (new_file b) (fst st),
          put_named name (JObj [(''sha256'', digest), (''bytes'', JInt (int (length b))), (''carrier'', JStr carrier),
            (''member'', JStr (join_with ''/'' member))]) (snd st))))))))"

definition reuse_package :: "apk_tool \<Rightarrow> reuse_args \<Rightarrow> json \<Rightarrow> string \<Rightarrow> string \<Rightarrow> json \<Rightarrow> json \<Rightarrow> directory \<Rightarrow> json \<Rightarrow> json res" where
  "reuse_package apk args canonical platform architecture index producer view row =
     bnd (bnd (sub row ''unsignedApkFile'') as_str) (\<lambda>name.
     bnd (package_authority canonical platform name) (\<lambda>authority.
     bnd (bnd (sub authority ''signed_sha256'') (checked (ra_signed args platform) name BINARY_LIMIT)) (\<lambda>bound.
     bnd (read_bytes (loc_dir (ra_signed args platform)) name) (\<lambda>raw.
     bnd (apk_identity apk raw) (\<lambda>info.
     bnd (map_res (sub info) [''name'', ''version'', ''arch'']) (\<lambda>ident.
     bnd (refuse [bnd (sub row ''packageName'') (\<lambda>n. lift_res (\<lambda>v. ident \<noteq> [n, v, JStr architecture]) (sub row ''packageVersion''))]
            ''Signed server package identity differs'') (\<lambda>_.
     bnd (bnd (bnd (sub index ''packages'') iter) (filter_res (\<lambda>entry. lift_res (\<lambda>found. found = ident) (map_res (get entry) [''name'', ''version'', ''arch''])))) (\<lambda>matches.
     bnd (refuse [Inr (length matches \<noteq> 1), bnd (get (hd matches) ''hashes'') (\<lambda>a. lift_res (py_ne a) (sub info ''hashes'')),
                  bnd (sub info ''hashes'') (\<lambda>a. lift_res (py_ne a) (sub authority ''content_sha256''))] ''Canonical server index identity differs'') (\<lambda>_.
     bnd (refuse [lift_res (py_ne (JInt (bd_bytes bound))) (get (hd matches) ''file-size'')] ''Canonical server archive size differs'') (\<lambda>_.
     bnd (bnd (sub row ''storage'') as_str) (\<lambda>storage.
     let mode = lower storage;
         package = \<lparr>pkg_name = str_of (ident ! 0), pkg_version = str_of (ident ! 1), pkg_arch = architecture, installed_bytes = 0,
           archive_bytes = 0, pkg_file = name, pkg_sha256 = [], depends = [], provides = []\<rparr> in
     bnd (verify_server_payload sha256_hex apk [(loc_dir (ra_signed args platform), name)] [package] (view, ''hysteria-producer.json'') mode False
            (if mode = ''ram'' then Some (view, ''hysteria'') else None)) (\<lambda>_.
     bnd (sub info ''hashes'') (\<lambda>hashes.
     let item = [(''path'', JStr (bd_path bound)), (''sha256'', JStr (bd_sha bound)), (''bytes'', JInt (bd_bytes bound)), (''name'', ident ! 0),
           (''version'', ident ! 1), (''architecture'', JStr architecture), (''storage'', JStr mode), (''signatureAndPayloadVerified'', JBool True),
           (''contentSha256'', hashes), (''proposedAssetFile'', JStr (''apk-'' @ bd_sha bound @ ''.apk''))] in
     if mode \<noteq> ''ram'' then Inr (JObj item)
     else bnd (apk_extract apk False raw) (\<lambda>tree.
          let download = [''usr'', ''share'', ''foxhole'', ''hysteria-server-download.txt''] in
          bnd (checked_member tree download 1024 JNull) (\<lambda>_.
          bnd (case map_of tree download of None \<Rightarrow> Inl OSError | Some e \<Rightarrow> text_lines e) (\<lambda>lines.
          bnd (ram_binding lines producer (ra_base args) (ra_reserve args)) (\<lambda>ram.
          Inr (JObj (item @ [(''ramBinding'', ram)])))))))))))))))))))"

definition reuse_platform :: "apk_tool \<Rightarrow> reuse_args \<Rightarrow> json \<Rightarrow> json \<Rightarrow> bytes \<Rightarrow> string \<times> string \<times> string \<times> string \<Rightarrow>
    json list \<times> (string \<times> json) list \<Rightarrow> (json list \<times> (string \<times> json) list) res" where
  "reuse_platform apk args canonical contract key platform_row st =
     (case platform_row of (platform, architecture, target, supported_target) \<Rightarrow>
     let signed = ra_signed args platform in
     bnd (server_rows contract platform) (\<lambda>(rows, producer_hash).
     bnd (reuse_document (ra_records args target) ''hysteria-producer.json'' producer_hash) (\<lambda>(producer, producer_binding).
     bnd (read_bytes (loc_dir (ra_records args target)) ''hysteria-producer.json'') (\<lambda>producer_raw.
     bnd (bnd (canonical_platform canonical platform ''indexSha256'') (checked signed ''packages.adb'' META_LIMIT)) (\<lambda>index_binding.
     bnd (read_bytes (loc_dir signed) ''packages.adb'') (\<lambda>index_raw.
     bnd (reuse_run (apk_verify apk [(snd (ra_public args), key)] index_raw)) (\<lambda>_.
     bnd (reuse_dump apk index_raw) (\<lambda>index.
     bnd (some_or ''Exactly FLASH and RAM server source rows required'' (find (\<lambda>r. sub r ''storage'' = Inr (JStr ''FLASH'')) rows)) (\<lambda>flash_row.
     bnd (bnd (sub flash_row ''unsignedApkFile'') as_str) (\<lambda>flash_name.
     bnd (bnd (bnd (package_authority canonical platform flash_name) (\<lambda>a. sub a ''signed_sha256'')) (checked signed flash_name BINARY_LIMIT)) (\<lambda>carrier.
     bnd (bnd (read_bytes (loc_dir signed) flash_name) (apk_extract apk False)) (\<lambda>tree.
     bnd (checked_member tree [''usr'', ''share'', ''foxhole'', ''hysteria-producer.json''] META_LIMIT (JStr (bd_sha producer_binding))) (\<lambda>_.
     bnd (bnd (sub producer ''filesSha256'') items_of) (\<lambda>files.
     bnd (fold_res (legal_step (ra_assets args) tree (bd_path carrier)) files ([(''hysteria-producer.json'', new_file producer_raw)], snd st)) (\<lambda>(copied, legal).
     bnd (prov_verify sha256_hex producer \<lparr>dir_perm = 493, entries = copied\<rparr>) (\<lambda>_.
     let binary_member = [''usr'', ''bin'', ''hysteria''] in
     bnd (bnd (sub producer ''binarySha256'') (checked_member tree binary_member BINARY_LIMIT)) (\<lambda>native.
     bnd (refuse [lift_res (\<lambda>x. x \<noteq> JStr target) (sub producer ''target''), lift_res (py_ne (JInt (bd_bytes native))) (sub producer ''binaryBytes'')]
            ''Native server target or length differs'') (\<lambda>_.
     bnd (case map_of tree binary_member of None \<Rightarrow> Inl OSError | Some e \<Rightarrow> Inr (content e)) (\<lambda>binary.
     let view = \<lparr>dir_perm = 493, entries = put_named ''hysteria'' (new_file binary) copied\<rparr> in
     bnd (map_res (reuse_package apk args canonical platform architecture index producer view) rows) (\<lambda>packages.
     bnd (map_res (sub producer) [''sourceCommit'', ''sourceSha256'', ''binaryRuntimeVersion'', ''sourceTestScope'']) (\<lambda>fields.
     bnd (bnd (sub producer ''sourcePatch'') (\<lambda>p. sub p ''receiptSha256'')) (\<lambda>repair.
     Inr (fst st @ [JObj [(''architecture'', JStr architecture), (''supportedTargets'', JArr [JStr supported_target]),
        (''producer'', binding_json producer_binding),
        (''nativeBinary'', JObj [(''sha256'', JStr (bd_sha native)), (''bytes'', JInt (bd_bytes native)), (''carrier'', JStr (bd_path carrier)),
          (''member'', JStr ''usr/bin/hysteria'')]),
        (''verifiedFLASHCarrier'', binding_json carrier),
        (''producerAssetFile'', JStr (''hysteria-producer-'' @ architecture @ ''-'' @ bd_sha producer_binding @ ''.json'')),
        (''binaryAssetFile'', JStr (''hysteria-'' @ bd_sha native @ ''.bin'')),
        (''sourceCommit'', fields ! 0), (''sourceSha256'', fields ! 1), (''GoRuntimeVersion'', fields ! 2), (''sourceTestScope'', fields ! 3),
        (''sourceRepairReceiptSha256'', repair), (''index'', binding_json index_binding), (''packages'', JArr packages),
        (''catalogAndUniverseUpdateRequired'', JBool True), (''newNativeBuildRequired'', JBool False)]], legal)))))))))))))))))))))))"

section \<open>The plan\<close>

definition remaining_work :: "string list" where
  "remaining_work = [''Fresh scanner applicability review for exact binary/module inputs'',
     ''Choose final RAM HTTPS release namespace and admitted memory reserve'',
     ''Rebuild only changed RAM wrappers with a new package revision'',
     ''Root canonical signing/index update for changed packages'',
     ''Bind server FLASH/RAM rows into catalog/universe and regenerate the verified bundle'']"

definition checked_at :: "located \<times> string \<Rightarrow> int \<Rightarrow> json \<Rightarrow> binding res" where
  "checked_at p = checked (fst p) (snd p)"

definition reuse_plan :: "apk_tool \<Rightarrow> calendar \<Rightarrow> (string \<Rightarrow> string) \<Rightarrow> int option \<Rightarrow> reuse_args \<Rightarrow> json res" where
  "reuse_plan apk cal isotext now args =
     bnd (checked_at (ra_tool args) BINARY_LIMIT (ra_tool_sha args)) (\<lambda>tool.
     bnd (reuse_document (ra_canonical args) ''receipt.json'' (ra_canonical_sha args)) (\<lambda>(canonical, canonical_binding).
     bnd (reuse_document (ra_canonical args) ''actual-input-contract.json'' (ra_contract_sha args)) (\<lambda>(contract, contract_binding).
     bnd (checked_at (ra_helper args) META_LIMIT JNull) (\<lambda>helper.
     bnd (refuse [lift_res (\<lambda>x. py_ne x (JInt 0)) (get canonical ''exitCode''),
                  lift_res (\<lambda>x. x \<noteq> JStr CANONICAL_PUBLIC_SHA) (get canonical ''publicKeySha256'')] ''Canonical local package authority differs'') (\<lambda>_.
     bnd (checked_at (ra_public args) 16384 (JStr CANONICAL_PUBLIC_SHA)) (\<lambda>key.
     bnd (security_status cal isotext now (ra_scan args) (ra_scan_sha args) (ra_scan_repository args)) (\<lambda>security.
     bnd (read_bytes (loc_dir (fst (ra_public args))) (snd (ra_public args))) (\<lambda>key_raw.
     bnd (fold_res (reuse_platform apk args canonical contract key_raw) PLATFORMS ([], [])) (\<lambda>(platforms, legal).
     bnd (refuse [lift_res (\<lambda>b. bd_sha b \<noteq> bd_sha helper) (checked (ra_helper_after args) (snd (ra_helper args)) META_LIMIT JNull)]
            ''Existing verification helper changed during inspection'') (\<lambda>_.
     Inr (JObj [(''schema'', JInt 1), (''kind'', JStr ''server-package-reuse-plan-v1''), (''publicationPermitted'', JBool False),
       (''security'', security), (''apkTool'', binding_json tool), (''publicKey'', binding_json key),
       (''canonicalReceipt'', binding_json canonical_binding), (''actualInputContract'', binding_json contract_binding),
       (''existingVerifier'', binding_json helper), (''platforms'', JArr platforms), (''sharedLegalAssets'', JObj legal),
       (''newNativeBuildRequired'', JBool False), (''retainedTestsRelabeled'', JBool False), (''releaseMetadataModified'', JBool False),
       (''remaining'', JArr (map JStr remaining_work)), (''runtimeMemoryQualificationNotInferred'', JBool True)])))))))))))"

section \<open>What is pinned\<close>

lemma checked_entryD:
  assumes "checked_entry entry parent shown limit expected = Inr b"
  shows "\<exists>e mode. entry = Inr e \<and> parent = Inr mode \<and> ftype e = Regular \<and> nlink e = 1 \<and> perm e AND 18 = 0 \<and> mode AND 18 = 0 \<and>
    0 < file_bytes e \<and> file_bytes e \<le> limit \<and> bd_sha b = sha256_hex (content e) \<and> bd_bytes b = file_bytes e \<and> bd_path b = shown \<and>
    (expected = JNull \<or> expected = JStr (bd_sha b))"
proof -
  note facts = assms [unfolded checked_entry_def Let_def bnd_Inr_iff ex_unit_iff]
  obtain e mode where r: "entry = Inr e" "parent = Inr mode"
      "refuse [Inr (ftype e \<noteq> Regular), Inr (nlink e \<noteq> 1), Inr (perm e AND 18 \<noteq> 0), Inr (mode AND 18 \<noteq> 0),
         Inr (\<not> (0 < file_bytes e \<and> file_bytes e \<le> limit))] ''Protected regular bounded input required'' = Inr ()"
      "refuse [all_of [Inr (expected \<noteq> JNull), any_of [not_res (fullmatch HEX64 expected), Inr (JStr (sha256_hex (content e)) \<noteq> expected)]]]
         ''Pinned input digest differs'' = Inr ()"
      "Inr \<lparr>bd_path = shown, bd_sha = sha256_hex (content e), bd_bytes = file_bytes e\<rparr> = (Inr b :: binding res)"
    using facts by (elim exE conjE) (rule that, assumption+)
  from r(4) have "expected = JNull \<or> expected = JStr (sha256_hex (content e))"
    by (cases expected) (auto simp: guard_simps split: if_splits)
  with r show ?thesis by (auto simp: refuse_Inr_iff)
qed

text \<open>A null digest expects nothing: any protected bounded file is accepted.\<close>

lemma null_pin_accepts:
  assumes "ftype e = Regular" "nlink e = 1" "perm e AND 18 = 0" "mode AND 18 = 0" "0 < file_bytes e" "file_bytes e \<le> limit"
  shows "checked_entry (Inr e) (Inr mode) shown limit JNull =
    Inr \<lparr>bd_path = shown, bd_sha = sha256_hex (content e), bd_bytes = file_bytes e\<rparr>"
  using assms by (simp add: checked_entry_def guard_simps)

lemma pinned_digest: "checked_entry entry parent shown limit (JStr h) = Inr b \<Longrightarrow> \<exists>e. entry = Inr e \<and> sha256_hex (content e) = h \<and> bd_sha b = h"
  by (drule checked_entryD) auto

text \<open>The age at which a report still counts, and what else it needs: nothing admits shipping.\<close>

lemma admission_review:
  "admission_of matched age whole inventory = ''APPLICABILITY_REVIEW_REQUIRED'' \<longleftrightarrow>
     matched \<and> - 300000000 \<le> age \<and> age \<le> 21600000000 \<and> whole \<and> inventory"
  by (auto simp: admission_of_def)

lemma never_admitted:
  assumes "security_status cal isotext now report expected repository = Inr status"
  shows "sub status ''shippingAdmitted'' = Inr (JBool False) \<and> sub status ''applicabilityReviewRequired'' = Inr (JBool True)"
proof (cases report)
  case None
  with assms show ?thesis by (auto simp: security_status_def scan_common_def)
next
  case (Some p)
  with assms have "\<exists>a rest. status = JObj ((''admission'', a) # scan_common @ rest)"
    by (cases p) (auto simp: security_status_def Let_def bnd_Inr_iff split: prod.splits)
  then show ?thesis by (auto simp: scan_common_def)
qed

text \<open>
  A wrapper is kept exactly when it already points to the desired address and reserves the desired memory; the digest and length of
  the native binary are its second and third line.
\<close>

lemma ram_binding_keeps:
  assumes "ram_binding lines producer desired reserve = Inr v"
  shows "length lines = 4 \<and> sub producer ''binarySha256'' = Inr (JStr (lines ! 1)) \<and>
    (\<exists>current. int_of_isdigit (lines ! 3) = Inr current \<and> 0 < current \<and>
       (sub v ''wrapperRebuildRequired'' = Inr (JBool False) \<longleftrightarrow>
          (\<exists>b base. desired = Some b \<and> release_base b = Inr base \<and> reserve = Some current \<and>
             lines ! 0 = base @ ''/hysteria-'' @ lines ! 1 @ ''.bin'')))"
proof -
  note facts = assms [unfolded ram_binding_def bnd_Inr_iff [of "refuse cs m" for cs m] bnd_Inr_iff [of "int_of_isdigit s" for s]
      bnd_Inr_iff [of "case desired of None \<Rightarrow> x | Some b \<Rightarrow> f b" for x f] ex_unit_iff]
  obtain target current where r: "refuse [Inr (length lines \<noteq> 4), Inr (\<not> rmatch wrapper_url (lines ! 0)),
         lift_res (\<lambda>x. JStr (lines ! 1) \<noteq> x) (sub producer ''binarySha256''),
         lift_res (\<lambda>x. \<not> line_is_str (lines ! 2) x) (sub producer ''binaryBytes''),
         Inr (\<not> py_isdigit (lines ! 3)), lift_res (\<lambda>n. \<not> (0 < n \<and> n \<le> 2 ^ 53 - 1)) (int_of_isdigit (lines ! 3))]
        ''RAM wrapper does not bind the exact native bytes and positive reserve'' = Inr ()"
      "(case desired of None \<Rightarrow> Inr None
        | Some b \<Rightarrow> bnd (release_base b) (\<lambda>base. bnd (bnd (sub producer ''binarySha256'') as_str) (\<lambda>h.
            Inr (Some (base @ ''/hysteria-'' @ h @ ''.bin''))))) = Inr target"
      "int_of_isdigit (lines ! 3) = Inr current"
      "sub v ''wrapperRebuildRequired'' = Inr (JBool (target = None \<or> reserve = None \<or> target \<noteq> Some (lines ! 0) \<or> reserve \<noteq> Some current))"
    using facts by auto
  then have head: "length lines = 4" "sub producer ''binarySha256'' = Inr (JStr (lines ! 1))" "0 < current"
    by (auto simp: refuse_Inr_iff lift_res_Inr_iff)
  have "target = (case desired of None \<Rightarrow> None | Some b \<Rightarrow> (case release_base b of Inl e \<Rightarrow> None
      | Inr base \<Rightarrow> Some (base @ ''/hysteria-'' @ lines ! 1 @ ''.bin'')))"
    using r(2) head(2) by (auto simp: bnd_Inr_iff split: option.splits sum.splits)
  with r(2-4) head show ?thesis by (auto split: option.splits sum.splits simp: bnd_Inr_iff)
qed
end
