(* ===== verification/Producer_Record.thy ===== *)
theory Producer_Record
  imports Hysteria_Security
begin

text \<open>
  record-hysteria-producer.py: the record of a server binary that has been built. The compiler and suite receipts are
  checked, the source tree is recorded, the licenses and the notices of every compiled module are written beside the
  record, and the record is verified by the check that the package recipes run before it is written. The Go tool and the
  file system it names are the record \<open>go_host\<close>. A source license may be reached by a relative path with a directory, as
  in \<open>record_source\<close>.
\<close>

section \<open>The Go tool and the machine\<close>

text \<open>
  \<open>go list -deps\<close>, \<open>go list -m all\<close> and \<open>go version -m\<close> on a source or a binary, \<open>go env GOROOT\<close>, \<open>go version\<close>; a directory
  by its path, and whether a symbolic link in it leads to a regular file. \<open>Inl\<close>: the command failed.
\<close>

record go_host =
  go_deps :: "directory \<Rightarrow> bytes res"
  go_modules :: "directory \<Rightarrow> bytes res"
  go_binary :: "bytes \<Rightarrow> string res"
  go_root :: "string res"
  go_toolchain :: "string res"
  host_dir :: "string \<Rightarrow> directory"
  link_to_file :: "string \<Rightarrow> string \<Rightarrow> bool"

definition PRODUCER_LICENSES :: "(string \<times> string) list" where
  "PRODUCER_LICENSES = [(''LICENSE.md'', ''LICENSE.md''), (''app.LICENSE.md'', ''app/LICENSE.md''),
     (''core.LICENSE.md'', ''core/LICENSE.md''), (''extras.LICENSE.md'', ''extras/LICENSE.md'')]"

definition LEGAL :: "string list" where
  "LEGAL = [''LICENSE'', ''LICENSE.md'', ''LICENSE.txt'', ''LICENCE'', ''LICENCE.md'', ''NOTICE'', ''NOTICE.txt'', ''COPYING'']"

definition producer_digest :: "hash_fun \<Rightarrow> directory \<Rightarrow> string \<Rightarrow> string res" where
  "producer_digest hash dir n =
     (case plain_file dir n of None \<Rightarrow> Inl (ValueError ''Regular producer file required'') | Some e \<Rightarrow> Inr (hash (content e)))"

section \<open>The stream of packages\<close>

text \<open>
  One value after another, blanks between them. Each value read is taken off the text, so the loop ends; the number of
  values is bounded after each one.
\<close>

function document_values :: "string \<Rightarrow> json list \<Rightarrow> json list res" where
  "document_values body vals =
     (case dropWhile py_space body of
        [] \<Rightarrow> Inr vals
      | c # cs \<Rightarrow>
          bnd (read_value dict_hook (Suc (length (c # cs))) (c # cs)) (\<lambda>decoded.
          if 4096 < length (vals @ [fst decoded]) then Inl (ValueError ''Go dependency inventory exceeds limit'')
          else document_values (snd decoded) (vals @ [fst decoded])))"
  by pat_completeness auto
termination
proof (relation "measure (\<lambda>(body, vals). length body)")
  fix body :: string and vals :: "json list" and c cs decoded
  assume "dropWhile py_space body = c # cs" and "read_value dict_hook (Suc (length (c # cs))) (c # cs) = Inr decoded"
  then show "((snd decoded, vals @ [fst decoded]), (body, vals)) \<in> measure (\<lambda>(body, vals). length body)"
    using length_dropWhile_le [of py_space body] reader_shorter [THEN conjunct1, rule_format, of dict_hook _ "c # cs" decoded]
    by fastforce
qed simp

declare document_values.simps [simp del]

definition documents :: "bytes \<Rightarrow> json list res" where
  "documents raw = bnd (decode_ascii raw) (\<lambda>body. document_values body [])"

section \<open>The notices\<close>

text \<open>
  \<open>read_text\<close>: the bytes must be UTF-8, and every line end becomes a line feed. The text is kept encoded, which is how
  it is counted and written. \<open>utf8_from k lo hi\<close> expects \<open>k\<close> more bytes of a character, the next between the two bounds.
\<close>

fun utf8_from :: "nat \<Rightarrow> nat \<Rightarrow> nat \<Rightarrow> bytes \<Rightarrow> bool" where
  "utf8_from k lo hi [] = (k = 0)"
| "utf8_from k lo hi (b # bs) =
     (let n = unat b in
      if k \<noteq> 0 then lo \<le> n \<and> n \<le> hi \<and> utf8_from (k - 1) 128 191 bs
      else if n < 128 then utf8_from 0 0 0 bs
      else if 194 \<le> n \<and> n \<le> 223 then utf8_from 1 128 191 bs
      else if 224 \<le> n \<and> n \<le> 239 then utf8_from 2 (if n = 224 then 160 else 128) (if n = 237 then 159 else 191) bs
      else if 240 \<le> n \<and> n \<le> 244 then utf8_from 3 (if n = 240 then 144 else 128) (if n = 244 then 143 else 191) bs
      else False)"

fun newlines :: "bytes \<Rightarrow> bytes" where
  "newlines [] = []"
| "newlines [b] = [if b = 13 then 10 else b]"
| "newlines (a # b # bs) = (if a = 13 \<and> b = 10 then 10 # newlines bs else (if a = 13 then 10 else a) # newlines (b # bs))"

definition encoded_text :: "file_entry \<Rightarrow> bytes res" where
  "encoded_text e = (if utf8_from 0 0 0 (content e) then Inr (newlines (content e)) else Inl (ValueError ''text is not UTF-8''))"

text \<open>\<open>str.encode\<close>, on the characters below U+0100.\<close>

definition encode_utf8 :: "string \<Rightarrow> bytes" where
  "encode_utf8 s = concat (map (\<lambda>c. let n = of_char c :: nat in
     if n < 128 then [word_of_nat n] else [word_of_nat (192 + n div 64), word_of_nat (128 + n mod 64)]) s)"

text \<open>
  The modules by path, the main one left out; a later package of the same module replaces the value. A path that is not
  a string is refused here; in the program it reaches the concatenation of the section, which refuses it.
\<close>

definition add_module :: "json \<Rightarrow> (string \<times> json) list \<Rightarrow> (string \<times> json) list res" where
  "add_module package modules =
     bnd (get package ''Module'') (\<lambda>m.
     if m = JNull then Inr modules
     else bnd (get m ''Main'') (\<lambda>main.
          if truthy main then Inr modules
          else bnd (bnd (sub m ''Path'') as_str) (\<lambda>p. Inr (set_item p m modules))))"

definition legal_files :: "go_host \<Rightarrow> string \<Rightarrow> string list" where
  "legal_files host p =
     filter (\<lambda>n. case lookup_file (host_dir host p) n of None \<Rightarrow> False
       | Some e \<Rightarrow> ftype e = Regular \<or> (ftype e = Symlink \<and> link_to_file host p n)) LEGAL"

definition legal_section :: "go_host \<Rightarrow> string \<Rightarrow> string \<Rightarrow> bytes res" where
  "legal_section host p n =
     bnd (lstat (host_dir host p) n) (\<lambda>e.
     bnd (refuse [Inr (ftype e = Symlink), Inr (262144 < file_bytes e)] ''Bounded regular Go legal file required'') (\<lambda>_.
     lift_res (\<lambda>t. encode_utf8 (n @ [CHR 0x0A]) @ t @ [10]) (encoded_text e)))"

definition module_sections :: "go_host \<Rightarrow> string \<times> json \<Rightarrow> bytes list \<Rightarrow> bytes list res" where
  "module_sections host row sections =
     (case row of (name, m) \<Rightarrow>
     bnd (get_or m ''Replace'' m) (\<lambda>selected.
     bnd (bnd (sub selected ''Dir'') as_str) (\<lambda>p.
     let legal = legal_files host p in
     bnd (refuse [Inr (legal = [])] (''Compiled Go dependency has no legal file: '' @ name)) (\<lambda>_.
     bnd (bnd (get_or selected ''Version'' (JStr ''local'')) as_str) (\<lambda>version.
     bnd (map_res (legal_section host p) legal) (\<lambda>texts.
     Inr (sections @ encode_utf8 (name @ '' '' @ version @ [CHR 0x0A]) # texts)))))))"

definition notices :: "go_host \<Rightarrow> directory \<Rightarrow> bytes res" where
  "notices host source =
     bnd (go_deps host source) (\<lambda>raw.
     bnd (refuse [Inr (16 * 1024 * 1024 < int (length raw))] ''Go package graph exceeds limit'') (\<lambda>_.
     bnd (documents raw) (\<lambda>packages.
     bnd (fold_res add_module packages []) (\<lambda>modules.
     bnd (fold_res (module_sections host) (sort_key fst modules) []) (\<lambda>sections.
     bnd (lift_res py_strip (go_root host)) (\<lambda>goroot.
     bnd (bnd (lstat (host_dir host goroot) ''LICENSE'') encoded_text) (\<lambda>license.
     let sections = sections @ [encode_utf8 (''Go runtime'' @ [CHR 0x0A]) @ license @ [10]];
         joined = concat (map (\<lambda>s. s @ [10]) (butlast sections)) @ last sections in
     bnd (refuse [Inr (8 * 1024 * 1024 < int (length joined))] ''Go legal inventory exceeds limit'') (\<lambda>_.
     Inr joined))))))))"

section \<open>The record\<close>

record producer_args =
  pa_binary :: file_entry
  pa_source :: directory
  pa_architecture :: string
  pa_version :: string
  pa_source_sha :: string
  pa_source_commit :: string
  pa_output :: string
  pa_suite :: file_entry
  pa_compiler :: file_entry

definition suite_receipt :: "hash_fun \<Rightarrow> file_entry \<Rightarrow> json res" where
  "suite_receipt hash suite_file =
     bnd (refuse [Inr (ftype suite_file = Symlink), Inr (131072 < file_bytes suite_file)]
            ''Bounded regular actual test suite receipt required'') (\<lambda>_.
     bnd (bnd (decode_ascii (content suite_file)) loads) (\<lambda>suite.
     bnd (refuse [lift_res (\<lambda>x. \<not> is_int x) (get suite ''actualSuiteExitCode''),
                  lift_res (\<lambda>x. x \<noteq> JInt 0) (sub suite ''actualSuiteExitCode''),
                  lift_res (\<lambda>x. x \<noteq> JBool True) (get suite ''sourceModified''),
                  lift_res (\<lambda>x. py_ne x (JInt 0)) (get suite ''oldCasesRetained'')]
            ''Actual complete corrected-source suite required'') (\<lambda>_.
     bnd (map_res (get suite) [''sourceReceiptSha256'', ''casePass'', ''packagePass'', ''packageSkip'', ''oldCasesRetained'',
            ''actualSuiteExitCode'']) (\<lambda>fields.
     test_suite (JObj [(''schema'', JInt 1), (''sourceReceiptSha256'', fields ! 0),
       (''freshCompleteReceiptSha256'', JStr (hash (content suite_file))), (''casePass'', fields ! 1), (''caseFail'', JInt 0),
       (''caseSkip'', JInt 0), (''packagePass'', fields ! 2), (''packageSkip'', fields ! 3), (''oldCasesRetained'', fields ! 4),
       (''actualSuiteExitCode'', fields ! 5)])))))"

definition compiler_receipt :: "file_entry \<Rightarrow> json res" where
  "compiler_receipt compiler_file =
     bnd (refuse [Inr (ftype compiler_file = Symlink), Inr (\<not> (0 < file_bytes compiler_file \<and> file_bytes compiler_file \<le> 131072))]
            ''Bounded compiler qualification input required'') (\<lambda>_.
     bnd (bnd (decode_ascii (content compiler_file)) loads) compiler_qualification)"

text \<open>A license is hashed and copied; the digests are collected in order.\<close>

definition copy_license :: "hash_fun \<Rightarrow> directory \<Rightarrow> string \<times> string \<Rightarrow> directory \<times> (string \<times> string) list \<Rightarrow>
    (directory \<times> (string \<times> string) list) res" where
  "copy_license hash source row st =
     bnd (producer_digest hash source (snd row)) (\<lambda>d.
     bnd (lstat source (snd row)) (\<lambda>e.
     Inr (put_file (fst st) (fst row) (content e), snd st @ [(fst row, d)])))"

definition write_hashed :: "hash_fun \<Rightarrow> string \<Rightarrow> bytes \<Rightarrow> directory \<times> (string \<times> string) list \<Rightarrow>
    (directory \<times> (string \<times> string) list) res" where
  "write_hashed hash n raw st =
     (let out = put_file (fst st) n raw in lift_res (\<lambda>d. (out, snd st @ [(n, d)])) (producer_digest hash out n))"

definition ends_with :: "string \<Rightarrow> string \<Rightarrow> bool" where
  "ends_with suffix s \<longleftrightarrow> length suffix \<le> length s \<and> drop (length s - length suffix) s = suffix"

definition build_lines :: "go_host \<Rightarrow> string \<Rightarrow> bytes \<Rightarrow> string list res" where
  "build_lines host architecture binary =
     bnd (lift_res splitlines (go_binary host binary)) (\<lambda>output.
     bnd (refuse [Inr (output = []), Inr (\<not> ends_with '': go1.26.10'' (hd output))] ''Actual binary Go1.26.10 runtime identity required'') (\<lambda>_.
     let build = map py_strip (List.tl output) in
     bnd (refuse [Inr (''build'' @ tab @ ''GOOS=linux'' \<notin> set build),
                  Inr (''build'' @ tab @ ''GOARCH='' @ architecture \<notin> set build)] ''Actual binary target identity differs'') (\<lambda>_.
     bnd (refuse [Inr (''build'' @ tab @ ''CGO_ENABLED=0'' \<notin> set build)] ''Actual static Go producer setting is absent'') (\<lambda>_.
     Inr build))))"

definition record_document :: "hash_fun \<Rightarrow> producer_args \<Rightarrow> string list \<Rightarrow> string \<Rightarrow> json \<Rightarrow> json \<Rightarrow> (string \<times> string) list \<Rightarrow>
    json \<Rightarrow> json" where
  "record_document hash args build toolchain source_patch suite hashes compiler =
     JObj [(''schema'', JInt 1), (''exitCode'', JInt 0), (''name'', JStr ''hysteria''), (''version'', JStr (pa_version args)),
       (''target'', JStr (''linux-'' @ pa_architecture args)), (''sourceSha256'', JStr (pa_source_sha args)),
       (''sourceCommit'', JStr (pa_source_commit args)), (''binarySha256'', JStr (hash (content (pa_binary args)))),
       (''binaryBytes'', JInt (file_bytes (pa_binary args))), (''buildInfo'', JArr (map JStr build)),
       (''binaryRuntimeVersion'', JStr ''go1.26.10''), (''toolchain'', JStr toolchain),
       (''features'', JArr [JStr ''incoming-hysteria2'', JStr ''legacy-outgoing-hysteria2'']), (''sourcePatch'', source_patch),
       (''testSuite'', suite), (''filesSha256'', JObj (map (map_prod id JStr) hashes)), (''sourceTestScope'', retained_scope),
       (''currentCompilerQualification'', compiler)]"

text \<open>
  \<open>main\<close>: the three files of the arguments are given as entries, the output directory as the state, the files that
  \<open>record_source\<close> copies in \<open>package\<close>.
\<close>

definition record_producer :: "hash_fun \<Rightarrow> go_host \<Rightarrow> directory \<Rightarrow> producer_args \<Rightarrow> directory \<Rightarrow> (json \<times> directory) res" where
  "record_producer hash host package args output =
     bnd (compiler_receipt (pa_compiler args)) (\<lambda>compiler.
     bnd (suite_receipt hash (pa_suite args)) (\<lambda>suite.
     bnd (record_source hash package (pa_source args) output) (\<lambda>(source_patch, patch_hashes, recorded).
     bnd (fold_res (copy_license hash (pa_source args)) PRODUCER_LICENSES (recorded, [])) (\<lambda>licensed.
     bnd (go_modules host (pa_source args)) (\<lambda>modules.
     bnd (refuse [Inr (4 * 1024 * 1024 < int (length modules))] ''Go dependency inventory exceeds limit'') (\<lambda>_.
     bnd (write_hashed hash ''go-modules.json'' modules licensed) (\<lambda>listed.
     bnd (notices host (pa_source args)) (\<lambda>legal.
     bnd (write_hashed hash ''GO-THIRD-PARTY-NOTICES.txt'' legal listed) (\<lambda>(out, hashes).
     bnd (build_lines host (pa_architecture args) (content (pa_binary args))) (\<lambda>build.
     bnd (refuse [Inr (ftype (pa_binary args) \<noteq> Regular)] ''Regular producer file required'') (\<lambda>_.
     bnd (lift_res py_strip (go_toolchain host)) (\<lambda>toolchain.
     let rec = record_document hash args build toolchain source_patch suite (hashes @ patch_hashes) compiler in
     bnd (prov_verify hash rec out) (\<lambda>_.
     Inr (rec, put_file out (pa_output args) (encode_ascii (dumps rec @ [CHR 0x0A]))))))))))))))))"

section \<open>What a written record states\<close>

lemma build_lines_iff:
  "build_lines host architecture binary = Inr build \<longleftrightarrow>
     (\<exists>first rest. lift_res splitlines (go_binary host binary) = Inr (first # rest) \<and> ends_with '': go1.26.10'' first \<and>
        build = map py_strip rest \<and>
        {''build'' @ tab @ ''GOOS=linux'', ''build'' @ tab @ ''GOARCH='' @ architecture, ''build'' @ tab @ ''CGO_ENABLED=0''} \<subseteq> set build)"
  by (auto simp: build_lines_def bnd_Inr_iff Let_def refuse_Inr_iff neq_Nil_conv)

lemma legal_section_ok:
  assumes "legal_section host p n = Inr t"
  shows "\<exists>e. lookup_file (host_dir host p) n = Some e \<and> ftype e \<noteq> Symlink \<and> file_bytes e \<le> 262144 \<and>
    utf8_from 0 0 0 (content e) \<and> t = encode_utf8 (n @ [CHR 0x0A]) @ newlines (content e) @ [10]"
  using assms by (auto simp: legal_section_def bnd_Inr_iff refuse_Inr_iff lift_res_Inr_iff encoded_text_def lstat_def split: option.splits if_splits)

text \<open>Every compiled module other than the main one has a legal file, and each of its legal files is in the notices.\<close>

definition sections_of :: "go_host \<Rightarrow> string \<times> json \<Rightarrow> bytes list \<Rightarrow> bool" where
  "sections_of host row sections \<longleftrightarrow>
     (\<exists>selected p. get_or (snd row) ''Replace'' (snd row) = Inr selected \<and> sub selected ''Dir'' = Inr (JStr p) \<and>
        legal_files host p \<noteq> [] \<and> (\<forall>n \<in> set (legal_files host p). \<exists>t \<in> set sections. legal_section host p n = Inr t))"

lemma module_sections_keep:
  assumes "module_sections host row acc = Inr sections"
  shows "set acc \<subseteq> set sections \<and> sections_of host row sections"
proof -
  obtain name m where row: "row = (name, m)" by (cases row)
  obtain selected p version texts where r: "get_or m ''Replace'' m = Inr selected" "bnd (sub selected ''Dir'') as_str = Inr p"
      "refuse [Inr (legal_files host p = [])] (''Compiled Go dependency has no legal file: '' @ name) = Inr ()"
      "map_res (legal_section host p) (legal_files host p) = Inr texts"
      "sections = acc @ encode_utf8 (name @ '' '' @ version @ [CHR 0x0A]) # texts"
    using assms by (auto simp: row module_sections_def Let_def bnd_Inr_iff [of _ "f :: _ \<Rightarrow> bytes list res" for f])
  from r(4) have "\<exists>t \<in> set texts. legal_section host p n = Inr t" if "n \<in> set (legal_files host p)" for n
    using list_all2_set1 that unfolding map_res_Inr_iff by fast
  with r(1-3,5) show ?thesis by (fastforce simp: row sections_of_def refuse_Inr_iff bnd_Inr_iff as_str_iff)
qed

lemma notices_cover:
  assumes "fold_res (module_sections host) rows [] = Inr sections"
  shows "\<forall>row \<in> set rows. sections_of host row sections"
proof -
  have "set acc \<subseteq> set sections \<and> (\<forall>row \<in> set rows. sections_of host row sections)"
    if "fold_res (module_sections host) rows acc = Inr sections" for acc
    using that
  proof (induction rows arbitrary: acc)
    case (Cons row rows)
    then obtain mid where "module_sections host row acc = Inr mid" "fold_res (module_sections host) rows mid = Inr sections"
      by (auto simp: bnd_Inr_iff)
    with Cons.IH module_sections_keep show ?case by (fastforce simp: sections_of_def)
  qed simp
  with assms show ?thesis by blast
qed

lemma write_hashed_out:
  "write_hashed hash n raw st = Inr (put_file (fst st) n raw, snd st @ [(n, hash raw)])"
  by (simp add: write_hashed_def Let_def producer_digest_def plain_file_def)

lemma recorded_producer:
  assumes "record_producer hash host package args output = Inr (rec, out)"
  shows "\<exists>checked build. prov_verify hash rec checked = Inr () \<and>
     out = put_file checked (pa_output args) (encode_ascii (dumps rec @ [CHR 0x0A])) \<and>
     ftype (pa_binary args) = Regular \<and> sub rec ''binarySha256'' = Inr (JStr (hash (content (pa_binary args)))) \<and>
     sub rec ''binaryBytes'' = Inr (JInt (file_bytes (pa_binary args))) \<and>
     build_lines host (pa_architecture args) (content (pa_binary args)) = Inr build \<and>
     sub rec ''buildInfo'' = Inr (JArr (map JStr build))"
proof -
  note facts = assms [unfolded record_producer_def write_hashed_out Let_def bnd_Inr_iff ex_unit_iff]
  show ?thesis using facts by (auto simp: bnd_Inr_iff refuse_Inr_iff record_document_def Let_def split: prod.splits)
qed

text \<open>What is written reads back as the verified record with its keys sorted, an equal value.\<close>

lemma recorded_reads:
  assumes "record_producer hash host package args output = Inr (rec, out)" and "printable rec"
  shows "read_json out (pa_output args) = Inr (sort_keys rec) \<and> py_eq (sort_keys rec) rec"
proof -
  have "out = put_file dir (pa_output args) (encode_ascii (dumps rec @ [CHR 0x0A])) \<Longrightarrow>
      read_json out (pa_output args) = Inr (sort_keys rec)" for dir
    using plain.loads_write_line [OF printable_sort_keys [OF assms(2)]]
    by (simp add: read_json_def lstat_def decode_encode_ascii is_ascii_append is_ascii_write is_ascii_lits dumps_def loads_def)
  with recorded_producer [OF assms(1)] show ?thesis by (auto simp: py_eq_def canon_sort_keys)
qed

end
