(* ===== verification/Spec2Isabelle.thy ===== *)
theory Spec2Isabelle
  imports Release_Manifest Indexed_Auth Transaction_Inputs Hysteria_Security Package_Inputs Indexed_Verify
    Package_Budget Package_Catalog Bundle_Transport Engine_Legal Engine_Catalog Build_Process
    Source_Archive Transaction_Build Compact_Bundle Json_Layout Package_Signing Compact_Verify
    Install_Bundle Server_Reuse Producer_Record
begin

text \<open>
  The release tools of the FoxHole OpenWrt client (src/tools/*.py and src/native/transaction/build.py).

  The client is delivered to routers as signed APK packages with a catalog, producer records and a SHA256SUMS
  manifest. The Python tools decide what may be delivered: they check what a native producer built, bind it to
  packages, compare every package with a signed index, account for memory and flash, assemble the flat bundle,
  and check it again before it is published. An error in them ships a file that nobody vouched for. The
  development models these decisions.

  \<^bold>\<open>How the code is represented.\<close> A Python function is a function into \<open>'a res\<close> (Prelude), the value or the
  exception; \<open>ValueError\<close> carries the message of its \<open>raise\<close>. The tools write their checks as chains
  \<open>if a or b or c: raise\<close>: \<open>refuse\<close> evaluates such a chain from left to right, stops at the first true or raising
  part, and \<open>need\<close> is its dual. \<open>fold_res\<close>, \<open>map_res\<close> and \<open>each_res\<close> are loops that may raise, with the state of the loop
  as a record or list. Values of \<open>json.loads\<close> are the datatype \<open>json\<close> (Py_Json) with Python's item access, \<open>get\<close>,
  \<open>==\<close>, \<open>sorted\<close> and truth value; a wrong type raises TypeError, KeyError or AttributeError as the interpreter does.
  Patterns are regular expressions run by derivatives (Py_Regex), addresses are split as \<open>urllib.parse\<close> does (Py_Url),
  JSON text is read and written by character (Json_Text), and SHA-256 is the real function (Sha256). Integers are
  Python's, so \<open>int\<close>; only SHA-256 works on 32-bit words. A directory is a list of entries with what \<open>lstat\<close> reports
  and the bytes (Bundle_Files); a tool that walks a tree gets a map from path components.

  \<^bold>\<open>The theories, and the code of each.\<close>
  \<^item> Prelude, Py_Regex, Py_Json, Py_Url, Json_Text, Json_Layout, Json_Files, Sha256: the Python that the tools use. The locale
    \<open>unique_loop\<close> is the loop that refuses a repeated key; the locales \<open>object_hook\<close> and \<open>strict_hook\<close> are JSON readers
    with a hook; \<open>layout_reader\<close> is what a writer of JSON with blanks promises to that reader; \<open>growing_loop\<close> is a loop that only
    adds to a map and refuses a conflict; \<open>content_digest\<close> is what the tools rely on in a digest. All are interpreted on the code's own loops and
    hooks, in the theories that define them.
  \<^item> Bundle_Files: the readers of a flat directory (\<open>asset\<close>, \<open>sha\<close> and \<open>regular\<close> of three tools) and their differences.
  \<^item> Release_Manifest: writing SHA256SUMS, and the two readers of it (compact-install-bundle.py, verify-install-bundle.py).
  \<^item> Elf: \<open>elf_closure\<close> of check-transaction-inputs.py and the static program header loop of three tools.
  \<^item> Transaction_Inputs: check-transaction-inputs.py, the two helpers read from an external manifest.
  \<^item> Source_Archive, Transaction_Build, Build_Process: check-transaction-source.py and native/transaction/build.py: exact
    reads, archive members, the extracted trees, the build commands, the process group of a build step, the artifact.
  \<^item> Package_Inputs: check-core-package-input.py and check-hysteria-package-input.py.
  \<^item> Engine_Legal, Engine_Catalog: engine-legal.py, check-engine-package-input.py and build-engine-catalog.py.
  \<^item> Hysteria_Provenance, Hysteria_Security, Producer_Record: hysteria_provenance.py, check-hysteria-security.py and
    record-hysteria-producer.py.
  \<^item> Indexed_Auth, Indexed_Verify: indexed-auth.py, the contract of a signed closure and its verification.
  \<^item> Package_Budget, Package_Catalog: package-budget.py and package-catalog.py.
  \<^item> Compact_Bundle, Compact_Verify: compact-install-bundle.py, first the determined file set, then the verification, the assembly
    and the check of a finished bundle. Bundle_Transport: build-bundle-transport.py.
  \<^item> Install_Bundle: prepare-install-bundle.py and verify-install-bundle.py.
  \<^item> Package_Signing: sign-apks.py, check-apk-signing.py, stage-apk-assets.py and prepare-release.py.
  \<^item> Server_Reuse: server-package-reuse.py, the plan for shipping server packages again.

  \<^bold>\<open>How the parts interact.\<close> Package_Inputs, Engine_Legal and Transaction_Inputs admit what producers deliver.
  Package_Budget reads the built packages with \<open>metadata\<close>, calls \<open>verify_indexed\<close> on their closure and compares the extracted
  payload with the producer; its document is what Package_Catalog reads back (\<open>budget_meets_catalog\<close>). Both bundle
  tools end in the manifest of Release_Manifest, which Bundle_Transport reads and rewrites. Transaction_Build rebuilds
  the helper that Transaction_Inputs verifies (\<open>rebuild_verifies\<close>). The provenance record is checked by the
  security check, the budget, the catalog and the compact bundle, always by \<open>prov_verify\<close>; Producer_Record writes it and
  ends in the same check. Server_Reuse calls \<open>prov_verify\<close> and \<open>verify_server_payload\<close> of Package_Budget on the signed packages.
  Compact_Verify extracts the packages of every platform and compares the catalogs they embed with the engine catalogs of
  Engine_Catalog; Install_Bundle generates the catalog again with Package_Catalog.

  \<^bold>\<open>What the lemmas show.\<close>
  \<^item> Admission: what is true of an input that a check accepts, for the closure, the verified package, the payloads, the helper,
    the provenance record, the evidence, the legal delivery, the extracted tree and the bundle.
  \<^item> Exact conditions: the memory policy, the release version of a catalog, the dependency pattern, the upstream address, the
    static producer, the allowed payload paths.
  \<^item> Preservation: signing changes no package content, a transport carries every file, a staged asset has the name of its digest.
  \<^item> Round trips: JSON text, the signing receipt, the producer record, the manifest, the USTAR archive, the engine slot manifest, the budget document.
  \<^item> Agreement of parts: the strict reader refines the plain one, the producer's recording satisfies the verifier, the budget
    satisfies the catalog, the rebuilt helper satisfies the package check.
  \<^item> Bounds and errors: the accounting of the budget, reads inside the buffer, the exceptions a malformed ELF raises.
  \<^item> The process group of a build step: an invariant, a bound on the number of its steps, and a simulation of the contract
    that the group is gone when the step has ended.

  \<^bold>\<open>Bounds and fuel.\<close> The JSON reader recurses with the length of the text as fuel; every step reads a character, and
  \<open>loads_dumps\<close> shows that it suffices for all that is written. The stream of package objects in Hysteria_Security takes a fuel
  above the length of the text, and the result is proved to be never the exhausted one. \<open>tar_read\<close>, which only states the
  round trip, takes the length of the archive. A build step makes at most \<open>213 + 20 * timeout\<close> steps of the tool. All other
  recursions are structural, or have a measure.

  \<^bold>\<open>Parameters.\<close> What is not in the repository is an argument: the \<open>apk\<close> program (the record \<open>apk_tool\<close> of its commands),
  gzip (\<open>gunzip\<close>, \<open>gz\<close>), the decoder of archives (\<open>untar\<close>), the calendar of \<open>datetime\<close> and the print of a time (\<open>isotext\<close>),
  openssl (in \<open>sign_tools\<close>), the planner in ucode that the compact verification runs (\<open>plan\<close>), the Go tool (\<open>go_host\<close>), the build tools.
  \<open>hash\<close> is an argument where the code compares with digests of files that are not in the repository, so that a
  theorem has a witness; the tools call these checks with \<open>sha256_hex\<close>.

  \<^bold>\<open>Not modelled.\<close> Argument parsers and printed summaries; the router runtime, which is ucode, JavaScript and shell; the
  C program native/ram-recovery-fetch; package recipes; build-source.py, which packs a list that a Node program prints with
  zipfile and decides nothing; server-package-reuse-test.py, which is a test; the temporary directories, whose contents are
  the values that the code copies into them; symbolic links inside an extracted package, which are entries and are not followed;
  the printing of floats; characters above U+00FF and the literals NaN and Infinity in JSON,
  which are refused; races with other processes, except during the stable reads (Transaction_Inputs, Source_Archive) and
  the build step, whose environment is explicit.
\<close>

end
